(* ===== verification/Rpc_Prelude.thy ===== *)
theory Rpc_Prelude
  imports
    Main
    "HOL-Library.Char_ord"
    "HOL-Library.List_Lexorder"
    "HOL-Library.AList"
    "HOL-Library.Multiset"
    "HOL-Library.State_Monad"
begin

text \<open>
  What the components share: the pieces of the Go standard library the sources call (string
  prefixes and suffixes, decimal integers, sorting, narrowing to \<open>int32\<close>), association lists
  that stand for Go maps where the iteration order or the finite domain matters, and a small
  weakest-precondition calculus for state monads, in which the effectful code is written.

  A Go string is a \<open>string\<close>, one \<open>char\<close> per byte; Go compares strings bytewise, which is
  the lexicographic order of \<open>List_Lexorder\<close> over \<open>Char_ord\<close>. A Go \<open>(T, error)\<close>
  result is a sum, \<open>Inl\<close> the error; an \<open>error\<close> alone is an \<open>option\<close>.
\<close>

named_theorems str_simps \<open>facts about Go string functions\<close>
named_theorems wp_simps \<open>equations of the weakest-precondition calculus\<close>

section \<open>Strings\<close>

definition HasPrefix :: "string \<Rightarrow> string \<Rightarrow> bool" where
  "HasPrefix s p \<longleftrightarrow> take (length p) s = p"

definition HasSuffix :: "string \<Rightarrow> string \<Rightarrow> bool" where
  "HasSuffix s p \<longleftrightarrow> length p \<le> length s \<and> drop (length s - length p) s = p"

definition TrimSuffix :: "string \<Rightarrow> string \<Rightarrow> string" where
  "TrimSuffix s p = (if HasSuffix s p then take (length s - length p) s else s)"

fun Contains :: "string \<Rightarrow> string \<Rightarrow> bool" where
  "Contains [] sub = HasPrefix [] sub"
| "Contains (c # s) sub = (HasPrefix (c # s) sub \<or> Contains s sub)"

fun Join :: "string list \<Rightarrow> string \<Rightarrow> string" where
  "Join [] sep = []"
| "Join [x] sep = x"
| "Join (x # y # xs) sep = x @ sep @ Join (y # xs) sep"

lemma HasPrefix_iff [str_simps]: "HasPrefix s p \<longleftrightarrow> (\<exists>r. s = p @ r)"
  unfolding HasPrefix_def by (metis append_eq_conv_conj append_take_drop_id)

lemma HasPrefix_append [simp]: "HasPrefix (p @ r) p"
  by (auto simp: HasPrefix_iff)

lemma HasSuffix_iff [str_simps]: "HasSuffix s p \<longleftrightarrow> (\<exists>r. s = r @ p)"
  unfolding HasSuffix_def by (metis append_eq_conv_conj append_take_drop_id diff_add_inverse2
      le_add2 length_append)

lemma TrimSuffix_append [simp]: "TrimSuffix (r @ p) p = r"
  by (auto simp: TrimSuffix_def HasSuffix_iff)

lemma Contains_iff [str_simps]: "Contains s sub \<longleftrightarrow> (\<exists>a b. s = a @ sub @ b)"
proof (induction s)
  case (Cons c s)
  show ?case
  proof
    assume "Contains (c # s) sub"
    then consider "HasPrefix (c # s) sub" | "Contains s sub" by auto
    then show "\<exists>a b. c # s = a @ sub @ b"
    proof cases
      case 1
      then show ?thesis by (metis HasPrefix_iff append_Nil)
    next
      case 2
      with Cons.IH show ?thesis by (metis append_Cons)
    qed
  next
    assume "\<exists>a b. c # s = a @ sub @ b"
    then obtain a b where ab: "c # s = a @ sub @ b" by blast
    show "Contains (c # s) sub"
    proof (cases a)
      case Nil
      with ab have "HasPrefix (c # s) sub" by (auto simp: HasPrefix_iff)
      then show ?thesis by simp
    next
      case (Cons d a')
      with ab Cons.IH show ?thesis by auto
    qed
  qed
qed (auto simp: HasPrefix_iff)

text \<open>A separator that occurs on neither side of a split determines the split.\<close>

lemma first_sep_unique:
  "x @ c # a = y @ c # b \<Longrightarrow> c \<notin> set x \<Longrightarrow> c \<notin> set y \<Longrightarrow> x = y \<and> a = b"
proof (induction x arbitrary: y)
  case Nil
  then show ?case by (cases y) auto
next
  case (Cons d x)
  then show ?case by (cases y) auto
qed

lemma last_sep_unique:
  assumes "a @ c # x = b @ c # y" and "c \<notin> set x" and "c \<notin> set y"
  shows "a = b \<and> x = y"
proof -
  from assms(1) have "rev x @ c # rev a = rev y @ c # rev b"
    by (metis append.assoc append_Cons append_Nil rev.simps(2) rev_append)
  with assms(2,3) show ?thesis
    using first_sep_unique [of "rev x" c "rev a" "rev y" "rev b"] by simp
qed

section \<open>Decimal integers\<close>

text \<open>
  \<open>utoa\<close> and \<open>itoa\<close> are the verb \<open>%d\<close>; \<open>Atoi\<close> is \<open>strconv.Atoi\<close> on a 64-bit
  platform: an optional sign, at least one digit, nothing else, the value within \<open>int64\<close>
  (\<open>None\<close> stands for its error); \<open>int32\<close> is the narrowing conversion \<open>int32(n)\<close>.
\<close>

definition digit_char :: "nat \<Rightarrow> char" where
  "digit_char d = char_of (48 + d)"

definition is_digit :: "char \<Rightarrow> bool" where
  "is_digit c \<longleftrightarrow> (48::nat) \<le> of_char c \<and> (of_char c :: nat) \<le> 57"

definition digit_val :: "char \<Rightarrow> int" where
  "digit_val c = int (of_char c) - 48"

fun utoa :: "nat \<Rightarrow> string" where
  "utoa n = (if n < 10 then [digit_char n] else utoa (n div 10) @ [digit_char (n mod 10)])"

declare utoa.simps [simp del]

definition itoa :: "int \<Rightarrow> string" where
  "itoa i = (if i < 0 then CHR ''-'' # utoa (nat (- i)) else utoa (nat i))"

fun digits_val :: "int \<Rightarrow> string \<Rightarrow> int option" where
  "digits_val acc [] = Some acc"
| "digits_val acc (c # cs) =
     (if is_digit c then digits_val (acc * 10 + digit_val c) cs else None)"

definition in_int64 :: "int \<Rightarrow> bool" where
  "in_int64 v \<longleftrightarrow> - (2 ^ 63) \<le> v \<and> v < 2 ^ 63"

definition parse_digits :: "bool \<Rightarrow> string \<Rightarrow> int option" where
  "parse_digits neg ds =
     (if ds = [] then None
      else case digits_val 0 ds of
             None \<Rightarrow> None
           | Some n \<Rightarrow> (let v = (if neg then - n else n) in if in_int64 v then Some v else None))"

definition Atoi :: "string \<Rightarrow> int option" where
  "Atoi s = (case s of
       [] \<Rightarrow> None
     | c # r \<Rightarrow> if c = CHR ''-'' then parse_digits True r
                else if c = CHR ''+'' then parse_digits False r
                else parse_digits False s)"

definition int32 :: "int \<Rightarrow> int" where
  "int32 n = (n + 2 ^ 31) mod 2 ^ 32 - 2 ^ 31"

lemma int32_id [simp]: "- (2 ^ 31) \<le> n \<Longrightarrow> n < 2 ^ 31 \<Longrightarrow> int32 n = n"
  by (simp add: int32_def)

definition uint8 :: "int \<Rightarrow> int" where
  "uint8 n = n mod 2 ^ 8"

lemma uint8_id [simp]: "0 \<le> n \<Longrightarrow> n < 2 ^ 8 \<Longrightarrow> uint8 n = n"
  by (simp add: uint8_def)

lemma int32_range: "- (2 ^ 31) \<le> int32 n \<and> int32 n < 2 ^ 31"
proof -
  have "0 \<le> (n + 2 ^ 31) mod 2 ^ 32" "(n + 2 ^ 31) mod 2 ^ 32 < (2 ^ 32 :: int)"
    by simp_all
  then show ?thesis unfolding int32_def by simp
qed

lemma is_digit_digit_char: "d < 10 \<Longrightarrow> is_digit (digit_char d)"
  by (simp add: is_digit_def digit_char_def)

lemma digit_val_digit_char: "d < 10 \<Longrightarrow> digit_val (digit_char d) = int d"
  by (simp add: digit_val_def digit_char_def)

lemma digits_val_append:
  "digits_val acc (xs @ ys) =
     (case digits_val acc xs of None \<Rightarrow> None | Some a \<Rightarrow> digits_val a ys)"
  by (induction xs arbitrary: acc) auto

lemma digits_val_utoa:
  "digits_val 0 (utoa n) = Some (int n)"
proof (induction n rule: utoa.induct)
  case (1 n)
  show ?case
  proof (cases "n < 10")
    case True
    then show ?thesis
      by (simp add: utoa.simps [of n] is_digit_digit_char digit_val_digit_char)
  next
    case False
    then have "digits_val 0 (utoa n) = Some (int (n div 10) * 10 + int (n mod 10))"
      using 1 by (simp add: utoa.simps [of n] digits_val_append is_digit_digit_char
          digit_val_digit_char)
    also have "int (n div 10) * 10 + int (n mod 10) = int (n div 10 * 10 + n mod 10)"
      by (simp only: of_nat_add of_nat_mult of_nat_numeral)
    finally show ?thesis by (simp only: div_mult_mod_eq)
  qed
qed

lemma utoa_ne [simp]: "utoa n \<noteq> []"
  by (simp add: utoa.simps)

lemma utoa_digits: "c \<in> set (utoa n) \<Longrightarrow> is_digit c"
proof (induction n rule: utoa.induct)
  case (1 n)
  show ?case
  proof (cases "n < 10")
    case True
    with 1(2) show ?thesis by (simp add: utoa.simps [of n] is_digit_digit_char)
  next
    case False
    with 1 show ?thesis by (auto simp: utoa.simps [of n] is_digit_digit_char)
  qed
qed

lemma not_digit_sign [simp]: "\<not> is_digit (CHR ''-'')" "\<not> is_digit (CHR ''+'')"
  by (simp_all add: is_digit_def)

text \<open>Printing and reading back: the round trip of \<open>%d\<close> and \<open>strconv.Atoi\<close>.\<close>

lemma Atoi_utoa: "int n < 2 ^ 63 \<Longrightarrow> Atoi (utoa n) = Some (int n)"
proof -
  assume n: "int n < 2 ^ 63"
  obtain c r where cr: "utoa n = c # r" by (cases "utoa n") auto
  then have "is_digit c" using utoa_digits [of c n] by simp
  then have "c \<noteq> CHR ''-''" "c \<noteq> CHR ''+''" by auto
  then have "Atoi (utoa n) = parse_digits False (utoa n)"
    by (simp add: Atoi_def cr)
  also have "\<dots> = Some (int n)"
    using n by (simp add: parse_digits_def digits_val_utoa in_int64_def)
  finally show ?thesis .
qed

lemma Atoi_itoa: "0 \<le> i \<Longrightarrow> i < 2 ^ 63 \<Longrightarrow> Atoi (itoa i) = Some i"
  using Atoi_utoa [of "nat i"] by (simp add: itoa_def)

text \<open>What an accepted numeral looks like: digits after an optional sign.\<close>

lemma digits_val_digits: "digits_val acc s = Some n \<Longrightarrow> c \<in> set s \<Longrightarrow> is_digit c"
  by (induction s arbitrary: acc) (auto split: if_splits)

lemma Atoi_minus_only_first:
  assumes "Atoi s = Some n" and "s = a @ CHR ''-'' # b"
  shows "a = []"
proof (rule ccontr)
  assume "a \<noteq> []"
  then obtain c r where "a = c # r" by (cases a) auto
  with assms have "s = c # r @ CHR ''-'' # b" by simp
  with assms(1) show False
    by (auto simp: Atoi_def parse_digits_def split: if_splits option.splits
        dest!: digits_val_digits [where c = "CHR ''-''"])
qed

section \<open>Go maps as association lists\<close>

text \<open>The elements of a slice that may be nil.\<close>

definition slice :: "'a list option \<Rightarrow> 'a list" where
  "slice s = (case s of None \<Rightarrow> [] | Some xs \<Rightarrow> xs)"

lemma slice_simps [simp]: "slice None = []" "slice (Some xs) = xs"
  by (simp_all add: slice_def)

abbreviation aget :: "('k \<times> 'v) list \<Rightarrow> 'k \<Rightarrow> 'v option" where
  "aget \<equiv> map_of"

abbreviation aset :: "'k \<Rightarrow> 'v \<Rightarrow> ('k \<times> 'v) list \<Rightarrow> ('k \<times> 'v) list" where
  "aset \<equiv> AList.update"

abbreviation adel :: "'k \<Rightarrow> ('k \<times> 'v) list \<Rightarrow> ('k \<times> 'v) list" where
  "adel \<equiv> AList.delete"

lemma aget_aset [simp]: "aget (aset k v m) k' = (if k' = k then Some v else aget m k')"
  by (simp add: update_conv')

lemma aget_adel [simp]: "aget (adel k m) k' = (if k' = k then None else aget m k')"
  by (simp add: delete_conv')

section \<open>Weakest preconditions for state monads\<close>

text \<open>
  \<open>wp m Q w\<close>: running \<open>m\<close> from the world \<open>w\<close> ends with a value and a world that satisfy
  \<open>Q\<close>. The equations compute the precondition of a whole handler from its calls.
\<close>

definition wp :: "('w, 'a) state \<Rightarrow> ('a \<Rightarrow> 'w \<Rightarrow> bool) \<Rightarrow> 'w \<Rightarrow> bool" where
  "wp m Q w = (case run_state m w of (a, w') \<Rightarrow> Q a w')"

lemma wp_return [simp, wp_simps]: "wp (State_Monad.return a) Q w = Q a w"
  by (simp add: wp_def)

lemma wp_bind [simp, wp_simps]:
  "wp (State_Monad.bind m f) Q w = wp m (\<lambda>a. wp (f a) Q) w"
  by (simp add: wp_def split: prod.split)

lemma wp_if [wp_simps]:
  "wp (if b then m else n) Q w = (if b then wp m Q w else wp n Q w)"
  by simp

lemma wp_run: "wp m Q w \<Longrightarrow> run_state m w = (a, w') \<Longrightarrow> Q a w'"
  by (simp add: wp_def)

lemma wpI: "(\<And>a w'. run_state m w = (a, w') \<Longrightarrow> Q a w') \<Longrightarrow> wp m Q w"
  by (auto simp: wp_def split: prod.split)

lemma wp_mono: "wp m P w \<Longrightarrow> (\<And>a w'. P a w' \<Longrightarrow> Q a w') \<Longrightarrow> wp m Q w"
  by (auto simp: wp_def split: prod.splits)

lemma wp_conj: "wp m (\<lambda>a w'. P a w' \<and> Q a w') w \<longleftrightarrow> wp m P w \<and> wp m Q w"
  by (auto simp: wp_def split: prod.splits)

end
