(* ===== verification/Rpc_DeepCopy.thy ===== *)
theory Rpc_DeepCopy
  imports Rpc_Prelude
begin

text \<open>
  The deep copies of the API types, \<^verbatim>\<open>api/v1alpha1/zz_generated.deepcopy.go\<close>. The controllers
  change the objects a client hands them in place, and rely on these copies: what a client
  returns must share no memory with its cache. Everywhere else in the library a value is
  immutable; here there is a store, a value holds addresses, and copying is a program on the
  store. The copy functions of \<^verbatim>\<open>k8s.io/apimachinery\<close> and \<^verbatim>\<open>k8s.io/api\<close> are a parameter.
\<close>

section \<open>Memory\<close>

text \<open>
  A Go value as it lies in memory: a scalar (a string, number or boolean, or a struct of such), a
  pointer, a slice of a backing array from an offset, or a struct. A pointer points to a cell, an
  array of one element.
\<close>

datatype val =
    VScalar string
  | VPtr "nat option"
  | VSlice "(nat \<times> nat \<times> nat) option"
  | VStruct "(string \<times> val) list"

record heap =
  h_cells :: "nat \<Rightarrow> val list option"
  h_next :: nat

definition heap_ok :: "heap \<Rightarrow> bool" where
  "heap_ok h \<longleftrightarrow> dom (h_cells h) \<subseteq> {..<h_next h}"

definition alloc :: "val list \<Rightarrow> (heap, nat) state" where
  "alloc vs = State (\<lambda>h. (h_next h, h\<lparr>h_cells := (h_cells h)(h_next h \<mapsto> vs), h_next := Suc (h_next h)\<rparr>))"

definition load :: "nat \<Rightarrow> (heap, val list) state" where
  "load a = State (\<lambda>h. (case h_cells h a of None \<Rightarrow> [] | Some vs \<Rightarrow> vs, h))"

definition store_at :: "nat \<Rightarrow> nat \<Rightarrow> val \<Rightarrow> (heap, unit) state" where
  "store_at a i v = State (\<lambda>h. ((), h\<lparr>h_cells := (h_cells h)(a := map_option (\<lambda>vs. vs[i := v]) (h_cells h a))\<rparr>))"

text \<open>The content of the memory \<open>make\<close> and \<open>new\<close> return, before it is written.\<close>

definition zero :: val where
  "zero = VScalar ''''"

section \<open>The statements of a generated copy\<close>

text \<open>
  A function \<open>DeepCopyInto\<close> begins with \<open>*out = *in\<close>; here it takes that value and returns what it
  leaves in \<open>*out\<close>. \<open>field n f\<close> lets \<open>f\<close> copy the field \<open>n\<close> of the struct.
\<close>

definition field :: "string \<Rightarrow> (val \<Rightarrow> (heap, val) state) \<Rightarrow> val \<Rightarrow> (heap, val) state" where
  "field n f v =
     (case v of
        VStruct fs \<Rightarrow>
          (case aget fs n of
             None \<Rightarrow> State_Monad.return v
           | Some x \<Rightarrow> do {
               y \<leftarrow> f x;
               State_Monad.return (VStruct (map (\<lambda>(m, z). (m, if m = n then y else z)) fs))
             })
      | _ \<Rightarrow> State_Monad.return v)"

fun copy_fields :: "(string \<times> (val \<Rightarrow> (heap, val) state)) list \<Rightarrow> val \<Rightarrow> (heap, val) state" where
  "copy_fields [] v = State_Monad.return v"
| "copy_fields ((n, f) # fs) v = do { v \<leftarrow> field n f v; copy_fields fs v }"

text \<open>\<open>*out = new(T); (*in).DeepCopyInto(*out)\<close>, for a pointer that is not nil.\<close>

definition copy_ptr :: "(val \<Rightarrow> (heap, val) state) \<Rightarrow> val \<Rightarrow> (heap, val) state" where
  "copy_ptr f v =
     (case v of
        VPtr (Some a) \<Rightarrow> do {
          vs \<leftarrow> load a;
          b \<leftarrow> alloc [zero];
          y \<leftarrow> f (hd vs);
          store_at b 0 y;
          State_Monad.return (VPtr (Some b))
        }
      | _ \<Rightarrow> State_Monad.return v)"

text \<open>\<open>x := (*in).DeepCopy(); *out = &x\<close>.\<close>

definition copy_ptr_value :: "(val \<Rightarrow> (heap, val) state) \<Rightarrow> val \<Rightarrow> (heap, val) state" where
  "copy_ptr_value f v =
     (case v of
        VPtr (Some a) \<Rightarrow> do {
          vs \<leftarrow> load a;
          y \<leftarrow> f (hd vs);
          b \<leftarrow> alloc [y];
          State_Monad.return (VPtr (Some b))
        }
      | _ \<Rightarrow> State_Monad.return v)"

text \<open>\<open>*out = make([]T, len(*in))\<close>, and a loop that copies every element into its place, or \<open>copy\<close>
  where the elements hold no references.\<close>

fun copy_loop :: "(val \<Rightarrow> (heap, val) state) \<Rightarrow> nat \<Rightarrow> nat \<Rightarrow> val list \<Rightarrow> (heap, unit) state" where
  "copy_loop f b i [] = State_Monad.return ()"
| "copy_loop f b i (x # xs) = do { y \<leftarrow> f x; store_at b i y; copy_loop f b (Suc i) xs }"

definition copy_slice :: "(val \<Rightarrow> (heap, val) state) \<Rightarrow> val \<Rightarrow> (heap, val) state" where
  "copy_slice f v =
     (case v of
        VSlice (Some (a, off, n)) \<Rightarrow> do {
          vs \<leftarrow> load a;
          b \<leftarrow> alloc (replicate n zero);
          copy_loop f b 0 (take n (drop off vs));
          State_Monad.return (VSlice (Some (b, 0, n)))
        }
      | _ \<Rightarrow> State_Monad.return v)"

text \<open>\<open>DeepCopy\<close> and \<open>DeepCopyObject\<close> of a type with the given \<open>DeepCopyInto\<close>.\<close>

definition DeepCopy_of :: "(val \<Rightarrow> (heap, val) state) \<Rightarrow> nat option \<Rightarrow> (heap, nat option) state" where
  "DeepCopy_of into p =
     (case p of
        None \<Rightarrow> State_Monad.return None
      | Some a \<Rightarrow> do {
          b \<leftarrow> alloc [zero];
          vs \<leftarrow> load a;
          y \<leftarrow> into (hd vs);
          store_at b 0 y;
          State_Monad.return (Some b)
        })"

definition DeepCopyObject_of ::
  "string \<Rightarrow> (nat option \<Rightarrow> (heap, nat option) state) \<Rightarrow> nat option \<Rightarrow> (heap, (string \<times> nat) option) state" where
  "DeepCopyObject_of kind copy p = do {
     c \<leftarrow> copy p;
     State_Monad.return (case c of None \<Rightarrow> None | Some b \<Rightarrow> Some (kind, b))
   }"

text \<open>The copies of the Kubernetes libraries, by type.\<close>

type_synonym library = "string \<Rightarrow> val \<Rightarrow> (heap, val) state"

section \<open>The generated copies\<close>

definition ComponentSpec_DeepCopyInto :: "library \<Rightarrow> val \<Rightarrow> (heap, val) state" where
  "ComponentSpec_DeepCopyInto X = copy_fields [(''Config'', X ''RawExtension'')]"

definition SecretRef_DeepCopyInto :: "val \<Rightarrow> (heap, val) state" where
  "SecretRef_DeepCopyInto = copy_fields []"

definition ProjectRef_DeepCopyInto :: "val \<Rightarrow> (heap, val) state" where
  "ProjectRef_DeepCopyInto = copy_fields []"

definition PipelineSpec_DeepCopyInto :: "library \<Rightarrow> val \<Rightarrow> (heap, val) state" where
  "PipelineSpec_DeepCopyInto X = copy_fields
     [(''Input'', ComponentSpec_DeepCopyInto X),
      (''Processors'', copy_slice (ComponentSpec_DeepCopyInto X)),
      (''Output'', ComponentSpec_DeepCopyInto X),
      (''SecretRefs'', copy_slice State_Monad.return),
      (''ProjectRef'', copy_ptr State_Monad.return)]"

definition PipelineStatus_DeepCopyInto :: "library \<Rightarrow> val \<Rightarrow> (heap, val) state" where
  "PipelineStatus_DeepCopyInto X = copy_fields [(''Conditions'', copy_slice (X ''Condition''))]"

definition Pipeline_DeepCopyInto :: "library \<Rightarrow> val \<Rightarrow> (heap, val) state" where
  "Pipeline_DeepCopyInto X = copy_fields
     [(''TypeMeta'', State_Monad.return),
      (''ObjectMeta'', X ''ObjectMeta''),
      (''Spec'', PipelineSpec_DeepCopyInto X),
      (''Status'', PipelineStatus_DeepCopyInto X)]"

definition PipelineList_DeepCopyInto :: "library \<Rightarrow> val \<Rightarrow> (heap, val) state" where
  "PipelineList_DeepCopyInto X = copy_fields
     [(''TypeMeta'', State_Monad.return),
      (''ListMeta'', X ''ListMeta''),
      (''Items'', copy_slice (Pipeline_DeepCopyInto X))]"

definition PipelineClusterSpec_DeepCopyInto :: "library \<Rightarrow> val \<Rightarrow> (heap, val) state" where
  "PipelineClusterSpec_DeepCopyInto X = copy_fields [(''Resources'', X ''ResourceRequirements'')]"

definition PipelineClusterStatus_DeepCopyInto :: "library \<Rightarrow> val \<Rightarrow> (heap, val) state" where
  "PipelineClusterStatus_DeepCopyInto X = copy_fields [(''Conditions'', copy_slice (X ''Condition''))]"

definition PipelineCluster_DeepCopyInto :: "library \<Rightarrow> val \<Rightarrow> (heap, val) state" where
  "PipelineCluster_DeepCopyInto X = copy_fields
     [(''TypeMeta'', State_Monad.return),
      (''ObjectMeta'', X ''ObjectMeta''),
      (''Spec'', PipelineClusterSpec_DeepCopyInto X),
      (''Status'', PipelineClusterStatus_DeepCopyInto X)]"

definition PipelineClusterList_DeepCopyInto :: "library \<Rightarrow> val \<Rightarrow> (heap, val) state" where
  "PipelineClusterList_DeepCopyInto X = copy_fields
     [(''TypeMeta'', State_Monad.return),
      (''ListMeta'', X ''ListMeta''),
      (''Items'', copy_slice (PipelineCluster_DeepCopyInto X))]"

definition ProjectNATSRetention_DeepCopyInto :: "library \<Rightarrow> val \<Rightarrow> (heap, val) state" where
  "ProjectNATSRetention_DeepCopyInto X = copy_fields
     [(''MaxAge'', copy_ptr State_Monad.return),
      (''MaxBytes'', copy_ptr_value (X ''Quantity'')),
      (''MaxMsgs'', copy_ptr State_Monad.return)]"

definition ProjectNATSSpec_DeepCopyInto :: "library \<Rightarrow> val \<Rightarrow> (heap, val) state" where
  "ProjectNATSSpec_DeepCopyInto X = copy_fields
     [(''Replicas'', copy_ptr State_Monad.return),
      (''Storage'', copy_ptr_value (X ''Quantity'')),
      (''Retention'', ProjectNATSRetention_DeepCopyInto X)]"

definition ProjectClusterSpec_DeepCopyInto :: "library \<Rightarrow> val \<Rightarrow> (heap, val) state" where
  "ProjectClusterSpec_DeepCopyInto X = copy_fields
     [(''Instances'', copy_ptr State_Monad.return),
      (''Resources'', copy_ptr (X ''ResourceRequirements''))]"

definition ProjectRouteTarget_DeepCopyInto :: "val \<Rightarrow> (heap, val) state" where
  "ProjectRouteTarget_DeepCopyInto = copy_fields []"

definition ProjectRoute_DeepCopyInto :: "library \<Rightarrow> val \<Rightarrow> (heap, val) state" where
  "ProjectRoute_DeepCopyInto X = copy_fields
     [(''To'', copy_slice State_Monad.return),
      (''Retention'', copy_ptr (ProjectNATSRetention_DeepCopyInto X))]"

definition ProjectNATSKVCache_DeepCopyInto :: "library \<Rightarrow> val \<Rightarrow> (heap, val) state" where
  "ProjectNATSKVCache_DeepCopyInto X = copy_fields
     [(''TTL'', copy_ptr State_Monad.return),
      (''History'', copy_ptr State_Monad.return),
      (''MaxBytes'', copy_ptr_value (X ''Quantity''))]"

definition ProjectCacheResource_DeepCopyInto :: "library \<Rightarrow> val \<Rightarrow> (heap, val) state" where
  "ProjectCacheResource_DeepCopyInto X = copy_fields
     [(''NatsKV'', copy_ptr (ProjectNATSKVCache_DeepCopyInto X)),
      (''Config'', X ''RawExtension'')]"

definition PipelineProjectSpec_DeepCopyInto :: "library \<Rightarrow> val \<Rightarrow> (heap, val) state" where
  "PipelineProjectSpec_DeepCopyInto X = copy_fields
     [(''Cluster'', copy_ptr (ProjectClusterSpec_DeepCopyInto X)),
      (''NATS'', copy_ptr (ProjectNATSSpec_DeepCopyInto X)),
      (''Routes'', copy_slice (ProjectRoute_DeepCopyInto X)),
      (''CacheResources'', copy_slice (ProjectCacheResource_DeepCopyInto X))]"

definition ProjectChildStatus_DeepCopyInto :: "val \<Rightarrow> (heap, val) state" where
  "ProjectChildStatus_DeepCopyInto = copy_fields []"

definition ProjectRouteStatus_DeepCopyInto :: "library \<Rightarrow> val \<Rightarrow> (heap, val) state" where
  "ProjectRouteStatus_DeepCopyInto X = copy_fields [(''Conditions'', copy_slice (X ''Condition''))]"

definition ProjectCacheResourceStatus_DeepCopyInto :: "library \<Rightarrow> val \<Rightarrow> (heap, val) state" where
  "ProjectCacheResourceStatus_DeepCopyInto X = copy_fields [(''Conditions'', copy_slice (X ''Condition''))]"

definition PipelineProjectStatus_DeepCopyInto :: "library \<Rightarrow> val \<Rightarrow> (heap, val) state" where
  "PipelineProjectStatus_DeepCopyInto X = copy_fields
     [(''Cluster'', State_Monad.return),
      (''NATS'', State_Monad.return),
      (''Routes'', copy_slice (ProjectRouteStatus_DeepCopyInto X)),
      (''CacheResources'', copy_slice (ProjectCacheResourceStatus_DeepCopyInto X)),
      (''Conditions'', copy_slice (X ''Condition''))]"

definition PipelineProject_DeepCopyInto :: "library \<Rightarrow> val \<Rightarrow> (heap, val) state" where
  "PipelineProject_DeepCopyInto X = copy_fields
     [(''TypeMeta'', State_Monad.return),
      (''ObjectMeta'', X ''ObjectMeta''),
      (''Spec'', PipelineProjectSpec_DeepCopyInto X),
      (''Status'', PipelineProjectStatus_DeepCopyInto X)]"

definition PipelineProjectList_DeepCopyInto :: "library \<Rightarrow> val \<Rightarrow> (heap, val) state" where
  "PipelineProjectList_DeepCopyInto X = copy_fields
     [(''TypeMeta'', State_Monad.return),
      (''ListMeta'', X ''ListMeta''),
      (''Items'', copy_slice (PipelineProject_DeepCopyInto X))]"

section \<open>\<open>DeepCopy\<close> and \<open>DeepCopyObject\<close>\<close>

definition ComponentSpec_DeepCopy :: "library \<Rightarrow> nat option \<Rightarrow> (heap, nat option) state" where
  "ComponentSpec_DeepCopy X = DeepCopy_of (ComponentSpec_DeepCopyInto X)"

definition SecretRef_DeepCopy :: "nat option \<Rightarrow> (heap, nat option) state" where
  "SecretRef_DeepCopy = DeepCopy_of SecretRef_DeepCopyInto"

definition ProjectRef_DeepCopy :: "nat option \<Rightarrow> (heap, nat option) state" where
  "ProjectRef_DeepCopy = DeepCopy_of ProjectRef_DeepCopyInto"

definition PipelineSpec_DeepCopy :: "library \<Rightarrow> nat option \<Rightarrow> (heap, nat option) state" where
  "PipelineSpec_DeepCopy X = DeepCopy_of (PipelineSpec_DeepCopyInto X)"

definition PipelineStatus_DeepCopy :: "library \<Rightarrow> nat option \<Rightarrow> (heap, nat option) state" where
  "PipelineStatus_DeepCopy X = DeepCopy_of (PipelineStatus_DeepCopyInto X)"

definition Pipeline_DeepCopy :: "library \<Rightarrow> nat option \<Rightarrow> (heap, nat option) state" where
  "Pipeline_DeepCopy X = DeepCopy_of (Pipeline_DeepCopyInto X)"

definition PipelineList_DeepCopy :: "library \<Rightarrow> nat option \<Rightarrow> (heap, nat option) state" where
  "PipelineList_DeepCopy X = DeepCopy_of (PipelineList_DeepCopyInto X)"

definition PipelineClusterSpec_DeepCopy :: "library \<Rightarrow> nat option \<Rightarrow> (heap, nat option) state" where
  "PipelineClusterSpec_DeepCopy X = DeepCopy_of (PipelineClusterSpec_DeepCopyInto X)"

definition PipelineClusterStatus_DeepCopy :: "library \<Rightarrow> nat option \<Rightarrow> (heap, nat option) state" where
  "PipelineClusterStatus_DeepCopy X = DeepCopy_of (PipelineClusterStatus_DeepCopyInto X)"

definition PipelineCluster_DeepCopy :: "library \<Rightarrow> nat option \<Rightarrow> (heap, nat option) state" where
  "PipelineCluster_DeepCopy X = DeepCopy_of (PipelineCluster_DeepCopyInto X)"

definition PipelineClusterList_DeepCopy :: "library \<Rightarrow> nat option \<Rightarrow> (heap, nat option) state" where
  "PipelineClusterList_DeepCopy X = DeepCopy_of (PipelineClusterList_DeepCopyInto X)"

definition ProjectNATSRetention_DeepCopy :: "library \<Rightarrow> nat option \<Rightarrow> (heap, nat option) state" where
  "ProjectNATSRetention_DeepCopy X = DeepCopy_of (ProjectNATSRetention_DeepCopyInto X)"

definition ProjectNATSSpec_DeepCopy :: "library \<Rightarrow> nat option \<Rightarrow> (heap, nat option) state" where
  "ProjectNATSSpec_DeepCopy X = DeepCopy_of (ProjectNATSSpec_DeepCopyInto X)"

definition ProjectClusterSpec_DeepCopy :: "library \<Rightarrow> nat option \<Rightarrow> (heap, nat option) state" where
  "ProjectClusterSpec_DeepCopy X = DeepCopy_of (ProjectClusterSpec_DeepCopyInto X)"

definition ProjectRouteTarget_DeepCopy :: "nat option \<Rightarrow> (heap, nat option) state" where
  "ProjectRouteTarget_DeepCopy = DeepCopy_of ProjectRouteTarget_DeepCopyInto"

definition ProjectRoute_DeepCopy :: "library \<Rightarrow> nat option \<Rightarrow> (heap, nat option) state" where
  "ProjectRoute_DeepCopy X = DeepCopy_of (ProjectRoute_DeepCopyInto X)"

definition ProjectNATSKVCache_DeepCopy :: "library \<Rightarrow> nat option \<Rightarrow> (heap, nat option) state" where
  "ProjectNATSKVCache_DeepCopy X = DeepCopy_of (ProjectNATSKVCache_DeepCopyInto X)"

definition ProjectCacheResource_DeepCopy :: "library \<Rightarrow> nat option \<Rightarrow> (heap, nat option) state" where
  "ProjectCacheResource_DeepCopy X = DeepCopy_of (ProjectCacheResource_DeepCopyInto X)"

definition PipelineProjectSpec_DeepCopy :: "library \<Rightarrow> nat option \<Rightarrow> (heap, nat option) state" where
  "PipelineProjectSpec_DeepCopy X = DeepCopy_of (PipelineProjectSpec_DeepCopyInto X)"

definition ProjectChildStatus_DeepCopy :: "nat option \<Rightarrow> (heap, nat option) state" where
  "ProjectChildStatus_DeepCopy = DeepCopy_of ProjectChildStatus_DeepCopyInto"

definition ProjectRouteStatus_DeepCopy :: "library \<Rightarrow> nat option \<Rightarrow> (heap, nat option) state" where
  "ProjectRouteStatus_DeepCopy X = DeepCopy_of (ProjectRouteStatus_DeepCopyInto X)"

definition ProjectCacheResourceStatus_DeepCopy :: "library \<Rightarrow> nat option \<Rightarrow> (heap, nat option) state" where
  "ProjectCacheResourceStatus_DeepCopy X = DeepCopy_of (ProjectCacheResourceStatus_DeepCopyInto X)"

definition PipelineProjectStatus_DeepCopy :: "library \<Rightarrow> nat option \<Rightarrow> (heap, nat option) state" where
  "PipelineProjectStatus_DeepCopy X = DeepCopy_of (PipelineProjectStatus_DeepCopyInto X)"

definition PipelineProject_DeepCopy :: "library \<Rightarrow> nat option \<Rightarrow> (heap, nat option) state" where
  "PipelineProject_DeepCopy X = DeepCopy_of (PipelineProject_DeepCopyInto X)"

definition PipelineProjectList_DeepCopy :: "library \<Rightarrow> nat option \<Rightarrow> (heap, nat option) state" where
  "PipelineProjectList_DeepCopy X = DeepCopy_of (PipelineProjectList_DeepCopyInto X)"

definition Pipeline_DeepCopyObject :: "library \<Rightarrow> nat option \<Rightarrow> (heap, (string \<times> nat) option) state" where
  "Pipeline_DeepCopyObject X = DeepCopyObject_of ''Pipeline'' (Pipeline_DeepCopy X)"

definition PipelineList_DeepCopyObject :: "library \<Rightarrow> nat option \<Rightarrow> (heap, (string \<times> nat) option) state" where
  "PipelineList_DeepCopyObject X = DeepCopyObject_of ''PipelineList'' (PipelineList_DeepCopy X)"

definition PipelineCluster_DeepCopyObject :: "library \<Rightarrow> nat option \<Rightarrow> (heap, (string \<times> nat) option) state" where
  "PipelineCluster_DeepCopyObject X = DeepCopyObject_of ''PipelineCluster'' (PipelineCluster_DeepCopy X)"

definition PipelineClusterList_DeepCopyObject :: "library \<Rightarrow> nat option \<Rightarrow> (heap, (string \<times> nat) option) state" where
  "PipelineClusterList_DeepCopyObject X = DeepCopyObject_of ''PipelineClusterList'' (PipelineClusterList_DeepCopy X)"

definition PipelineProject_DeepCopyObject :: "library \<Rightarrow> nat option \<Rightarrow> (heap, (string \<times> nat) option) state" where
  "PipelineProject_DeepCopyObject X = DeepCopyObject_of ''PipelineProject'' (PipelineProject_DeepCopy X)"

definition PipelineProjectList_DeepCopyObject :: "library \<Rightarrow> nat option \<Rightarrow> (heap, (string \<times> nat) option) state" where
  "PipelineProjectList_DeepCopyObject X = DeepCopyObject_of ''PipelineProjectList'' (PipelineProjectList_DeepCopy X)"

section \<open>The types\<close>

text \<open>
  The declarations of \<^verbatim>\<open>pipeline_types.go\<close>, \<^verbatim>\<open>pipelinecluster_types.go\<close> and
  \<^verbatim>\<open>pipelineproject_types.go\<close>, down to where memory is shared: a field is a scalar, a pointer, a
  slice, a struct, or of a type of the Kubernetes libraries. \<open>TypeMeta\<close> and \<open>Duration\<close> of those
  hold no references and are scalars.
\<close>

datatype go_type = TScalar | TPtr go_type | TSlice go_type | TStruct "(string \<times> go_type) list" | TLib string

definition ComponentSpec_type :: go_type where
  "ComponentSpec_type = TStruct
     [(''Type'', TScalar), (''Label'', TScalar), (''Config'', TLib ''RawExtension'')]"

definition SecretRef_type :: go_type where
  "SecretRef_type = TStruct
     [(''EnvVar'', TScalar), (''SecretName'', TScalar), (''Key'', TScalar)]"

definition ProjectRef_type :: go_type where
  "ProjectRef_type = TStruct
     [(''Name'', TScalar)]"

definition PipelineSpec_type :: go_type where
  "PipelineSpec_type = TStruct
     [(''Input'', ComponentSpec_type), (''Processors'', TSlice ComponentSpec_type),
      (''Output'', ComponentSpec_type), (''RawYAML'', TScalar), (''Replicas'', TScalar),
      (''Image'', TScalar), (''SecretRefs'', TSlice SecretRef_type), (''Stopped'', TScalar),
      (''ClusterRef'', TScalar), (''ProjectRef'', TPtr ProjectRef_type)]"

definition PipelineStatus_type :: go_type where
  "PipelineStatus_type = TStruct
     [(''Phase'', TScalar), (''PodName'', TScalar), (''AssignedCluster'', TScalar),
      (''AssignedInstance'', TScalar), (''StreamID'', TScalar), (''StreamConfigHash'', TScalar),
      (''ObservedGeneration'', TScalar), (''Conditions'', TSlice (TLib ''Condition''))]"

definition Pipeline_type :: go_type where
  "Pipeline_type = TStruct
     [(''TypeMeta'', TScalar), (''ObjectMeta'', TLib ''ObjectMeta''), (''Spec'', PipelineSpec_type),
      (''Status'', PipelineStatus_type)]"

definition PipelineList_type :: go_type where
  "PipelineList_type = TStruct
     [(''TypeMeta'', TScalar), (''ListMeta'', TLib ''ListMeta''), (''Items'', TSlice Pipeline_type)]"

definition PipelineClusterSpec_type :: go_type where
  "PipelineClusterSpec_type = TStruct
     [(''Replicas'', TScalar), (''Image'', TScalar), (''JSONLogging'', TScalar),
      (''Resources'', TLib ''ResourceRequirements'')]"

definition PipelineClusterStatus_type :: go_type where
  "PipelineClusterStatus_type = TStruct
     [(''Phase'', TScalar), (''ReadyReplicas'', TScalar), (''ObservedGeneration'', TScalar),
      (''Conditions'', TSlice (TLib ''Condition''))]"

definition PipelineCluster_type :: go_type where
  "PipelineCluster_type = TStruct
     [(''TypeMeta'', TScalar), (''ObjectMeta'', TLib ''ObjectMeta''),
      (''Spec'', PipelineClusterSpec_type), (''Status'', PipelineClusterStatus_type)]"

definition PipelineClusterList_type :: go_type where
  "PipelineClusterList_type = TStruct
     [(''TypeMeta'', TScalar), (''ListMeta'', TLib ''ListMeta''),
      (''Items'', TSlice PipelineCluster_type)]"

definition ProjectNATSRetention_type :: go_type where
  "ProjectNATSRetention_type = TStruct
     [(''MaxAge'', TPtr TScalar), (''MaxBytes'', TPtr (TLib ''Quantity'')),
      (''MaxMsgs'', TPtr TScalar)]"

definition ProjectNATSSpec_type :: go_type where
  "ProjectNATSSpec_type = TStruct
     [(''Replicas'', TPtr TScalar), (''Storage'', TPtr (TLib ''Quantity'')),
      (''Retention'', ProjectNATSRetention_type), (''StorageReclaimPolicy'', TScalar)]"

definition ProjectClusterSpec_type :: go_type where
  "ProjectClusterSpec_type = TStruct
     [(''Instances'', TPtr TScalar), (''Resources'', TPtr (TLib ''ResourceRequirements''))]"

definition ProjectRouteTarget_type :: go_type where
  "ProjectRouteTarget_type = TStruct
     [(''Pipeline'', TScalar), (''When'', TScalar)]"

definition ProjectRoute_type :: go_type where
  "ProjectRoute_type = TStruct
     [(''Name'', TScalar), (''From'', TScalar), (''To'', TSlice ProjectRouteTarget_type),
      (''Retention'', TPtr ProjectNATSRetention_type)]"

definition ProjectNATSKVCache_type :: go_type where
  "ProjectNATSKVCache_type = TStruct
     [(''TTL'', TPtr TScalar), (''History'', TPtr TScalar), (''MaxBytes'', TPtr (TLib ''Quantity''))]"

definition ProjectCacheResource_type :: go_type where
  "ProjectCacheResource_type = TStruct
     [(''Name'', TScalar), (''NatsKV'', TPtr ProjectNATSKVCache_type),
      (''Config'', TLib ''RawExtension'')]"

definition PipelineProjectSpec_type :: go_type where
  "PipelineProjectSpec_type = TStruct
     [(''Description'', TScalar), (''Cluster'', TPtr ProjectClusterSpec_type),
      (''NATS'', TPtr ProjectNATSSpec_type), (''Routes'', TSlice ProjectRoute_type),
      (''CacheResources'', TSlice ProjectCacheResource_type)]"

definition ProjectChildStatus_type :: go_type where
  "ProjectChildStatus_type = TStruct
     [(''Name'', TScalar), (''Ready'', TScalar), (''Total'', TScalar)]"

definition ProjectRouteStatus_type :: go_type where
  "ProjectRouteStatus_type = TStruct
     [(''Name'', TScalar), (''Subject'', TScalar), (''Stream'', TScalar), (''Phase'', TScalar),
      (''Conditions'', TSlice (TLib ''Condition''))]"

definition ProjectCacheResourceStatus_type :: go_type where
  "ProjectCacheResourceStatus_type = TStruct
     [(''Name'', TScalar), (''Bucket'', TScalar), (''Phase'', TScalar),
      (''Conditions'', TSlice (TLib ''Condition''))]"

definition PipelineProjectStatus_type :: go_type where
  "PipelineProjectStatus_type = TStruct
     [(''Phase'', TScalar), (''Cluster'', ProjectChildStatus_type),
      (''NATS'', ProjectChildStatus_type), (''Routes'', TSlice ProjectRouteStatus_type),
      (''CacheResources'', TSlice ProjectCacheResourceStatus_type),
      (''ObservedGeneration'', TScalar), (''Conditions'', TSlice (TLib ''Condition''))]"

definition PipelineProject_type :: go_type where
  "PipelineProject_type = TStruct
     [(''TypeMeta'', TScalar), (''ObjectMeta'', TLib ''ObjectMeta''),
      (''Spec'', PipelineProjectSpec_type), (''Status'', PipelineProjectStatus_type)]"

definition PipelineProjectList_type :: go_type where
  "PipelineProjectList_type = TStruct
     [(''TypeMeta'', TScalar), (''ListMeta'', TLib ''ListMeta''),
      (''Items'', TSlice PipelineProject_type)]"

lemmas copy_defs =
  ComponentSpec_DeepCopyInto_def SecretRef_DeepCopyInto_def ProjectRef_DeepCopyInto_def
  PipelineSpec_DeepCopyInto_def PipelineStatus_DeepCopyInto_def Pipeline_DeepCopyInto_def
  PipelineList_DeepCopyInto_def PipelineClusterSpec_DeepCopyInto_def
  PipelineClusterStatus_DeepCopyInto_def PipelineCluster_DeepCopyInto_def
  PipelineClusterList_DeepCopyInto_def ProjectNATSRetention_DeepCopyInto_def
  ProjectNATSSpec_DeepCopyInto_def ProjectClusterSpec_DeepCopyInto_def
  ProjectRouteTarget_DeepCopyInto_def ProjectRoute_DeepCopyInto_def
  ProjectNATSKVCache_DeepCopyInto_def ProjectCacheResource_DeepCopyInto_def
  PipelineProjectSpec_DeepCopyInto_def ProjectChildStatus_DeepCopyInto_def
  ProjectRouteStatus_DeepCopyInto_def ProjectCacheResourceStatus_DeepCopyInto_def
  PipelineProjectStatus_DeepCopyInto_def PipelineProject_DeepCopyInto_def
  PipelineProjectList_DeepCopyInto_def

lemmas DeepCopy_defs =
  ComponentSpec_DeepCopy_def SecretRef_DeepCopy_def ProjectRef_DeepCopy_def PipelineSpec_DeepCopy_def
  PipelineStatus_DeepCopy_def Pipeline_DeepCopy_def PipelineList_DeepCopy_def
  PipelineClusterSpec_DeepCopy_def PipelineClusterStatus_DeepCopy_def PipelineCluster_DeepCopy_def
  PipelineClusterList_DeepCopy_def ProjectNATSRetention_DeepCopy_def ProjectNATSSpec_DeepCopy_def
  ProjectClusterSpec_DeepCopy_def ProjectRouteTarget_DeepCopy_def ProjectRoute_DeepCopy_def
  ProjectNATSKVCache_DeepCopy_def ProjectCacheResource_DeepCopy_def PipelineProjectSpec_DeepCopy_def
  ProjectChildStatus_DeepCopy_def ProjectRouteStatus_DeepCopy_def
  ProjectCacheResourceStatus_DeepCopy_def PipelineProjectStatus_DeepCopy_def
  PipelineProject_DeepCopy_def PipelineProjectList_DeepCopy_def

lemmas DeepCopyObject_defs =
  Pipeline_DeepCopyObject_def PipelineList_DeepCopyObject_def PipelineCluster_DeepCopyObject_def
  PipelineClusterList_DeepCopyObject_def PipelineProject_DeepCopyObject_def
  PipelineProjectList_DeepCopyObject_def

lemmas type_defs =
  ComponentSpec_type_def SecretRef_type_def ProjectRef_type_def PipelineSpec_type_def
  PipelineStatus_type_def Pipeline_type_def PipelineList_type_def PipelineClusterSpec_type_def
  PipelineClusterStatus_type_def PipelineCluster_type_def PipelineClusterList_type_def
  ProjectNATSRetention_type_def ProjectNATSSpec_type_def ProjectClusterSpec_type_def
  ProjectRouteTarget_type_def ProjectRoute_type_def ProjectNATSKVCache_type_def
  ProjectCacheResource_type_def PipelineProjectSpec_type_def ProjectChildStatus_type_def
  ProjectRouteStatus_type_def ProjectCacheResourceStatus_type_def PipelineProjectStatus_type_def
  PipelineProject_type_def PipelineProjectList_type_def


section \<open>What a value is in memory\<close>

text \<open>
  An object is a value together with all it refers to, its addresses included: \<open>val_of\<close> is the
  value itself, \<open>holds\<close> says that the memory agrees, \<open>addrs\<close> is its footprint and \<open>content\<close> what
  is left when the addresses are forgotten.
\<close>

datatype go_object =
    OScalar string
  | ONil
  | OPtr nat go_object
  | ONilSlice
  | OSlice nat nat "go_object list"
  | OStruct "(string \<times> go_object) list"

primrec val_of :: "go_object \<Rightarrow> val" where
  "val_of (OScalar s) = VScalar s"
| "val_of ONil = VPtr None"
| "val_of (OPtr a p) = VPtr (Some a)"
| "val_of ONilSlice = VSlice None"
| "val_of (OSlice a off ps) = VSlice (Some (a, off, length ps))"
| "val_of (OStruct fs) = VStruct (map (map_prod id val_of) fs)"

primrec addrs :: "go_object \<Rightarrow> nat set" where
  "addrs (OScalar s) = {}"
| "addrs ONil = {}"
| "addrs (OPtr a p) = insert a (addrs p)"
| "addrs ONilSlice = {}"
| "addrs (OSlice a off ps) = insert a (\<Union> (set (map addrs ps)))"
| "addrs (OStruct fs) = \<Union> (snd ` set (map (map_prod id addrs) fs))"

primrec holds :: "(nat \<Rightarrow> val list option) \<Rightarrow> go_object \<Rightarrow> bool" where
  "holds c (OScalar s) = True"
| "holds c ONil = True"
| "holds c (OPtr a p) = (c a = Some [val_of p] \<and> holds c p)"
| "holds c ONilSlice = True"
| "holds c (OSlice a off ps) =
     ((case c a of None \<Rightarrow> False | Some vs \<Rightarrow> take (length ps) (drop off vs) = map val_of ps) \<and> list_all id (map (holds c) ps))"
| "holds c (OStruct fs) = list_all snd (map (map_prod id (holds c)) fs)"

primrec content :: "go_object \<Rightarrow> go_object" where
  "content (OScalar s) = OScalar s"
| "content ONil = ONil"
| "content (OPtr a p) = OPtr 0 (content p)"
| "content ONilSlice = ONilSlice"
| "content (OSlice a off ps) = OSlice 0 0 (map content ps)"
| "content (OStruct fs) = OStruct (map (map_prod id content) fs)"

text \<open>The objects of a type; those of a library type are given by \<open>P\<close>.\<close>

primrec typed :: "(string \<Rightarrow> go_object \<Rightarrow> bool) \<Rightarrow> go_type \<Rightarrow> go_object \<Rightarrow> bool" where
  "typed P TScalar x \<longleftrightarrow> (case x of OScalar s \<Rightarrow> True | _ \<Rightarrow> False)"
| "typed P (TPtr t) x \<longleftrightarrow> (case x of ONil \<Rightarrow> True | OPtr a p \<Rightarrow> typed P t p | _ \<Rightarrow> False)"
| "typed P (TSlice t) x \<longleftrightarrow> (case x of ONilSlice \<Rightarrow> True | OSlice a off ps \<Rightarrow> list_all (typed P t) ps | _ \<Rightarrow> False)"
| "typed P (TStruct ts) x \<longleftrightarrow>
     (case x of OStruct fs \<Rightarrow> list_all2 (\<lambda>(n, Q) (m, p). n = m \<and> Q p) (map (map_prod id (typed P)) ts) fs | _ \<Rightarrow> False)"
| "typed P (TLib n) x \<longleftrightarrow> P n x"

primrec flat :: "go_type \<Rightarrow> bool" where
  "flat TScalar = True"
| "flat (TPtr t) = False"
| "flat (TSlice t) = False"
| "flat (TStruct ts) = list_all snd (map (map_prod id flat) ts)"
| "flat (TLib n) = False"

lemma holds_frame:
  assumes "holds c x" and "\<And>a. a \<in> addrs x \<Longrightarrow> c' a = c a"
  shows "holds c' x"
  using assms
proof (induction x)
  case (OSlice a off ps)
  then show ?case by (fastforce simp: list_all_iff split: option.splits)
next
  case (OStruct fs)
  then show ?case by (fastforce simp: list_all_iff)
qed auto

lemma holds_addrs: "holds c x \<Longrightarrow> addrs x \<subseteq> dom c"
proof (induction x)
  case (OSlice a off ps)
  then show ?case by (auto simp: list_all_iff split: option.splits)
next
  case (OStruct fs)
  then show ?case by (fastforce simp: list_all_iff)
qed auto

lemma typed_struct:
  "typed P (TStruct ts) x \<longleftrightarrow> (\<exists>fs. x = OStruct fs \<and> list_all2 (\<lambda>e f. fst e = fst f \<and> typed P (snd e) (snd f)) ts fs)"
proof -
  have "list_all2 (\<lambda>(n, Q) (m, p). n = m \<and> Q p) (map (map_prod id (typed P)) ts) fs \<longleftrightarrow>
      list_all2 (\<lambda>e f. fst e = fst f \<and> typed P (snd e) (snd f)) ts fs" for fs
    unfolding list_all2_map1 by (rule arg_cong [of _ _ "\<lambda>R. list_all2 R ts fs"]) (simp add: fun_eq_iff split_beta)
  then show ?thesis by (auto split: go_object.split)
qed

lemma flat_struct: "flat (TStruct ts) \<longleftrightarrow> (\<forall>(n, t) \<in> set ts. flat t)"
  by (force simp: list_all_iff)

lemma flat_addrs: "flat t \<Longrightarrow> typed P t x \<Longrightarrow> addrs x = {}"
proof (induction t arbitrary: x)
  case (TStruct ts)
  from TStruct.prems(2) obtain fs where fs: "x = OStruct fs" "list_all2 (\<lambda>e f. fst e = fst f \<and> typed P (snd e) (snd f)) ts fs"
    unfolding typed_struct by blast
  have "addrs (snd f) = {}" if "f \<in> set fs" for f
  proof -
    from that fs(2) obtain e where e: "e \<in> set ts" "typed P (snd e) (snd f)"
      unfolding in_set_conv_nth list_all2_conv_all_nth by metis
    with TStruct.prems(1) have "flat (snd e)" unfolding flat_struct by (cases e) auto
    with TStruct.IH [OF e(1), of "snd e"] e(2) show ?thesis by (cases e) auto
  qed
  then show ?case by (simp add: fs(1))
qed (auto split: go_object.splits)

section \<open>What a copy is\<close>

text \<open>
  Whatever object of a kind the memory holds, the copy is an object of the same content in
  newly allocated memory, and memory that was there before is as it was.
\<close>

definition extends :: "heap \<Rightarrow> heap \<Rightarrow> bool" where
  "extends h h' \<longleftrightarrow> heap_ok h' \<and> h_next h \<le> h_next h' \<and> (\<forall>a < h_next h. h_cells h' a = h_cells h a)"

definition copies :: "(val \<Rightarrow> (heap, val) state) \<Rightarrow> (go_object \<Rightarrow> bool) \<Rightarrow> bool" where
  "copies f Q \<longleftrightarrow> (\<forall>h x. heap_ok h \<longrightarrow> holds (h_cells h) x \<longrightarrow> Q x \<longrightarrow>
     (\<exists>y h'. run_state (f (val_of x)) h = (val_of y, h') \<and> extends h h' \<and> holds (h_cells h') y \<and>
        content y = content x \<and> addrs y \<subseteq> {h_next h ..< h_next h'}))"

lemma copiesE:
  assumes "copies f Q" and "heap_ok h" and "holds (h_cells h) x" and "Q x"
  obtains y h' where "run_state (f (val_of x)) h = (val_of y, h')" and "extends h h'" and "holds (h_cells h') y"
    and "content y = content x" and "addrs y \<subseteq> {h_next h ..< h_next h'}"
proof -
  from assms have "\<exists>y h'. run_state (f (val_of x)) h = (val_of y, h') \<and> extends h h' \<and> holds (h_cells h') y \<and>
      content y = content x \<and> addrs y \<subseteq> {h_next h ..< h_next h'}"
    by (simp only: copies_def simp_thms)
  then show thesis by (elim exE conjE) (erule (4) that)
qed

lemma extends_refl: "heap_ok h \<Longrightarrow> extends h h"
  by (simp add: extends_def)

lemma extends_trans: "extends h h1 \<Longrightarrow> extends h1 h2 \<Longrightarrow> extends h h2"
  by (auto simp: extends_def)

lemma holds_below: "heap_ok h \<Longrightarrow> holds (h_cells h) x \<Longrightarrow> addrs x \<subseteq> {..<h_next h}"
  using holds_addrs unfolding heap_ok_def by blast

lemma holds_extends:
  assumes "heap_ok h" and "holds (h_cells h) x" and "extends h h'"
  shows "holds (h_cells h') x"
proof (rule holds_frame [OF assms(2)])
  fix a
  assume "a \<in> addrs x"
  with holds_below [OF assms(1,2)] assms(3) show "h_cells h' a = h_cells h a" by (auto simp: extends_def)
qed

lemma copies_flat: "flat t \<Longrightarrow> copies State_Monad.return (typed P t)"
  unfolding copies_def
proof (intro allI impI)
  fix h x
  assume "flat t" "heap_ok h" "holds (h_cells h) x" "typed P t x"
  with flat_addrs [of t P x] show "\<exists>y h'. run_state (State_Monad.return (val_of x)) h = (val_of y, h') \<and> extends h h' \<and>
      holds (h_cells h') y \<and> content y = content x \<and> addrs y \<subseteq> {h_next h ..< h_next h'}"
    by (intro exI [of _ x] exI [of _ h]) (simp add: extends_refl)
qed

section \<open>The statements are correct\<close>

lemma alloc_run:
  assumes "heap_ok h"
  obtains h' where "run_state (alloc vs) h = (h_next h, h')" and "extends h h'" and "h_cells h' (h_next h) = Some vs"
    and "h_next h' = Suc (h_next h)"
proof (rule that)
  show "run_state (alloc vs) h = (h_next h, h\<lparr>h_cells := (h_cells h)(h_next h \<mapsto> vs), h_next := Suc (h_next h)\<rparr>)"
    by (simp add: alloc_def)
  show "extends h (h\<lparr>h_cells := (h_cells h)(h_next h \<mapsto> vs), h_next := Suc (h_next h)\<rparr>)"
    using assms by (auto simp: extends_def heap_ok_def)
qed simp_all

lemma store_run:
  assumes "heap_ok h" and "h_cells h b = Some vs"
  obtains h' where "run_state (store_at b i v) h = ((), h')" and "heap_ok h'" and "h_next h' = h_next h"
    and "h_cells h' b = Some (vs[i := v])" and "\<forall>a. a \<noteq> b \<longrightarrow> h_cells h' a = h_cells h a"
proof (rule that)
  let ?h = "h\<lparr>h_cells := (h_cells h)(b := map_option (\<lambda>vs. vs[i := v]) (h_cells h b))\<rparr>"
  show "run_state (store_at b i v) h = ((), ?h)" by (simp add: store_at_def)
  show "heap_ok ?h" using assms by (auto simp: heap_ok_def)
qed (use assms in auto)

lemma load_run: "h_cells h a = Some vs \<Longrightarrow> run_state (load a) h = (vs, h)"
  by (simp add: load_def)

lemma run_bind: "run_state m s = (x, s') \<Longrightarrow> run_state (m \<bind> f) s = run_state (f x) s'"
  by simp

text \<open>A new cell, and into it the copy of what another cell holds.\<close>

lemma fill_cell:
  assumes "copies f Q" and "heap_ok h" and "holds (h_cells h) p" and "Q p"
  obtains y b h1 h2 h3 where "run_state (alloc [zero]) h = (b, h1)" and "run_state (f (val_of p)) h1 = (val_of y, h2)"
    and "run_state (store_at b 0 (val_of y)) h2 = ((), h3)" and "extends h h1" and "extends h h3"
    and "holds (h_cells h3) (OPtr b y)" and "content y = content p" and "addrs (OPtr b y) \<subseteq> {h_next h ..< h_next h3}"
proof -
  obtain h1 where 1: "run_state (alloc [zero]) h = (h_next h, h1)" "extends h h1" "h_cells h1 (h_next h) = Some [zero]"
    "h_next h1 = Suc (h_next h)" by (rule alloc_run [OF assms(2)])
  have ok1: "heap_ok h1" using 1(2) by (simp add: extends_def)
  obtain y h2 where 2: "run_state (f (val_of p)) h1 = (val_of y, h2)" "extends h1 h2" "holds (h_cells h2) y"
    "content y = content p" "addrs y \<subseteq> {h_next h1 ..< h_next h2}"
    by (rule copiesE [OF assms(1) ok1 holds_extends [OF assms(2,3) 1(2)] assms(4)])
  have cell: "h_cells h2 (h_next h) = Some [zero]" using 1(3,4) 2(2) by (simp add: extends_def)
  have ok2: "heap_ok h2" using 2(2) by (simp add: extends_def)
  obtain h3 where 3: "run_state (store_at (h_next h) 0 (val_of y)) h2 = ((), h3)" "heap_ok h3" "h_next h3 = h_next h2"
    "h_cells h3 (h_next h) = Some ([zero][0 := val_of y])" "\<forall>a. a \<noteq> h_next h \<longrightarrow> h_cells h3 a = h_cells h2 a"
    by (rule store_run [OF ok2 cell, of 0 "val_of y"])
  have "h_next h \<notin> addrs y" using 1(4) 2(5) by auto
  then have "holds (h_cells h3) y" using 3(5) by (intro holds_frame [OF 2(3)]) metis
  moreover have "extends h h3"
    using 3 1(4) extends_trans [OF 1(2) 2(2)] by (auto simp: extends_def)
  moreover have "addrs (OPtr (h_next h) y) \<subseteq> {h_next h ..< h_next h3}"
    using 1(4) 2(2,5) 3(3) by (auto simp: extends_def)
  ultimately show thesis
    using 3(4) by (intro that [OF 1(1) 2(1) 3(1) 1(2) _ _ 2(4)]) simp_all
qed

lemma copies_ptr:
  assumes "copies f (typed P t)"
  shows "copies (copy_ptr f) (typed P (TPtr t))"
  unfolding copies_def
proof (intro allI impI)
  fix h x
  assume h: "heap_ok h" "holds (h_cells h) x" "typed P (TPtr t) x"
  show "\<exists>y h'. run_state (copy_ptr f (val_of x)) h = (val_of y, h') \<and> extends h h' \<and> holds (h_cells h') y \<and>
      content y = content x \<and> addrs y \<subseteq> {h_next h ..< h_next h'}"
  proof (cases x)
    case (OPtr a p)
    with h(2,3) have p: "h_cells h a = Some [val_of p]" "holds (h_cells h) p" "typed P t p" by simp_all
    obtain y b h1 h2 h3 where r: "run_state (alloc [zero]) h = (b, h1)" "run_state (f (val_of p)) h1 = (val_of y, h2)"
      "run_state (store_at b 0 (val_of y)) h2 = ((), h3)" "extends h h1" "extends h h3"
      "holds (h_cells h3) (OPtr b y)" "content y = content p" "addrs (OPtr b y) \<subseteq> {h_next h ..< h_next h3}"
      by (rule fill_cell [OF assms h(1) p(2,3)])
    have "run_state (copy_ptr f (val_of x)) h = (val_of (OPtr b y), h3)"
      using r(1-3) by (simp add: OPtr copy_ptr_def load_run [OF p(1)])
    with r(5-8) show ?thesis by (intro exI [of _ "OPtr b y"] exI [of _ h3]) (simp add: OPtr)
  qed (use h in \<open>auto simp: copy_ptr_def extends_refl intro!: exI [of _ ONil]\<close>)
qed

lemma copies_ptr_value:
  assumes "copies f (typed P t)"
  shows "copies (copy_ptr_value f) (typed P (TPtr t))"
  unfolding copies_def
proof (intro allI impI)
  fix h x
  assume h: "heap_ok h" "holds (h_cells h) x" "typed P (TPtr t) x"
  show "\<exists>y h'. run_state (copy_ptr_value f (val_of x)) h = (val_of y, h') \<and> extends h h' \<and> holds (h_cells h') y \<and>
      content y = content x \<and> addrs y \<subseteq> {h_next h ..< h_next h'}"
  proof (cases x)
    case (OPtr a p)
    with h(2,3) have p: "h_cells h a = Some [val_of p]" "holds (h_cells h) p" "typed P t p" by simp_all
    obtain y h1 where 1: "run_state (f (val_of p)) h = (val_of y, h1)" "extends h h1" "holds (h_cells h1) y"
      "content y = content p" "addrs y \<subseteq> {h_next h ..< h_next h1}" by (rule copiesE [OF assms h(1) p(2,3)])
    have ok1: "heap_ok h1" using 1(2) by (simp add: extends_def)
    obtain h2 where 2: "run_state (alloc [val_of y]) h1 = (h_next h1, h2)" "extends h1 h2" "h_cells h2 (h_next h1) = Some [val_of y]"
      "h_next h2 = Suc (h_next h1)" by (rule alloc_run [OF ok1])
    have "run_state (copy_ptr_value f (val_of x)) h = (val_of (OPtr (h_next h1) y), h2)"
      using 1(1) 2(1) by (simp add: OPtr copy_ptr_value_def load_run [OF p(1)])
    moreover have "addrs (OPtr (h_next h1) y) \<subseteq> {h_next h ..< h_next h2}"
      using 1(2,5) 2(4) by (auto simp: extends_def)
    moreover have "holds (h_cells h2) (OPtr (h_next h1) y)"
      using 2(3) holds_extends [OF ok1 1(3) 2(2)] by simp
    ultimately show ?thesis
      using extends_trans [OF 1(2) 2(2)] 1(4) by (intro exI [of _ "OPtr (h_next h1) y"] exI [of _ h2]) (simp add: OPtr)
  qed (use h in \<open>auto simp: copy_ptr_value_def extends_refl intro!: exI [of _ ONil]\<close>)
qed


text \<open>
  The loop over a slice writes to the new array and to nothing else that was there; the values
  already in the array, \<open>vs\<close>, stay.
\<close>

definition writes_only :: "nat \<Rightarrow> heap \<Rightarrow> heap \<Rightarrow> bool" where
  "writes_only b h h' \<longleftrightarrow> heap_ok h' \<and> h_next h \<le> h_next h' \<and>
     (\<forall>a. a < h_next h \<longrightarrow> a \<noteq> b \<longrightarrow> h_cells h' a = h_cells h a)"

lemma extends_writes_only: "extends h h1 \<Longrightarrow> writes_only b h1 h2 \<Longrightarrow> writes_only b h h2"
  unfolding extends_def writes_only_def by (metis le_trans order_less_le_trans)

lemma writes_only_trans: "writes_only b h h1 \<Longrightarrow> writes_only b h1 h2 \<Longrightarrow> writes_only b h h2"
  unfolding writes_only_def by (metis le_trans order_less_le_trans)

lemma holds_writes_only:
  assumes "holds (h_cells h) x" and "writes_only b h h'" and "addrs x \<subseteq> {..<h_next h} - {b}"
  shows "holds (h_cells h') x"
proof (rule holds_frame [OF assms(1)])
  fix a
  assume "a \<in> addrs x"
  with assms(3) have "a < h_next h" "a \<noteq> b" by auto
  with assms(2) show "h_cells h' a = h_cells h a" by (simp add: writes_only_def)
qed

lemma copy_loop_run:
  assumes "copies f Q"
  shows "heap_ok h \<Longrightarrow> b < h_next h \<Longrightarrow> h_cells h b = Some (vs @ replicate (length ps) zero) \<Longrightarrow>
    list_all (\<lambda>p. holds (h_cells h) p \<and> Q p \<and> addrs p \<subseteq> {..<h_next h} - {b}) ps \<Longrightarrow>
    \<exists>ys h'. run_state (copy_loop f b (length vs) (map val_of ps)) h = ((), h') \<and> writes_only b h h' \<and>
      h_cells h' b = Some (vs @ map val_of ys) \<and> list_all (holds (h_cells h')) ys \<and> map content ys = map content ps \<and>
      \<Union> (set (map addrs ys)) \<subseteq> {h_next h ..< h_next h'}"
proof (induction ps arbitrary: h vs)
  case Nil
  then show ?case by (intro exI [of _ "[]"] exI [of _ h]) (simp add: writes_only_def)
next
  case (Cons p ps)
  from Cons.prems(4) have p: "holds (h_cells h) p" "Q p" by simp_all
  obtain y h1 where 1: "run_state (f (val_of p)) h = (val_of y, h1)" "extends h h1" "holds (h_cells h1) y"
    "content y = content p" "addrs y \<subseteq> {h_next h ..< h_next h1}" by (rule copiesE [OF assms Cons.prems(1) p])
  have ok1: "heap_ok h1" and cell: "h_cells h1 b = Some (vs @ replicate (length (p # ps)) zero)"
    using 1(2) Cons.prems(2,3) by (simp_all add: extends_def)
  obtain h2 where 2: "run_state (store_at b (length vs) (val_of y)) h1 = ((), h2)" "heap_ok h2" "h_next h2 = h_next h1"
    "h_cells h2 b = Some ((vs @ replicate (length (p # ps)) zero)[length vs := val_of y])"
    "\<forall>a. a \<noteq> b \<longrightarrow> h_cells h2 a = h_cells h1 a" by (rule store_run [OF ok1 cell, of "length vs" "val_of y"])
  have w: "writes_only b h1 h2" using 2(2,3,5) by (simp add: writes_only_def)
  then have w2: "writes_only b h h2" by (rule extends_writes_only [OF 1(2)])
  have rest: "list_all (\<lambda>p. holds (h_cells h2) p \<and> Q p \<and> addrs p \<subseteq> {..<h_next h2} - {b}) ps"
  proof -
    have "holds (h_cells h2) q \<and> Q q \<and> addrs q \<subseteq> {..<h_next h2} - {b}" if "q \<in> set ps" for q
    proof -
      from that Cons.prems(4) have q: "holds (h_cells h) q" "Q q" "addrs q \<subseteq> {..<h_next h} - {b}" by (simp_all add: list_all_iff)
      moreover have "{..<h_next h} - {b} \<subseteq> {..<h_next h2} - {b}" using w2 by (auto simp: writes_only_def)
      ultimately show ?thesis using holds_writes_only [OF q(1) w2 q(3)] by (meson subset_trans)
    qed
    then show ?thesis by (simp add: list_all_iff)
  qed
  have "b < h_next h2" using Cons.prems(2) w2 by (simp add: writes_only_def)
  from Cons.IH [OF 2(2) this _ rest, of "vs @ [val_of y]"] 2(4) obtain ys h3 where
    3: "run_state (copy_loop f b (length (vs @ [val_of y])) (map val_of ps)) h2 = ((), h3)" "writes_only b h2 h3"
      "h_cells h3 b = Some ((vs @ [val_of y]) @ map val_of ys)" "list_all (holds (h_cells h3)) ys" "map content ys = map content ps"
      "\<Union> (set (map addrs ys)) \<subseteq> {h_next h2 ..< h_next h3}"
    by (auto simp: list_update_append)
  have "holds (h_cells h3) y"
  proof (rule holds_writes_only [OF 1(3)])
    show "writes_only b h1 h3" by (rule writes_only_trans [OF w 3(2)])
    show "addrs y \<subseteq> {..<h_next h1} - {b}" using 1(5) Cons.prems(2) by auto
  qed
  moreover have "\<Union> (set (map addrs (y # ys))) \<subseteq> {h_next h ..< h_next h3}"
    using 1(2,5) 2(3) 3(2,6) by (fastforce simp: extends_def writes_only_def)
  moreover have "run_state (copy_loop f b (length vs) (map val_of (p # ps))) h = ((), h3)"
    using 1(1) 2(1) 3(1) by simp
  ultimately show ?case
    using writes_only_trans [OF w2 3(2)] 3(3,4,5) 1(4)
    by (intro exI [of _ "y # ys"] exI [of _ h3]) simp
qed


lemma copies_slice:
  assumes "copies f (typed P t)"
  shows "copies (copy_slice f) (typed P (TSlice t))"
  unfolding copies_def
proof (intro allI impI)
  fix h x
  assume h: "heap_ok h" "holds (h_cells h) x" "typed P (TSlice t) x"
  show "\<exists>y h'. run_state (copy_slice f (val_of x)) h = (val_of y, h') \<and> extends h h' \<and> holds (h_cells h') y \<and>
      content y = content x \<and> addrs y \<subseteq> {h_next h ..< h_next h'}"
  proof (cases x)
    case (OSlice a off ps)
    with h(2) obtain ws where ws: "h_cells h a = Some ws" "take (length ps) (drop off ws) = map val_of ps"
      "list_all (holds (h_cells h)) ps" by (auto simp: list_all_iff split: option.splits)
    from h(3) OSlice have ty: "list_all (typed P t) ps" by simp
    obtain h1 where 1: "run_state (alloc (replicate (length ps) zero)) h = (h_next h, h1)" "extends h h1"
      "h_cells h1 (h_next h) = Some (replicate (length ps) zero)" "h_next h1 = Suc (h_next h)" by (rule alloc_run [OF h(1)])
    have ok1: "heap_ok h1" "h_next h < h_next h1" using 1(2,4) by (simp_all add: extends_def)
    have each: "holds (h_cells h1) p \<and> typed P t p \<and> addrs p \<subseteq> {..<h_next h1} - {h_next h}" if "p \<in> set ps" for p
    proof -
      from that ws(3) ty have p: "holds (h_cells h) p" "typed P t p" by (simp_all add: list_all_iff)
      moreover have "{..<h_next h} \<subseteq> {..<h_next h1} - {h_next h}" using 1(4) by auto
      ultimately show ?thesis using holds_extends [OF h(1) p(1) 1(2)] holds_below [OF h(1) p(1)] by blast
    qed
    then have "list_all (\<lambda>p. holds (h_cells h1) p \<and> typed P t p \<and> addrs p \<subseteq> {..<h_next h1} - {h_next h}) ps"
      by (simp add: list_all_iff)
    from copy_loop_run [OF assms ok1, of "[]" ps, OF _ this] 1(3) obtain ys h2 where
      2: "run_state (copy_loop f (h_next h) 0 (map val_of ps)) h1 = ((), h2)" "writes_only (h_next h) h1 h2"
        "h_cells h2 (h_next h) = Some (map val_of ys)" "list_all (holds (h_cells h2)) ys" "map content ys = map content ps"
        "\<Union> (set (map addrs ys)) \<subseteq> {h_next h1 ..< h_next h2}" by auto
    have len: "length ys = length ps" using arg_cong [OF 2(5), of length] by simp
    have "run_state (copy_slice f (val_of x)) h = (val_of (OSlice (h_next h) 0 ys), h2)"
      using 1(1) 2(1) by (simp add: OSlice copy_slice_def load_run [OF ws(1)] ws(2) len)
    moreover have "extends h h2" using 1(2,4) 2(2) by (auto simp: extends_def writes_only_def)
    moreover have "holds (h_cells h2) (OSlice (h_next h) 0 ys)" using 2(3,4) by (simp add: list_all_iff)
    moreover have "addrs (OSlice (h_next h) 0 ys) \<subseteq> {h_next h ..< h_next h2}"
      using 1(4) 2(2,6) by (fastforce simp: writes_only_def)
    ultimately show ?thesis
      using 2(5) by (intro exI [of _ "OSlice (h_next h) 0 ys"] exI [of _ h2]) (simp add: OSlice)
  qed (use h in \<open>auto simp: copy_slice_def extends_refl intro!: exI [of _ ONilSlice]\<close>)
qed

text \<open>
  The statements of a function, one after the other: a field with a statement becomes a copy, the
  others stay what \<open>*out = *in\<close> made them.
\<close>

definition field_copied :: "string set \<Rightarrow> heap \<Rightarrow> heap \<Rightarrow> string \<times> go_object \<Rightarrow> string \<times> go_object \<Rightarrow> bool" where
  "field_copied N h h' g g' \<longleftrightarrow> fst g' = fst g \<and> content (snd g') = content (snd g) \<and>
     (if fst g \<in> N then addrs (snd g') \<subseteq> {h_next h ..< h_next h'} else g' = g)"

lemma aget_fields: "aget (map (map_prod id val_of) gs) n = map_option val_of (aget gs n)"
  by (induction gs) auto

lemma field_missing: "aget gs n = None \<Longrightarrow> field n f (val_of (OStruct gs)) = State_Monad.return (val_of (OStruct gs))"
  by (simp add: field_def aget_fields)


abbreviation set_field :: "string \<Rightarrow> go_object \<Rightarrow> string \<times> go_object \<Rightarrow> string \<times> go_object" where
  "set_field n y g \<equiv> (fst g, if fst g = n then y else snd g)"

lemma field_present:
  assumes "aget gs n = Some p" and "run_state (f (val_of p)) h = (val_of y, h')"
  shows "run_state (field n f (val_of (OStruct gs))) h = (val_of (OStruct (map (set_field n y) gs)), h')"
  using assms by (auto simp: field_def aget_fields split_beta)

lemma field_step:
  assumes "copies f Q" and "heap_ok h" and "distinct (map fst gs)" and "list_all (\<lambda>g. holds (h_cells h) (snd g)) gs"
    and "\<And>g. g \<in> set gs \<Longrightarrow> fst g = n \<Longrightarrow> Q (snd g)"
  obtains gs' h' where "run_state (field n f (val_of (OStruct gs))) h = (val_of (OStruct gs'), h')" and "extends h h'"
    and "list_all (\<lambda>g. holds (h_cells h') (snd g)) gs'" and "list_all2 (field_copied {n} h h') gs gs'"
proof (cases "aget gs n")
  case None
  then have "\<forall>g \<in> set gs. fst g \<noteq> n" by (auto simp: map_of_eq_None_iff)
  then have "list_all2 (field_copied {n} h h) gs gs" by (auto simp: field_copied_def intro!: list.rel_refl_strong)
  moreover have "run_state (field n f (val_of (OStruct gs))) h = (val_of (OStruct gs), h)"
    by (subst field_missing [OF None]) simp
  ultimately show thesis using that extends_refl [OF assms(2)] assms(4) by metis
next
  case (Some p)
  then have "(n, p) \<in> set gs" by (rule map_of_SomeD)
  with assms(4,5) have p: "holds (h_cells h) p" "Q p" by (force simp: list_all_iff)+
  obtain y h' where 1: "run_state (f (val_of p)) h = (val_of y, h')" "extends h h'" "holds (h_cells h') y"
    "content y = content p" "addrs y \<subseteq> {h_next h ..< h_next h'}" by (rule copiesE [OF assms(1,2) p])
  have same: "snd g = p" if "g \<in> set gs" "fst g = n" for g
    using that Some assms(3) by (metis map_of_eq_Some_iff option.inject prod.collapse)
  show thesis
  proof (rule that [OF field_present [OF Some, of f h y h', OF 1(1)] 1(2)])
    show "list_all (\<lambda>g. holds (h_cells h') (snd g)) (map (set_field n y) gs)"
      using assms(4) 1(3) holds_extends [OF assms(2) _ 1(2)] by (auto simp: list_all_iff)
    show "list_all2 (field_copied {n} h h') gs (map (set_field n y) gs)"
      using same 1(4,5) by (auto simp: list_all2_conv_all_nth field_copied_def)
  qed
qed

lemma field_copied_trans:
  assumes "field_copied {n} h h1 g g1" and "field_copied N h1 h2 g1 g2" and "n \<notin> N" and "extends h h1" and "extends h1 h2"
  shows "field_copied (insert n N) h h2 g g2"
proof -
  have le: "h_next h \<le> h_next h1" "h_next h1 \<le> h_next h2" using assms(4,5) by (simp_all add: extends_def)
  show ?thesis
  proof (cases "fst g = n")
    case True
    then have "g2 = g1" "addrs (snd g1) \<subseteq> {h_next h ..< h_next h1}" using assms(1-3) by (auto simp: field_copied_def)
    moreover have "fst g1 = fst g" "content (snd g1) = content (snd g)" using assms(1) by (simp_all add: field_copied_def)
    ultimately show ?thesis using True le by (fastforce simp: field_copied_def)
  next
    case False
    then have "g1 = g" using assms(1) by (simp add: field_copied_def)
    with assms(2) False le show ?thesis by (fastforce simp: field_copied_def split: if_splits)
  qed
qed

lemma copy_fields_run:
  shows "heap_ok h \<Longrightarrow> distinct (map fst gs) \<Longrightarrow> distinct (map fst plan) \<Longrightarrow>
    list_all (\<lambda>g. holds (h_cells h) (snd g)) gs \<Longrightarrow>
    \<forall>e \<in> set plan. \<exists>Q. copies (snd e) Q \<and> (\<forall>g \<in> set gs. fst g = fst e \<longrightarrow> Q (snd g)) \<Longrightarrow>
    \<exists>gs' h'. run_state (copy_fields plan (val_of (OStruct gs))) h = (val_of (OStruct gs'), h') \<and> extends h h' \<and>
      list_all (\<lambda>g. holds (h_cells h') (snd g)) gs' \<and> list_all2 (field_copied (fst ` set plan) h h') gs gs'"
proof (induction plan arbitrary: h gs)
  case Nil
  then show ?case
    by (intro exI [of _ gs] exI [of _ h]) (auto simp: extends_refl field_copied_def intro!: list.rel_refl_strong)
next
  case (Cons e plan)
  obtain n f where e: "e = (n, f)" by (cases e)
  from Cons.prems(5) obtain Q where Q: "copies f Q" "\<And>g. g \<in> set gs \<Longrightarrow> fst g = n \<Longrightarrow> Q (snd g)" by (auto simp: e)
  obtain gs1 h1 where 1: "run_state (field n f (val_of (OStruct gs))) h = (val_of (OStruct gs1), h1)" "extends h h1"
    "list_all (\<lambda>g. holds (h_cells h1) (snd g)) gs1" "list_all2 (field_copied {n} h h1) gs gs1"
    by (rule field_step [OF Q(1) Cons.prems(1,2,4) Q(2)])
  have ok1: "heap_ok h1" using 1(2) by (simp add: extends_def)
  have names: "map fst gs1 = map fst gs"
    using 1(4) by (auto simp: list_all2_conv_all_nth field_copied_def intro!: nth_equalityI)
  have n: "n \<notin> fst ` set plan" using Cons.prems(3) by (simp add: e)
  have others: "g \<in> set gs" if "g \<in> set gs1" "fst g \<noteq> n" for g
  proof -
    from that(1) 1(4) obtain g0 where "g0 \<in> set gs" "field_copied {n} h h1 g0 g"
      unfolding in_set_conv_nth list_all2_conv_all_nth by metis
    with that(2) show ?thesis by (auto simp: field_copied_def split: if_splits)
  qed
  have plan: "\<forall>e \<in> set plan. \<exists>Q. copies (snd e) Q \<and> (\<forall>g \<in> set gs1. fst g = fst e \<longrightarrow> Q (snd g))"
  proof
    fix e'
    assume e': "e' \<in> set plan"
    with Cons.prems(5) obtain Q' where "copies (snd e') Q'" "\<forall>g \<in> set gs. fst g = fst e' \<longrightarrow> Q' (snd g)" by force
    with others n e' show "\<exists>Q. copies (snd e') Q \<and> (\<forall>g \<in> set gs1. fst g = fst e' \<longrightarrow> Q (snd g))"
      by (metis image_eqI)
  qed
  have "distinct (map fst gs1)" "distinct (map fst plan)" using Cons.prems(2,3) names by simp_all
  from Cons.IH [OF ok1 this 1(3) plan] obtain gs2 h2 where
    2: "run_state (copy_fields plan (val_of (OStruct gs1))) h1 = (val_of (OStruct gs2), h2)" "extends h1 h2"
      "list_all (\<lambda>g. holds (h_cells h2) (snd g)) gs2" "list_all2 (field_copied (fst ` set plan) h1 h2) gs1 gs2"
    by blast
  have "list_all2 (field_copied (insert n (fst ` set plan)) h h2) gs gs2"
    using 1(4) 2(4) by (rule list_all2_trans [rotated]) (rule field_copied_trans [OF _ _ n 1(2) 2(2)])
  with 1(1) 2(1,3) extends_trans [OF 1(2) 2(2)] show ?case
    by (intro exI [of _ gs2] exI [of _ h2]) (simp add: e)
qed


lemma copies_fields:
  assumes "distinct (map fst ts)" and "distinct (map fst plan)"
    and plan: "list_all (\<lambda>(n, f). case aget ts n of None \<Rightarrow> False | Some t \<Rightarrow> copies f (typed P t)) plan"
    and rest: "list_all (\<lambda>(n, t). n \<in> fst ` set plan \<or> flat t) ts"
  shows "copies (copy_fields plan) (typed P (TStruct ts))"
  unfolding copies_def
proof (intro allI impI)
  fix h x
  assume h: "heap_ok h" "holds (h_cells h) x" "typed P (TStruct ts) x"
  from h(3) obtain gs where gs: "x = OStruct gs" "list_all2 (\<lambda>e g. fst e = fst g \<and> typed P (snd e) (snd g)) ts gs"
    unfolding typed_struct by blast
  have names: "map fst gs = map fst ts"
    using gs(2) by (auto simp: list_all2_conv_all_nth intro!: nth_equalityI)
  have field: "\<exists>t. (fst g, t) \<in> set ts \<and> typed P t (snd g)" if "g \<in> set gs" for g
    using that gs(2) unfolding in_set_conv_nth list_all2_conv_all_nth by (metis prod.collapse)
  have "\<forall>e \<in> set plan. \<exists>Q. copies (snd e) Q \<and> (\<forall>g \<in> set gs. fst g = fst e \<longrightarrow> Q (snd g))"
  proof
    fix e
    assume "e \<in> set plan"
    with plan obtain t where t: "aget ts (fst e) = Some t" "copies (snd e) (typed P t)"
      by (auto simp: list_all_iff split: option.splits)
    have "typed P t (snd g)" if "g \<in> set gs" "fst g = fst e" for g
      using field [OF that(1)] that(2) t(1) map_of_is_SomeI [OF assms(1)] by force
    with t(2) show "\<exists>Q. copies (snd e) Q \<and> (\<forall>g \<in> set gs. fst g = fst e \<longrightarrow> Q (snd g))" by blast
  qed
  from copy_fields_run [OF h(1) _ assms(2) _ this] assms(1) names h(2) obtain gs' h' where
    1: "run_state (copy_fields plan (val_of x)) h = (val_of (OStruct gs'), h')" "extends h h'"
      "list_all (\<lambda>g. holds (h_cells h') (snd g)) gs'" "list_all2 (field_copied (fst ` set plan) h h') gs gs'"
    by (auto simp: gs(1) list_all_iff)
  have "addrs (snd g') \<subseteq> {h_next h ..< h_next h'}" if "g' \<in> set gs'" for g'
  proof -
    from that 1(4) obtain g where g: "g \<in> set gs" "field_copied (fst ` set plan) h h' g g'"
      unfolding in_set_conv_nth list_all2_conv_all_nth by metis
    from field [OF g(1)] obtain t where t: "(fst g, t) \<in> set ts" "typed P t (snd g)" by blast
    with rest have "fst g \<in> fst ` set plan \<or> flat t" by (auto simp: list_all_iff)
    then have "fst g \<in> fst ` set plan \<or> addrs (snd g) = {}" using flat_addrs t(2) by blast
    with g(2) show ?thesis by (cases "fst g \<in> fst ` set plan") (simp_all add: field_copied_def)
  qed
  moreover have "map (map_prod id content) gs' = map (map_prod id content) gs"
    using 1(4) by (auto simp: list_all2_conv_all_nth field_copied_def intro!: nth_equalityI prod_eqI)
  ultimately show "\<exists>y h'. run_state (copy_fields plan (val_of x)) h = (val_of y, h') \<and> extends h h' \<and>
      holds (h_cells h') y \<and> content y = content x \<and> addrs y \<subseteq> {h_next h ..< h_next h'}"
    using 1(1-3) by (intro exI [of _ "OStruct gs'"] exI [of _ h']) (auto simp: gs(1) list_all_iff)
qed

section \<open>The generated copies are correct\<close>

text \<open>
  The contract of the copies of \<^verbatim>\<open>k8s.io/apimachinery\<close> and \<^verbatim>\<open>k8s.io/api\<close>: \<open>X n\<close> copies what the
  library type \<open>n\<close> consists of, the objects \<open>P n\<close>.
\<close>

definition library_copies :: "(string \<Rightarrow> go_object \<Rightarrow> bool) \<Rightarrow> library \<Rightarrow> bool" where
  "library_copies P X \<longleftrightarrow> (\<forall>n. copies (X n) (P n))"

named_theorems copying \<open>what copies the objects of a type\<close>

lemma copies_library [copying]: "library_copies P X \<Longrightarrow> copies (X n) (typed P (TLib n))"
proof -
  assume "library_copies P X"
  moreover have "typed P (TLib n) = P n" by (rule ext) simp
  ultimately show ?thesis by (simp add: library_copies_def)
qed

lemmas [copying] = copies_flat copies_ptr copies_ptr_value copies_slice

lemma copies_ComponentSpec [copying]: "library_copies P X \<Longrightarrow> copies (ComponentSpec_DeepCopyInto X) (typed P ComponentSpec_type)"
  unfolding ComponentSpec_DeepCopyInto_def ComponentSpec_type_def by (rule copies_fields) (simp_all add: copying)

lemma copies_SecretRef [copying]: "copies SecretRef_DeepCopyInto (typed P SecretRef_type)"
  unfolding SecretRef_DeepCopyInto_def SecretRef_type_def by (rule copies_fields) simp_all

lemma flat_SecretRef [simp]: "flat SecretRef_type"
  by (simp add: SecretRef_type_def)

lemma copies_ProjectRef [copying]: "copies ProjectRef_DeepCopyInto (typed P ProjectRef_type)"
  unfolding ProjectRef_DeepCopyInto_def ProjectRef_type_def by (rule copies_fields) simp_all

lemma flat_ProjectRef [simp]: "flat ProjectRef_type"
  by (simp add: ProjectRef_type_def)

lemma copies_PipelineSpec [copying]: "library_copies P X \<Longrightarrow> copies (PipelineSpec_DeepCopyInto X) (typed P PipelineSpec_type)"
  unfolding PipelineSpec_DeepCopyInto_def PipelineSpec_type_def by (rule copies_fields) (simp_all add: copying)

lemma copies_PipelineStatus [copying]: "library_copies P X \<Longrightarrow> copies (PipelineStatus_DeepCopyInto X) (typed P PipelineStatus_type)"
  unfolding PipelineStatus_DeepCopyInto_def PipelineStatus_type_def by (rule copies_fields) (simp_all add: copying)

lemma copies_Pipeline [copying]: "library_copies P X \<Longrightarrow> copies (Pipeline_DeepCopyInto X) (typed P Pipeline_type)"
  unfolding Pipeline_DeepCopyInto_def Pipeline_type_def by (rule copies_fields) (simp_all add: copying)

lemma copies_PipelineList [copying]: "library_copies P X \<Longrightarrow> copies (PipelineList_DeepCopyInto X) (typed P PipelineList_type)"
  unfolding PipelineList_DeepCopyInto_def PipelineList_type_def by (rule copies_fields) (simp_all add: copying)

lemma copies_PipelineClusterSpec [copying]: "library_copies P X \<Longrightarrow> copies (PipelineClusterSpec_DeepCopyInto X) (typed P PipelineClusterSpec_type)"
  unfolding PipelineClusterSpec_DeepCopyInto_def PipelineClusterSpec_type_def by (rule copies_fields) (simp_all add: copying)

lemma copies_PipelineClusterStatus [copying]: "library_copies P X \<Longrightarrow> copies (PipelineClusterStatus_DeepCopyInto X) (typed P PipelineClusterStatus_type)"
  unfolding PipelineClusterStatus_DeepCopyInto_def PipelineClusterStatus_type_def by (rule copies_fields) (simp_all add: copying)

lemma copies_PipelineCluster [copying]: "library_copies P X \<Longrightarrow> copies (PipelineCluster_DeepCopyInto X) (typed P PipelineCluster_type)"
  unfolding PipelineCluster_DeepCopyInto_def PipelineCluster_type_def by (rule copies_fields) (simp_all add: copying)

lemma copies_PipelineClusterList [copying]: "library_copies P X \<Longrightarrow> copies (PipelineClusterList_DeepCopyInto X) (typed P PipelineClusterList_type)"
  unfolding PipelineClusterList_DeepCopyInto_def PipelineClusterList_type_def by (rule copies_fields) (simp_all add: copying)

lemma copies_ProjectNATSRetention [copying]: "library_copies P X \<Longrightarrow> copies (ProjectNATSRetention_DeepCopyInto X) (typed P ProjectNATSRetention_type)"
  unfolding ProjectNATSRetention_DeepCopyInto_def ProjectNATSRetention_type_def by (rule copies_fields) (simp_all add: copying)

lemma copies_ProjectNATSSpec [copying]: "library_copies P X \<Longrightarrow> copies (ProjectNATSSpec_DeepCopyInto X) (typed P ProjectNATSSpec_type)"
  unfolding ProjectNATSSpec_DeepCopyInto_def ProjectNATSSpec_type_def by (rule copies_fields) (simp_all add: copying)

lemma copies_ProjectClusterSpec [copying]: "library_copies P X \<Longrightarrow> copies (ProjectClusterSpec_DeepCopyInto X) (typed P ProjectClusterSpec_type)"
  unfolding ProjectClusterSpec_DeepCopyInto_def ProjectClusterSpec_type_def by (rule copies_fields) (simp_all add: copying)

lemma copies_ProjectRouteTarget [copying]: "copies ProjectRouteTarget_DeepCopyInto (typed P ProjectRouteTarget_type)"
  unfolding ProjectRouteTarget_DeepCopyInto_def ProjectRouteTarget_type_def by (rule copies_fields) simp_all

lemma flat_ProjectRouteTarget [simp]: "flat ProjectRouteTarget_type"
  by (simp add: ProjectRouteTarget_type_def)

lemma copies_ProjectRoute [copying]: "library_copies P X \<Longrightarrow> copies (ProjectRoute_DeepCopyInto X) (typed P ProjectRoute_type)"
  unfolding ProjectRoute_DeepCopyInto_def ProjectRoute_type_def by (rule copies_fields) (simp_all add: copying)

lemma copies_ProjectNATSKVCache [copying]: "library_copies P X \<Longrightarrow> copies (ProjectNATSKVCache_DeepCopyInto X) (typed P ProjectNATSKVCache_type)"
  unfolding ProjectNATSKVCache_DeepCopyInto_def ProjectNATSKVCache_type_def by (rule copies_fields) (simp_all add: copying)

lemma copies_ProjectCacheResource [copying]: "library_copies P X \<Longrightarrow> copies (ProjectCacheResource_DeepCopyInto X) (typed P ProjectCacheResource_type)"
  unfolding ProjectCacheResource_DeepCopyInto_def ProjectCacheResource_type_def by (rule copies_fields) (simp_all add: copying)

lemma copies_PipelineProjectSpec [copying]: "library_copies P X \<Longrightarrow> copies (PipelineProjectSpec_DeepCopyInto X) (typed P PipelineProjectSpec_type)"
  unfolding PipelineProjectSpec_DeepCopyInto_def PipelineProjectSpec_type_def by (rule copies_fields) (simp_all add: copying)

lemma copies_ProjectChildStatus [copying]: "copies ProjectChildStatus_DeepCopyInto (typed P ProjectChildStatus_type)"
  unfolding ProjectChildStatus_DeepCopyInto_def ProjectChildStatus_type_def by (rule copies_fields) simp_all

lemma flat_ProjectChildStatus [simp]: "flat ProjectChildStatus_type"
  by (simp add: ProjectChildStatus_type_def)

lemma copies_ProjectRouteStatus [copying]: "library_copies P X \<Longrightarrow> copies (ProjectRouteStatus_DeepCopyInto X) (typed P ProjectRouteStatus_type)"
  unfolding ProjectRouteStatus_DeepCopyInto_def ProjectRouteStatus_type_def by (rule copies_fields) (simp_all add: copying)

lemma copies_ProjectCacheResourceStatus [copying]: "library_copies P X \<Longrightarrow> copies (ProjectCacheResourceStatus_DeepCopyInto X) (typed P ProjectCacheResourceStatus_type)"
  unfolding ProjectCacheResourceStatus_DeepCopyInto_def ProjectCacheResourceStatus_type_def by (rule copies_fields) (simp_all add: copying)

lemma copies_PipelineProjectStatus [copying]: "library_copies P X \<Longrightarrow> copies (PipelineProjectStatus_DeepCopyInto X) (typed P PipelineProjectStatus_type)"
  unfolding PipelineProjectStatus_DeepCopyInto_def PipelineProjectStatus_type_def by (rule copies_fields) (simp_all add: copying)

lemma copies_PipelineProject [copying]: "library_copies P X \<Longrightarrow> copies (PipelineProject_DeepCopyInto X) (typed P PipelineProject_type)"
  unfolding PipelineProject_DeepCopyInto_def PipelineProject_type_def by (rule copies_fields) (simp_all add: copying)

lemma copies_PipelineProjectList [copying]: "library_copies P X \<Longrightarrow> copies (PipelineProjectList_DeepCopyInto X) (typed P PipelineProjectList_type)"
  unfolding PipelineProjectList_DeepCopyInto_def PipelineProjectList_type_def by (rule copies_fields) (simp_all add: copying)


section \<open>The registered objects\<close>

text \<open>
  \<^verbatim>\<open>groupversion_info.go\<close> and the \<open>init\<close> functions of the types: what the scheme builder of the
  group version registers.
\<close>

definition SchemeGroupVersion :: "string \<times> string" where
  "SchemeGroupVersion = (''rpc.operator.io'', ''v1alpha1'')"

definition GroupVersion :: "string \<times> string" where
  "GroupVersion = SchemeGroupVersion"

definition init_pipeline_types :: "string list \<Rightarrow> string list" where
  "init_pipeline_types b = b @ [''Pipeline'', ''PipelineList'']"

definition init_pipelinecluster_types :: "string list \<Rightarrow> string list" where
  "init_pipelinecluster_types b = b @ [''PipelineCluster'', ''PipelineClusterList'']"

definition init_pipelineproject_types :: "string list \<Rightarrow> string list" where
  "init_pipelineproject_types b = b @ [''PipelineProject'', ''PipelineProjectList'']"

definition SchemeBuilder :: "string list" where
  "SchemeBuilder = init_pipelineproject_types (init_pipelinecluster_types (init_pipeline_types []))"

definition AddToScheme :: "((string \<times> string) \<times> string) list \<Rightarrow> ((string \<times> string) \<times> string) list" where
  "AddToScheme s = s @ map (Pair SchemeGroupVersion) SchemeBuilder"

text \<open>The objects of the group with their type and the copy the API machinery asks of them.\<close>

definition api_objects :: "library \<Rightarrow> (string \<times> go_type \<times> (nat option \<Rightarrow> (heap, (string \<times> nat) option) state)) list" where
  "api_objects X =
     [(''Pipeline'', Pipeline_type, Pipeline_DeepCopyObject X),
      (''PipelineList'', PipelineList_type, PipelineList_DeepCopyObject X),
      (''PipelineCluster'', PipelineCluster_type, PipelineCluster_DeepCopyObject X),
      (''PipelineClusterList'', PipelineClusterList_type, PipelineClusterList_DeepCopyObject X),
      (''PipelineProject'', PipelineProject_type, PipelineProject_DeepCopyObject X),
      (''PipelineProjectList'', PipelineProjectList_type, PipelineProjectList_DeepCopyObject X)]"

lemma registered_objects:
  "SchemeBuilder = map fst (api_objects X) \<and> distinct SchemeBuilder"
  by (simp add: SchemeBuilder_def init_pipeline_types_def init_pipelinecluster_types_def
      init_pipelineproject_types_def api_objects_def)

text \<open>
  The scheme of the operator, \<open>init\<close> of \<^verbatim>\<open>cmd/main.go\<close>: the client library and the Prometheus
  operator register kinds of their own, as parameters.
\<close>

type_synonym scheme = "((string \<times> string) \<times> string) list"

definition operator_scheme :: "(scheme \<Rightarrow> scheme) \<Rightarrow> (scheme \<Rightarrow> scheme) \<Rightarrow> scheme" where
  "operator_scheme client_go monitoring = monitoring (AddToScheme (client_go []))"

lemma operator_scheme_knows:
  assumes "\<And>s. set s \<subseteq> set (monitoring s)" and "(kind, T, copy) \<in> set (api_objects X)"
  shows "(SchemeGroupVersion, kind) \<in> set (operator_scheme client_go monitoring)"
proof -
  have "fst (kind, T, copy) \<in> set (map fst (api_objects X))" unfolding set_map using assms(2) by (rule imageI)
  then have "kind \<in> set SchemeBuilder" using registered_objects [of X, THEN conjunct1] by (simp only: fst_conv)
  then have "(SchemeGroupVersion, kind) \<in> set (AddToScheme (client_go []))" by (simp add: AddToScheme_def)
  with assms(1) show ?thesis unfolding operator_scheme_def by (rule subsetD)
qed

lemma DeepCopy_of_run:
  assumes "copies f Q" and "heap_ok h" and "holds (h_cells h) (OPtr a x)" and "Q x"
  obtains b y h' where "run_state (DeepCopy_of f (Some a)) h = (Some b, h')" and "extends h h'"
    and "holds (h_cells h') (OPtr b y)" and "content y = content x" and "addrs (OPtr b y) \<subseteq> {h_next h ..< h_next h'}"
proof -
  from assms(3) have x: "h_cells h a = Some [val_of x]" "holds (h_cells h) x" by simp_all
  obtain y b h1 h2 h3 where r: "run_state (alloc [zero]) h = (b, h1)" "run_state (f (val_of x)) h1 = (val_of y, h2)"
    "run_state (store_at b 0 (val_of y)) h2 = ((), h3)" "extends h h1" "extends h h3"
    "holds (h_cells h3) (OPtr b y)" "content y = content x" "addrs (OPtr b y) \<subseteq> {h_next h ..< h_next h3}"
    by (rule fill_cell [OF assms(1,2) x(2) assms(4)])
  have "a < h_next h" using x(1) assms(2) by (auto simp: heap_ok_def dom_def)
  then have "h_cells h1 a = Some [val_of x]" using x(1) r(4) by (simp add: extends_def)
  from load_run [OF this] r(1-3) have "run_state (DeepCopy_of f (Some a)) h = (Some b, h3)"
    by (simp add: DeepCopy_of_def)
  then show thesis using r(5-8) by (intro that)
qed

lemma DeepCopyObject_ofI:
  "copies f (typed P T) \<Longrightarrow>
    \<exists>g. copies g (typed P T) \<and> DeepCopyObject_of kind (DeepCopy_of f) = DeepCopyObject_of kind (DeepCopy_of g)"
  by (rule exI [of _ f]) (rule conjI [OF _ refl])

lemma api_object_copies:
  assumes "library_copies P X"
  shows "list_all (\<lambda>(kind, T, copy). \<exists>f. copies f (typed P T) \<and> copy = DeepCopyObject_of kind (DeepCopy_of f)) (api_objects X)"
  unfolding api_objects_def DeepCopyObject_defs DeepCopy_defs list.pred_inject prod.case
  by (intro conjI list.pred_inject(1) DeepCopyObject_ofI copying assms)

lemma api_object_copy:
  assumes "library_copies P X" and "(kind, T, copy) \<in> set (api_objects X)"
  obtains f where "copies f (typed P T)" and "copy = DeepCopyObject_of kind (DeepCopy_of f)"
  using that bspec [OF api_object_copies [OF assms(1), unfolded list_all_iff] assms(2)] by auto

lemma DeepCopyObject_nil: "(kind, T, copy) \<in> set (api_objects X) \<Longrightarrow> run_state (copy None) h = (None, h)"
  unfolding api_objects_def
  by (auto simp: DeepCopyObject_defs DeepCopy_defs DeepCopyObject_of_def DeepCopy_of_def)

text \<open>
  C14: Whatever object of the group a client hands out, of the kinds registered with the scheme,
  its \<open>DeepCopyObject\<close> is an object of the same kind and the same content that lies in newly
  allocated memory: all memory that was there is as it was, whatever is then written to the copy
  the original is still there, and whatever is written to the original the copy is still there.
  The copies of the types of the Kubernetes libraries are assumed to do the same for those types.
\<close>

theorem deep_copies_are_independent:
  assumes "library_copies P X" and "(kind, T, copy) \<in> set (api_objects X)"
    and "heap_ok h" and "holds (h_cells h) (OPtr a x)" and "typed P T x"
  shows "\<exists>b y h'. run_state (copy (Some a)) h = (Some (kind, b), h') \<and> holds (h_cells h') (OPtr b y) \<and>
    content y = content x \<and> extends h h' \<and>
    (\<forall>c. (\<forall>i. i \<notin> addrs (OPtr b y) \<longrightarrow> c i = h_cells h' i) \<longrightarrow> holds c (OPtr a x)) \<and>
    (\<forall>c. (\<forall>i. i \<notin> addrs (OPtr a x) \<longrightarrow> c i = h_cells h' i) \<longrightarrow> holds c (OPtr b y))"
proof -
  obtain f where f: "copies f (typed P T)" "copy = DeepCopyObject_of kind (DeepCopy_of f)"
    by (rule api_object_copy [OF assms(1,2)])
  obtain b y h' where r: "run_state (DeepCopy_of f (Some a)) h = (Some b, h')" "extends h h'"
    "holds (h_cells h') (OPtr b y)" "content y = content x" "addrs (OPtr b y) \<subseteq> {h_next h ..< h_next h'}"
    by (rule DeepCopy_of_run [OF f(1) assms(3-5)])
  have old: "holds (h_cells h') (OPtr a x)" by (rule holds_extends [OF assms(3,4) r(2)])
  have apart: "addrs (OPtr a x) \<inter> addrs (OPtr b y) = {}"
    using holds_below [OF assms(3,4)] r(5) by fastforce
  have "holds c (OPtr a x)" if "\<forall>i. i \<notin> addrs (OPtr b y) \<longrightarrow> c i = h_cells h' i" for c
    by (rule holds_frame [OF old]) (use that apart in blast)
  moreover have "holds c (OPtr b y)" if "\<forall>i. i \<notin> addrs (OPtr a x) \<longrightarrow> c i = h_cells h' i" for c
    by (rule holds_frame [OF r(3)]) (use that apart in blast)
  moreover have "run_state (copy (Some a)) h = (Some (kind, b), h')"
    using r(1) by (simp add: f(2) DeepCopyObject_of_def)
  ultimately show ?thesis using r(2-4) by blast
qed


text \<open>
  The theorem at a pipeline with a configuration, a secret reference and a project, in five cells
  of memory. Every library type is one slice of bytes.
\<close>

definition bytes_type :: go_type where
  "bytes_type = TStruct [(''Raw'', TSlice TScalar)]"

definition bytes_copy :: library where
  "bytes_copy n = copy_fields [(''Raw'', copy_slice State_Monad.return)]"

lemma bytes_copies: "library_copies (\<lambda>n. typed (\<lambda>_ _. False) bytes_type) bytes_copy"
  unfolding library_copies_def bytes_copy_def bytes_type_def
  by (intro allI copies_fields) (simp_all add: copies_slice copies_flat)

definition pipeline_object :: go_object where
  "pipeline_object =
     (let component = \<lambda>a. OStruct [(''Type'', OScalar ''generate''), (''Label'', OScalar ''''),
            (''Config'', OStruct [(''Raw'', OSlice a 0 [OScalar ''{'', OScalar ''}''])])]
      in OStruct
        [(''TypeMeta'', OScalar ''Pipeline''), (''ObjectMeta'', OStruct [(''Raw'', ONilSlice)]),
         (''Spec'', OStruct
            [(''Input'', component 1), (''Processors'', OSlice 2 0 [component 1]), (''Output'', component 1),
             (''RawYAML'', OScalar ''''), (''Replicas'', OScalar ''1''), (''Image'', OScalar ''''),
             (''SecretRefs'', OSlice 3 0 [OStruct [(''EnvVar'', OScalar ''TOKEN''),
                (''SecretName'', OScalar ''s''), (''Key'', OScalar ''k'')]]),
             (''Stopped'', OScalar ''false''), (''ClusterRef'', OScalar ''''),
             (''ProjectRef'', OPtr 4 (OStruct [(''Name'', OScalar ''orders'')]))]),
         (''Status'', OStruct
            [(''Phase'', OScalar ''''), (''PodName'', OScalar ''''), (''AssignedCluster'', OScalar ''''),
             (''AssignedInstance'', OScalar ''''), (''StreamID'', OScalar ''''), (''StreamConfigHash'', OScalar ''''),
             (''ObservedGeneration'', OScalar ''0''), (''Conditions'', ONilSlice)])])"

definition pipeline_memory :: heap where
  "pipeline_memory =
     (let raw = [VScalar ''{'', VScalar ''}''];
          component = VStruct [(''Type'', VScalar ''generate''), (''Label'', VScalar ''''),
            (''Config'', VStruct [(''Raw'', VSlice (Some (1, 0, 2)))])]
      in \<lparr>h_cells = [0 \<mapsto> [val_of pipeline_object], 1 \<mapsto> raw, 2 \<mapsto> [component],
            3 \<mapsto> [VStruct [(''EnvVar'', VScalar ''TOKEN''), (''SecretName'', VScalar ''s''), (''Key'', VScalar ''k'')]],
            4 \<mapsto> [VStruct [(''Name'', VScalar ''orders'')]]],
          h_next = 5\<rparr>)"

lemma pipeline_memory_ok: "heap_ok pipeline_memory"
  by (auto simp: heap_ok_def pipeline_memory_def Let_def)

lemma pipeline_memory_holds: "holds (h_cells pipeline_memory) (OPtr 0 pipeline_object)"
  by (simp add: pipeline_memory_def pipeline_object_def Let_def)

lemma pipeline_object_typed: "typed (\<lambda>n. typed (\<lambda>_ _. False) bytes_type) Pipeline_type pipeline_object"
  by (simp add: type_defs bytes_type_def pipeline_object_def Let_def)

theorem deep_copies_are_independent_witness:
  "\<exists>b y h'. run_state (Pipeline_DeepCopyObject bytes_copy (Some 0)) pipeline_memory = (Some (''Pipeline'', b), h') \<and>
    holds (h_cells h') (OPtr b y) \<and> content y = content pipeline_object \<and> extends pipeline_memory h'"
proof -
  have "(''Pipeline'', Pipeline_type, Pipeline_DeepCopyObject bytes_copy) \<in> set (api_objects bytes_copy)"
    by (simp add: api_objects_def)
  from deep_copies_are_independent [OF bytes_copies this pipeline_memory_ok pipeline_memory_holds pipeline_object_typed]
  show ?thesis by blast
qed

end
