(* ===== verification/Rpc_Types.thy ===== *)
theory Rpc_Types
  imports Rpc_Prelude
begin

text \<open>
  The data of the operator: the custom resources of \<^verbatim>\<open>src/api/v1alpha1\<close> (Pipeline,
  PipelineCluster, PipelineProject with their specs and statuses), one record per Go struct and
  one datatype per enumerated string type; the Kubernetes objects the operator reads and
  builds, with exactly the fields it uses; and the record \<open>lib\<close> of the third-party functions
  the code calls, which every definition that needs one takes as an argument.

  A pointer field is an \<open>option\<close>, and so is a slice where the code can tell a nil slice
  from an empty one (\<open>reflect.DeepEqual\<close> does); a Go map is an association list; a zero time stamp is
  \<open>False\<close> where the code only asks \<open>IsZero\<close>; a \<open>resource.Quantity\<close> is its integer value
  and a duration its nanoseconds.
\<close>

section \<open>Dynamic values\<close>

text \<open>
  The Go type \<open>any\<close> as \<open>json.Unmarshal\<close> and \<open>yaml.Unmarshal\<close> fill it. A number is kept
  as its literal: no code of the repository computes with one. An object is a Go map.
\<close>

datatype any =
    ANull
  | ABool bool
  | ANum string
  | AStr string
  | AArr "any list"
  | AObj "(string \<times> any) list"

fun as_str :: "any option \<Rightarrow> string option" where
  "as_str (Some (AStr s)) = Some s"
| "as_str _ = None"

fun as_arr :: "any option \<Rightarrow> any list option" where
  "as_arr (Some (AArr xs)) = Some xs"
| "as_arr _ = None"

fun as_obj :: "any option \<Rightarrow> (string \<times> any) list option" where
  "as_obj (Some (AObj m)) = Some m"
| "as_obj _ = None"

section \<open>Object metadata and conditions\<close>

record ObjectMeta =
  om_Name :: string
  om_Namespace :: string
  om_Labels :: "(string \<times> string) list"
  om_Annotations :: "(string \<times> string) list"
  om_Finalizers :: "string list"
  om_OwnerReferences :: "string list"
  om_Deleting :: bool
  om_Created :: bool
  om_Generation :: int
  om_ManagedFields :: "string list"

datatype ConditionStatus = ConditionTrue | ConditionFalse | ConditionUnknown

record Condition =
  c_Type :: string
  c_Status :: ConditionStatus
  c_Reason :: string
  c_Message :: string
  c_LastTransitionTime :: int

definition mkCondition :: "string \<Rightarrow> ConditionStatus \<Rightarrow> string \<Rightarrow> string \<Rightarrow> Condition" where
  "mkCondition t s r m =
     \<lparr>c_Type = t, c_Status = s, c_Reason = r, c_Message = m, c_LastTransitionTime = 0\<rparr>"

section \<open>Pipeline\<close>

record ComponentSpec =
  cs_Type :: string
  cs_Label :: string
  cs_Config :: string

record SecretRef =
  sr_EnvVar :: string
  sr_SecretName :: string
  sr_Key :: string

record ProjectRef =
  pr_Name :: string

record PipelineSpec =
  ps_Input :: ComponentSpec
  ps_Processors :: "ComponentSpec list"
  ps_Output :: ComponentSpec
  ps_RawYAML :: string
  ps_Replicas :: int
  ps_Image :: string
  ps_SecretRefs :: "SecretRef list"
  ps_Stopped :: bool
  ps_ClusterRef :: string
  ps_ProjectRef :: "ProjectRef option"

datatype PipelinePhase = PhaseUnset | PhasePending | PhaseRunning | PhaseFailed | PhaseStopped

record PipelineStatus =
  pst_Phase :: PipelinePhase
  pst_PodName :: string
  pst_AssignedCluster :: string
  pst_AssignedInstance :: string
  pst_StreamID :: string
  pst_StreamConfigHash :: string
  pst_ObservedGeneration :: int
  pst_Conditions :: "Condition list"

record Pipeline =
  p_Meta :: ObjectMeta
  p_Spec :: PipelineSpec
  p_Status :: PipelineStatus

abbreviation p_Name :: "Pipeline \<Rightarrow> string" where
  "p_Name p \<equiv> om_Name (p_Meta p)"

abbreviation p_Namespace :: "Pipeline \<Rightarrow> string" where
  "p_Namespace p \<equiv> om_Namespace (p_Meta p)"

section \<open>PipelineCluster\<close>

type_synonym ResourceRequirements = "(string \<times> string) list \<times> (string \<times> string) list"

record PipelineClusterSpec =
  pcs_Replicas :: int
  pcs_Image :: string
  pcs_JSONLogging :: bool
  pcs_Resources :: ResourceRequirements

datatype PipelineClusterPhase =
  ClusterPhaseUnset | ClusterPhasePending | ClusterPhaseReady | ClusterPhaseDegraded

record PipelineClusterStatus =
  pct_Phase :: PipelineClusterPhase
  pct_ReadyReplicas :: int
  pct_ObservedGeneration :: int
  pct_Conditions :: "Condition list"

record PipelineCluster =
  pc_Meta :: ObjectMeta
  pc_Spec :: PipelineClusterSpec
  pc_Status :: PipelineClusterStatus

section \<open>PipelineProject\<close>

record ProjectClusterSpec =
  pjc_Instances :: "int option"
  pjc_Resources :: "ResourceRequirements option"

record ProjectNATSRetention =
  ret_MaxAge :: "int option"
  ret_MaxBytes :: "int option"
  ret_MaxMsgs :: "int option"

record ProjectNATSSpec =
  pjn_Replicas :: "int option"
  pjn_Storage :: "int option"
  pjn_Retention :: ProjectNATSRetention
  pjn_StorageReclaimPolicy :: string

record ProjectRouteTarget =
  rt_Pipeline :: string
  rt_When :: string

record ProjectRoute =
  r_Name :: string
  r_From :: string
  r_To :: "ProjectRouteTarget list"
  r_Retention :: "ProjectNATSRetention option"

record ProjectNATSKVCache =
  kv_TTL :: "int option"
  kv_History :: "int option"
  kv_MaxBytes :: "int option"

record ProjectCacheResource =
  cr_Name :: string
  cr_NatsKV :: "ProjectNATSKVCache option"
  cr_Config :: string

record PipelineProjectSpec =
  pjs_Description :: string
  pjs_Cluster :: "ProjectClusterSpec option"
  pjs_NATS :: "ProjectNATSSpec option"
  pjs_Routes :: "ProjectRoute list"
  pjs_CacheResources :: "ProjectCacheResource list"

datatype PipelineProjectPhase =
    ProjectPhaseUnset
  | ProjectPhaseProvisioning
  | ProjectPhaseReady
  | ProjectPhaseDegraded
  | ProjectPhaseDeleting

record ProjectChildStatus =
  ch_Name :: string
  ch_Ready :: int
  ch_Total :: int

record ProjectRouteStatus =
  rs_Name :: string
  rs_Subject :: string
  rs_Stream :: string
  rs_Phase :: string
  rs_Conditions :: "Condition list"

record ProjectCacheResourceStatus =
  crs_Name :: string
  crs_Bucket :: string
  crs_Phase :: string
  crs_Conditions :: "Condition list"

record PipelineProjectStatus =
  pjt_Phase :: PipelineProjectPhase
  pjt_Cluster :: ProjectChildStatus
  pjt_NATS :: ProjectChildStatus
  pjt_Routes :: "ProjectRouteStatus list option"
  pjt_CacheResources :: "ProjectCacheResourceStatus list option"
  pjt_ObservedGeneration :: int
  pjt_Conditions :: "Condition list"

record PipelineProject =
  pj_Meta :: ObjectMeta
  pj_Spec :: PipelineProjectSpec
  pj_Status :: PipelineProjectStatus

abbreviation pj_Name :: "PipelineProject \<Rightarrow> string" where
  "pj_Name p \<equiv> om_Name (pj_Meta p)"

abbreviation pj_Namespace :: "PipelineProject \<Rightarrow> string" where
  "pj_Namespace p \<equiv> om_Namespace (pj_Meta p)"

section \<open>Third-party functions\<close>

text \<open>
  The pure functions of packages outside the repository: the status-condition helpers of
  \<^verbatim>\<open>k8s.io/apimachinery/pkg/api/meta\<close>, the finalizer helpers of controller-runtime's
  \<^verbatim>\<open>controllerutil\<close>, \<^verbatim>\<open>sigs.k8s.io/yaml\<close>, the Bloblang parser, and the hash and JSON
  functions whose inner working no property depends on. An error is its message.
\<close>

record lib =
  FindStatusCondition :: "Condition list \<Rightarrow> string \<Rightarrow> Condition option"
  SetStatusCondition :: "Condition \<Rightarrow> Condition list \<Rightarrow> Condition list"
  RemoveStatusCondition :: "string \<Rightarrow> Condition list \<Rightarrow> Condition list"
  ContainsFinalizer :: "string list \<Rightarrow> string \<Rightarrow> bool"
  AddFinalizer :: "string list \<Rightarrow> string \<Rightarrow> string list \<times> bool"
  RemoveFinalizer :: "string list \<Rightarrow> string \<Rightarrow> string list"
  yaml_Unmarshal :: "string \<Rightarrow> string + any"
  yaml_Marshal :: "any \<Rightarrow> string + string"
  json_Unmarshal :: "string \<Rightarrow> string + any"
  json_Marshal_secretRefs :: "SecretRef list \<Rightarrow> string"
  bloblang_Parse :: "string \<Rightarrow> string option"
  sha256_hex :: "string \<Rightarrow> string"

text \<open>The documented behaviour of the condition helpers, as a named hypothesis.\<close>

definition same_condition :: "Condition \<Rightarrow> Condition \<Rightarrow> bool" where
  "same_condition a b \<longleftrightarrow> c_Type a = c_Type b \<and> c_Status a = c_Status b \<and>
     c_Reason a = c_Reason b \<and> c_Message a = c_Message b"

definition condition_laws :: "lib \<Rightarrow> bool" where
  "condition_laws L \<longleftrightarrow>
     (\<forall>c cs. \<exists>c'. FindStatusCondition L (SetStatusCondition L c cs) (c_Type c) = Some c' \<and>
        same_condition c' c) \<and>
     (\<forall>c cs t. t \<noteq> c_Type c \<longrightarrow>
        FindStatusCondition L (SetStatusCondition L c cs) t = FindStatusCondition L cs t) \<and>
     (\<forall>t cs. FindStatusCondition L (RemoveStatusCondition L t cs) t = None) \<and>
     (\<forall>t t' cs. t' \<noteq> t \<longrightarrow>
        FindStatusCondition L (RemoveStatusCondition L t cs) t' = FindStatusCondition L cs t')"

text \<open>
  A concrete library for evaluating the model: conditions and finalizers as plain lists; the
  YAML, JSON and hash functions are given by the arguments.
\<close>

fun find_condition :: "Condition list \<Rightarrow> string \<Rightarrow> Condition option" where
  "find_condition [] t = None"
| "find_condition (c # cs) t = (if c_Type c = t then Some c else find_condition cs t)"

fun set_condition :: "Condition \<Rightarrow> Condition list \<Rightarrow> Condition list" where
  "set_condition c [] = [c]"
| "set_condition c (d # ds) = (if c_Type d = c_Type c then c # ds else d # set_condition c ds)"

definition remove_condition :: "string \<Rightarrow> Condition list \<Rightarrow> Condition list" where
  "remove_condition t cs = filter (\<lambda>c. c_Type c \<noteq> t) cs"

definition list_lib ::
  "(string \<Rightarrow> string + any) \<Rightarrow> (any \<Rightarrow> string + string) \<Rightarrow> (string \<Rightarrow> string + any) \<Rightarrow>
   (string \<Rightarrow> string option) \<Rightarrow> (string \<Rightarrow> string) \<Rightarrow> lib" where
  "list_lib yu ym ju bp h =
     \<lparr>FindStatusCondition = find_condition,
      SetStatusCondition = set_condition,
      RemoveStatusCondition = remove_condition,
      ContainsFinalizer = (\<lambda>fs f. f \<in> set fs),
      AddFinalizer = (\<lambda>fs f. if f \<in> set fs then (fs, False) else (fs @ [f], True)),
      RemoveFinalizer = (\<lambda>fs f. filter (\<lambda>g. g \<noteq> f) fs),
      yaml_Unmarshal = yu,
      yaml_Marshal = ym,
      json_Unmarshal = ju,
      json_Marshal_secretRefs = (\<lambda>refs. concat (map (\<lambda>r. sr_EnvVar r @ sr_SecretName r @ sr_Key r) refs)),
      bloblang_Parse = bp,
      sha256_hex = h\<rparr>"

lemma find_set_condition:
  "find_condition (set_condition c cs) t = (if t = c_Type c then Some c else find_condition cs t)"
  by (induction cs) auto

lemma find_remove_condition:
  "find_condition (remove_condition t cs) t' = (if t' = t then None else find_condition cs t')"
  by (induction cs) (auto simp: remove_condition_def)

lemma condition_laws_list_lib: "condition_laws (list_lib yu ym ju bp h)"
  by (auto simp: condition_laws_def list_lib_def find_set_condition find_remove_condition
      same_condition_def)

section \<open>Sample objects\<close>

text \<open>Small objects on which the witnesses evaluate the model.\<close>

definition sample_lib :: lib where
  "sample_lib = list_lib (\<lambda>_. Inl ''syntax'') (\<lambda>_. Inl ''marshal'') (\<lambda>_. Inl ''syntax'') (\<lambda>_. None) (\<lambda>s. s)"

definition sample_meta :: "string \<Rightarrow> ObjectMeta" where
  "sample_meta n = \<lparr>om_Name = n, om_Namespace = ''ns'', om_Labels = [], om_Annotations = [],
     om_Finalizers = [], om_OwnerReferences = [], om_Deleting = False, om_Created = True,
     om_Generation = 1, om_ManagedFields = []\<rparr>"

definition sample_pipeline :: "string \<Rightarrow> string \<Rightarrow> string \<Rightarrow> Pipeline" where
  "sample_pipeline n cl inst =
     \<lparr>p_Meta = sample_meta n,
      p_Spec = \<lparr>ps_Input = \<lparr>cs_Type = '''', cs_Label = '''', cs_Config = ''''\<rparr>, ps_Processors = [],
        ps_Output = \<lparr>cs_Type = '''', cs_Label = '''', cs_Config = ''''\<rparr>, ps_RawYAML = '''',
        ps_Replicas = 1, ps_Image = '''', ps_SecretRefs = [], ps_Stopped = False,
        ps_ClusterRef = cl, ps_ProjectRef = None\<rparr>,
      p_Status = \<lparr>pst_Phase = PhaseUnset, pst_PodName = '''', pst_AssignedCluster = cl,
        pst_AssignedInstance = inst, pst_StreamID = '''', pst_StreamConfigHash = '''',
        pst_ObservedGeneration = 0, pst_Conditions = []\<rparr>\<rparr>"

definition sample_cluster :: "string \<Rightarrow> int \<Rightarrow> PipelineCluster" where
  "sample_cluster n r =
     \<lparr>pc_Meta = sample_meta n,
      pc_Spec = \<lparr>pcs_Replicas = r, pcs_Image = '''', pcs_JSONLogging = False, pcs_Resources = ([], [])\<rparr>,
      pc_Status = \<lparr>pct_Phase = ClusterPhaseReady, pct_ReadyReplicas = r,
        pct_ObservedGeneration = 1, pct_Conditions = []\<rparr>\<rparr>"

definition sample_project :: "string \<Rightarrow> ProjectRoute list \<Rightarrow> PipelineProject" where
  "sample_project n rs =
     \<lparr>pj_Meta = sample_meta n,
      pj_Spec = \<lparr>pjs_Description = '''', pjs_Cluster = None, pjs_NATS = None, pjs_Routes = rs,
        pjs_CacheResources = []\<rparr>,
      pj_Status = \<lparr>pjt_Phase = ProjectPhaseUnset,
        pjt_Cluster = \<lparr>ch_Name = '''', ch_Ready = 0, ch_Total = 0\<rparr>,
        pjt_NATS = \<lparr>ch_Name = '''', ch_Ready = 0, ch_Total = 0\<rparr>,
        pjt_Routes = None, pjt_CacheResources = None, pjt_ObservedGeneration = 0, pjt_Conditions = []\<rparr>\<rparr>"

end
