(* ===== verification/Rpc_Cycle.thy ===== *)
theory Rpc_Cycle
  imports Rpc_Types
begin

text \<open>
  Cycle detection in the route graph: \<open>findCycle\<close> of
  \<^verbatim>\<open>internal/projectroute/projectroute.go\<close>, a depth-first search with three colours and an
  explicit path. The closure variables \<open>color\<close> and \<open>path\<close> of the Go code are the state
  \<open>dfs_state\<close>; a nil slice is the empty list. The search is proved total, sound (what it
  returns is a closed walk along routes) and complete (nil is returned only for an acyclic
  graph).
\<close>

section \<open>The search\<close>

datatype color = White | Gray | Black

record dfs_state =
  dfs_color :: "string \<Rightarrow> color"
  dfs_path :: "string list"

type_synonym adjacency = "(string \<times> string list) list"

definition succs :: "adjacency \<Rightarrow> string \<Rightarrow> string list" where
  "succs adj n = (case aget adj n of None \<Rightarrow> [] | Some ms \<Rightarrow> ms)"

definition enter :: "string \<Rightarrow> dfs_state \<Rightarrow> dfs_state" where
  "enter n s = s\<lparr>dfs_color := (dfs_color s)(n := Gray), dfs_path := dfs_path s @ [n]\<rparr>"

definition leave :: "string \<Rightarrow> dfs_state \<Rightarrow> dfs_state" where
  "leave n s = s\<lparr>dfs_path := butlast (dfs_path s), dfs_color := (dfs_color s)(n := Black)\<rparr>"

text \<open>
  The loop over \<open>adj[n]\<close> inside \<open>dfs\<close>, with the body of the recursive call written out at
  the white case; \<open>dfs\<close> itself is the next definition.
\<close>

function visit :: "adjacency \<Rightarrow> string list \<Rightarrow> dfs_state \<Rightarrow> string list \<times> dfs_state" where
  "visit adj [] s = ([], s)"
| "visit adj (m # ms) s =
     (case dfs_color s m of
        Gray \<Rightarrow> if m \<in> set (dfs_path s) then (dropWhile (\<lambda>x. x \<noteq> m) (dfs_path s) @ [m], s)
                else visit adj ms s
      | White \<Rightarrow>
          let (c, s') = visit adj (succs adj m) (enter m s)
          in if c \<noteq> [] then (c, s') else visit adj ms (leave m s')
      | Black \<Rightarrow> visit adj ms s)"
  by pat_completeness auto

definition white_nodes :: "adjacency \<Rightarrow> dfs_state \<Rightarrow> string set" where
  "white_nodes adj s = {n \<in> dom (aget adj). dfs_color s n = White}"

lemma finite_white_nodes [simp]: "finite (white_nodes adj s)"
  unfolding white_nodes_def by (rule finite_subset [of _ "dom (aget adj)"]) (auto simp: finite_dom_map_of)

lemma white_enter: "white_nodes adj (enter m s) \<subseteq> white_nodes adj s"
  by (auto simp: white_nodes_def enter_def)

lemma white_leave: "white_nodes adj (leave m s) \<subseteq> white_nodes adj s"
  by (auto simp: white_nodes_def leave_def split: if_splits)

lemma visit_white_decreases:
  "visit_dom (adj, ms, s) \<Longrightarrow> white_nodes adj (snd (visit adj ms s)) \<subseteq> white_nodes adj s"
proof (induction rule: visit.pinduct)
  case (2 adj m ms s)
  show ?case
  proof (cases "dfs_color s m")
    case White
    let ?r = "visit adj (succs adj m) (enter m s)"
    have "white_nodes adj (snd ?r) \<subseteq> white_nodes adj s"
      using "2.IH"(1) [OF White] white_enter by (rule subset_trans)
    moreover from this have "white_nodes adj (leave m (snd ?r)) \<subseteq> white_nodes adj s"
      using white_leave by (meson subset_trans)
    ultimately show ?thesis
      using White "2.hyps" "2.IH"(2) [OF White, of ?r "fst ?r" "snd ?r"]
      by (auto simp: visit.psimps Let_def split: prod.splits) blast
  qed (use "2" in \<open>auto simp: visit.psimps\<close>)
qed (simp add: visit.psimps)

termination visit
proof (relation "measures [\<lambda>(adj, ms, s). card (white_nodes adj s), \<lambda>(adj, ms, s). length ms]")
  show "wf (measures [\<lambda>(adj, ms, s). card (white_nodes adj s), \<lambda>(adj, ms, s). length ms])"
    by (rule wf_measures)
next
  fix adj :: adjacency and m :: string and ms :: "string list" and s :: dfs_state
  assume w: "dfs_color s m = White"
  show "((adj, succs adj m, enter m s), adj, m # ms, s)
      \<in> measures [\<lambda>(adj, ms, s). card (white_nodes adj s), \<lambda>(adj, ms, s). length ms]"
  proof (cases "m \<in> dom (aget adj)")
    case True
    with w have "white_nodes adj (enter m s) \<subset> white_nodes adj s"
      by (auto simp: white_nodes_def enter_def)
    then show ?thesis by (simp add: psubset_card_mono)
  next
    case False
    then have "white_nodes adj (enter m s) = white_nodes adj s" and "succs adj m = []"
      by (auto simp: white_nodes_def enter_def succs_def split: option.splits)
    then show ?thesis by simp
  qed
next
  fix adj :: adjacency and m :: string and ms :: "string list" and s s' :: dfs_state and r c
  assume "visit_dom (adj, succs adj m, enter m s)"
    and r: "r = visit adj (succs adj m) (enter m s)" "(c, s') = r"
  then have "white_nodes adj s' \<subseteq> white_nodes adj (enter m s)"
    using visit_white_decreases by (metis snd_conv)
  then have "white_nodes adj (leave m s') \<subseteq> white_nodes adj s"
    using white_enter white_leave by (meson subset_trans)
  then have "card (white_nodes adj (leave m s')) \<le> card (white_nodes adj s)"
    by (simp add: card_mono)
  then show "((adj, ms, leave m s'), adj, m # ms, s)
      \<in> measures [\<lambda>(adj, ms, s). card (white_nodes adj s), \<lambda>(adj, ms, s). length ms]"
    by auto
qed auto

definition dfs :: "adjacency \<Rightarrow> string \<Rightarrow> dfs_state \<Rightarrow> string list \<times> dfs_state" where
  "dfs adj n s =
     (let (c, s') = visit adj (succs adj n) (enter n s)
      in if c \<noteq> [] then (c, s') else ([], leave n s'))"

text \<open>The loop of \<open>dfs\<close> as the source has it, with the recursive call by name.\<close>

lemma visit_Cons:
  "visit adj (m # ms) s =
     (case dfs_color s m of
        Gray \<Rightarrow> if m \<in> set (dfs_path s) then (dropWhile (\<lambda>x. x \<noteq> m) (dfs_path s) @ [m], s)
                else visit adj ms s
      | White \<Rightarrow> let (c, s') = dfs adj m s in if c \<noteq> [] then (c, s') else visit adj ms s'
      | Black \<Rightarrow> visit adj ms s)"
  by (auto simp: dfs_def Let_def split: color.splits prod.splits)

fun dfs_all :: "adjacency \<Rightarrow> string list \<Rightarrow> dfs_state \<Rightarrow> string list" where
  "dfs_all adj [] s = []"
| "dfs_all adj (n # ns) s =
     (if dfs_color s n = White
      then let (c, s') = dfs adj n s in if c \<noteq> [] then c else dfs_all adj ns s'
      else dfs_all adj ns s)"

section \<open>Building the graph\<close>

fun add_targets ::
  "string \<Rightarrow> ProjectRouteTarget list \<Rightarrow> adjacency \<times> string list \<Rightarrow> adjacency \<times> string list" where
  "add_targets f [] g = g"
| "add_targets f (t # ts) (adj, nodeSet) =
     add_targets f ts
       (aset f (succs adj f @ [rt_Pipeline t]) adj, List.insert (rt_Pipeline t) nodeSet)"

fun add_routes ::
  "ProjectRoute list \<Rightarrow> adjacency \<times> string list \<Rightarrow> adjacency \<times> string list" where
  "add_routes [] g = g"
| "add_routes (r # rs) (adj, nodeSet) =
     add_routes rs (add_targets (r_From r) (r_To r) (adj, List.insert (r_From r) nodeSet))"

definition findCycle :: "ProjectRoute list \<Rightarrow> string list" where
  "findCycle routes =
     (let (adj, nodeSet) = add_routes routes ([], []);
          nodes = sort nodeSet;
          adj = map (\<lambda>(k, ms). (k, sort ms)) adj
      in dfs_all adj nodes \<lparr>dfs_color = (\<lambda>_. White), dfs_path = []\<rparr>)"

section \<open>Correctness of the search\<close>

definition edges :: "adjacency \<Rightarrow> (string \<times> string) set" where
  "edges adj = {(u, v). v \<in> set (succs adj u)}"

definition closed_walk :: "('a \<times> 'a) set \<Rightarrow> 'a list \<Rightarrow> bool" where
  "closed_walk E c \<longleftrightarrow> 2 \<le> length c \<and> hd c = last c \<and> successively (\<lambda>x y. (x, y) \<in> E) c"

lemma successively_trancl:
  "successively (\<lambda>x y. (x, y) \<in> E) (x # xs) \<Longrightarrow> xs \<noteq> [] \<Longrightarrow> (x, last xs) \<in> E\<^sup>+"
proof (induction xs arbitrary: x)
  case (Cons y ys)
  then show ?case by (cases ys) (auto intro: trancl_into_trancl2)
qed simp

lemma closed_walk_cyclic: "closed_walk E c \<Longrightarrow> \<not> acyclic E"
proof -
  assume "closed_walk E c"
  then obtain x xs where c: "c = x # xs" and "xs \<noteq> []" "last xs = x"
    and "successively (\<lambda>x y. (x, y) \<in> E) (x # xs)"
    unfolding closed_walk_def by (cases c) (auto simp: Suc_le_eq split: if_splits)
  then have "(x, x) \<in> E\<^sup>+" using successively_trancl by metis
  then show ?thesis by (auto simp: acyclic_def)
qed

lemma acyclic_new_source:
  assumes "acyclic R" and "m \<notin> Range R" and "m \<notin> S"
  shows "acyclic (R \<union> {m} \<times> S)"
proof -
  let ?T = "R \<union> {m} \<times> S"
  have "(x, y) \<in> R\<^sup>+" if "(x, y) \<in> ?T\<^sup>+" and "x \<noteq> m" for x y
    using that
  proof (induction rule: trancl_induct)
    case (step y z)
    then have "y \<in> Range ?T" by (metis Range.intros tranclD2)
    with assms have "y \<noteq> m" by auto
    with step show ?case by auto
  qed auto
  moreover have "y \<noteq> m" if "(x, y) \<in> ?T\<^sup>+" for x y
    using assms that tranclD2 [OF that] by auto
  ultimately show ?thesis using assms(1) unfolding acyclic_def by blast
qed

definition dfs_inv :: "adjacency \<Rightarrow> dfs_state \<Rightarrow> bool" where
  "dfs_inv adj s \<longleftrightarrow>
     (\<forall>n. dfs_color s n = Gray \<longleftrightarrow> n \<in> set (dfs_path s)) \<and> distinct (dfs_path s) \<and>
     successively (\<lambda>x y. (x, y) \<in> edges adj) (dfs_path s) \<and>
     (\<forall>u v. dfs_color s u = Black \<longrightarrow> (u, v) \<in> edges adj \<longrightarrow> dfs_color s v = Black) \<and>
     acyclic {(u, v) \<in> edges adj. dfs_color s u = Black}"

lemma dfs_inv_enter:
  assumes inv: "dfs_inv adj s" and w: "dfs_color s m = White"
    and last: "dfs_path s \<noteq> [] \<Longrightarrow> (last (dfs_path s), m) \<in> edges adj"
  shows "dfs_inv adj (enter m s)"
proof -
  from inv w have "m \<notin> set (dfs_path s)" by (metis color.distinct(1) dfs_inv_def)
  moreover from w have "(if u = m then Gray else dfs_color s u) = Black \<longleftrightarrow> dfs_color s u = Black" for u
    by auto
  ultimately show ?thesis
    using inv last w by (auto simp: dfs_inv_def enter_def successively_append_iff)
qed

lemma dfs_inv_leave:
  assumes inv: "dfs_inv adj s" and dfs_path: "dfs_path s = p @ [m]"
    and succs: "\<forall>v\<in>set (succs adj m). dfs_color s v = Black"
  shows "dfs_inv adj (leave m s)"
proof -
  let ?B = "{(u, v) \<in> edges adj. dfs_color s u = Black}"
  have gray: "dfs_color s m = Gray" using inv dfs_path by (auto simp: dfs_inv_def)
  have "\<forall>u v. dfs_color s u = Black \<longrightarrow> (u, v) \<in> edges adj \<longrightarrow> dfs_color s v = Black"
    using inv by (simp add: dfs_inv_def)
  then have "(u, m) \<notin> edges adj" if "dfs_color s u = Black" for u
    using gray that by (metis color.distinct(5))
  then have "m \<notin> Range ?B" by auto
  moreover have "m \<notin> set (succs adj m)" using succs gray by auto
  ultimately have "acyclic (?B \<union> {m} \<times> set (succs adj m))"
    using inv by (intro acyclic_new_source) (auto simp: dfs_inv_def)
  moreover have "{(u, v) \<in> edges adj. dfs_color (leave m s) u = Black} = ?B \<union> {m} \<times> set (succs adj m)"
    by (auto simp: leave_def edges_def split: if_splits)
  moreover have "dfs_color (leave m s) n = Gray \<longleftrightarrow> n \<in> set p" for n
    using inv dfs_path by (auto simp: dfs_inv_def leave_def)
  ultimately show ?thesis
    using inv dfs_path succs by (auto simp: dfs_inv_def leave_def edges_def successively_append_iff)
qed

lemma suffix_closed_walk:
  assumes "dfs_inv adj s" and "m \<in> set (dfs_path s)" and "(last (dfs_path s), m) \<in> edges adj"
  shows "closed_walk (edges adj) (dropWhile (\<lambda>x. x \<noteq> m) (dfs_path s) @ [m])"
proof -
  let ?d = "dropWhile (\<lambda>x. x \<noteq> m) (dfs_path s)"
  have ne: "?d \<noteq> []" using assms(2) by auto
  then have hd: "hd ?d = m" using hd_dropWhile [of "\<lambda>x. x \<noteq> m" "dfs_path s"] by simp
  have "last (takeWhile (\<lambda>x. x \<noteq> m) (dfs_path s) @ ?d) = last ?d" using ne by (rule last_appendR)
  then have "last ?d = last (dfs_path s)" by simp
  moreover have "successively (\<lambda>x y. (x, y) \<in> edges adj) (takeWhile (\<lambda>x. x \<noteq> m) (dfs_path s) @ ?d)"
    using assms(1) by (simp add: dfs_inv_def)
  then have "successively (\<lambda>x y. (x, y) \<in> edges adj) ?d" by (simp only: successively_append_iff)
  moreover have "2 \<le> length (?d @ [m])" using ne by (cases ?d) auto
  ultimately show ?thesis
    using ne hd assms(3) by (simp add: closed_walk_def successively_append_iff)
qed

lemma visit_correct:
  assumes "visit adj ms s = (c, s')" and "dfs_inv adj s" and "dfs_path s \<noteq> []"
    and "set ms \<subseteq> set (succs adj (last (dfs_path s)))"
  shows "if c \<noteq> [] then closed_walk (edges adj) c
         else dfs_inv adj s' \<and> dfs_path s' = dfs_path s \<and> (\<forall>m\<in>set ms. dfs_color s' m = Black) \<and>
              (\<forall>n. dfs_color s n = Black \<longrightarrow> dfs_color s' n = Black)"
  using assms
proof (induction adj ms s arbitrary: c s' rule: visit.induct)
  case (2 adj m ms s)
  have edge: "(last (dfs_path s), m) \<in> edges adj" using "2.prems"(4) by (auto simp: edges_def)
  show ?case
  proof (cases "dfs_color s m")
    case Gray
    then have "m \<in> set (dfs_path s)" using "2.prems"(2) by (auto simp: dfs_inv_def)
    with Gray "2.prems"(1) suffix_closed_walk [OF "2.prems"(2) _ edge] show ?thesis by auto
  next
    case Black
    with "2.IH"(4) "2.prems" show ?thesis by (auto split: if_splits)
  next
    case White
    obtain d t where dt: "visit adj (succs adj m) (enter m s) = (d, t)" by fastforce
    have sub: "if d \<noteq> [] then closed_walk (edges adj) d
      else dfs_inv adj t \<and> dfs_path t = dfs_path (enter m s) \<and> (\<forall>m\<in>set (succs adj m). dfs_color t m = Black) \<and>
           (\<forall>n. dfs_color (enter m s) n = Black \<longrightarrow> dfs_color t n = Black)"
      using White "2.prems"(2) edge
      by (intro "2.IH"(1) dt dfs_inv_enter) (auto simp: enter_def)
    show ?thesis
    proof (cases "d = []")
      case False
      with sub dt White "2.prems"(1) show ?thesis by auto
    next
      case True
      with sub have t: "dfs_inv adj t" "dfs_path t = dfs_path s @ [m]"
        "\<forall>v\<in>set (succs adj m). dfs_color t v = Black" "\<forall>n. dfs_color s n = Black \<longrightarrow> dfs_color t n = Black"
        using White by (auto simp: enter_def split: if_splits)
      from True dt White "2.prems"(1) have "visit adj ms (leave m t) = (c, s')" by simp
      moreover have "dfs_path (leave m t) = dfs_path s" "dfs_color (leave m t) m = Black"
        "\<forall>n. dfs_color s n = Black \<longrightarrow> dfs_color (leave m t) n = Black"
        using t by (auto simp: leave_def)
      ultimately show ?thesis
        using "2.IH"(2) [OF White dt [symmetric] refl, of c s'] dfs_inv_leave [OF t(1-3)] True
          "2.prems"(3,4) by (auto split: if_splits)
    qed
  qed
qed auto

lemma dfs_correct:
  assumes "dfs adj n s = (c, s')" and "dfs_inv adj s" and "dfs_path s = []" and "dfs_color s n = White"
  shows "if c \<noteq> [] then closed_walk (edges adj) c
         else dfs_inv adj s' \<and> dfs_path s' = [] \<and> dfs_color s' n = Black \<and>
              (\<forall>m. dfs_color s m = Black \<longrightarrow> dfs_color s' m = Black)"
proof -
  obtain d t where dt: "visit adj (succs adj n) (enter n s) = (d, t)" by fastforce
  have "dfs_inv adj (enter n s)" using assms by (intro dfs_inv_enter) auto
  then have v: "if d \<noteq> [] then closed_walk (edges adj) d
      else dfs_inv adj t \<and> dfs_path t = dfs_path (enter n s) \<and> (\<forall>m\<in>set (succs adj n). dfs_color t m = Black) \<and>
           (\<forall>m. dfs_color (enter n s) m = Black \<longrightarrow> dfs_color t m = Black)"
    by (intro visit_correct dt) (auto simp: enter_def)
  show ?thesis
  proof (cases "d = []")
    case False
    with v dt assms(1) show ?thesis by (auto simp: dfs_def)
  next
    case True
    with v assms(3) have t: "dfs_inv adj t" "dfs_path t = [] @ [n]" "\<forall>m\<in>set (succs adj n). dfs_color t m = Black"
      by (auto simp: enter_def)
    with dfs_inv_leave [OF t] True v dt assms show ?thesis
      by (auto simp: dfs_def leave_def enter_def)
  qed
qed

lemma dfs_all_correct:
  assumes "dfs_inv adj s" and "dfs_path s = []"
  shows "if dfs_all adj ns s \<noteq> [] then closed_walk (edges adj) (dfs_all adj ns s)
         else \<exists>s'. dfs_inv adj s' \<and> dfs_path s' = [] \<and>
                (\<forall>n. n \<in> set ns \<or> dfs_color s n = Black \<longrightarrow> dfs_color s' n = Black)"
  using assms
proof (induction ns arbitrary: s)
  case Nil
  then show ?case by auto
next
  case (Cons n ns)
  show ?case
  proof (cases "dfs_color s n = White")
    case False
    then have "dfs_color s n = Black" using Cons.prems by (cases "dfs_color s n") (auto simp: dfs_inv_def)
    with Cons.IH [OF Cons.prems] False show ?thesis by (auto split: if_splits)
  next
    case True
    obtain c t where ct: "dfs adj n s = (c, t)" by fastforce
    from dfs_correct [OF ct Cons.prems True] True ct Cons.IH [of t] show ?thesis
      by (auto split: if_splits)
  qed
qed

section \<open>Correctness of the graph\<close>

definition route_edges :: "ProjectRoute list \<Rightarrow> (string \<times> string) set" where
  "route_edges routes = {(r_From r, rt_Pipeline t) | r t. r \<in> set routes \<and> t \<in> set (r_To r)}"

lemma succs_aset [simp]: "succs (aset f ms adj) n = (if n = f then ms else succs adj n)"
  by (simp add: succs_def)

lemma add_targets_spec:
  "edges (fst (add_targets f ts g)) = edges (fst g) \<union> {f} \<times> (rt_Pipeline ` set ts) \<and>
   set (snd (add_targets f ts g)) = set (snd g) \<union> rt_Pipeline ` set ts"
proof (induction f ts g rule: add_targets.induct)
  case (2 f t ts adj nodeSet)
  have "edges (aset f (succs adj f @ [rt_Pipeline t]) adj) = insert (f, rt_Pipeline t) (edges adj)"
    by (auto simp: edges_def split: if_splits)
  with 2 show ?case by auto
qed simp

lemma add_routes_spec:
  "edges (fst (add_routes rs g)) = edges (fst g) \<union> route_edges rs \<and>
   set (snd (add_routes rs g)) = set (snd g) \<union> r_From ` set rs \<union> Range (route_edges rs)"
proof (induction rs g rule: add_routes.induct)
  case (2 r rs adj nodeSet)
  have "route_edges (r # rs) = {r_From r} \<times> (rt_Pipeline ` set (r_To r)) \<union> route_edges rs"
    by (auto simp: route_edges_def)
  with 2 add_targets_spec [of "r_From r" "r_To r" "(adj, List.insert (r_From r) nodeSet)"]
  show ?case by auto
qed (simp add: route_edges_def)

lemma edges_sorted: "edges (map (\<lambda>(k, ms). (k, sort ms)) adj) = edges adj"
proof -
  have "aget (map (\<lambda>(k, ms). (k, sort ms)) adj) n = map_option sort (aget adj n)" for n
    by (induction adj) auto
  then show ?thesis by (auto simp: edges_def succs_def split: option.splits)
qed

lemma findCycle_spec:
  "if findCycle routes \<noteq> [] then closed_walk (route_edges routes) (findCycle routes)
   else acyclic (route_edges routes)"
proof -
  obtain adj nodeSet where g: "add_routes routes ([], []) = (adj, nodeSet)" by fastforce
  let ?adj = "map (\<lambda>(k, ms). (k, sort ms)) adj" and ?s = "\<lparr>dfs_color = (\<lambda>_. White), dfs_path = []\<rparr>"
  have E: "edges ?adj = route_edges routes" and N: "Domain (route_edges routes) \<subseteq> set nodeSet"
    using add_routes_spec [of routes "([], [])"] g
    by (auto simp: edges_sorted) (auto simp: edges_def succs_def route_edges_def)
  have inv: "dfs_inv ?adj ?s" by (auto simp: dfs_inv_def acyclic_def)
  have f: "findCycle routes = dfs_all ?adj (sort nodeSet) ?s" by (simp add: findCycle_def g)
  show ?thesis
  proof (cases "findCycle routes = []")
    case False
    with dfs_all_correct [OF inv, of "sort nodeSet"] show ?thesis by (simp add: f E)
  next
    case True
    then obtain s' where "dfs_inv ?adj s'" and black: "\<forall>n\<in>set nodeSet. dfs_color s' n = Black"
      using dfs_all_correct [OF inv, of "sort nodeSet"] by (auto simp: f)
    moreover have "{(u, v) \<in> edges ?adj. dfs_color s' u = Black} = route_edges routes"
      using black N by (auto simp: E)
    ultimately show ?thesis using True by (simp add: dfs_inv_def)
  qed
qed

section \<open>Properties\<close>

text \<open>
  C12: \<open>findCycle\<close> returns, for every route table; it returns nil exactly when the graph of the
  routes has no cycle, and otherwise the sequence it returns is a closed walk along the routes
  (its first and last pipeline agree and each step is a route), so the cycle an error message
  names is real.
\<close>

theorem findCycle_correct:
  "(findCycle routes = [] \<longleftrightarrow> acyclic (route_edges routes)) \<and>
   (findCycle routes = [] \<or> closed_walk (route_edges routes) (findCycle routes))"
  using findCycle_spec [of routes] closed_walk_cyclic by (metis (full_types))

end
