(* ===== verification/Rpc_Routes.thy ===== *)
theory Rpc_Routes
  imports Rpc_Cycle
begin

text \<open>
  The topology of a project, \<^verbatim>\<open>internal/projectroute/projectroute.go\<close>: the names the operator
  gives to NATS subjects, streams, buckets and consumers, the role of a pipeline in the route
  table, the input/output plan handed to the renderer, and the validation of the route table
  against the pipelines of the namespace. A Go map whose iteration order the code exposes (the
  pipelines of \<open>ValidateProject\<close>) is an association list in that order, and the result is
  proved not to depend on it.
\<close>

section \<open>Names\<close>

definition StreamName :: "string \<Rightarrow> string \<Rightarrow> string" where
  "StreamName project route = ''rpc-'' @ project @ ''-'' @ route"

definition CacheBucket :: "string \<Rightarrow> string \<Rightarrow> string" where
  "CacheBucket project name = ''rpc-'' @ project @ ''-'' @ name"

definition Subject :: "string \<Rightarrow> string \<Rightarrow> string" where
  "Subject project route = ''rpc.'' @ project @ ''.'' @ route"

definition DurableName :: "string \<Rightarrow> string \<Rightarrow> string \<Rightarrow> string" where
  "DurableName project route pipeline = project @ ''-'' @ route @ ''-'' @ pipeline"

definition NATSURL :: "string \<Rightarrow> string \<Rightarrow> string" where
  "NATSURL project namespace = ''nats://'' @ project @ ''-nats.'' @ namespace @ ''.svc:4222''"

section \<open>Roles\<close>

fun IsProducer :: "ProjectRoute list \<Rightarrow> string \<Rightarrow> bool" where
  "IsProducer [] pipeline = False"
| "IsProducer (r # rs) pipeline = (if r_From r = pipeline then True else IsProducer rs pipeline)"

fun targets_pipeline :: "ProjectRouteTarget list \<Rightarrow> string \<Rightarrow> bool" where
  "targets_pipeline [] pipeline = False"
| "targets_pipeline (t # ts) pipeline =
     (if rt_Pipeline t = pipeline then True else targets_pipeline ts pipeline)"

fun IsConsumer :: "ProjectRoute list \<Rightarrow> string \<Rightarrow> bool" where
  "IsConsumer [] pipeline = False"
| "IsConsumer (r # rs) pipeline =
     (if targets_pipeline (r_To r) pipeline then True else IsConsumer rs pipeline)"

datatype Role = RoleStandalone | RoleSource | RoleMiddle | RoleSink

definition RoleOf :: "ProjectRoute list \<Rightarrow> string \<Rightarrow> Role" where
  "RoleOf routes pipeline =
     (let p = IsProducer routes pipeline; c = IsConsumer routes pipeline in
      if p \<and> c then RoleMiddle else if p then RoleSource else if c then RoleSink
      else RoleStandalone)"

section \<open>The input/output plan\<close>

record IncomingTarget =
  in_Route :: string
  in_Subject :: string
  in_Durable :: string
  in_When :: string

record IOPlan =
  plan_NATSURL :: string
  plan_OutgoingSubjects :: "string list"
  plan_Incoming :: "IncomingTarget list"

fun plan_targets ::
  "string \<Rightarrow> string \<Rightarrow> string \<Rightarrow> ProjectRouteTarget list \<Rightarrow> IOPlan \<Rightarrow> IOPlan" where
  "plan_targets project pipeline route [] plan = plan"
| "plan_targets project pipeline route (t # ts) plan =
     plan_targets project pipeline route ts
       (if rt_Pipeline t = pipeline
        then plan\<lparr>plan_Incoming := plan_Incoming plan @
               [\<lparr>in_Route = route, in_Subject = Subject project route,
                 in_Durable = DurableName project route pipeline, in_When = rt_When t\<rparr>]\<rparr>
        else plan)"

fun plan_routes :: "string \<Rightarrow> string \<Rightarrow> ProjectRoute list \<Rightarrow> IOPlan \<Rightarrow> IOPlan" where
  "plan_routes project pipeline [] plan = plan"
| "plan_routes project pipeline (r # rs) plan =
     (let plan = (if r_From r = pipeline
                  then plan\<lparr>plan_OutgoingSubjects :=
                         plan_OutgoingSubjects plan @ [Subject project (r_Name r)]\<rparr>
                  else plan)
      in plan_routes project pipeline rs
           (plan_targets project pipeline (r_Name r) (r_To r) plan))"

definition PlanFor :: "PipelineProject \<Rightarrow> string \<Rightarrow> string \<Rightarrow> IOPlan" where
  "PlanFor project namespace pipeline =
     plan_routes (pj_Name project) pipeline (pjs_Routes (pj_Spec project))
       \<lparr>plan_NATSURL = NATSURL (pj_Name project) namespace,
        plan_OutgoingSubjects = [], plan_Incoming = []\<rparr>"

definition IsEmpty :: "IOPlan \<Rightarrow> bool" where
  "IsEmpty p \<longleftrightarrow> plan_OutgoingSubjects p = [] \<and> plan_Incoming p = []"

definition RouteStatuses :: "PipelineProject \<Rightarrow> ProjectRouteStatus list" where
  "RouteStatuses project =
     map (\<lambda>r. \<lparr>rs_Name = r_Name r, rs_Subject = Subject (pj_Name project) (r_Name r),
                rs_Stream = StreamName (pj_Name project) (r_Name r),
                rs_Phase = '''', rs_Conditions = []\<rparr>)
       (pjs_Routes (pj_Spec project))"

section \<open>Validation\<close>

record ProjectError =
  pe_Route :: string
  pe_Message :: string

record PipelineView =
  pv_Name :: string
  pv_ProjectName :: string
  pv_HasInput :: bool
  pv_HasOutput :: bool

text \<open>
  The verb \<open>%q\<close> (\<open>strconv.Quote\<close>) on text whose bytes above 127 form printable
  characters.
\<close>

definition hex_digit :: "nat \<Rightarrow> char" where
  "hex_digit d = (if d < 10 then char_of (48 + d) else char_of (87 + d))"

definition quote_char :: "char \<Rightarrow> string" where
  "quote_char c =
     (let n = of_char c :: nat in
      if n = 34 then [CHR 92, CHR 34]
      else if n = 92 then [CHR 92, CHR 92]
      else if n = 7 then CHR 92 # ''a''
      else if n = 8 then CHR 92 # ''b''
      else if n = 12 then CHR 92 # ''f''
      else if n = 10 then CHR 92 # ''n''
      else if n = 13 then CHR 92 # ''r''
      else if n = 9 then CHR 92 # ''t''
      else if n = 11 then CHR 92 # ''v''
      else if n < 32 \<or> n = 127 then CHR 92 # CHR ''x'' # [hex_digit (n div 16), hex_digit (n mod 16)]
      else [c])"

definition go_quote :: "string \<Rightarrow> string" where
  "go_quote s = CHR 34 # concat (map quote_char s) @ [CHR 34]"

text \<open>The separator \<open>" \<rightarrow> "\<close> of the cycle message, in UTF-8.\<close>

definition arrow_sep :: string where
  "arrow_sep = [CHR '' '', CHR 0xE2, CHR 0x86, CHR 0x92, CHR '' '']"

definition parsePredicate :: "lib \<Rightarrow> string \<Rightarrow> string option" where
  "parsePredicate L when =
     bloblang_Parse L (''root = if !('' @ when @ '') { deleted() } else { this }'')"

fun uniqueness_errs :: "string set \<Rightarrow> ProjectRoute list \<Rightarrow> ProjectError list" where
  "uniqueness_errs seen [] = []"
| "uniqueness_errs seen (r # rs) =
     (if r_Name r \<in> seen
      then [\<lparr>pe_Route = r_Name r, pe_Message = ''route name '' @ go_quote (r_Name r) @ '' is not unique''\<rparr>]
      else []) @ uniqueness_errs (insert (r_Name r) seen) rs"

definition inProject :: "string \<Rightarrow> (string \<times> PipelineView) list \<Rightarrow> string \<Rightarrow> bool" where
  "inProject project pipelines name =
     (case aget pipelines name of None \<Rightarrow> False | Some pv \<Rightarrow> pv_ProjectName pv = project)"

fun target_errs ::
  "lib \<Rightarrow> (string \<Rightarrow> bool) \<Rightarrow> string \<Rightarrow> nat \<Rightarrow> ProjectRouteTarget list \<Rightarrow> ProjectError list" where
  "target_errs L inp route j [] = []"
| "target_errs L inp route j (t # ts) =
     (if rt_Pipeline t = '''' \<or> \<not> inp (rt_Pipeline t)
      then [\<lparr>pe_Route = route,
             pe_Message = ''route '' @ [CHR 39] @ route @ [CHR 39] @ '' to['' @ utoa j @ '']='' @ [CHR 39] @
               rt_Pipeline t @ [CHR 39] @ '': pipeline not found in project''\<rparr>]
      else []) @
     (if rt_When t \<noteq> ''''
      then case parsePredicate L (rt_When t) of
             Some err \<Rightarrow> [\<lparr>pe_Route = route,
                            pe_Message = ''route '' @ [CHR 39] @ route @ [CHR 39] @ '' to['' @ utoa j @ ''].when: '' @ err\<rparr>]
           | None \<Rightarrow> []
      else []) @
     target_errs L inp route (Suc j) ts"

fun route_errs :: "lib \<Rightarrow> (string \<Rightarrow> bool) \<Rightarrow> ProjectRoute list \<Rightarrow> ProjectError list" where
  "route_errs L inp [] = []"
| "route_errs L inp (r # rs) =
     (if r_From r = '''' \<or> \<not> inp (r_From r)
      then [\<lparr>pe_Route = r_Name r,
             pe_Message = ''route '' @ [CHR 39] @ r_Name r @ [CHR 39] @ '' from='' @ [CHR 39] @ r_From r @ [CHR 39] @
               '': pipeline not found in project''\<rparr>]
      else []) @
     target_errs L inp (r_Name r) 0 (r_To r) @ route_errs L inp rs"

definition output_conflict :: ProjectError where
  "output_conflict = \<lparr>pe_Route = '''',
     pe_Message = ''output is managed by the project'' @ [CHR 39] @ ''s routes; remove it''\<rparr>"

definition input_conflict :: ProjectError where
  "input_conflict = \<lparr>pe_Route = '''',
     pe_Message = ''input is managed by the project'' @ [CHR 39] @ ''s routes; remove it''\<rparr>"

fun conflict_errs ::
  "string \<Rightarrow> ProjectRoute list \<Rightarrow> (string \<times> PipelineView) list \<Rightarrow> ProjectError list" where
  "conflict_errs project routes [] = []"
| "conflict_errs project routes ((name, pv) # ps) =
     (if pv_ProjectName pv \<noteq> project then conflict_errs project routes ps
      else (if IsProducer routes name \<and> pv_HasOutput pv then [output_conflict] else []) @
           (if IsConsumer routes name \<and> pv_HasInput pv then [input_conflict] else []) @
           conflict_errs project routes ps)"

definition cycle_errs :: "ProjectRoute list \<Rightarrow> ProjectError list" where
  "cycle_errs routes =
     (let cyc = findCycle routes in
      if cyc \<noteq> []
      then [\<lparr>pe_Route = '''', pe_Message = ''route graph contains a cycle: '' @ Join cyc arrow_sep\<rparr>]
      else [])"

definition has_config :: "ProjectCacheResource \<Rightarrow> bool" where
  "has_config cr \<longleftrightarrow> cr_Config cr \<noteq> '''' \<and> cr_Config cr \<noteq> ''null''"

fun cache_errs :: "ProjectCacheResource list \<Rightarrow> ProjectError list" where
  "cache_errs [] = []"
| "cache_errs (cr # crs) =
     (if (cr_NatsKV cr \<noteq> None) = has_config cr
      then [\<lparr>pe_Route = '''',
             pe_Message = ''cacheResources['' @ cr_Name cr @ '']: set exactly one of natsKV or config''\<rparr>]
      else []) @ cache_errs crs"

definition ValidateProject ::
  "lib \<Rightarrow> PipelineProject \<Rightarrow> (string \<times> PipelineView) list \<Rightarrow> ProjectError list" where
  "ValidateProject L project pipelines =
     (let routes = pjs_Routes (pj_Spec project);
          errs = uniqueness_errs {} routes @
                 route_errs L (inProject (pj_Name project) pipelines) routes @
                 conflict_errs (pj_Name project) routes pipelines @
                 cycle_errs routes @
                 cache_errs (pjs_CacheResources (pj_Spec project))
      in sort_key pe_Message errs)"

section \<open>Roles and plans, declaratively\<close>

lemma IsProducer_iff: "IsProducer routes p \<longleftrightarrow> (\<exists>r\<in>set routes. r_From r = p)"
  by (induction routes) auto

lemma targets_pipeline_iff: "targets_pipeline ts p \<longleftrightarrow> (\<exists>t\<in>set ts. rt_Pipeline t = p)"
  by (induction ts) auto

lemma IsConsumer_iff: "IsConsumer routes p \<longleftrightarrow> (\<exists>r\<in>set routes. \<exists>t\<in>set (r_To r). rt_Pipeline t = p)"
  by (induction routes) (auto simp: targets_pipeline_iff)

definition incoming_of :: "string \<Rightarrow> string \<Rightarrow> ProjectRoute \<Rightarrow> IncomingTarget list" where
  "incoming_of project pipeline r =
     map (\<lambda>t. \<lparr>in_Route = r_Name r, in_Subject = Subject project (r_Name r),
                in_Durable = DurableName project (r_Name r) pipeline, in_When = rt_When t\<rparr>)
       (filter (\<lambda>t. rt_Pipeline t = pipeline) (r_To r))"

lemma plan_targets_eq:
  "plan_targets project pipeline (r_Name r) (r_To r) plan =
     plan\<lparr>plan_Incoming := plan_Incoming plan @ incoming_of project pipeline r\<rparr>"
proof -
  have "plan_targets project pipeline route ts plan =
     plan\<lparr>plan_Incoming := plan_Incoming plan @
       map (\<lambda>t. \<lparr>in_Route = route, in_Subject = Subject project route,
                in_Durable = DurableName project route pipeline, in_When = rt_When t\<rparr>)
       (filter (\<lambda>t. rt_Pipeline t = pipeline) ts)\<rparr>" for route ts
    by (induction ts arbitrary: plan) auto
  then show ?thesis by (simp add: incoming_of_def)
qed

lemma plan_routes_eq:
  "plan_routes project pipeline rs plan =
     plan\<lparr>plan_OutgoingSubjects := plan_OutgoingSubjects plan @
            map (\<lambda>r. Subject project (r_Name r)) (filter (\<lambda>r. r_From r = pipeline) rs),
          plan_Incoming := plan_Incoming plan @ concat (map (incoming_of project pipeline) rs)\<rparr>"
  by (induction rs arbitrary: plan) (auto simp: plan_targets_eq Let_def)

lemma PlanFor_eq:
  "PlanFor project ns p =
     \<lparr>plan_NATSURL = NATSURL (pj_Name project) ns,
      plan_OutgoingSubjects = map (\<lambda>r. Subject (pj_Name project) (r_Name r))
        (filter (\<lambda>r. r_From r = p) (pjs_Routes (pj_Spec project))),
      plan_Incoming = concat (map (incoming_of (pj_Name project) p) (pjs_Routes (pj_Spec project)))\<rparr>"
  by (simp add: PlanFor_def plan_routes_eq)

lemma incoming_of_iff:
  "x \<in> set (incoming_of project p r) \<longleftrightarrow>
     (\<exists>t\<in>set (r_To r). rt_Pipeline t = p \<and> in_Route x = r_Name r \<and> in_When x = rt_When t \<and>
        in_Durable x = DurableName project (r_Name r) p \<and> in_Subject x = Subject project (r_Name r))"
  by (cases x) (auto simp: incoming_of_def image_iff)

lemma incoming_PlanFor_iff:
  "x \<in> set (plan_Incoming (PlanFor project ns p)) \<longleftrightarrow>
     (\<exists>r\<in>set (pjs_Routes (pj_Spec project)). \<exists>t\<in>set (r_To r).
        rt_Pipeline t = p \<and> in_Route x = r_Name r \<and> in_When x = rt_When t \<and>
        in_Durable x = DurableName (pj_Name project) (r_Name r) p \<and>
        in_Subject x = Subject (pj_Name project) (r_Name r) \<and>
        in_Subject x \<in> set (plan_OutgoingSubjects (PlanFor project ns (r_From r))))"
  by (auto simp: PlanFor_eq incoming_of_iff)

section \<open>Validation, declaratively\<close>

definition route_ok :: "lib \<Rightarrow> (string \<Rightarrow> bool) \<Rightarrow> ProjectRoute \<Rightarrow> bool" where
  "route_ok L inp r \<longleftrightarrow> r_From r \<noteq> '''' \<and> inp (r_From r) \<and>
     (\<forall>t\<in>set (r_To r). rt_Pipeline t \<noteq> '''' \<and> inp (rt_Pipeline t) \<and>
        (rt_When t \<noteq> '''' \<longrightarrow> parsePredicate L (rt_When t) = None))"

definition io_ok :: "string \<Rightarrow> ProjectRoute list \<Rightarrow> string \<times> PipelineView \<Rightarrow> bool" where
  "io_ok project routes e \<longleftrightarrow> (case e of (name, pv) \<Rightarrow> pv_ProjectName pv = project \<longrightarrow>
     \<not> ((\<exists>r\<in>set routes. r_From r = name) \<and> pv_HasOutput pv) \<and>
     \<not> ((\<exists>r\<in>set routes. \<exists>t\<in>set (r_To r). rt_Pipeline t = name) \<and> pv_HasInput pv))"

definition project_ok :: "lib \<Rightarrow> PipelineProject \<Rightarrow> (string \<times> PipelineView) list \<Rightarrow> bool" where
  "project_ok L project pipelines \<longleftrightarrow>
     (let routes = pjs_Routes (pj_Spec project) in
      distinct (map r_Name routes) \<and>
      (\<forall>r\<in>set routes. route_ok L (inProject (pj_Name project) pipelines) r) \<and>
      (\<forall>e\<in>set pipelines. io_ok (pj_Name project) routes e) \<and>
      acyclic (route_edges routes) \<and>
      (\<forall>cr\<in>set (pjs_CacheResources (pj_Spec project)). (cr_NatsKV cr \<noteq> None) \<noteq> has_config cr))"

lemma uniqueness_errs_Nil:
  "uniqueness_errs seen rs = [] \<longleftrightarrow> distinct (map r_Name rs) \<and> r_Name ` set rs \<inter> seen = {}"
  by (induction rs arbitrary: seen) auto

lemma target_errs_Nil:
  "target_errs L inp route j ts = [] \<longleftrightarrow>
     (\<forall>t\<in>set ts. rt_Pipeline t \<noteq> '''' \<and> inp (rt_Pipeline t) \<and>
        (rt_When t \<noteq> '''' \<longrightarrow> parsePredicate L (rt_When t) = None))"
  by (induction ts arbitrary: j) (auto split: option.splits)

lemma route_errs_Nil: "route_errs L inp rs = [] \<longleftrightarrow> (\<forall>r\<in>set rs. route_ok L inp r)"
  by (induction rs) (auto simp: route_ok_def target_errs_Nil)

lemma conflict_errs_Nil:
  "conflict_errs project routes ps = [] \<longleftrightarrow> (\<forall>e\<in>set ps. io_ok project routes e)"
proof (induction ps)
  case (Cons e ps)
  obtain name pv where "e = (name, pv)" by (cases e)
  with Cons show ?case by (auto simp: io_ok_def IsProducer_iff IsConsumer_iff)
qed simp

lemma cycle_errs_Nil: "cycle_errs routes = [] \<longleftrightarrow> acyclic (route_edges routes)"
  using findCycle_spec [of routes] closed_walk_cyclic by (auto simp: cycle_errs_def Let_def split: if_splits)

lemma cache_errs_Nil: "cache_errs crs = [] \<longleftrightarrow> (\<forall>cr\<in>set crs. (cr_NatsKV cr \<noteq> None) \<noteq> has_config cr)"
  by (induction crs) auto

text \<open>A stable sort only depends on the lists of equal keys.\<close>

lemma sort_key_cong_classes:
  assumes "mset xs = mset ys" and "\<And>k. filter (\<lambda>x. f x = k) xs = filter (\<lambda>x. f x = k) ys"
  shows "sort_key f xs = sort_key f ys"
proof (rule properties_for_sort_key)
  show "mset (sort_key f ys) = mset xs" using assms(1) by simp
  fix k
  show "filter (\<lambda>x. f k = f x) (sort_key f ys) = filter (\<lambda>x. f k = f x) xs"
    using assms(2) [of "f k"] by (simp add: sort_key_stable eq_commute [of "f k"])
qed simp

lemma sort_key_Nil [simp]: "sort_key f xs = [] \<longleftrightarrow> xs = []"
  by (metis length_0_conv length_sort)

lemma mset_conflict_errs:
  "mset ps = mset ps' \<Longrightarrow> mset (conflict_errs project routes ps) = mset (conflict_errs project routes ps')"
proof -
  let ?g = "\<lambda>(name, pv). if pv_ProjectName pv \<noteq> project then {#}
      else mset (if IsProducer routes name \<and> pv_HasOutput pv then [output_conflict] else []) +
           mset (if IsConsumer routes name \<and> pv_HasInput pv then [input_conflict] else [])"
  have "mset (conflict_errs project routes ps) = \<Sum>\<^sub># (image_mset ?g (mset ps))" for ps
  proof (induction ps)
    case (Cons e ps)
    then show ?case by (cases e) auto
  qed simp
  then show "mset ps = mset ps' \<Longrightarrow> ?thesis" by simp
qed

lemma conflict_errs_cases: "e \<in> set (conflict_errs project routes ps) \<Longrightarrow> e = output_conflict \<or> e = input_conflict"
proof (induction ps)
  case (Cons x ps)
  then show ?case by (cases x) (auto split: if_splits)
qed simp

lemma filter_conflict_errs:
  assumes "mset ps = mset ps'"
  shows "filter (\<lambda>x. pe_Message x = k) (conflict_errs project routes ps) =
         filter (\<lambda>x. pe_Message x = k) (conflict_errs project routes ps')" (is "?F ps = ?F ps'")
proof -
  have m: "mset (?F ps) = mset (?F ps')" using mset_conflict_errs [OF assms] by (simp add: mset_filter)
  have ne: "pe_Message output_conflict \<noteq> pe_Message input_conflict"
    by (simp add: output_conflict_def input_conflict_def)
  define z where "z = (if k = pe_Message output_conflict then output_conflict else input_conflict)"
  have z: "x = z" if "x \<in> set (?F qs)" for x qs
    using that ne conflict_errs_cases [of x project routes qs] by (auto simp: z_def)
  then have "?F ps = replicate (length (?F ps)) z" "?F ps' = replicate (length (?F ps')) z"
    by (metis replicate_eqI)+
  moreover have "length (?F ps) = length (?F ps')" using m by (metis size_mset)
  ultimately show ?thesis by metis
qed

lemma ValidateProject_perm:
  assumes "mset ps = mset ps'" and "distinct (map fst ps)"
  shows "ValidateProject L project ps = ValidateProject L project ps'"
proof -
  have "distinct (map fst ps')" using assms by (metis mset_eq_imp_distinct_iff mset_map)
  then have "aget ps = aget ps'"
    using assms map_of_eqI mset_eq_setD by (metis map_of_inject_set)
  then have "inProject n ps = inProject n ps'" for n by (simp add: fun_eq_iff inProject_def)
  then show ?thesis
    unfolding ValidateProject_def Let_def
    by (intro sort_key_cong_classes)
      (simp_all add: mset_conflict_errs [OF assms(1)] filter_conflict_errs [OF assms(1)])
qed

lemma ValidateProject_Nil:
  "ValidateProject L project pipelines = [] \<longleftrightarrow> project_ok L project pipelines"
  by (simp add: ValidateProject_def project_ok_def Let_def uniqueness_errs_Nil route_errs_Nil
      conflict_errs_Nil cycle_errs_Nil cache_errs_Nil)

section \<open>Properties\<close>

text \<open>
  C1: Validation accepts a project exactly when it meets the declarative specification: route
  names are unique, every \<open>from\<close> and every target names a pipeline of the project, every
  predicate parses, no producer has an output of its own and no consumer an input, the route
  graph has no cycle, and each cache resource sets exactly one of its two variants.
\<close>

theorem ValidateProject_iff:
  "ValidateProject L project pipelines = [] \<longleftrightarrow> project_ok L project pipelines"
  by (rule ValidateProject_Nil)

text \<open>
  The list of validation errors, order included, does not depend on the order in which the
  map of pipelines is iterated, so the status message built from it is stable.
\<close>

lemma ValidateProject_deterministic:
  assumes "mset ps = mset ps'" and "distinct (map fst ps)"
  shows "ValidateProject L project ps = ValidateProject L project ps'"
  using assms by (rule ValidateProject_perm)

lemma ValidateProject_deterministic_witness:
  "ValidateProject sample_lib (sample_project ''p'' [])
     [(''a'', \<lparr>pv_Name = ''a'', pv_ProjectName = ''p'', pv_HasInput = True, pv_HasOutput = True\<rparr>),
      (''b'', \<lparr>pv_Name = ''b'', pv_ProjectName = ''p'', pv_HasInput = True, pv_HasOutput = False\<rparr>)] =
   ValidateProject sample_lib (sample_project ''p'' [])
     [(''b'', \<lparr>pv_Name = ''b'', pv_ProjectName = ''p'', pv_HasInput = True, pv_HasOutput = False\<rparr>),
      (''a'', \<lparr>pv_Name = ''a'', pv_ProjectName = ''p'', pv_HasInput = True, pv_HasOutput = True\<rparr>)]"
  by (rule ValidateProject_deterministic) simp_all

text \<open>
  The plan agrees with the roles: it has outgoing subjects exactly for a producer, incoming
  routes exactly for a consumer, and is empty exactly for a standalone pipeline; and it wires
  the two ends of every route: the producer publishes to the subject of the route, each target
  consumes that subject with its own predicate under the durable name of the pair, and
  conversely every subject a pipeline consumes is published by the producer of its route.
\<close>

lemma PlanFor_correct:
  "(plan_OutgoingSubjects (PlanFor project ns p) \<noteq> [] \<longleftrightarrow> IsProducer (pjs_Routes (pj_Spec project)) p) \<and>
   (plan_Incoming (PlanFor project ns p) \<noteq> [] \<longleftrightarrow> IsConsumer (pjs_Routes (pj_Spec project)) p) \<and>
   (IsEmpty (PlanFor project ns p) \<longleftrightarrow> RoleOf (pjs_Routes (pj_Spec project)) p = RoleStandalone) \<and>
   (x \<in> set (plan_Incoming (PlanFor project ns p)) \<longleftrightarrow>
     (\<exists>r\<in>set (pjs_Routes (pj_Spec project)). \<exists>t\<in>set (r_To r).
        rt_Pipeline t = p \<and> in_Route x = r_Name r \<and> in_When x = rt_When t \<and>
        in_Durable x = DurableName (pj_Name project) (r_Name r) p \<and>
        in_Subject x = Subject (pj_Name project) (r_Name r) \<and>
        in_Subject x \<in> set (plan_OutgoingSubjects (PlanFor project ns (r_From r)))))"
proof -
  have "filter (\<lambda>r. r_From r = p) routes \<noteq> [] \<longleftrightarrow> IsProducer routes p" for routes
    by (auto simp: IsProducer_iff filter_empty_conv)
  moreover have "concat (map (incoming_of project p) routes) \<noteq> [] \<longleftrightarrow> IsConsumer routes p"
    for project and routes :: "ProjectRoute list"
    by (auto simp: IsConsumer_iff incoming_of_def filter_empty_conv)
  ultimately show ?thesis
    unfolding incoming_PlanFor_iff
    by (auto simp: PlanFor_eq IsEmpty_def RoleOf_def Let_def)
qed

text \<open>
  Names do not collide: subjects of routes without dots agree only for the same project and
  route, the streams of one project differ for different routes, and on one stream each target
  pipeline has a durable consumer of its own.
\<close>

lemma route_names_injective:
  assumes "CHR ''.'' \<notin> set r" and "CHR ''.'' \<notin> set r'"
  shows "(Subject p r = Subject p' r' \<longleftrightarrow> p = p' \<and> r = r') \<and>
         (StreamName p s = StreamName p s' \<longleftrightarrow> s = s') \<and>
         (DurableName p s a = DurableName p s b \<longleftrightarrow> a = b)"
  using last_sep_unique [of p "CHR ''.''" r p' r'] assms
  by (auto simp: Subject_def StreamName_def DurableName_def)

lemma route_names_injective_witness:
  "Subject ''shop'' ''orders'' \<noteq> Subject ''shop.orders'' ''x''"
  using route_names_injective [of "''orders''" "''x''" "''shop''" "''shop.orders''"] by simp

end
