(* ===== verification/Rpc_Render.thy ===== *)
theory Rpc_Render
  imports Rpc_Routes
begin

text \<open>
  Rendering a pipeline to a Redpanda Connect configuration: \<^verbatim>\<open>internal/render\<close> (all three
  files) and the bridge from the route plan, \<open>toRenderPlan\<close> of
  \<^verbatim>\<open>internal/controller/pipeline_project_assign.go\<close>. The YAML and JSON codecs are the
  library's functions; what the properties need of them is the hypothesis \<open>yaml_law\<close>, that
  a marshalled mapping is read back as the same mapping.
\<close>

section \<open>Component blocks\<close>

definition looksLikeComponentSpec :: "(string \<times> any) list \<Rightarrow> bool" where
  "looksLikeComponentSpec m =
     (case as_str (aget m ''type'') of
        None \<Rightarrow> False
      | Some t \<Rightarrow> t \<noteq> '''' \<and>
          list_all (\<lambda>(k, _). k = ''type'' \<or> k = ''config'' \<or> k = ''label'') m)"

fun is_component :: "any \<Rightarrow> bool" where
  "is_component (AObj m) = looksLikeComponentSpec m"
| "is_component _ = False"

definition looksLikeComponentSpecArray :: "any list \<Rightarrow> bool" where
  "looksLikeComponentSpecArray val \<longleftrightarrow> val \<noteq> [] \<and> list_all is_component val"

text \<open>
  \<open>componentSpecToRPCMap\<close> is only reached under \<open>looksLikeComponentSpec\<close>, which makes
  its type assertions succeed; where they would panic the model returns the empty value.
\<close>

definition type_name :: "(string \<times> any) list \<Rightarrow> string" where
  "type_name m = (case as_str (aget m ''type'') of Some t \<Rightarrow> t | None \<Rightarrow> '''')"

definition config_of :: "(string \<times> any) list \<Rightarrow> any" where
  "config_of m = (case aget m ''config'' of None \<Rightarrow> AObj [] | Some ANull \<Rightarrow> AObj [] | Some c \<Rightarrow> c)"

fun obj_of :: "any \<Rightarrow> (string \<times> any) list" where
  "obj_of (AObj m) = m"
| "obj_of _ = []"

lemma size_aget: "aget m k = Some v \<Longrightarrow> size v < size (AObj m)"
proof (induction m)
  case (Cons e m)
  then show ?case by (cases e) (auto split: if_splits)
qed simp

lemma size_config_of: "looksLikeComponentSpec m \<Longrightarrow> size (config_of m) < size (AObj m)"
proof -
  assume "looksLikeComponentSpec m"
  then have "m \<noteq> []" by (auto simp: looksLikeComponentSpec_def)
  then have "1 < size (AObj m)" by (cases m) auto
  then show ?thesis
    by (auto simp: config_of_def dest: size_aget split: option.splits any.splits)
qed

lemma size_mem: "x \<in> set xs \<Longrightarrow> size x < size (AArr xs)"
  by (induction xs) auto

lemma size_mem_obj: "(k, v) \<in> set m \<Longrightarrow> size v < size (AObj m)"
  by (induction m) auto

function renderCompositeFields :: "any \<Rightarrow> any"
  and componentSpecToRPCMap :: "(string \<times> any) list \<Rightarrow> any" where
  "renderCompositeFields (AArr val) =
     (if looksLikeComponentSpecArray val then AArr (map (\<lambda>item. componentSpecToRPCMap (obj_of item)) val)
      else AArr (map renderCompositeFields val))"
| "renderCompositeFields (AObj m) =
     (if looksLikeComponentSpec m then componentSpecToRPCMap m
      else AObj (map (\<lambda>(k, fv). (k, renderCompositeFields fv)) m))"
| "renderCompositeFields ANull = ANull"
| "renderCompositeFields (ABool b) = ABool b"
| "renderCompositeFields (ANum n) = ANum n"
| "renderCompositeFields (AStr s) = AStr s"
| "componentSpecToRPCMap m =
     (if looksLikeComponentSpec m then AObj [(type_name m, renderCompositeFields (config_of m))]
      else AObj [])"
  by pat_completeness auto

termination
proof (relation "measure (\<lambda>x. case x of Inl v \<Rightarrow> 2 * size v | Inr m \<Rightarrow> 2 * size (AObj m) - 1)")
  fix val :: "any list" and x
  assume "looksLikeComponentSpecArray val" and x: "x \<in> set val"
  then have "is_component x" by (auto simp: looksLikeComponentSpecArray_def list_all_iff)
  then have "AObj (obj_of x) = x" by (cases x) auto
  with size_mem [OF x] show "(Inr (obj_of x), Inl (AArr val))
      \<in> measure (\<lambda>x. case x of Inl v \<Rightarrow> 2 * size v | Inr m \<Rightarrow> 2 * size (AObj m) - 1)"
    by (simp del: any.size)
next
  fix m :: "(string \<times> any) list"
  assume "looksLikeComponentSpec m"
  with size_config_of [OF this] show "(Inl (config_of m), Inr m)
      \<in> measure (\<lambda>x. case x of Inl v \<Rightarrow> 2 * size v | Inr m \<Rightarrow> 2 * size (AObj m) - 1)"
    by (simp del: any.size)
qed (auto simp del: any.size dest: size_mem size_mem_obj, simp)

definition componentSpecArrayToRPC :: "any list \<Rightarrow> any list" where
  "componentSpecArrayToRPC arr = map (\<lambda>item. componentSpecToRPCMap (obj_of item)) arr"

definition componentBlock :: "lib \<Rightarrow> ComponentSpec \<Rightarrow> string + any" where
  "componentBlock L c =
     (case (if cs_Config c \<noteq> '''' \<and> cs_Config c \<noteq> ''null'' then json_Unmarshal L (cs_Config c)
            else Inr (AObj [])) of
        Inl err \<Rightarrow> Inl (''config not valid JSON: '' @ err)
      | Inr cfg \<Rightarrow>
          (let result = [(cs_Type c, renderCompositeFields cfg)] in
           Inr (AObj (if cs_Label c \<noteq> '''' then aset ''label'' (AStr (cs_Label c)) result else result))))"

section \<open>The document\<close>

definition http_block :: any where
  "http_block = AObj [(''enabled'', ABool True), (''address'', AStr ''0.0.0.0:4195'')]"

definition injectHTTPConfig :: "lib \<Rightarrow> string \<Rightarrow> string + string" where
  "injectHTTPConfig L rawYAML =
     (case yaml_Unmarshal L rawYAML of
        Inl err \<Rightarrow> Inl (''invalid YAML: '' @ err)
      | Inr (AObj doc) \<Rightarrow>
          yaml_Marshal L (AObj (if aget doc ''http'' = None then aset ''http'' http_block doc else doc))
      | Inr _ \<Rightarrow> Inl ''YAML must be a mapping'')"

fun processor_blocks :: "lib \<Rightarrow> nat \<Rightarrow> ComponentSpec list \<Rightarrow> string + any list" where
  "processor_blocks L i [] = Inr []"
| "processor_blocks L i (c # cs) =
     (case componentBlock L c of
        Inl err \<Rightarrow> Inl (''processors['' @ utoa i @ '']: '' @ err)
      | Inr b \<Rightarrow> (case processor_blocks L (Suc i) cs of
                     Inl err \<Rightarrow> Inl err
                   | Inr bs \<Rightarrow> Inr (b # bs)))"

definition pipeline_doc :: "any \<Rightarrow> any list \<Rightarrow> any \<Rightarrow> any" where
  "pipeline_doc inputBlock procBlocks outputBlock =
     AObj [(''input'', inputBlock),
           (''pipeline'', AObj [(''processors'', AArr procBlocks)]),
           (''output'', outputBlock),
           (''http'', http_block)]"

definition RenderPipelineYAML :: "lib \<Rightarrow> PipelineSpec \<Rightarrow> string + string" where
  "RenderPipelineYAML L spec =
     (if ps_RawYAML spec \<noteq> '''' then injectHTTPConfig L (ps_RawYAML spec)
      else case componentBlock L (ps_Input spec) of
        Inl err \<Rightarrow> Inl (''input: '' @ err)
      | Inr inputBlock \<Rightarrow>
          (case componentBlock L (ps_Output spec) of
             Inl err \<Rightarrow> Inl (''output: '' @ err)
           | Inr outputBlock \<Rightarrow>
               (case processor_blocks L 0 (ps_Processors spec) of
                  Inl err \<Rightarrow> Inl err
                | Inr procBlocks \<Rightarrow> yaml_Marshal L (pipeline_doc inputBlock procBlocks outputBlock))))"

definition stripHTTPBlock :: "lib \<Rightarrow> string \<Rightarrow> string + string" where
  "stripHTTPBlock L yamlText =
     (case yaml_Unmarshal L yamlText of
        Inl err \<Rightarrow> Inl (''invalid YAML: '' @ err)
      | Inr (AObj doc) \<Rightarrow> yaml_Marshal L (AObj (adel ''http'' doc))
      | Inr _ \<Rightarrow> Inr yamlText)"

definition RenderStreamConfig :: "lib \<Rightarrow> PipelineSpec \<Rightarrow> string + string" where
  "RenderStreamConfig L spec =
     (case RenderPipelineYAML L spec of
        Inl err \<Rightarrow> Inl err
      | Inr out \<Rightarrow> stripHTTPBlock L out)"

definition RenderPipelineYAMLForDisplay :: "lib \<Rightarrow> PipelineSpec \<Rightarrow> string + string" where
  "RenderPipelineYAMLForDisplay L spec = RenderStreamConfig L spec"

definition BuildCacheResourceConfig ::
  "lib \<Rightarrow> ProjectCacheResource \<Rightarrow> string \<Rightarrow> string \<Rightarrow> string + string" where
  "BuildCacheResourceConfig L cr natsURL bucket =
     (if cr_NatsKV cr \<noteq> None
      then yaml_Marshal L (AObj [(''nats_kv'',
             AObj [(''urls'', AArr [AStr natsURL]), (''bucket'', AStr bucket)])])
      else if cr_Config cr = '''' \<or> cr_Config cr = ''null''
      then Inl (''cache resource '' @ go_quote (cr_Name cr) @ '': neither natsKV nor config set'')
      else case json_Unmarshal L (cr_Config cr) of
             Inl err \<Rightarrow> Inl (''cache resource '' @ go_quote (cr_Name cr) @ '': config not valid JSON: '' @ err)
           | Inr raw \<Rightarrow> yaml_Marshal L raw)"

section \<open>Rewriting inputs and outputs for a project\<close>

record IncomingRoute =
  ir_Subject :: string
  ir_Durable :: string
  ir_When :: string

record ProjectIOPlan =
  io_NATSURL :: string
  io_OutgoingSubjects :: "string list"
  io_Incoming :: "IncomingRoute list"

definition toRenderPlan :: "IOPlan \<Rightarrow> ProjectIOPlan" where
  "toRenderPlan p =
     \<lparr>io_NATSURL = plan_NATSURL p, io_OutgoingSubjects = plan_OutgoingSubjects p,
      io_Incoming = map (\<lambda>i. \<lparr>ir_Subject = in_Subject i, ir_Durable = in_Durable i,
                               ir_When = in_When i\<rparr>) (plan_Incoming p)\<rparr>"

definition natsOutput :: "string \<Rightarrow> string \<Rightarrow> any" where
  "natsOutput url subject =
     AObj [(''nats_jetstream'',
       AObj [(''urls'', AArr [AStr url]), (''subject'', AStr subject),
             (''metadata'', AObj [(''include_patterns'', AArr [AStr ''.*''])])])]"

definition buildOutput :: "string \<Rightarrow> string list \<Rightarrow> any" where
  "buildOutput url subjects =
     (case subjects of
        [s] \<Rightarrow> natsOutput url s
      | _ \<Rightarrow> AObj [(''broker'',
               AObj [(''pattern'', AStr ''fan_out''), (''outputs'', AArr (map (natsOutput url) subjects))])])"

definition natsInput :: "string \<Rightarrow> IncomingRoute \<Rightarrow> any" where
  "natsInput url i =
     AObj [(''nats_jetstream'',
       AObj [(''urls'', AArr [AStr url]), (''subject'', AStr (ir_Subject i)),
             (''durable'', AStr (ir_Durable i)), (''queue'', AStr '''')])]"

definition buildInput :: "string \<Rightarrow> IncomingRoute list \<Rightarrow> any" where
  "buildInput url incoming =
     (case incoming of
        [i] \<Rightarrow> natsInput url i
      | _ \<Rightarrow> AObj [(''broker'', AObj [(''inputs'', AArr (map (natsInput url) incoming))])])"

definition filterMapping :: "string \<Rightarrow> string" where
  "filterMapping when = ''root = if !('' @ when @ '') { deleted() } else { this }''"

definition buildPredicateProcessor :: "IncomingRoute list \<Rightarrow> any option" where
  "buildPredicateProcessor incoming =
     (let withWhen = filter (\<lambda>i. ir_When i \<noteq> '''') incoming in
      if withWhen = [] then None
      else case incoming of
        [i] \<Rightarrow> Some (AObj [(''mapping'', AStr (filterMapping (ir_When i)))])
      | _ \<Rightarrow> Some (AObj [(''switch'',
               AArr (map (\<lambda>i. AObj [(''check'', AStr (''@nats_subject == '' @ go_quote (ir_Subject i))),
                                     (''processors'', AArr [AObj [(''mapping'', AStr (filterMapping (ir_When i)))]])])
                       withWhen))]))"

definition prependProcessor :: "any \<Rightarrow> (string \<times> any) list \<Rightarrow> (string \<times> any) list" where
  "prependProcessor proc doc =
     (let pipe = (case as_obj (aget doc ''pipeline'') of Some m \<Rightarrow> m | None \<Rightarrow> []);
          existing = (case as_arr (aget pipe ''processors'') of Some xs \<Rightarrow> xs | None \<Rightarrow> [])
      in aset ''pipeline'' (AObj (aset ''processors'' (AArr (proc # existing)) pipe)) doc)"

definition rewrite_doc :: "ProjectIOPlan \<Rightarrow> (string \<times> any) list \<Rightarrow> (string \<times> any) list" where
  "rewrite_doc plan doc =
     (let doc = (if io_OutgoingSubjects plan \<noteq> []
                 then aset ''output'' (buildOutput (io_NATSURL plan) (io_OutgoingSubjects plan)) doc
                 else doc)
      in if io_Incoming plan \<noteq> []
         then let doc = aset ''input'' (buildInput (io_NATSURL plan) (io_Incoming plan)) doc
              in case buildPredicateProcessor (io_Incoming plan) of
                   None \<Rightarrow> doc
                 | Some proc \<Rightarrow> prependProcessor proc doc
         else doc)"

definition ApplyProjectIO :: "lib \<Rightarrow> string \<Rightarrow> ProjectIOPlan \<Rightarrow> string + string" where
  "ApplyProjectIO L yamlText plan =
     (if io_OutgoingSubjects plan = [] \<and> io_Incoming plan = [] then Inr yamlText
      else case yaml_Unmarshal L yamlText of
             Inl err \<Rightarrow> Inl (''invalid YAML: '' @ err)
           | Inr (AObj doc) \<Rightarrow> yaml_Marshal L (AObj (rewrite_doc plan doc))
           | Inr _ \<Rightarrow> Inl ''YAML must be a mapping'')"

section \<open>What is assumed of the YAML codec\<close>

text \<open>
  Two values are equivalent when they are the same up to the order of the keys of objects and
  the spelling of numbers. \<open>yaml_law\<close>: a mapping that was marshalled is read back as an
  equivalent mapping.
\<close>

inductive any_equiv :: "any \<Rightarrow> any \<Rightarrow> bool" where
  "any_equiv ANull ANull"
| "any_equiv (ABool b) (ABool b)"
| "any_equiv (ANum x) (ANum y)"
| "any_equiv (AStr s) (AStr s)"
| "list_all2 any_equiv xs ys \<Longrightarrow> any_equiv (AArr xs) (AArr ys)"
| "(\<And>k. rel_option any_equiv (aget m k) (aget m' k)) \<Longrightarrow> any_equiv (AObj m) (AObj m')"
  monos option.rel_mono

inductive_cases any_equiv_ObjE: "any_equiv (AObj m) v"

lemma any_equiv_refl [simp]: "any_equiv v v"
proof (induction "size v" arbitrary: v rule: less_induct)
  case less
  show ?case
  proof (cases v)
    case (AArr xs)
    have "list_all2 any_equiv xs xs"
      using less by (auto simp: list_all2_same AArr simp del: any.size intro: size_mem)
    then show ?thesis by (simp add: AArr any_equiv.intros)
  next
    case (AObj m)
    have "rel_option any_equiv (aget m k) (aget m k)" for k
      using less by (cases "aget m k") (auto simp: AObj simp del: any.size intro: size_aget)
    then show ?thesis by (simp add: AObj any_equiv.intros)
  qed (auto intro: any_equiv.intros)
qed

definition yaml_law :: "lib \<Rightarrow> bool" where
  "yaml_law L \<longleftrightarrow> (\<forall>m s. yaml_Marshal L (AObj m) = Inr s \<longrightarrow>
     (\<exists>m'. yaml_Unmarshal L s = Inr (AObj m') \<and> any_equiv (AObj m) (AObj m')))"

lemma yaml_lawD:
  assumes "yaml_law L" and "yaml_Marshal L (AObj m) = Inr s"
  obtains m' where "yaml_Unmarshal L s = Inr (AObj m')"
    and "\<And>k. rel_option any_equiv (aget m k) (aget m' k)"
  using assms unfolding yaml_law_def by (metis any.inject(5) any_equiv_ObjE)

text \<open>A codec given by a finite table of documents, for evaluating the model.\<close>

definition table_lib :: "(any \<times> string) list \<Rightarrow> lib" where
  "table_lib tbl = list_lib
     (\<lambda>s. case aget (map prod.swap tbl) s of Some v \<Rightarrow> Inr v | None \<Rightarrow> Inl ''syntax'')
     (\<lambda>v. case aget tbl v of Some s \<Rightarrow> Inr s | None \<Rightarrow> Inl ''marshal'')
     (\<lambda>_. Inl ''syntax'') (\<lambda>_. None) (\<lambda>s. s)"

lemma yaml_law_table: "distinct (map snd tbl) \<Longrightarrow> yaml_law (table_lib tbl)"
proof -
  assume d: "distinct (map snd tbl)"
  have "aget (map prod.swap tbl) s = Some v" if "aget tbl v = Some s" for v s
    using d map_of_SomeD [OF that] by (intro map_of_is_SomeI) (force simp: comp_def prod.swap_def)+
  then show ?thesis
    by (fastforce simp: yaml_law_def table_lib_def list_lib_def split: option.splits)
qed

section \<open>Lemmas\<close>

lemma injectHTTPConfig_doc:
  assumes "injectHTTPConfig L raw = Inr s"
  obtains doc where "yaml_Marshal L (AObj doc) = Inr s" and "aget doc ''http'' \<noteq> None"
proof -
  from assms obtain d where
    "yaml_Marshal L (AObj (if aget d ''http'' = None then aset ''http'' http_block d else d)) = Inr s"
    by (auto simp: injectHTTPConfig_def split: sum.splits any.splits)
  then show ?thesis by (rule that) auto
qed

lemma RenderPipelineYAML_doc:
  assumes "RenderPipelineYAML L spec = Inr s"
  obtains doc where "yaml_Marshal L (AObj doc) = Inr s" and "aget doc ''http'' \<noteq> None"
    and "ps_RawYAML spec = '''' \<Longrightarrow> aget doc ''http'' = Some http_block"
proof (cases "ps_RawYAML spec = ''''")
  case True
  with assms obtain a b c where "yaml_Marshal L (pipeline_doc a b c) = Inr s"
    by (auto simp: RenderPipelineYAML_def split: sum.splits)
  then show ?thesis by (intro that) (auto simp: pipeline_doc_def)
next
  case False
  with assms have "injectHTTPConfig L (ps_RawYAML spec) = Inr s" by (simp add: RenderPipelineYAML_def)
  then show ?thesis by (rule injectHTTPConfig_doc) (use False that in auto)
qed

lemma rel_option_SomeE: "rel_option R a b \<Longrightarrow> a \<noteq> None \<Longrightarrow> b \<noteq> None"
  by (cases a; cases b) auto

text \<open>The pipeline block of a document and its processors, as \<open>prependProcessor\<close> reads them.\<close>

definition pipeline_of :: "(string \<times> any) list \<Rightarrow> (string \<times> any) list" where
  "pipeline_of doc = (case as_obj (aget doc ''pipeline'') of Some m \<Rightarrow> m | None \<Rightarrow> [])"

definition processors_of :: "(string \<times> any) list \<Rightarrow> any list" where
  "processors_of doc = (case as_arr (aget (pipeline_of doc) ''processors'') of Some xs \<Rightarrow> xs | None \<Rightarrow> [])"

definition rewritten :: "ProjectIOPlan \<Rightarrow> (string \<times> any) list \<Rightarrow> string \<Rightarrow> any option" where
  "rewritten plan doc k =
     (if k = ''output'' \<and> io_OutgoingSubjects plan \<noteq> []
      then Some (buildOutput (io_NATSURL plan) (io_OutgoingSubjects plan))
      else if k = ''input'' \<and> io_Incoming plan \<noteq> []
      then Some (buildInput (io_NATSURL plan) (io_Incoming plan))
      else if k = ''pipeline'' \<and> (\<exists>i\<in>set (io_Incoming plan). ir_When i \<noteq> '''')
      then Some (AObj (aset ''processors''
             (AArr (the (buildPredicateProcessor (io_Incoming plan)) # processors_of doc)) (pipeline_of doc)))
      else aget doc k)"

lemma buildPredicateProcessor_None:
  "buildPredicateProcessor incoming = None \<longleftrightarrow> (\<forall>i\<in>set incoming. ir_When i = '''')"
  by (auto simp: buildPredicateProcessor_def Let_def filter_empty_conv split: list.splits)

lemma rewrite_doc_eq: "aget (rewrite_doc plan doc) k = rewritten plan doc k"
proof (cases "buildPredicateProcessor (io_Incoming plan)")
  case None
  then have "\<not> (\<exists>i\<in>set (io_Incoming plan). ir_When i \<noteq> '''')"
    by (simp add: buildPredicateProcessor_None)
  with None show ?thesis by (auto simp: rewrite_doc_def rewritten_def Let_def)
next
  case (Some proc)
  then have w: "\<exists>i\<in>set (io_Incoming plan). ir_When i \<noteq> ''''"
    using buildPredicateProcessor_None [of "io_Incoming plan"] by auto
  then have "io_Incoming plan \<noteq> []" by auto
  with Some w show ?thesis
    by (auto simp: rewrite_doc_def rewritten_def Let_def prependProcessor_def processors_of_def
        pipeline_of_def)
qed

lemma ApplyProjectIO_parsed:
  assumes "yaml_law L" and "yaml_Unmarshal L text = Inr (AObj doc)"
    and "ApplyProjectIO L text plan = Inr s" and "io_OutgoingSubjects plan \<noteq> [] \<or> io_Incoming plan \<noteq> []"
  obtains m where "yaml_Unmarshal L s = Inr (AObj m)"
    and "\<And>k. rel_option any_equiv (rewritten plan doc k) (aget m k)"
proof -
  from assms(2-4) have "yaml_Marshal L (AObj (rewrite_doc plan doc)) = Inr s"
    by (auto simp: ApplyProjectIO_def)
  from yaml_lawD [OF assms(1) this] that show thesis by (metis rewrite_doc_eq)
qed

text \<open>A value in which no object has the shape of a component is native configuration.\<close>

fun native :: "any \<Rightarrow> bool" where
  "native (AArr xs) = list_all native xs"
| "native (AObj m) = (\<not> looksLikeComponentSpec m \<and> list_all (\<lambda>(k, v). native v) m)"
| "native _ = True"

lemma native_not_array: "list_all native xs \<Longrightarrow> \<not> looksLikeComponentSpecArray xs"
proof
  assume n: "list_all native xs" and l: "looksLikeComponentSpecArray xs"
  then obtain x ys where xs: "xs = x # ys" by (cases xs) (auto simp: looksLikeComponentSpecArray_def)
  with n l have "native x" "is_component x" by (auto simp: looksLikeComponentSpecArray_def)
  then show False by (cases x) auto
qed

lemma renderCompositeFields_native: "native v \<Longrightarrow> renderCompositeFields v = v"
proof (induction "size v" arbitrary: v rule: less_induct)
  case less
  show ?case
  proof (cases v)
    case (AArr xs)
    have "map renderCompositeFields xs = xs"
      using less AArr by (intro map_idI) (auto simp: list_all_iff simp del: any.size intro: size_mem)
    with less.prems AArr native_not_array show ?thesis by auto
  next
    case (AObj m)
    have "map (\<lambda>(k, fv). (k, renderCompositeFields fv)) m = m"
      using less AObj by (intro map_idI) (auto simp: list_all_iff simp del: any.size intro: size_mem_obj)
    with less.prems AObj show ?thesis by simp
  qed auto
qed

section \<open>Properties\<close>

text \<open>
  The configuration of a pod always carries an \<open>http\<close> block (the operator's own when the
  spec has no raw YAML), so the probes have a server; the configuration posted to a cluster
  never has one, and is otherwise the same document.
\<close>

lemma render_http_block:
  assumes "yaml_law L" and "RenderPipelineYAML L spec = Inr s" and "RenderStreamConfig L spec = Inr s'"
  shows "\<exists>m m'. yaml_Unmarshal L s = Inr (AObj m) \<and> yaml_Unmarshal L s' = Inr (AObj m') \<and>
     aget m ''http'' \<noteq> None \<and> aget m' ''http'' = None \<and>
     (ps_RawYAML spec = '''' \<longrightarrow> rel_option any_equiv (Some http_block) (aget m ''http'')) \<and>
     (\<forall>k. k \<noteq> ''http'' \<longrightarrow> rel_option any_equiv (aget m k) (aget m' k))"
proof -
  from RenderPipelineYAML_doc [OF assms(2)] obtain doc where doc: "yaml_Marshal L (AObj doc) = Inr s"
    "aget doc ''http'' \<noteq> None" "ps_RawYAML spec = '''' \<Longrightarrow> aget doc ''http'' = Some http_block" by blast
  from yaml_lawD [OF assms(1) doc(1)] obtain m where m: "yaml_Unmarshal L s = Inr (AObj m)"
    "\<And>k. rel_option any_equiv (aget doc k) (aget m k)" by blast
  from assms(2,3) m(1) have "yaml_Marshal L (AObj (adel ''http'' m)) = Inr s'"
    by (simp add: RenderStreamConfig_def stripHTTPBlock_def)
  from yaml_lawD [OF assms(1) this] obtain m' where m': "yaml_Unmarshal L s' = Inr (AObj m')"
    "\<And>k. rel_option any_equiv (aget (adel ''http'' m) k) (aget m' k)" by blast
  have "aget m' ''http'' = None" using m'(2) [of "''http''"] by simp
  moreover have "rel_option any_equiv (aget m k) (aget m' k)" if "k \<noteq> ''http''" for k
    using m'(2) [of k] that by simp
  ultimately show ?thesis
    using m m'(1) doc(2,3) rel_option_SomeE [OF m(2) [of "''http''"]] by metis
qed

definition raw_spec :: "string \<Rightarrow> PipelineSpec" where
  "raw_spec raw = \<lparr>ps_Input = \<lparr>cs_Type = '''', cs_Label = '''', cs_Config = ''''\<rparr>, ps_Processors = [],
     ps_Output = \<lparr>cs_Type = '''', cs_Label = '''', cs_Config = ''''\<rparr>, ps_RawYAML = raw,
     ps_Replicas = 1, ps_Image = '''', ps_SecretRefs = [], ps_Stopped = False,
     ps_ClusterRef = '''', ps_ProjectRef = None\<rparr>"

definition sample_tbl :: "(any \<times> string) list" where
  "sample_tbl =
     [(AObj [(''input'', AStr ''x'')], ''raw''),
      (AObj [(''input'', AStr ''x''), (''http'', http_block)], ''pod''),
      (AObj [(''input'', AStr ''x''), (''output'', natsOutput ''nats'' ''rpc.p.r'')], ''member'')]"

lemmas sample_tbl_simps = sample_tbl_def table_lib_def list_lib_def http_block_def prod.swap_def

lemma render_http_block_witness:
  "\<exists>m m'. yaml_Unmarshal (table_lib sample_tbl) ''pod'' = Inr (AObj m) \<and>
     yaml_Unmarshal (table_lib sample_tbl) ''raw'' = Inr (AObj m') \<and>
     aget m ''http'' \<noteq> None \<and> aget m' ''http'' = None"
proof -
  have "yaml_law (table_lib sample_tbl)" by (rule yaml_law_table) (simp add: sample_tbl_def)
  moreover have "RenderPipelineYAML (table_lib sample_tbl) (raw_spec ''raw'') = Inr ''pod''"
    by (simp add: RenderPipelineYAML_def raw_spec_def injectHTTPConfig_def sample_tbl_simps)
  moreover from this have "RenderStreamConfig (table_lib sample_tbl) (raw_spec ''raw'') = Inr ''raw''"
    by (simp add: RenderStreamConfig_def stripHTTPBlock_def sample_tbl_simps)
  ultimately show ?thesis by (rule render_http_block [THEN exE]) blast
qed

text \<open>
  Rewriting for a project replaces exactly the output of a producer and the input of a
  consumer, puts the predicate processor in front of the processors that were there when some
  incoming route has a predicate, and keeps every other part of the document.
\<close>

lemma ApplyProjectIO_rewrites:
  assumes "yaml_law L" and "yaml_Unmarshal L text = Inr (AObj doc)"
    and "ApplyProjectIO L text plan = Inr s" and "io_OutgoingSubjects plan \<noteq> [] \<or> io_Incoming plan \<noteq> []"
  shows "\<exists>m. yaml_Unmarshal L s = Inr (AObj m) \<and>
    (\<forall>k. rel_option any_equiv (rewritten plan doc k) (aget m k))"
  using ApplyProjectIO_parsed [OF assms] by metis

lemma ApplyProjectIO_rewrites_witness:
  "\<exists>m. yaml_Unmarshal (table_lib sample_tbl) ''member'' = Inr (AObj m) \<and>
     rel_option any_equiv (Some (natsOutput ''nats'' ''rpc.p.r'')) (aget m ''output'') \<and>
     rel_option any_equiv (Some (AStr ''x'')) (aget m ''input'')"
proof -
  let ?plan = "\<lparr>io_NATSURL = ''nats'', io_OutgoingSubjects = [''rpc.p.r''], io_Incoming = []\<rparr>"
  have "yaml_law (table_lib sample_tbl)" by (rule yaml_law_table) (simp add: sample_tbl_def)
  moreover have raw: "yaml_Unmarshal (table_lib sample_tbl) ''raw'' = Inr (AObj [(''input'', AStr ''x'')])"
    by (simp add: sample_tbl_simps)
  moreover from raw have "ApplyProjectIO (table_lib sample_tbl) ''raw'' ?plan = Inr ''member''"
    by (simp add: ApplyProjectIO_def rewrite_doc_def buildOutput_def sample_tbl_simps)
  ultimately obtain m where m: "yaml_Unmarshal (table_lib sample_tbl) ''member'' = Inr (AObj m)"
    "\<forall>k. rel_option any_equiv (rewritten ?plan [(''input'', AStr ''x'')] k) (aget m k)"
    using ApplyProjectIO_rewrites
      [of "table_lib sample_tbl" "''raw''" "[(''input'', AStr ''x'')]" ?plan "''member''"] by auto
  from m(2) [rule_format, of "''output''"] m(2) [rule_format, of "''input''"] m(1) show ?thesis
    by (auto simp: rewritten_def buildOutput_def)
qed

text \<open>
  Every predicate that ends up in the configuration of a pipeline of a valid project is
  one that validation parsed, in exactly the mapping that is deployed.
\<close>

lemma deployed_predicates_parse:
  assumes "ValidateProject L project pipelines = []"
    and "i \<in> set (io_Incoming (toRenderPlan (PlanFor project ns p)))" and "ir_When i \<noteq> ''''"
  shows "bloblang_Parse L (filterMapping (ir_When i)) = None"
proof -
  from assms(2) obtain x where x: "x \<in> set (plan_Incoming (PlanFor project ns p))" "ir_When i = in_When x"
    by (auto simp: toRenderPlan_def)
  then obtain r t where "r \<in> set (pjs_Routes (pj_Spec project))" "t \<in> set (r_To r)" "in_When x = rt_When t"
    by (auto simp: incoming_PlanFor_iff)
  with assms(1,3) x show ?thesis
    by (auto simp: ValidateProject_Nil project_ok_def Let_def route_ok_def parsePredicate_def filterMapping_def)
qed

lemma deployed_predicates_parse_witness:
  "bloblang_Parse (table_lib []) (filterMapping ''this.ok'') = None"
proof -
  let ?r = "\<lparr>r_Name = ''r'', r_From = ''a'', r_To = [\<lparr>rt_Pipeline = ''b'', rt_When = ''this.ok''\<rparr>],
      r_Retention = None\<rparr>"
  let ?p = "sample_project ''prj'' [?r]"
  let ?ps = "[(''a'', \<lparr>pv_Name = ''a'', pv_ProjectName = ''prj'', pv_HasInput = True, pv_HasOutput = False\<rparr>),
      (''b'', \<lparr>pv_Name = ''b'', pv_ProjectName = ''prj'', pv_HasInput = False, pv_HasOutput = True\<rparr>)]"
  have "route_edges [?r] = {(''a'', ''b'')}" by (auto simp: route_edges_def)
  then have "acyclic (route_edges [?r])" by (auto simp: acyclic_def dest: tranclD tranclD2)
  then have "ValidateProject (table_lib []) ?p ?ps = []"
    by (simp add: ValidateProject_Nil project_ok_def sample_project_def sample_meta_def route_ok_def
        inProject_def io_ok_def parsePredicate_def table_lib_def list_lib_def)
  moreover have "\<lparr>ir_Subject = Subject ''prj'' ''r'', ir_Durable = DurableName ''prj'' ''r'' ''b'',
      ir_When = ''this.ok''\<rparr> \<in> set (io_Incoming (toRenderPlan (PlanFor ?p ''ns'' ''b'')))"
    by (simp add: toRenderPlan_def PlanFor_eq incoming_of_def sample_project_def sample_meta_def)
  ultimately show ?thesis by (auto dest: deployed_predicates_parse)
qed

text \<open>
  Configuration in which nothing looks like a nested component is rendered unchanged.
\<close>

lemma render_native_unchanged:
  assumes "native v"
  shows "renderCompositeFields v = v"
  using assms by (rule renderCompositeFields_native)

lemma render_native_unchanged_witness:
  "renderCompositeFields (AObj [(''urls'', AArr [AStr ''nats://n'']), (''type'', ANull)]) =
     AObj [(''urls'', AArr [AStr ''nats://n'']), (''type'', ANull)]"
  by (rule render_native_unchanged) (simp add: looksLikeComponentSpec_def)

text \<open>
  A nested component loses its label: two nested component objects that differ only in
  \<open>label\<close>, a key \<open>looksLikeComponentSpec\<close> admits, are rendered the same.
\<close>

lemma nested_label_dropped:
  "renderCompositeFields (AObj [(''type'', AStr (c # t)), (''label'', AStr l), (''config'', cfg)]) =
   renderCompositeFields (AObj [(''type'', AStr (c # t)), (''config'', cfg)])"
  by (simp add: looksLikeComponentSpec_def type_name_def config_of_def)

end
