(* ===== verification/Rpc_K8s.thy ===== *)
theory Rpc_K8s
  imports Rpc_Types
begin

text \<open>
  The core Kubernetes objects as the operator builds and reads them (Pod, ConfigMap, Service,
  StatefulSet, PodMonitor, Secret, PersistentVolumeClaim), each record with exactly the fields
  some line of \<^verbatim>\<open>src/internal\<close> sets or reads. A probe or volume that the code always builds
  in one shape (an HTTP probe on a named port, a ConfigMap volume) has that shape's fields.
\<close>

record ContainerPort =
  cp_Name :: string
  cp_Port :: int
  cp_Protocol :: string

record Probe =
  pb_Path :: string
  pb_PortName :: string
  pb_InitialDelaySeconds :: int
  pb_PeriodSeconds :: int

record ContainerSecurity =
  csec_AllowPrivilegeEscalation :: bool
  csec_ReadOnlyRootFilesystem :: bool
  csec_DropCapabilities :: "string list"

record PodSecurity =
  psec_RunAsNonRoot :: bool
  psec_RunAsUser :: int
  psec_FSGroup :: int
  psec_SeccompProfile :: string

datatype EnvVarSource = SecretKeyRef string string | FieldRef string

record EnvVar =
  ev_Name :: string
  ev_ValueFrom :: EnvVarSource

record VolumeMount =
  vm_Name :: string
  vm_MountPath :: string
  vm_ReadOnly :: bool

record ConfigMapVolume =
  cv_Name :: string
  cv_ConfigMap :: string
  cv_Items :: "(string \<times> string) list"

record Container =
  ct_Name :: string
  ct_Image :: string
  ct_Args :: "string list"
  ct_Ports :: "ContainerPort list"
  ct_LivenessProbe :: Probe
  ct_ReadinessProbe :: Probe
  ct_Security :: ContainerSecurity
  ct_Resources :: ResourceRequirements
  ct_Env :: "EnvVar list"
  ct_VolumeMounts :: "VolumeMount list"

record PodSpec =
  pds_RestartPolicy :: string
  pds_TerminationGracePeriodSeconds :: int
  pds_Security :: PodSecurity
  pds_Containers :: "Container list"
  pds_Volumes :: "ConfigMapVolume list"

datatype PodPhase = PodPending | PodRunning | PodSucceeded | PodFailed | PodUnknown

record Pod =
  pod_Meta :: ObjectMeta
  pod_Spec :: PodSpec
  pod_Phase :: PodPhase
  pod_Conditions :: "(string \<times> ConditionStatus) list"
  pod_WaitingReasons :: "string option list"

record ConfigMap =
  cm_Meta :: ObjectMeta
  cm_Data :: "(string \<times> string) list"

record ServicePort =
  sp_Name :: string
  sp_Port :: int
  sp_TargetPort :: string
  sp_Protocol :: string

record Service =
  svc_Meta :: ObjectMeta
  svc_ClusterIP :: string
  svc_PublishNotReadyAddresses :: bool
  svc_Selector :: "(string \<times> string) list"
  svc_Ports :: "ServicePort list"

record VolumeClaimTemplate =
  vct_Name :: string
  vct_Labels :: "(string \<times> string) list"
  vct_AccessModes :: "string list"
  vct_Storage :: int

record StatefulSet =
  ss_Meta :: ObjectMeta
  ss_Replicas :: int
  ss_ServiceName :: string
  ss_Selector :: "(string \<times> string) list"
  ss_TemplateLabels :: "(string \<times> string) list"
  ss_TemplateSpec :: PodSpec
  ss_VolumeClaimTemplates :: "VolumeClaimTemplate list"
  ss_ReadyReplicas :: int

record PodMonitorEndpoint =
  pme_Port :: string
  pme_Path :: string
  pme_Interval :: string

record PodMonitor =
  pm_Meta :: ObjectMeta
  pm_Selector :: "(string \<times> string) list"
  pm_Endpoints :: "PodMonitorEndpoint list"

record Secret =
  sec_Meta :: ObjectMeta
  sec_Data :: "(string \<times> string) list"

record PersistentVolumeClaim =
  pvc_Meta :: ObjectMeta

abbreviation pod_Name :: "Pod \<Rightarrow> string" where
  "pod_Name p \<equiv> om_Name (pod_Meta p)"

definition object_key :: "string \<Rightarrow> string \<Rightarrow> ObjectMeta" where
  "object_key name ns =
     \<lparr>om_Name = name, om_Namespace = ns, om_Labels = [], om_Annotations = [], om_Finalizers = [],
      om_OwnerReferences = [], om_Deleting = False, om_Created = False, om_Generation = 0,
      om_ManagedFields = []\<rparr>"

section \<open>Consistency of a pod specification\<close>

text \<open>
  What Kubernetes needs for a pod built by the operator to start and be probed: both probes
  name a port the container declares, every mount names a declared volume, and names are not
  declared twice. The hardening the operator promises is the restricted profile: no root, no
  privilege escalation, a read-only root file system, no capabilities, the default seccomp
  profile.
\<close>

definition container_consistent :: "PodSpec \<Rightarrow> string list \<Rightarrow> Container \<Rightarrow> bool" where
  "container_consistent ps extra c \<longleftrightarrow>
     pb_PortName (ct_LivenessProbe c) \<in> cp_Name ` set (ct_Ports c) \<and>
     pb_PortName (ct_ReadinessProbe c) \<in> cp_Name ` set (ct_Ports c) \<and>
     distinct (map cp_Name (ct_Ports c)) \<and>
     vm_Name ` set (ct_VolumeMounts c) \<subseteq> cv_Name ` set (pds_Volumes ps) \<union> set extra"

definition pod_consistent :: "PodSpec \<Rightarrow> string list \<Rightarrow> bool" where
  "pod_consistent ps extra \<longleftrightarrow>
     pds_Containers ps \<noteq> [] \<and>
     distinct (map cv_Name (pds_Volumes ps) @ extra) \<and>
     list_all (container_consistent ps extra) (pds_Containers ps)"

definition pod_restricted :: "PodSpec \<Rightarrow> bool" where
  "pod_restricted ps \<longleftrightarrow>
     psec_RunAsNonRoot (pds_Security ps) \<and> psec_RunAsUser (pds_Security ps) \<noteq> 0 \<and>
     psec_SeccompProfile (pds_Security ps) = ''RuntimeDefault'' \<and>
     list_all (\<lambda>c. \<not> csec_AllowPrivilegeEscalation (ct_Security c) \<and>
        csec_ReadOnlyRootFilesystem (ct_Security c) \<and>
        csec_DropCapabilities (ct_Security c) = [''ALL'']) (pds_Containers ps)"

end
