(* ===== verification/Rpc_Env.thy ===== *)
theory Rpc_Env
  imports Rpc_K8s
begin

text \<open>
  The environment of the reconcilers. The Kubernetes API server behind controller-runtime's
  \<open>client.Client\<close>, the Connect instances behind \<open>streams.Client\<close> and NATS behind
  \<open>nats.StreamManager\<close> are parameters: records of operations on a world of any type, with
  any behaviour. Go interfaces are records with one field per method; implementations of them
  in the repository are given in the theories of their packages.

  A handler runs in the state monad over that world and a trace, to which every call appends
  an event with its arguments and its result. The properties of the handlers are about the
  trace, for every behaviour of the environment.
\<close>

section \<open>Errors and results\<close>

text \<open>
  An error is its kind and its message. The kind is what \<open>errors.Is\<close>, \<open>errors.As\<close> and the
  predicates of \<open>apierrors\<close> and \<open>apimeta\<close> can see; wrapping with \<open>%w\<close> keeps it. A call on a
  nil interface panics; controller-runtime recovers the panic of a reconcile and reports it as
  an error, of kind \<open>NilDereference\<close>.
\<close>

datatype error_kind =
    NotFound
  | AlreadyExists
  | Conflict
  | NoMatch
  | NotRegistered
  | ConfigRejectedError string int string
  | ErrStreamNotFound
  | JSStreamNotFound
  | JSBucketNotFound
  | NilDereference
  | OtherError

datatype error = Err (err_kind: error_kind) (err_msg: string)

definition wrap :: "string \<Rightarrow> error \<Rightarrow> error" where
  "wrap pre e = Err (err_kind e) (pre @ err_msg e)"

definition Errorf :: "string \<Rightarrow> error" where
  "Errorf msg = Err OtherError msg"

lemma wrap_kind [simp]: "err_kind (wrap pre e) = err_kind e"
  by (simp add: wrap_def)

definition IgnoreNotFound :: "error option \<Rightarrow> error option" where
  "IgnoreNotFound e = (case e of
      None \<Rightarrow> None
    | Some x \<Rightarrow> if err_kind x = NotFound then None else Some x)"

record Result =
  Requeue :: bool
  RequeueAfter :: int

abbreviation ok :: "Result" where
  "ok \<equiv> \<lparr>Requeue = False, RequeueAfter = 0\<rparr>"

abbreviation requeue :: "Result" where
  "requeue \<equiv> \<lparr>Requeue = True, RequeueAfter = 0\<rparr>"

abbreviation requeue_after :: "int \<Rightarrow> Result" where
  "requeue_after d \<equiv> \<lparr>Requeue = False, RequeueAfter = d\<rparr>"

type_synonym outcome = "Result \<times> error option"

section \<open>Interfaces\<close>

record StreamStatus =
  Active :: bool
  Uptime :: string

record Retention =
  re_MaxAge :: int
  re_MaxBytes :: int
  re_MaxMsgs :: int

record KVConfig =
  kvc_TTL :: int
  kvc_History :: int
  kvc_MaxBytes :: int

text \<open>\<open>streams.Client\<close>: base URL, stream id or resource label, configuration.\<close>

record 'w StreamsClient =
  EnsureStream :: "string \<Rightarrow> string \<Rightarrow> string \<Rightarrow> ('w, error option) state"
  DeleteStream :: "string \<Rightarrow> string \<Rightarrow> ('w, error option) state"
  ListStreams :: "string \<Rightarrow> ('w, error + string list) state"
  GetStreamStatus :: "string \<Rightarrow> string \<Rightarrow> ('w, error + StreamStatus) state"
  EnsureCacheResource :: "string \<Rightarrow> string \<Rightarrow> string \<Rightarrow> ('w, error option) state"
  DeleteCacheResource :: "string \<Rightarrow> string \<Rightarrow> ('w, error option) state"

text \<open>\<open>nats.StreamManager\<close>: client URL, stream or bucket, and its configuration.\<close>

record 'w StreamManager =
  JSEnsureStream :: "string \<Rightarrow> string \<Rightarrow> string \<Rightarrow> Retention \<Rightarrow> ('w, error option) state"
  JSDeleteStream :: "string \<Rightarrow> string \<Rightarrow> ('w, error option) state"
  JSEnsureKV :: "string \<Rightarrow> string \<Rightarrow> KVConfig \<Rightarrow> ('w, error option) state"
  JSDeleteKV :: "string \<Rightarrow> string \<Rightarrow> ('w, error option) state"

text \<open>
  The calls on \<open>client.Client\<close> and \<open>controllerutil\<close>, by resource type. A name is followed
  by its namespace in the argument order name, namespace.
\<close>

record 'w KubeClient =
  Get_Pipeline :: "string \<Rightarrow> string \<Rightarrow> ('w, error + Pipeline) state"
  Get_PipelineCluster :: "string \<Rightarrow> string \<Rightarrow> ('w, error + PipelineCluster) state"
  Get_PipelineProject :: "string \<Rightarrow> string \<Rightarrow> ('w, error + PipelineProject) state"
  Get_Secret :: "string \<Rightarrow> string \<Rightarrow> ('w, error + Secret) state"
  Get_Pod :: "string \<Rightarrow> string \<Rightarrow> ('w, error + Pod) state"
  List_Pods :: "string \<Rightarrow> string \<times> string \<Rightarrow> ('w, error + Pod list) state"
  List_Pipelines :: "string \<Rightarrow> ('w, error + Pipeline list) state"
  List_PipelinesBySecret :: "string \<Rightarrow> string \<Rightarrow> ('w, error + Pipeline list) state"
  List_PipelineProjects :: "string \<Rightarrow> ('w, error + PipelineProject list) state"
  List_PVCs :: "string \<Rightarrow> string \<times> string \<Rightarrow> ('w, error + PersistentVolumeClaim list) state"
  Update_Pipeline :: "Pipeline \<Rightarrow> ('w, error option) state"
  Update_PipelineProject :: "PipelineProject \<Rightarrow> ('w, error option) state"
  StatusUpdate_Pipeline :: "Pipeline \<Rightarrow> ('w, error option) state"
  StatusUpdate_PipelineCluster :: "PipelineCluster \<Rightarrow> ('w, error option) state"
  StatusUpdate_PipelineProject :: "PipelineProject \<Rightarrow> ('w, error option) state"
  Delete_Pod :: "string \<Rightarrow> string \<Rightarrow> ('w, error option) state"
  Delete_ConfigMap :: "string \<Rightarrow> string \<Rightarrow> ('w, error option) state"
  Delete_PodMonitor :: "string \<Rightarrow> string \<Rightarrow> ('w, error option) state"
  Delete_PVC :: "string \<Rightarrow> string \<Rightarrow> ('w, error option) state"
  CreateOrUpdate_ConfigMap ::
    "string \<Rightarrow> string \<Rightarrow> (ConfigMap \<Rightarrow> error + ConfigMap) \<Rightarrow> ('w, error + ConfigMap) state"
  CreateOrUpdate_Pod :: "string \<Rightarrow> string \<Rightarrow> (Pod \<Rightarrow> error + Pod) \<Rightarrow> ('w, error + Pod) state"
  CreateOrUpdate_PodMonitor ::
    "string \<Rightarrow> string \<Rightarrow> (PodMonitor \<Rightarrow> error + PodMonitor) \<Rightarrow> ('w, error + PodMonitor) state"
  CreateOrUpdate_Service ::
    "string \<Rightarrow> string \<Rightarrow> (Service \<Rightarrow> error + Service) \<Rightarrow> ('w, error + Service) state"
  CreateOrUpdate_StatefulSet ::
    "string \<Rightarrow> string \<Rightarrow> (StatefulSet \<Rightarrow> error + StatefulSet) \<Rightarrow> ('w, error + StatefulSet) state"
  CreateOrUpdate_PipelineCluster ::
    "string \<Rightarrow> string \<Rightarrow> (PipelineCluster \<Rightarrow> error + PipelineCluster) \<Rightarrow>
     ('w, error + PipelineCluster) state"
  SetControllerReference :: "ObjectMeta \<Rightarrow> ObjectMeta \<Rightarrow> error + ObjectMeta"

section \<open>Traced calls\<close>

datatype (plugins only: code) event =
    GetPipeline string string "error + Pipeline"
  | GetPipelineCluster string string "error + PipelineCluster"
  | GetPipelineProject string string "error + PipelineProject"
  | GetSecret string string "error + Secret"
  | GetPod string string "error + Pod"
  | ListPods string "string \<times> string" "error + Pod list"
  | ListPipelines string "error + Pipeline list"
  | ListPVCs string "string \<times> string" "error + PersistentVolumeClaim list"
  | UpdatePipeline Pipeline "error option"
  | UpdatePipelineProject PipelineProject "error option"
  | UpdateStatus Pipeline "error option"
  | UpdateClusterStatus PipelineCluster "error option"
  | UpdateProjectStatus PipelineProject "error option"
  | DeletePod string string "error option"
  | DeleteConfigMap string string "error option"
  | DeletePodMonitor string string "error option"
  | DeletePVC string string "error option"
  | ApplyConfigMap string string "error + ConfigMap"
  | ApplyPod string string "error + Pod"
  | ApplyPodMonitor string string "error + PodMonitor"
  | ApplyService string string "error + Service"
  | ApplyStatefulSet string string "error + StatefulSet"
  | ApplyPipelineCluster string string "error + PipelineCluster"
  | RecordEvent string string
  | ClockRead int
  | StreamEnsured string string string "error option"
  | StreamDeleted string string "error option"
  | StreamRead string string "error + StreamStatus"
  | CachePushed string string string "error option"
  | CacheDeleted string string "error option"
  | JSStreamEnsured string string string Retention "error option"
  | JSStreamDeleted string string "error option"
  | KVEnsured string string KVConfig "error option"
  | KVDeleted string string "error option"

type_synonym 'w traced = "'w \<times> event list"

text \<open>
  The calculus is generic in the type of events: the reconcilers use \<open>event\<close>, the API handlers
  have events of their own.
\<close>

definition call :: "('w, 'r) state \<Rightarrow> ('r \<Rightarrow> 'e) \<Rightarrow> ('w \<times> 'e list, 'r) state" where
  "call m ev = State (\<lambda>(w, tr). case run_state m w of (r, w') \<Rightarrow> (r, (w', tr @ [ev r])))"

definition emit :: "'e \<Rightarrow> ('w \<times> 'e list, unit) state" where
  "emit e = State (\<lambda>(w, tr). ((), (w, tr @ [e])))"

lemma run_call:
  "run_state (call m ev) (w, tr) = (case run_state m w of (r, w') \<Rightarrow> (r, (w', tr @ [ev r])))"
  by (simp add: call_def)

lemma wp_call: "wp (call m ev) Q (w, tr) = (case run_state m w of (r, w') \<Rightarrow> Q r (w', tr @ [ev r]))"
  by (simp add: wp_def run_call split: prod.split)

lemma wp_emit [simp, wp_simps]: "wp (emit e) Q (w, tr) = Q () (w, tr @ [e])"
  by (simp add: wp_def emit_def)

text \<open>
  \<open>always m Q tr\<close>: whatever the environment does, running \<open>m\<close> after the trace \<open>tr\<close> ends
  in a result and a trace that satisfy \<open>Q\<close>.
\<close>

definition always :: "('w \<times> 'e list, 'a) state \<Rightarrow> ('a \<Rightarrow> 'e list \<Rightarrow> bool) \<Rightarrow> 'e list \<Rightarrow> bool" where
  "always m Q tr \<longleftrightarrow> (\<forall>w. wp m (\<lambda>a (w', tr'). Q a tr') (w, tr))"

named_theorems always_intros \<open>introduction rules for \<open>always\<close>\<close>

lemma always_return [always_intros]: "Q a tr \<Longrightarrow> always (State_Monad.return a) Q tr"
  by (simp add: always_def)

lemma always_bind [always_intros]:
  "always m (\<lambda>a. always (f a) Q) tr \<Longrightarrow> always (State_Monad.bind m f) Q tr"
  by (auto simp: always_def wp_def split: prod.splits)

lemma always_call [always_intros]: "(\<And>r. Q r (tr @ [ev r])) \<Longrightarrow> always (call m ev) Q tr"
  by (simp add: always_def wp_call split: prod.split)

lemma always_emit [always_intros]: "Q () (tr @ [e]) \<Longrightarrow> always (emit e) Q tr"
  by (simp add: always_def)

lemma always_if [always_intros]:
  "(b \<Longrightarrow> always m Q tr) \<Longrightarrow> (\<not> b \<Longrightarrow> always n Q tr) \<Longrightarrow> always (if b then m else n) Q tr"
  by simp

lemma always_mono: "always m P tr \<Longrightarrow> (\<And>a tr'. P a tr' \<Longrightarrow> Q a tr') \<Longrightarrow> always m Q tr"
  by (auto simp: always_def wp_def split: prod.splits)

lemma always_run:
  "always m Q tr \<Longrightarrow> run_state m (w, tr) = (a, (w', tr')) \<Longrightarrow> Q a tr'"
  by (auto simp: always_def wp_def dest!: spec [of _ w])

lemma always_case_sum [always_intros]:
  assumes "\<And>e. r = Inl e \<Longrightarrow> always (f e) Q tr" and "\<And>x. r = Inr x \<Longrightarrow> always (g x) Q tr"
  shows "always (case r of Inl e \<Rightarrow> f e | Inr x \<Rightarrow> g x) Q tr"
  using assms by (cases r) auto

lemma always_case_option [always_intros]:
  assumes "r = None \<Longrightarrow> always f Q tr" and "\<And>x. r = Some x \<Longrightarrow> always (g x) Q tr"
  shows "always (case r of None \<Rightarrow> f | Some x \<Rightarrow> g x) Q tr"
  using assms by (cases r) auto

text \<open>
  What a computation adds to the trace: every event it appends satisfies \<open>P\<close>, whatever the
  environment answers. The rules follow the structure of the code.
\<close>

definition emits :: "('e \<Rightarrow> bool) \<Rightarrow> ('w \<times> 'e list, 'a) state \<Rightarrow> bool" where
  "emits P m \<longleftrightarrow> (\<forall>tr. always m (\<lambda>_ tr'. \<exists>evs. tr' = tr @ evs \<and> list_all P evs) tr)"

named_theorems emits_intros \<open>introduction rules for \<open>emits\<close>\<close>

lemma emits_return [emits_intros]: "emits P (State_Monad.return a)"
  by (auto simp: emits_def intro!: always_intros exI [of _ "[]"])

lemma emits_call [emits_intros]: "(\<And>r. P (ev r)) \<Longrightarrow> emits P (call m ev)"
  by (auto simp: emits_def intro!: always_intros)

lemma emits_emit [emits_intros]: "P e \<Longrightarrow> emits P (emit e)"
  by (auto simp: emits_def intro!: always_intros)

lemma emits_bind [emits_intros]:
  assumes "emits P m" and "\<And>a. emits P (f a)"
  shows "emits P (State_Monad.bind m f)"
  unfolding emits_def
proof
  fix tr
  have "always m (\<lambda>a tr'. always (f a) (\<lambda>_ tr''. \<exists>evs. tr'' = tr @ evs \<and> list_all P evs) tr') tr"
    using assms(1) unfolding emits_def
  proof (rule allE [of _ tr], elim always_mono exE conjE)
    fix a tr' evs
    assume "tr' = tr @ evs" and "list_all P evs"
    then show "always (f a) (\<lambda>_ tr''. \<exists>evs. tr'' = tr @ evs \<and> list_all P evs) tr'"
      using assms(2) [of a] unfolding emits_def by (auto elim!: allE [of _ tr'] always_mono)
  qed
  then show "always (m \<bind> f) (\<lambda>_ tr'. \<exists>evs. tr' = tr @ evs \<and> list_all P evs) tr"
    by (rule always_bind)
qed

lemma emits_if [emits_intros]:
  "(b \<Longrightarrow> emits P m) \<Longrightarrow> (\<not> b \<Longrightarrow> emits P n) \<Longrightarrow> emits P (if b then m else n)"
  by simp

lemma emits_case_sum [emits_intros]:
  assumes "\<And>e. r = Inl e \<Longrightarrow> emits P (f e)" and "\<And>x. r = Inr x \<Longrightarrow> emits P (g x)"
  shows "emits P (case r of Inl e \<Rightarrow> f e | Inr x \<Rightarrow> g x)"
  using assms by (cases r) auto

lemma emits_case_option [emits_intros]:
  assumes "r = None \<Longrightarrow> emits P f" and "\<And>x. r = Some x \<Longrightarrow> emits P (g x)"
  shows "emits P (case r of None \<Rightarrow> f | Some x \<Rightarrow> g x)"
  using assms by (cases r) auto

lemma emits_let [emits_intros]: "(\<And>x. x = v \<Longrightarrow> emits P (f x)) \<Longrightarrow> emits P (let x = v in f x)"
  by simp

lemma emits_mono:
  assumes "emits P m" and "\<And>e. P e \<Longrightarrow> Q e"
  shows "emits Q m"
  unfolding emits_def
proof
  fix tr
  from assms(1) have "always m (\<lambda>_ tr'. \<exists>evs. tr' = tr @ evs \<and> list_all P evs) tr"
    by (simp add: emits_def)
  then show "always m (\<lambda>_ tr'. \<exists>evs. tr' = tr @ evs \<and> list_all Q evs) tr"
    by (rule always_mono) (use assms(2) in \<open>auto simp: list_all_iff\<close>)
qed

lemma emits_run:
  "emits P m \<Longrightarrow> run_state m (w, tr) = (a, (w', tr')) \<Longrightarrow> \<exists>evs. tr' = tr @ evs \<and> list_all P evs"
  by (auto simp: emits_def dest!: spec [of _ tr] dest: always_run)

text \<open>The continuation of a call may use what the call can return.\<close>

lemma emits_bind_call:
  assumes "\<And>r. P (ev r)" and "\<And>w r w'. run_state m w = (r, w') \<Longrightarrow> emits P (f r)"
  shows "emits P (State_Monad.bind (call m ev) f)"
  unfolding emits_def always_def
proof (intro allI)
  fix tr w
  obtain r w' where run: "run_state m w = (r, w')" by fastforce
  show "wp (State_Monad.bind (call m ev) f) (\<lambda>_ (_, tr'). \<exists>evs. tr' = tr @ evs \<and> list_all P evs) (w, tr)"
    using assms(1) emits_run [OF assms(2) [OF run], of w' "tr @ [ev r]"]
    by (auto simp: wp_def run_call run split: prod.splits)
qed

lemma always_emits:
  assumes "emits P m" and "\<And>a evs. list_all P evs \<Longrightarrow> Q a (tr @ evs)"
  shows "always m Q tr"
proof -
  from assms(1) have "always m (\<lambda>_ tr'. \<exists>evs. tr' = tr @ evs \<and> list_all P evs) tr"
    by (simp add: emits_def)
  then show ?thesis by (rule always_mono) (use assms(2) in auto)
qed

section \<open>A client for evaluating the model\<close>

text \<open>Every call fails; the witnesses replace the operations they use.\<close>

definition failing_kube :: "'w KubeClient" where
  "failing_kube =
     \<lparr>Get_Pipeline = (\<lambda>_ _. State_Monad.return (Inl (Errorf ''down''))),
      Get_PipelineCluster = (\<lambda>_ _. State_Monad.return (Inl (Errorf ''down''))),
      Get_PipelineProject = (\<lambda>_ _. State_Monad.return (Inl (Errorf ''down''))),
      Get_Secret = (\<lambda>_ _. State_Monad.return (Inl (Errorf ''down''))),
      Get_Pod = (\<lambda>_ _. State_Monad.return (Inl (Errorf ''down''))),
      List_Pods = (\<lambda>_ _. State_Monad.return (Inl (Errorf ''down''))),
      List_Pipelines = (\<lambda>_. State_Monad.return (Inl (Errorf ''down''))),
      List_PipelinesBySecret = (\<lambda>_ _. State_Monad.return (Inl (Errorf ''down''))),
      List_PipelineProjects = (\<lambda>_. State_Monad.return (Inl (Errorf ''down''))),
      List_PVCs = (\<lambda>_ _. State_Monad.return (Inl (Errorf ''down''))),
      Update_Pipeline = (\<lambda>_. State_Monad.return (Some (Errorf ''down''))),
      Update_PipelineProject = (\<lambda>_. State_Monad.return (Some (Errorf ''down''))),
      StatusUpdate_Pipeline = (\<lambda>_. State_Monad.return (Some (Errorf ''down''))),
      StatusUpdate_PipelineCluster = (\<lambda>_. State_Monad.return (Some (Errorf ''down''))),
      StatusUpdate_PipelineProject = (\<lambda>_. State_Monad.return (Some (Errorf ''down''))),
      Delete_Pod = (\<lambda>_ _. State_Monad.return (Some (Errorf ''down''))),
      Delete_ConfigMap = (\<lambda>_ _. State_Monad.return (Some (Errorf ''down''))),
      Delete_PodMonitor = (\<lambda>_ _. State_Monad.return (Some (Errorf ''down''))),
      Delete_PVC = (\<lambda>_ _. State_Monad.return (Some (Errorf ''down''))),
      CreateOrUpdate_ConfigMap = (\<lambda>_ _ _. State_Monad.return (Inl (Errorf ''down''))),
      CreateOrUpdate_Pod = (\<lambda>_ _ _. State_Monad.return (Inl (Errorf ''down''))),
      CreateOrUpdate_PodMonitor = (\<lambda>_ _ _. State_Monad.return (Inl (Errorf ''down''))),
      CreateOrUpdate_Service = (\<lambda>_ _ _. State_Monad.return (Inl (Errorf ''down''))),
      CreateOrUpdate_StatefulSet = (\<lambda>_ _ _. State_Monad.return (Inl (Errorf ''down''))),
      CreateOrUpdate_PipelineCluster = (\<lambda>_ _ _. State_Monad.return (Inl (Errorf ''down''))),
      SetControllerReference = (\<lambda>owner m. Inr m)\<rparr>"

end
