(* ===== verification/Rpc_Secrets.thy ===== *)
theory Rpc_Secrets
  imports Rpc_Env Rpc_Routes
begin

text \<open>
  Secrets of a clustered pipeline, \<^verbatim>\<open>internal/controller/secret_substitution.go\<close>: reading
  the referenced Secrets and writing their values into the rendered configuration as the
  defaults of its environment variables. The regular expression of the Go code,
  \<^verbatim>\<open>${NAME}\<close> or \<^verbatim>\<open>${NAME:default}\<close>, is deterministic and is matched by \<open>match_var\<close>;
  the replacement of all leftmost matches is \<open>replace_vars\<close>.
\<close>

section \<open>Substitution\<close>

definition is_name_start :: "char \<Rightarrow> bool" where
  "is_name_start c \<longleftrightarrow> (let n = of_char c :: nat in 65 \<le> n \<and> n \<le> 90 \<or> 97 \<le> n \<and> n \<le> 122 \<or> n = 95)"

definition is_name_char :: "char \<Rightarrow> bool" where
  "is_name_char c \<longleftrightarrow> is_name_start c \<or> is_digit c"

text \<open>
  A match at the head of the text: the name, the text of the default after the colon if there
  is one, and what follows the match.
\<close>

definition match_var :: "string \<Rightarrow> (string \<times> string option \<times> string) option" where
  "match_var s = (case s of
     a # b # r \<Rightarrow>
       if a = CHR ''$'' \<and> b = CHR ''{'' then
         let name = takeWhile is_name_char r; rest = dropWhile is_name_char r in
         if name = [] \<or> \<not> is_name_start (hd name) then None
         else (case rest of
             [] \<Rightarrow> None
           | c # t \<Rightarrow>
               if c = CHR ''}'' then Some (name, None, t)
               else if c = CHR '':'' then
                 (case dropWhile (\<lambda>x. x \<noteq> CHR ''}'') t of
                    [] \<Rightarrow> None
                  | _ # t' \<Rightarrow> Some (name, Some (takeWhile (\<lambda>x. x \<noteq> CHR ''}'') t), t'))
               else None)
       else None
   | _ \<Rightarrow> None)"

definition print_var :: "string \<Rightarrow> string option \<Rightarrow> string" where
  "print_var name d = ''${'' @ name @ (case d of None \<Rightarrow> '''' | Some v \<Rightarrow> '':'' @ v) @ ''}''"

lemma print_var_match: "match_var s = Some (n, d, t) \<Longrightarrow> s = print_var n d @ t"
proof -
  assume m: "match_var s = Some (n, d, t)"
  then obtain r where s: "s = CHR ''$'' # CHR ''{'' # r"
    by (auto simp: match_var_def split: list.splits if_splits)
  let ?rest = "dropWhile is_name_char r"
  have r: "r = takeWhile is_name_char r @ ?rest" by simp
  from m s obtain c u where rest: "?rest = c # u" and n: "n = takeWhile is_name_char r"
    and cases: "c = CHR ''}'' \<and> d = None \<and> t = u \<or>
      c = CHR '':'' \<and> d = Some (takeWhile (\<lambda>x. x \<noteq> CHR ''}'') u) \<and>
        (\<exists>x. dropWhile (\<lambda>x. x \<noteq> CHR ''}'') u = x # t)"
    by (auto simp: match_var_def Let_def split: list.splits if_splits)
  from cases show ?thesis
  proof
    assume "c = CHR ''}'' \<and> d = None \<and> t = u"
    with r rest n s show ?thesis by (simp add: print_var_def)
  next
    assume c: "c = CHR '':'' \<and> d = Some (takeWhile (\<lambda>x. x \<noteq> CHR ''}'') u) \<and>
        (\<exists>x. dropWhile (\<lambda>x. x \<noteq> CHR ''}'') u = x # t)"
    then obtain x where x: "dropWhile (\<lambda>x. x \<noteq> CHR ''}'') u = x # t" by blast
    then have "x = CHR ''}''" using hd_dropWhile [of "\<lambda>x. x \<noteq> CHR ''}''" u] by auto
    then have "u = takeWhile (\<lambda>x. x \<noteq> CHR ''}'') u @ CHR ''}'' # t"
      using x takeWhile_dropWhile_id [of "\<lambda>x. x \<noteq> CHR ''}''" u] by simp
    with c r rest n s show ?thesis by (simp add: print_var_def)
  qed
qed

lemma match_var_shorter: "match_var s = Some (n, d, t) \<Longrightarrow> length t < length s"
  by (drule print_var_match) (simp add: print_var_def)

text \<open>The callback of \<open>ReplaceAllStringFunc\<close>: the match is kept when the name has no value.\<close>

definition replace_match :: "(string \<times> string) list \<Rightarrow> string \<Rightarrow> string option \<Rightarrow> string" where
  "replace_match vals name d =
     (case aget vals name of
        None \<Rightarrow> print_var name d
      | Some val \<Rightarrow> ''${'' @ name @ '':'' @ val @ ''}'')"

function replace_vars :: "(string \<times> string) list \<Rightarrow> string \<Rightarrow> string" where
  "replace_vars vals s =
     (case s of
        [] \<Rightarrow> []
      | c # cs \<Rightarrow> (case match_var s of
            Some (name, d, rest) \<Rightarrow> replace_match vals name d @ replace_vars vals rest
          | None \<Rightarrow> c # replace_vars vals cs))"
  by pat_completeness auto
termination
  by (relation "measure (length \<circ> snd)") (auto dest: match_var_shorter)

declare replace_vars.simps [simp del]

definition substituteSecrets :: "string \<Rightarrow> SecretRef list \<Rightarrow> (string \<times> string) list \<Rightarrow> string" where
  "substituteSecrets yamlText refs vals =
     (if refs = [] \<or> vals = [] then yamlText else replace_vars vals yamlText)"

section \<open>Fetching\<close>

fun fetch_secrets ::
  "'w KubeClient \<Rightarrow> string \<Rightarrow> SecretRef list \<Rightarrow> (string \<times> Secret) list \<Rightarrow>
   ('w traced, error + (string \<times> Secret) list) state" where
  "fetch_secrets K namespace [] secrets = State_Monad.return (Inr secrets)"
| "fetch_secrets K namespace (ref # refs) secrets =
     (if aget secrets (sr_SecretName ref) \<noteq> None then fetch_secrets K namespace refs secrets
      else do {
        r \<leftarrow> call (Get_Secret K (sr_SecretName ref) namespace) (GetSecret (sr_SecretName ref) namespace);
        case r of
          Inl err \<Rightarrow> State_Monad.return (Inl
            (if err_kind err = NotFound
             then Errorf (''secret '' @ go_quote (sr_SecretName ref) @ '' not found'') else err))
        | Inr s \<Rightarrow> fetch_secrets K namespace refs (aset (sr_SecretName ref) s secrets)
      })"

fun extract_values ::
  "(string \<times> Secret) list \<Rightarrow> SecretRef list \<Rightarrow> (string \<times> string) list \<Rightarrow> error + (string \<times> string) list" where
  "extract_values secrets [] vals = Inr vals"
| "extract_values secrets (ref # refs) vals =
     (case Option.bind (aget secrets (sr_SecretName ref)) (\<lambda>s. aget (sec_Data s) (sr_Key ref)) of
        None \<Rightarrow> Inl (Errorf (''key '' @ go_quote (sr_Key ref) @ '' not found in secret '' @
                  go_quote (sr_SecretName ref)))
      | Some raw \<Rightarrow> extract_values secrets refs (aset (sr_EnvVar ref) raw vals))"

definition fetchSecretValues ::
  "'w KubeClient \<Rightarrow> string \<Rightarrow> SecretRef list \<Rightarrow> ('w traced, error + (string \<times> string) list) state" where
  "fetchSecretValues K namespace refs =
     (if refs = [] then State_Monad.return (Inr [])
      else do {
        r \<leftarrow> fetch_secrets K namespace refs [];
        State_Monad.return (case r of
          Inl err \<Rightarrow> Inl err
        | Inr secrets \<Rightarrow> extract_values secrets refs [])
      })"

section \<open>What a text refers to\<close>

text \<open>The variables of a text in order, each with its default.\<close>

function vars_of :: "string \<Rightarrow> (string \<times> string option) list" where
  "vars_of s =
     (case s of
        [] \<Rightarrow> []
      | c # cs \<Rightarrow> (case match_var s of
            Some (name, d, rest) \<Rightarrow> (name, d) # vars_of rest
          | None \<Rightarrow> vars_of cs))"
  by pat_completeness auto
termination
  by (relation "measure length") (auto dest: match_var_shorter)

declare vars_of.simps [simp del]

definition given :: "(string \<times> string) list \<Rightarrow> string \<times> string option \<Rightarrow> string \<times> string option" where
  "given vals e = (case e of (name, d) \<Rightarrow>
     (name, case aget vals name of Some v \<Rightarrow> Some v | None \<Rightarrow> d))"

lemma is_name_char_special [simp]:
  "\<not> is_name_char (CHR ''}'')" "\<not> is_name_char (CHR '':'')" "\<not> is_name_char (CHR ''$'')" "\<not> is_name_char (CHR ''{'')"
  by (simp_all add: is_name_char_def is_name_start_def is_digit_def)

lemma match_var_name:
  assumes "match_var s = Some (n, d, t)"
  shows "n \<noteq> []" and "is_name_start (hd n)" and "list_all is_name_char n"
    and "\<And>v. d = Some v \<Longrightarrow> CHR ''}'' \<notin> set v"
  using assms
  by (auto simp: match_var_def Let_def list_all_iff split: list.splits if_splits dest: set_takeWhileD)

lemma until_char:
  assumes "c \<notin> set v"
  shows "takeWhile (\<lambda>x. x \<noteq> c) (v @ c # t) = v" and "dropWhile (\<lambda>x. x \<noteq> c) (v @ c # t) = c # t"
  using assms by (induction v) auto

lemma match_var_print:
  assumes "n \<noteq> []" and "is_name_start (hd n)" and "list_all is_name_char n"
    and "\<And>v. d = Some v \<Longrightarrow> CHR ''}'' \<notin> set v"
  shows "match_var (print_var n d @ t) = Some (n, d, t)"
proof -
  have name: "takeWhile is_name_char (n @ c # u) = n" "dropWhile is_name_char (n @ c # u) = c # u"
    if "\<not> is_name_char c" for c u
    using assms(3) that by (simp_all add: list_all_iff takeWhile_append2 dropWhile_append2)
  show ?thesis
  proof (cases d)
    case None
    with assms(1,2) name [of "CHR ''}''"] show ?thesis by (simp add: match_var_def print_var_def Let_def)
  next
    case (Some v)
    with assms(1,2) name [of "CHR '':''"] until_char [OF assms(4) [OF Some]] show ?thesis
      by (simp add: match_var_def print_var_def Let_def)
  qed
qed

lemma match_var_brace: "match_var s = Some (n, d, t) \<Longrightarrow> CHR ''}'' \<in> set s"
  by (drule print_var_match) (simp add: print_var_def)

lemma replace_vars_no_brace: "CHR ''}'' \<notin> set s \<Longrightarrow> replace_vars vals s = s"
proof (induction s)
  case (Cons c s)
  then have "match_var (c # s) = None"
    using match_var_brace [of "c # s"] by (cases "match_var (c # s)") auto
  with Cons show ?case by (subst replace_vars.simps) simp
qed (simp add: replace_vars.simps)

lemma replace_vars_no_dollar:
  "CHR ''$'' \<notin> set p \<Longrightarrow> replace_vars vals (p @ s) = p @ replace_vars vals s"
proof (induction p)
  case (Cons c p)
  then have "match_var (c # p @ s) = None" by (auto simp: match_var_def split: list.splits)
  with Cons show ?case by (subst replace_vars.simps) simp
qed simp

lemma replace_vars_dollar: "\<exists>u. replace_vars vals (CHR ''$'' # s) = CHR ''$'' # u"
  by (subst replace_vars.simps)
    (auto simp: replace_match_def print_var_def split: option.splits)

text \<open>A position that does not match before the replacement does not match after it.\<close>

lemma match_var_replace_None:
  assumes "match_var (c # s) = None"
  shows "match_var (c # replace_vars vals s) = None"
proof (rule ccontr)
  assume "match_var (c # replace_vars vals s) \<noteq> None"
  then obtain n d t where m: "match_var (c # replace_vars vals s) = Some (n, d, t)" by auto
  from print_var_match [OF m] obtain tl where
    eq: "c = CHR ''$''" "replace_vars vals s = CHR ''{'' # n @ tl"
    and tl: "tl = (case d of None \<Rightarrow> '''' | Some v \<Rightarrow> '':'' @ v) @ CHR ''}'' # t"
    by (auto simp: print_var_def)
  obtain h r where h: "tl = h # r" "h = CHR ''}'' \<or> h = CHR '':''"
    using tl by (cases d) auto
  note nm = match_var_name [OF m]
  have nd: "CHR ''$'' \<notin> set n" using nm(3) by (auto simp: list_all_iff)
  define p where "p = takeWhile (\<lambda>x. x \<noteq> CHR ''$'') s"
  define q where "q = dropWhile (\<lambda>x. x \<noteq> CHR ''$'') s"
  have s: "s = p @ q" and pd: "CHR ''$'' \<notin> set p" by (auto simp: p_def q_def dest: set_takeWhileD)
  have out: "replace_vars vals s = p @ replace_vars vals q"
    unfolding s by (rule replace_vars_no_dollar [OF pd])
  have q: "q = [] \<or> (\<exists>q'. q = CHR ''$'' # q')"
    unfolding q_def using hd_dropWhile [of "\<lambda>x. x \<noteq> CHR ''$''" s] by (cases "dropWhile (\<lambda>x. x \<noteq> CHR ''$'') s") auto
  then have oq: "replace_vars vals q = [] \<and> q = [] \<or> (\<exists>u. replace_vars vals q = CHR ''$'' # u)"
    using replace_vars_dollar by (auto simp: replace_vars.simps [of vals "[]"])
  have split: "p @ replace_vars vals q = (CHR ''{'' # n @ [h]) @ r" using eq(2) out h(1) by simp
  have "\<exists>p'. p = (CHR ''{'' # n @ [h]) @ p'"
  proof -
    from split obtain us where "p = (CHR ''{'' # n @ [h]) @ us \<or>
        p @ us = CHR ''{'' # n @ [h] \<and> replace_vars vals q = us @ r"
      unfolding append_eq_append_conv2 by blast
    then consider (inside) "p = (CHR ''{'' # n @ [h]) @ us"
      | (across) "p @ us = CHR ''{'' # n @ [h]" "replace_vars vals q = us @ r" by blast
    then show ?thesis
    proof cases
      case across
      show ?thesis
      proof (cases us)
        case Nil
        with across(1) show ?thesis by auto
      next
        case (Cons x us')
        with across(2) oq have "x = CHR ''$''" by auto
        with across(1) Cons have "CHR ''$'' \<in> set (CHR ''{'' # n @ [h])" by (metis in_set_conv_decomp)
        with nd h(2) show ?thesis by auto
      qed
    qed blast
  qed
  then obtain p' where p': "p = (CHR ''{'' # n @ [h]) @ p'" by blast
  have r: "r = p' @ replace_vars vals q" using split p' by simp
  have s': "c # s = CHR ''$'' # CHR ''{'' # n @ h # p' @ q" using eq(1) s p' by simp
  show False
  proof (cases "h = CHR ''}''")
    case True
    with s' have "c # s = print_var n None @ (p' @ q)" by (simp add: print_var_def)
    with match_var_print [OF nm(1-3), of None "p' @ q"] assms show False by simp
  next
    case False
    with h(2) have col: "h = CHR '':''" by simp
    show False
    proof (cases "CHR ''}'' \<in> set (p' @ q)")
      case True
      then obtain v w where vw: "p' @ q = v @ CHR ''}'' # w" "CHR ''}'' \<notin> set v"
        by (meson split_list_first)
      with s' col have "c # s = print_var n (Some v) @ w" by (simp add: print_var_def)
      with match_var_print [OF nm(1-3), of "Some v" w] vw(2) assms show False by simp
    next
      case False
      then have "replace_vars vals q = q" by (simp add: replace_vars_no_brace)
      with r False have "CHR ''}'' \<notin> set r" by simp
      moreover have "CHR ''}'' \<in> set r" using tl h(1) col by (cases d) auto
      ultimately show False by simp
    qed
  qed
qed

lemma replace_vars_match:
  "match_var s = Some (n, d, t) \<Longrightarrow> replace_vars vals s = replace_match vals n d @ replace_vars vals t"
  by (subst replace_vars.simps) (auto simp: match_var_def split: list.splits)

lemma vars_of_match: "match_var s = Some (n, d, t) \<Longrightarrow> vars_of s = (n, d) # vars_of t"
  by (subst vars_of.simps) (auto simp: match_var_def split: list.splits)

lemma vars_of_replace:
  assumes "\<And>n v. aget vals n = Some v \<Longrightarrow> CHR ''}'' \<notin> set v"
  shows "vars_of (replace_vars vals s) = map (given vals) (vars_of s)"
proof (induction s rule: vars_of.induct)
  case (1 s)
  show ?case
  proof (cases s)
    case Nil
    then show ?thesis by (simp add: replace_vars.simps vars_of.simps)
  next
    case (Cons c cs)
    show ?thesis
    proof (cases "match_var s")
      case None
      with 1 Cons have "vars_of (replace_vars vals cs) = map (given vals) (vars_of cs)" by simp
      moreover have "match_var (c # replace_vars vals cs) = None"
        using match_var_replace_None None Cons by simp
      ultimately show ?thesis
        using None Cons by (simp add: replace_vars.simps [of vals "c # cs"] vars_of.simps [of "c # cs"]
            vars_of.simps [of "c # replace_vars vals cs"])
    next
      case (Some m)
      obtain n d t where m: "m = (n, d, t)" by (cases m)
      with Some have sm: "match_var s = Some (n, d, t)" by simp
      obtain d' where d': "given vals (n, d) = (n, d')" by (simp add: given_def)
      have rm: "replace_match vals n d = print_var n d'"
        using d' by (cases "aget vals n") (auto simp: replace_match_def given_def print_var_def)
      have nb: "CHR ''}'' \<notin> set v" if "d' = Some v" for v
        using d' that assms match_var_name(4) [OF sm] by (auto simp: given_def split: option.splits)
      have mp: "match_var (print_var n d' @ replace_vars vals t) = Some (n, d', replace_vars vals t)"
        using match_var_name [OF sm] nb by (intro match_var_print) auto
      have "vars_of (replace_vars vals s) = (n, d') # vars_of (replace_vars vals t)"
        using replace_vars_match [OF sm] vars_of_match [OF mp] rm by simp
      moreover have "vars_of (replace_vars vals t) = map (given vals) (vars_of t)"
        using 1 Cons sm by simp
      ultimately show ?thesis using vars_of_match [OF sm] d' by simp
    qed
  qed
qed

section \<open>What is fetched\<close>

definition fetch_events :: "string \<Rightarrow> (string \<times> Secret) list \<Rightarrow> event list" where
  "fetch_events ns secrets = map (\<lambda>(n, s). GetSecret n ns (Inr s)) secrets"

lemma aset_new: "aget m k = None \<Longrightarrow> aset k v m = m @ [(k, v)]"
  by (induction m) (auto split: if_splits)

text \<open>
  Every name is fetched once: on success the trace lists the secrets that were returned, on
  failure it ends with the failed call.
\<close>

definition fetch_post ::
  "string \<Rightarrow> SecretRef list \<Rightarrow> event list \<Rightarrow> error + (string \<times> Secret) list \<Rightarrow> event list \<Rightarrow> bool" where
  "fetch_post ns refs tr res tr' \<longleftrightarrow>
     (\<exists>secrets. distinct (map fst secrets) \<and>
        fst ` set secrets \<subseteq> sr_SecretName ` set refs \<and>
        (case res of
           Inr secrets' \<Rightarrow> secrets' = secrets \<and> tr' = tr @ fetch_events ns secrets \<and>
             fst ` set secrets = sr_SecretName ` set refs
         | Inl err \<Rightarrow> \<exists>n e. n \<notin> fst ` set secrets \<and> n \<in> sr_SecretName ` set refs \<and>
             tr' = tr @ fetch_events ns secrets @ [GetSecret n ns (Inl e)]))"

lemma fetch_secrets_post:
  assumes "distinct (map fst secrets)" and "fst ` set secrets \<subseteq> sr_SecretName ` set done'"
    and "sr_SecretName ` set done' \<subseteq> fst ` set secrets"
  shows "always (fetch_secrets K ns refs secrets) (fetch_post ns (done' @ refs) tr)
    (tr @ fetch_events ns secrets)"
  using assms
proof (induction refs arbitrary: secrets done')
  case Nil
  then show ?case by (auto simp: fetch_post_def intro!: always_intros)
next
  case (Cons ref refs)
  let ?n = "sr_SecretName ref"
  show ?case
  proof (cases "aget secrets ?n")
    case (Some s)
    then have "?n \<in> fst ` set secrets" by (metis map_of_eq_None_iff option.distinct(1))
    with Cons.prems have "always (fetch_secrets K ns refs secrets)
        (fetch_post ns ((done' @ [ref]) @ refs) tr) (tr @ fetch_events ns secrets)"
      by (intro Cons.IH) auto
    with Some show ?thesis by simp
  next
    case None
    then have new: "?n \<notin> fst ` set secrets" by (metis map_of_eq_None_iff)
    have ok: "always (fetch_secrets K ns refs (aset ?n s secrets))
        (fetch_post ns (done' @ ref # refs) tr) (tr @ fetch_events ns secrets @ [GetSecret ?n ns (Inr s)])" for s
    proof -
      have "always (fetch_secrets K ns refs (aset ?n s secrets))
        (fetch_post ns ((done' @ [ref]) @ refs) tr) (tr @ fetch_events ns (aset ?n s secrets))"
        using Cons.prems new None by (intro Cons.IH) (auto simp: aset_new)
      then show ?thesis using None by (simp add: aset_new fetch_events_def)
    qed
    have fail: "fetch_post ns (done' @ ref # refs) tr (Inl err)
        (tr @ fetch_events ns secrets @ [GetSecret ?n ns (Inl e)])" for err e
      using Cons.prems new unfolding fetch_post_def by (intro exI [of _ secrets]) auto
    show ?thesis
      using None ok fail by (auto intro!: always_intros split: sum.splits)
  qed
qed

lemma extract_values_other:
  "extract_values secrets refs vals = Inr vals' \<Longrightarrow> n \<notin> sr_EnvVar ` set refs \<Longrightarrow> aget vals' n = aget vals n"
  by (induction refs arbitrary: vals) (auto split: option.splits)

lemma extract_values_ref:
  assumes "extract_values secrets refs vals = Inr vals'" and "distinct (map sr_EnvVar refs)" and "ref \<in> set refs"
  shows "\<exists>s v. aget secrets (sr_SecretName ref) = Some s \<and> aget (sec_Data s) (sr_Key ref) = Some v \<and>
      aget vals' (sr_EnvVar ref) = Some v"
  using assms
proof (induction refs arbitrary: vals)
  case (Cons r refs)
  then obtain s raw where s: "aget secrets (sr_SecretName r) = Some s" "aget (sec_Data s) (sr_Key r) = Some raw"
    by (auto split: option.splits bind_splits)
  with Cons.prems have rest: "extract_values secrets refs (aset (sr_EnvVar r) raw vals) = Inr vals'" by simp
  from extract_values_other [OF this, of "sr_EnvVar r"] Cons.prems(2)
  have "aget vals' (sr_EnvVar r) = Some raw" by simp
  with s Cons.IH [OF rest] Cons.prems show ?case by auto
qed simp

lemma always_return_bind:
  "always m (\<lambda>a tr'. Q (f a) tr') tr \<Longrightarrow> always (m \<bind> (\<lambda>a. State_Monad.return (f a))) Q tr"
  by (auto intro!: always_intros elim: always_mono)

section \<open>Properties\<close>

text \<open>
  C32: Substitution rewrites exactly the variables that have a value: reading the result finds
  the same variables in the same order, those with a value carrying it as their default and the
  others with the default they had, provided no value contains a closing brace.
\<close>

theorem substituteSecrets_vars:
  assumes "list_all (\<lambda>(n, v). CHR ''}'' \<notin> set v) vals"
  shows "vars_of (substituteSecrets text refs vals) =
     (if refs = [] then vars_of text else map (given vals) (vars_of text))"
proof -
  have "CHR ''}'' \<notin> set v" if "aget vals n = Some v" for n v
    using assms map_of_SomeD [OF that] by (auto simp: list_all_iff)
  moreover have "map (given []) xs = xs" for xs by (induction xs) (auto simp: given_def)
  ultimately show ?thesis by (auto simp: substituteSecrets_def vars_of_replace)
qed

lemma match_var_code [simp]:
  "is_name_start (CHR ''P'')" "is_name_char (CHR ''P'')" "is_name_start (CHR ''Q'')" "is_name_char (CHR ''Q'')"
  by (simp_all add: is_name_start_def is_name_char_def)

theorem substituteSecrets_vars_witness:
  "vars_of (substituteSecrets ''a: ${P} ${Q:x} ${!f}'' [\<lparr>sr_EnvVar = ''P'', sr_SecretName = ''s'', sr_Key = ''k''\<rparr>]
      [(''P'', ''v'')]) = [(''P'', Some ''v''), (''Q'', Some ''x'')]"
proof -
  have "vars_of ''a: ${P} ${Q:x} ${!f}'' = [(''P'', None), (''Q'', Some ''x'')]"
    by (simp add: vars_of.simps match_var_def is_name_char_def is_name_start_def is_digit_def)
  then show ?thesis
    using substituteSecrets_vars [of "[(''P'', ''v'')]" "''a: ${P} ${Q:x} ${!f}''"
        "[\<lparr>sr_EnvVar = ''P'', sr_SecretName = ''s'', sr_Key = ''k''\<rparr>]"]
    by (simp add: given_def)
qed

text \<open>
  A secret value that contains a closing brace is not protected: the text after the brace
  falls out of the variable, and the variable's default is only the part before it.
\<close>

lemma substituteSecrets_brace:
  "substituteSecrets ''${P}'' [\<lparr>sr_EnvVar = ''P'', sr_SecretName = ''s'', sr_Key = ''k''\<rparr>] [(''P'', ''a}b'')] = ''${P:a}b}'' \<and>
   vars_of (substituteSecrets ''${P}'' [\<lparr>sr_EnvVar = ''P'', sr_SecretName = ''s'', sr_Key = ''k''\<rparr>] [(''P'', ''a}b'')]) =
     [(''P'', Some ''a'')]"
  by (simp add: substituteSecrets_def replace_vars.simps vars_of.simps match_var_def replace_match_def)

text \<open>
  Fetching calls the API once per distinct secret and for no other object, whatever the API
  answers; when it succeeds, every reference has found its key in the secret that was returned
  for it and its variable carries that value.
\<close>

lemma fetchSecretValues_correct:
  assumes "distinct (map sr_EnvVar refs)" and "run_state (fetchSecretValues K ns refs) (w, []) = (res, (w', tr))"
  shows "\<exists>names. distinct names \<and> set names \<subseteq> sr_SecretName ` set refs \<and>
       list_all2 (\<lambda>n e. \<exists>r. e = GetSecret n ns r) names tr \<and>
     (\<forall>vals. res = Inr vals \<longrightarrow> (\<forall>ref\<in>set refs. \<exists>s v. GetSecret (sr_SecretName ref) ns (Inr s) \<in> set tr \<and>
        aget (sec_Data s) (sr_Key ref) = Some v \<and> aget vals (sr_EnvVar ref) = Some v))"
proof -
  let ?Q = "\<lambda>res tr. \<exists>names. distinct names \<and> set names \<subseteq> sr_SecretName ` set refs \<and>
       list_all2 (\<lambda>n e. \<exists>r. e = GetSecret n ns r) names tr \<and>
     (\<forall>vals. res = Inr vals \<longrightarrow> (\<forall>ref\<in>set refs. \<exists>s v. GetSecret (sr_SecretName ref) ns (Inr s) \<in> set tr \<and>
        aget (sec_Data s) (sr_Key ref) = Some v \<and> aget vals (sr_EnvVar ref) = Some v))"
  have la: "list_all2 (\<lambda>n e. \<exists>r. e = GetSecret n ns r) (map fst secrets) (fetch_events ns secrets)" for secrets
    by (auto simp: fetch_events_def list_all2_map1 list_all2_map2 list_all2_same)
  have post: "?Q (case r of Inl err \<Rightarrow> Inl err | Inr secrets \<Rightarrow> extract_values secrets refs []) tr'"
    if "fetch_post ns refs [] r tr'" for r tr'
  proof (cases r)
    case (Inl err)
    with that obtain secrets n e where "distinct (map fst secrets)" "n \<notin> fst ` set secrets"
      "insert n (fst ` set secrets) \<subseteq> sr_SecretName ` set refs"
      "tr' = fetch_events ns secrets @ [GetSecret n ns (Inl e)]"
      by (auto simp: fetch_post_def)
    with Inl la [of secrets] show ?thesis
      by (intro exI [of _ "map fst secrets @ [n]"]) (auto intro: list_all2_appendI)
  next
    case (Inr secrets)
    with that have d: "distinct (map fst secrets)" "tr' = fetch_events ns secrets"
      "fst ` set secrets = sr_SecretName ` set refs" by (auto simp: fetch_post_def)
    have mem: "GetSecret n ns (Inr s) \<in> set tr'" if "aget secrets n = Some s" for n s
      using map_of_SomeD [OF that] d(2) by (force simp: fetch_events_def)
    have "\<exists>s v. GetSecret (sr_SecretName ref) ns (Inr s) \<in> set tr' \<and>
        aget (sec_Data s) (sr_Key ref) = Some v \<and> aget vals (sr_EnvVar ref) = Some v"
      if "extract_values secrets refs [] = Inr vals" "ref \<in> set refs" for vals ref
      using extract_values_ref [OF that(1) assms(1) that(2)] mem by blast
    with Inr d la [of secrets] show ?thesis
      by (intro exI [of _ "map fst secrets"]) auto
  qed
  have "always (fetchSecretValues K ns refs) ?Q []"
  proof (cases "refs = []")
    case True
    then show ?thesis by (auto simp: fetchSecretValues_def intro!: always_intros exI [of _ "[]"])
  next
    case False
    have "always (fetch_secrets K ns refs []) (fetch_post ns refs []) []"
      using fetch_secrets_post [of "[]" "[]" K ns refs "[]"] by (simp add: fetch_events_def)
    with False post show ?thesis
      unfolding fetchSecretValues_def by (auto intro!: always_return_bind elim!: always_mono)
  qed
  from always_run [OF this assms(2)] show ?thesis .
qed

lemma fetchSecretValues_correct_witness:
  "\<exists>s v. GetSecret ''s'' ''ns'' (Inr s) \<in> set [GetSecret ''s'' ''ns''
        (Inr \<lparr>sec_Meta = sample_meta ''s'', sec_Data = [(''k'', ''v'')]\<rparr>)] \<and>
      aget (sec_Data s) ''k'' = Some v \<and> aget [(''P'', ''v'')] ''P'' = Some v"
proof -
  let ?s = "\<lparr>sec_Meta = sample_meta ''s'', sec_Data = [(''k'', ''v'')]\<rparr>"
  let ?K = "(failing_kube :: unit KubeClient)\<lparr>Get_Secret := (\<lambda>_ _. State_Monad.return (Inr ?s))\<rparr>"
  let ?refs = "[\<lparr>sr_EnvVar = ''P'', sr_SecretName = ''s'', sr_Key = ''k''\<rparr>]"
  have "run_state (fetchSecretValues ?K ''ns'' ?refs) ((), []) =
      (Inr [(''P'', ''v'')], ((), [GetSecret ''s'' ''ns'' (Inr ?s)]))"
    by (simp add: fetchSecretValues_def call_def failing_kube_def)
  from fetchSecretValues_correct [OF _ this] show ?thesis by simp
qed

end
