(* ===== verification/Rpc_Validate.thy ===== *)
theory Rpc_Validate
  imports Rpc_Render Rpc_Secrets
begin

text \<open>
  Validation at the API: \<^verbatim>\<open>internal/api/validate.go\<close> and the lookup in the component
  catalog of \<^verbatim>\<open>internal/api/catalog/catalog.go\<close>. The JSON decoder and the JSON-schema
  compiler are parameters, collected in \<open>vlib\<close>. A component may hold nested components to any
  depth, so the recursive check runs on fuel and returns \<open>None\<close> when it runs out; a nested
  configuration is a proper part of the text of the outer one (\<open>raw_law\<close>), so fuel of the length
  of the text is always enough.
\<close>

section \<open>The catalog\<close>

record CompositeField =
  cf_Field :: string
  cf_Kind :: string
  cf_Multi :: bool

record Component =
  comp_Name :: string
  comp_Category :: string
  comp_Status :: string
  comp_Summary :: string
  comp_BodyKind :: string
  comp_ReplicaSafety :: string
  comp_ConfigSchema :: string
  comp_CompositeFields :: "CompositeField list"

record Catalog =
  byKey :: "(string \<times> Component) list"
  all_components :: "Component list"

definition cat_Get :: "Catalog \<Rightarrow> string \<Rightarrow> string \<Rightarrow> Component option" where
  "cat_Get c category name = aget (byKey c) (category @ ''/'' @ name)"

definition cat_All :: "Catalog \<Rightarrow> Component list" where
  "cat_All c = all_components c"

section \<open>Third-party functions\<close>

text \<open>
  \<open>json_items\<close> decodes an array of \<open>{type, config}\<close> objects, \<open>json_fields\<close> an object, both
  keeping the inner texts (\<open>json.RawMessage\<close>); the rest is \<^verbatim>\<open>santhosh-tekuri/jsonschema\<close>.
\<close>

record vlib =
  json_items :: "string \<Rightarrow> (string \<times> string) list option"
  json_fields :: "string \<Rightarrow> (string \<times> string) list option"
  json_Marshal :: "any \<Rightarrow> string + string"
  js_UnmarshalJSON :: "string \<Rightarrow> string + any"
  js_AddResource :: "string \<Rightarrow> any \<Rightarrow> string option"
  js_Compile :: "string \<Rightarrow> any \<Rightarrow> string + any"
  js_Validate :: "any \<Rightarrow> any \<Rightarrow> string option"

definition raw_law :: "vlib \<Rightarrow> bool" where
  "raw_law V \<longleftrightarrow>
     (\<forall>data items t c. json_items V data = Some items \<longrightarrow> (t, c) \<in> set items \<longrightarrow> length c < length data) \<and>
     (\<forall>data m k v. json_fields V data = Some m \<longrightarrow> aget m k = Some v \<longrightarrow> length v < length data)"

section \<open>Configurations against schemas\<close>

record ValidationError =
  ve_Path :: string
  ve_Message :: string

abbreviation verr :: "string \<Rightarrow> string \<Rightarrow> ValidationError" where
  "verr p m \<equiv> \<lparr>ve_Path = p, ve_Message = m\<rparr>"

definition validateConfig :: "vlib \<Rightarrow> string \<Rightarrow> string \<Rightarrow> string \<Rightarrow> ValidationError list" where
  "validateConfig V path raw schema =
     (let raw = (if raw = '''' \<or> raw = ''null'' then ''{}'' else raw) in
      case js_UnmarshalJSON V schema of
        Inl err \<Rightarrow> [verr path (''schema parse: '' @ err)]
      | Inr schemaDoc \<Rightarrow>
          (case js_AddResource V path schemaDoc of
             Some err \<Rightarrow> [verr path (''schema compile: '' @ err)]
           | None \<Rightarrow>
               (case js_Compile V path schemaDoc of
                  Inl err \<Rightarrow> [verr path (''schema compile: '' @ err)]
                | Inr sch \<Rightarrow>
                    (case js_UnmarshalJSON V raw of
                       Inl err \<Rightarrow> [verr path (''config is not valid JSON: '' @ err)]
                     | Inr inst \<Rightarrow>
                         (case js_Validate V sch inst of
                            Some err \<Rightarrow> [verr path err]
                          | None \<Rightarrow> [])))))"

fun delete_fields :: "CompositeField list \<Rightarrow> (string \<times> any) list \<Rightarrow> (string \<times> any) list" where
  "delete_fields [] m = m"
| "delete_fields (cf # rest) m = delete_fields rest (if cf_Field cf \<noteq> '''' then adel (cf_Field cf) m else m)"

definition marshal_or :: "vlib \<Rightarrow> string \<Rightarrow> any \<Rightarrow> string" where
  "marshal_or V raw v = (case json_Marshal V v of Inl _ \<Rightarrow> raw | Inr stripped \<Rightarrow> stripped)"

definition stripCompositeFields :: "lib \<Rightarrow> vlib \<Rightarrow> string \<Rightarrow> CompositeField list \<Rightarrow> string" where
  "stripCompositeFields L V raw cfs =
     (if raw = '''' \<or> raw = ''null'' then ''{}''
      else case json_Unmarshal L raw of
             Inr (AObj m) \<Rightarrow> marshal_or V raw (AObj (delete_fields cfs m))
           | Inr ANull \<Rightarrow> marshal_or V raw ANull
           | _ \<Rightarrow> raw)"

section \<open>Components\<close>

definition is_direct_array :: "CompositeField list \<Rightarrow> bool" where
  "is_direct_array cfs \<longleftrightarrow> length cfs = 1 \<and> cf_Field (hd cfs) = ''''"

definition field_items :: "vlib \<Rightarrow> string \<Rightarrow> CompositeField \<Rightarrow> (string \<times> string) list option" where
  "field_items V raw cf =
     (if cf_Field cf = '''' then json_items V raw
      else case json_fields V raw of
             None \<Rightarrow> None
           | Some m \<Rightarrow> json_items V (case aget m (cf_Field cf) of None \<Rightarrow> '''' | Some v \<Rightarrow> v))"

definition field_path :: "string \<Rightarrow> CompositeField \<Rightarrow> string" where
  "field_path path cf = (if cf_Field cf \<noteq> '''' then path @ ''.'' @ cf_Field cf else path)"

definition nested_specs :: "vlib \<Rightarrow> string \<Rightarrow> string \<Rightarrow> CompositeField list \<Rightarrow> (string \<times> ComponentSpec \<times> string) list" where
  "nested_specs V path raw cfs =
     concat (map (\<lambda>cf. case field_items V raw cf of
         None \<Rightarrow> []
       | Some items \<Rightarrow>
           map (\<lambda>(i, t, c). (field_path path cf @ ''['' @ utoa i @ '']'',
                             \<lparr>cs_Type = t, cs_Label = '''', cs_Config = c\<rparr>, cf_Kind cf))
             (enumerate 0 items)) cfs)"

fun concat_options :: "'a list option list \<Rightarrow> 'a list option" where
  "concat_options [] = Some []"
| "concat_options (None # xs) = None"
| "concat_options (Some x # xs) = map_option ((@) x) (concat_options xs)"

fun validateComponent ::
  "nat \<Rightarrow> lib \<Rightarrow> vlib \<Rightarrow> Catalog \<Rightarrow> string \<Rightarrow> ComponentSpec \<Rightarrow> string \<Rightarrow> ValidationError list option" where
  "validateComponent 0 L V cat path c category = None"
| "validateComponent (Suc n) L V cat path c category =
     (if cs_Type c = '''' then Some [verr (path @ ''.type'') ''type is required'']
      else case cat_Get cat category (cs_Type c) of
        None \<Rightarrow> Some [verr (path @ ''.type'') (''unknown '' @ category @ '' component '' @ go_quote (cs_Type c) @
                    '' (catalog covers v0.2 starter set only)'')]
      | Some entry \<Rightarrow>
          (let raw = cs_Config c; cfs = comp_CompositeFields entry; schema = comp_ConfigSchema entry in
           if cfs \<noteq> []
           then map_option
                  ((@) (if is_direct_array cfs then []
                        else validateConfig V (path @ ''.config'') (stripCompositeFields L V raw cfs) schema))
                  (concat_options (map (\<lambda>(p, cs, kind). validateComponent n L V cat p cs kind)
                     (nested_specs V (path @ ''.config'') raw cfs)))
           else Some (validateConfig V (path @ ''.config'') raw schema)))"

definition validate_component ::
  "lib \<Rightarrow> vlib \<Rightarrow> Catalog \<Rightarrow> string \<Rightarrow> ComponentSpec \<Rightarrow> string \<Rightarrow> ValidationError list option" where
  "validate_component L V cat path c category =
     validateComponent (Suc (length (cs_Config c))) L V cat path c category"

section \<open>Secret references\<close>

text \<open>The regular expression of an environment variable name, anchored at both ends.\<close>

definition envVarNameRe :: "string \<Rightarrow> bool" where
  "envVarNameRe s = (case s of [] \<Rightarrow> False | c # r \<Rightarrow> is_name_start c \<and> list_all is_name_char r)"

definition env_var_errs :: "string \<Rightarrow> string list \<Rightarrow> string \<Rightarrow> ValidationError list" where
  "env_var_errs path seen e =
     (if e = '''' then [verr (path @ ''.envVar'') ''envVar is required'']
      else if \<not> envVarNameRe e then [verr (path @ ''.envVar'') ''envVar must match [A-Za-z_][A-Za-z0-9_]*'']
      else if e \<in> set seen then [verr (path @ ''.envVar'') (''duplicate envVar '' @ go_quote e)]
      else [])"

fun secret_ref_errs :: "nat \<Rightarrow> string list \<Rightarrow> SecretRef list \<Rightarrow> ValidationError list" where
  "secret_ref_errs i seen [] = []"
| "secret_ref_errs i seen (r # refs) =
     (let path = ''spec.secretRefs['' @ utoa i @ '']'' in
      env_var_errs path seen (sr_EnvVar r) @
      (if sr_SecretName r = '''' then [verr (path @ ''.secretName'') ''secretName is required''] else []) @
      (if sr_Key r = '''' then [verr (path @ ''.key'') ''key is required''] else []) @
      secret_ref_errs (Suc i) (sr_EnvVar r # seen) refs)"

definition validateSecretRefs :: "SecretRef list \<Rightarrow> ValidationError list" where
  "validateSecretRefs refs = secret_ref_errs 0 [] refs"

section \<open>Pipelines\<close>

fun validate_processors ::
  "lib \<Rightarrow> vlib \<Rightarrow> Catalog \<Rightarrow> nat \<Rightarrow> ComponentSpec list \<Rightarrow> ValidationError list option" where
  "validate_processors L V cat i [] = Some []"
| "validate_processors L V cat i (c # cs) =
     (let path = ''spec.processors['' @ utoa i @ '']'' in
      concat_options
        [validate_component L V cat path c ''processors'',
         Some (if cs_Label c = '''' then [verr (path @ ''.label'') ''label is required for processors''] else []),
         validate_processors L V cat (Suc i) cs])"

definition ValidatePipeline :: "lib \<Rightarrow> vlib \<Rightarrow> Catalog \<Rightarrow> Pipeline \<Rightarrow> ValidationError list option" where
  "ValidatePipeline L V cat p =
     (let spec = p_Spec p in
      if ps_ProjectRef spec \<noteq> None \<and> ps_ClusterRef spec \<noteq> ''''
      then Some [verr ''spec.projectRef'' ''use projectRef or clusterRef, not both'']
      else if ps_RawYAML spec \<noteq> ''''
      then Some ((case RenderPipelineYAML L spec of Inl err \<Rightarrow> [verr ''spec.rawYAML'' err] | Inr _ \<Rightarrow> []) @
                 validateSecretRefs (ps_SecretRefs spec))
      else concat_options
        [if ps_ProjectRef spec = None \<or> cs_Type (ps_Input spec) \<noteq> ''''
         then validate_component L V cat ''spec.input'' (ps_Input spec) ''inputs'' else Some [],
         validate_processors L V cat 0 (ps_Processors spec),
         if ps_ProjectRef spec = None \<or> cs_Type (ps_Output spec) \<noteq> ''''
         then validate_component L V cat ''spec.output'' (ps_Output spec) ''outputs'' else Some [],
         Some (validateSecretRefs (ps_SecretRefs spec)),
         Some (if ps_ProjectRef spec = None
               then (case RenderPipelineYAML L spec of Inl err \<Rightarrow> [verr ''spec'' (''render failed: '' @ err)] | Inr _ \<Rightarrow> [])
               else [])])"

section \<open>Projects\<close>

definition rawTopKey :: "lib \<Rightarrow> string \<Rightarrow> string \<Rightarrow> bool" where
  "rawTopKey L rawYAML key =
     (case yaml_Unmarshal L rawYAML of
        Inr (AObj m) \<Rightarrow> aget m key \<noteq> None
      | _ \<Rightarrow> False)"

definition api_view :: "lib \<Rightarrow> Pipeline \<Rightarrow> PipelineView" where
  "api_view L pp =
     (let raw = ps_RawYAML (p_Spec pp) in
      \<lparr>pv_Name = p_Name pp,
       pv_ProjectName = (case ps_ProjectRef (p_Spec pp) of None \<Rightarrow> '''' | Some ref \<Rightarrow> pr_Name ref),
       pv_HasInput = (raw = '''' \<and> cs_Type (ps_Input (p_Spec pp)) \<noteq> '''' \<or> raw \<noteq> '''' \<and> rawTopKey L raw ''input''),
       pv_HasOutput = (raw = '''' \<and> cs_Type (ps_Output (p_Spec pp)) \<noteq> '''' \<or> raw \<noteq> '''' \<and> rawTopKey L raw ''output'')\<rparr>)"

fun api_views :: "lib \<Rightarrow> Pipeline list \<Rightarrow> (string \<times> PipelineView) list \<Rightarrow> (string \<times> PipelineView) list" where
  "api_views L [] views = views"
| "api_views L (p # ps) views = api_views L ps (aset (p_Name p) (api_view L p) views)"

definition api_ValidateProject :: "lib \<Rightarrow> PipelineProject \<Rightarrow> Pipeline list \<Rightarrow> ValidationError list" where
  "api_ValidateProject L p pipelines =
     map (\<lambda>e. verr ''spec.routes'' (pe_Message e)) (ValidateProject L p (api_views L pipelines []))"

section \<open>What validation means\<close>

definition schema_accepts :: "vlib \<Rightarrow> string \<Rightarrow> string \<Rightarrow> string \<Rightarrow> bool" where
  "schema_accepts V path raw schema \<longleftrightarrow>
     (\<exists>doc sch inst. js_UnmarshalJSON V schema = Inr doc \<and> js_AddResource V path doc = None \<and>
        js_Compile V path doc = Inr sch \<and>
        js_UnmarshalJSON V (if raw = '''' \<or> raw = ''null'' then ''{}'' else raw) = Inr inst \<and>
        js_Validate V sch inst = None)"

lemma validateConfig_Nil: "validateConfig V path raw schema = [] \<longleftrightarrow> schema_accepts V path raw schema"
  by (auto simp: validateConfig_def schema_accepts_def Let_def split: sum.splits option.splits)

text \<open>
  The part of a configuration that belongs to the component itself: the object without the
  fields that hold other components, written back. What is not an object, or cannot be written
  back, is left to the schema as it is.
\<close>

definition own_doc :: "lib \<Rightarrow> string set \<Rightarrow> string \<Rightarrow> any option" where
  "own_doc L names raw =
     (case json_Unmarshal L raw of
        Inr (AObj m) \<Rightarrow> Some (AObj (filter (\<lambda>(k, _). k \<notin> names) m))
      | Inr ANull \<Rightarrow> Some ANull
      | _ \<Rightarrow> None)"

definition own_config :: "lib \<Rightarrow> vlib \<Rightarrow> string set \<Rightarrow> string \<Rightarrow> string" where
  "own_config L V names raw =
     (if raw = '''' \<or> raw = ''null'' then ''{}''
      else case own_doc L names raw of
             None \<Rightarrow> raw
           | Some doc \<Rightarrow> (case json_Marshal V doc of Inl _ \<Rightarrow> raw | Inr own \<Rightarrow> own))"

text \<open>
  The components that a composite field holds: the items of the array under its name or, for the
  field without a name, of the configuration itself. A value that is not an array of objects
  holds none.
\<close>

definition holds_items :: "vlib \<Rightarrow> string \<Rightarrow> string \<Rightarrow> (string \<times> string) list \<Rightarrow> bool" where
  "holds_items V raw field items \<longleftrightarrow>
     (if field = '''' then json_items V raw = Some items
      else \<exists>m v. json_fields V raw = Some m \<and> aget m field = Some v \<and> json_items V v = Some items)"

definition item_spec :: "string \<times> string \<Rightarrow> ComponentSpec" where
  "item_spec item = \<lparr>cs_Type = fst item, cs_Label = '''', cs_Config = snd item\<rparr>"

definition item_path :: "string \<Rightarrow> string \<Rightarrow> nat \<Rightarrow> string" where
  "item_path path field i = path @ (if field = '''' then '''' else ''.'' @ field) @ ''['' @ utoa i @ '']''"

text \<open>
  A component is acceptable when the catalog has its type, its own part passes the schema,
  unless all of it is one array of components, and every component in each of its composite
  fields is acceptable.
\<close>

inductive component_ok :: "lib \<Rightarrow> vlib \<Rightarrow> Catalog \<Rightarrow> string \<Rightarrow> ComponentSpec \<Rightarrow> string \<Rightarrow> bool"
  for L :: lib and V :: vlib and cat :: Catalog where
  simple: "cs_Type c \<noteq> '''' \<Longrightarrow> cat_Get cat category (cs_Type c) = Some entry \<Longrightarrow> comp_CompositeFields entry = [] \<Longrightarrow>
     schema_accepts V (path @ ''.config'') (cs_Config c) (comp_ConfigSchema entry) \<Longrightarrow>
     component_ok L V cat path c category"
| composite: "cs_Type c \<noteq> '''' \<Longrightarrow> cat_Get cat category (cs_Type c) = Some entry \<Longrightarrow> comp_CompositeFields entry \<noteq> [] \<Longrightarrow>
     map cf_Field (comp_CompositeFields entry) = [''''] \<or>
     schema_accepts V (path @ ''.config'')
       (own_config L V (cf_Field ` set (comp_CompositeFields entry) - {''''}) (cs_Config c)) (comp_ConfigSchema entry) \<Longrightarrow>
     (\<And>cf items i. cf \<in> set (comp_CompositeFields entry) \<Longrightarrow> holds_items V (cs_Config c) (cf_Field cf) items \<Longrightarrow>
        i < length items \<Longrightarrow>
        component_ok L V cat (item_path (path @ ''.config'') (cf_Field cf) i) (item_spec (items ! i)) (cf_Kind cf)) \<Longrightarrow>
     component_ok L V cat path c category"

inductive_simps component_ok_iff: "component_ok L V cat path c category"

lemma concat_options_Some:
  assumes "\<And>x. x \<in> set xs \<Longrightarrow> \<exists>ys. x = Some ys"
  shows "\<exists>ys. concat_options xs = Some ys \<and> (ys = [] \<longleftrightarrow> list_all (\<lambda>x. x = Some []) xs)"
  using assms
proof (induction xs)
  case (Cons x xs)
  then obtain y ys where "x = Some y" "concat_options xs = Some ys" "ys = [] \<longleftrightarrow> list_all (\<lambda>x. x = Some []) xs"
    by (meson list.set_intros)
  then show ?case by simp
qed simp

text \<open>What the code strips and visits, in these terms.\<close>

lemma delete_fields_filter: "delete_fields cfs m = filter (\<lambda>(k, _). k \<notin> cf_Field ` set cfs - {''''}) m"
proof (induction cfs m rule: delete_fields.induct)
  case (2 cf rest m)
  have "adel f (m :: (string \<times> any) list) = filter (\<lambda>(k, _). k \<noteq> f) m" for f
    by (simp add: AList.delete_eq) (rule filter_cong, auto)
  then show ?case by (simp add: 2) (intro conjI impI filter_cong, auto)
qed simp

lemma stripCompositeFields_own: "stripCompositeFields L V raw cfs = own_config L V (cf_Field ` set cfs - {''''}) raw"
  by (simp add: stripCompositeFields_def own_config_def own_doc_def marshal_or_def delete_fields_filter split: sum.split any.split)

lemma is_direct_array_iff: "is_direct_array cfs \<longleftrightarrow> map cf_Field cfs = ['''']"
  by (cases cfs) (auto simp: is_direct_array_def)

lemma field_items_iff:
  assumes "raw_law V" and "i < length items"
  shows "field_items V raw cf = Some items \<longleftrightarrow> holds_items V raw (cf_Field cf) items"
proof -
  have "json_items V '''' \<noteq> Some items"
    using assms nth_mem [of i items] unfolding raw_law_def
    by (metis less_zeroE list.size(3) prod.collapse)
  then show ?thesis by (auto simp: field_items_def holds_items_def split: option.split)
qed

lemma nested_specs_iff:
  assumes "raw_law V"
  shows "(p, cs, kind) \<in> set (nested_specs V path raw cfs) \<longleftrightarrow>
    (\<exists>cf\<in>set cfs. \<exists>items i. holds_items V raw (cf_Field cf) items \<and> i < length items \<and>
       p = item_path path (cf_Field cf) i \<and> cs = item_spec (items ! i) \<and> kind = cf_Kind cf)"
proof -
  have one: "(p, cs, kind) \<in> set (case field_items V raw cf of None \<Rightarrow> []
      | Some items \<Rightarrow> map (\<lambda>(i, t, c). (field_path path cf @ ''['' @ utoa i @ '']'',
          \<lparr>cs_Type = t, cs_Label = '''', cs_Config = c\<rparr>, cf_Kind cf)) (enumerate 0 items)) \<longleftrightarrow>
    (\<exists>items i. holds_items V raw (cf_Field cf) items \<and> i < length items \<and>
       p = item_path path (cf_Field cf) i \<and> cs = item_spec (items ! i) \<and> kind = cf_Kind cf)" (is "?l \<longleftrightarrow> ?r") for cf
  proof -
    have "?l \<longleftrightarrow> (\<exists>items i. field_items V raw cf = Some items \<and> i < length items \<and>
        p = item_path path (cf_Field cf) i \<and> cs = item_spec (items ! i) \<and> kind = cf_Kind cf)"
      by (cases "field_items V raw cf")
        (auto simp: in_set_enumerate_eq item_path_def field_path_def item_spec_def image_iff split: prod.splits)
    also have "\<dots> \<longleftrightarrow> ?r" using field_items_iff [OF assms] by blast
    finally show ?thesis .
  qed
  show ?thesis unfolding nested_specs_def set_concat set_map using one by blast
qed

lemma nested_shorter:
  assumes "raw_law V" and "(p, cs, kind) \<in> set (nested_specs V path raw cfs)"
  shows "length (cs_Config cs) < length raw"
proof -
  from assms obtain f items i where items: "holds_items V raw f items" "i < length items" and cs: "cs = item_spec (items ! i)"
    unfolding nested_specs_iff [OF assms(1)] by blast
  have short: "length (snd (items ! i)) < length data" if "json_items V data = Some items" for data
    using assms(1) that nth_mem [OF items(2)] unfolding raw_law_def by (metis prod.collapse)
  have part: "length v < length raw" if "json_fields V raw = Some m" "aget m f = Some v" for m v
    using assms(1) that unfolding raw_law_def by blast
  from items(1) show ?thesis
    unfolding holds_items_def cs item_spec_def using short part by (auto split: if_splits dest: less_trans)
qed

lemma validateComponent_correct:
  assumes "raw_law V"
  shows "length (cs_Config c) < n \<Longrightarrow>
    \<exists>errs. validateComponent n L V cat path c category = Some errs \<and> (errs = [] \<longleftrightarrow> component_ok L V cat path c category)"
proof (induction n arbitrary: path c category)
  case (Suc n)
  show ?case
  proof (cases "cs_Type c = '''' \<or> cat_Get cat category (cs_Type c) = None")
    case True
    then show ?thesis by (auto simp: component_ok_iff [of L V cat path c category])
  next
    case False
    then obtain entry where entry: "cs_Type c \<noteq> ''''" "cat_Get cat category (cs_Type c) = Some entry" by auto
    let ?cfs = "comp_CompositeFields entry"
    let ?nested = "nested_specs V (path @ ''.config'') (cs_Config c) ?cfs"
    let ?f = "\<lambda>(p, cs, kind). validateComponent n L V cat p cs kind"
    have IH: "\<exists>errs. validateComponent n L V cat p cs kind = Some errs \<and> (errs = [] \<longleftrightarrow> component_ok L V cat p cs kind)"
      if "(p, cs, kind) \<in> set ?nested" for p cs kind
      using nested_shorter [OF assms that] Suc.prems by (intro Suc.IH) simp
    have "\<exists>ys. x = Some ys" if x: "x \<in> set (map ?f ?nested)" for x
      using x IH by fastforce
    from concat_options_Some [OF this] obtain ys where ys: "concat_options (map ?f ?nested) = Some ys"
      and Nil: "ys = [] \<longleftrightarrow> list_all (\<lambda>x. x = Some []) (map ?f ?nested)"
      by blast
    have "list_all (\<lambda>x. x = Some []) (map ?f ?nested) \<longleftrightarrow>
        (\<forall>p cs kind. (p, cs, kind) \<in> set ?nested \<longrightarrow> component_ok L V cat p cs kind)"
      using IH by (fastforce simp: list_all_iff)
    also have "\<dots> \<longleftrightarrow> (\<forall>cf items i. cf \<in> set ?cfs \<longrightarrow> holds_items V (cs_Config c) (cf_Field cf) items \<longrightarrow> i < length items \<longrightarrow>
        component_ok L V cat (item_path (path @ ''.config'') (cf_Field cf) i) (item_spec (items ! i)) (cf_Kind cf))"
      unfolding nested_specs_iff [OF assms] by blast
    finally show ?thesis
      using entry ys Nil
      by (auto simp: component_ok_iff [of L V cat path c category] Let_def validateConfig_Nil is_direct_array_iff
          stripCompositeFields_own)
  qed
qed simp

lemma validate_component_correct:
  "raw_law V \<Longrightarrow> \<exists>errs. validate_component L V cat path c category = Some errs \<and>
     (errs = [] \<longleftrightarrow> component_ok L V cat path c category)"
  unfolding validate_component_def by (rule validateComponent_correct) simp_all

lemma validate_processors_correct:
  assumes "raw_law V"
  shows "\<exists>errs. validate_processors L V cat i cs = Some errs \<and>
    (errs = [] \<longleftrightarrow> (\<forall>j < length cs. cs_Label (cs ! j) \<noteq> '''' \<and>
       component_ok L V cat (''spec.processors['' @ utoa (i + j) @ '']'') (cs ! j) ''processors''))"
proof (induction cs arbitrary: i)
  case (Cons c cs)
  from validate_component_correct [OF assms] obtain e where
    e: "validate_component L V cat (''spec.processors['' @ utoa i @ '']'') c ''processors'' = Some e"
    "e = [] \<longleftrightarrow> component_ok L V cat (''spec.processors['' @ utoa i @ '']'') c ''processors''" by blast
  from Cons.IH [of "Suc i"] obtain es where es: "validate_processors L V cat (Suc i) cs = Some es"
    "es = [] \<longleftrightarrow> (\<forall>j < length cs. cs_Label (cs ! j) \<noteq> '''' \<and>
       component_ok L V cat (''spec.processors['' @ utoa (Suc i + j) @ '']'') (cs ! j) ''processors'')" by blast
  from e es show ?case by (simp add: Let_def All_less_Suc2)
qed simp

lemma env_var_errs_Nil: "env_var_errs path seen e = [] \<longleftrightarrow> envVarNameRe e \<and> e \<notin> set seen"
  by (auto simp: env_var_errs_def envVarNameRe_def split: list.splits)

lemma secret_ref_errs_Nil:
  "secret_ref_errs i seen refs = [] \<longleftrightarrow>
     list_all (\<lambda>r. envVarNameRe (sr_EnvVar r) \<and> sr_SecretName r \<noteq> '''' \<and> sr_Key r \<noteq> '''') refs \<and>
     distinct (map sr_EnvVar refs) \<and> set (map sr_EnvVar refs) \<inter> set seen = {}"
proof (induction refs arbitrary: i seen)
  case (Cons r refs)
  show ?case by (auto simp: Let_def env_var_errs_Nil Cons.IH)
qed simp

definition refs_ok :: "SecretRef list \<Rightarrow> bool" where
  "refs_ok refs \<longleftrightarrow>
     list_all (\<lambda>r. envVarNameRe (sr_EnvVar r) \<and> sr_SecretName r \<noteq> '''' \<and> sr_Key r \<noteq> '''') refs \<and>
     distinct (map sr_EnvVar refs)"

lemma validateSecretRefs_Nil: "validateSecretRefs refs = [] \<longleftrightarrow> refs_ok refs"
  by (simp add: validateSecretRefs_def secret_ref_errs_Nil refs_ok_def)

definition renders :: "lib \<Rightarrow> PipelineSpec \<Rightarrow> bool" where
  "renders L spec \<longleftrightarrow> (\<exists>y. RenderPipelineYAML L spec = Inr y)"

lemma renders_case: "(case RenderPipelineYAML L spec of Inl err \<Rightarrow> [f err] | Inr _ \<Rightarrow> []) = [] \<longleftrightarrow> renders L spec"
  by (cases "RenderPipelineYAML L spec") (auto simp: renders_def)

definition processors_ok :: "lib \<Rightarrow> vlib \<Rightarrow> Catalog \<Rightarrow> ComponentSpec list \<Rightarrow> bool" where
  "processors_ok L V cat cs \<longleftrightarrow>
     (\<forall>j < length cs. cs_Label (cs ! j) \<noteq> '''' \<and>
        component_ok L V cat (''spec.processors['' @ utoa j @ '']'') (cs ! j) ''processors'')"

text \<open>What the API accepts as a pipeline, stated without reference to the order of the checks.\<close>

definition pipeline_ok :: "lib \<Rightarrow> vlib \<Rightarrow> Catalog \<Rightarrow> PipelineSpec \<Rightarrow> bool" where
  "pipeline_ok L V cat spec \<longleftrightarrow>
     (ps_ProjectRef spec = None \<or> ps_ClusterRef spec = '''') \<and> refs_ok (ps_SecretRefs spec) \<and>
     (if ps_RawYAML spec \<noteq> '''' then renders L spec
      else (ps_ProjectRef spec = None \<longrightarrow> renders L spec) \<and>
        (ps_ProjectRef spec = None \<or> cs_Type (ps_Input spec) \<noteq> '''' \<longrightarrow>
           component_ok L V cat ''spec.input'' (ps_Input spec) ''inputs'') \<and>
        (ps_ProjectRef spec = None \<or> cs_Type (ps_Output spec) \<noteq> '''' \<longrightarrow>
           component_ok L V cat ''spec.output'' (ps_Output spec) ''outputs'') \<and>
        processors_ok L V cat (ps_Processors spec))"

section \<open>Properties\<close>

lemma validation_meaning:
  assumes "raw_law V"
  shows "\<exists>errs. ValidatePipeline L V cat p = Some errs \<and> (errs = [] \<longleftrightarrow> pipeline_ok L V cat (p_Spec p))"
proof -
  let ?spec = "p_Spec p"
  obtain ei where ei: "validate_component L V cat ''spec.input'' (ps_Input ?spec) ''inputs'' = Some ei"
    "ei = [] \<longleftrightarrow> component_ok L V cat ''spec.input'' (ps_Input ?spec) ''inputs''"
    using validate_component_correct [OF assms] by blast
  obtain eo where eo: "validate_component L V cat ''spec.output'' (ps_Output ?spec) ''outputs'' = Some eo"
    "eo = [] \<longleftrightarrow> component_ok L V cat ''spec.output'' (ps_Output ?spec) ''outputs''"
    using validate_component_correct [OF assms] by blast
  obtain ep where ep: "validate_processors L V cat 0 (ps_Processors ?spec) = Some ep"
    "ep = [] \<longleftrightarrow> processors_ok L V cat (ps_Processors ?spec)"
    using validate_processors_correct [OF assms, of L cat 0 "ps_Processors ?spec"] by (auto simp: processors_ok_def)
  show ?thesis
    unfolding ValidatePipeline_def pipeline_ok_def Let_def
    by (cases "ps_ProjectRef ?spec = None"; cases "ps_ClusterRef ?spec = ''''"; cases "ps_RawYAML ?spec = ''''";
        auto simp: renders_case validateSecretRefs_Nil ei ep eo)
qed


definition sample_vlib :: vlib where
  "sample_vlib =
     \<lparr>json_items = (\<lambda>s. if s = ''[x]'' then Some [(''b'', '''')] else None), 
      json_fields = (\<lambda>s. if s = ''{x:[x],y:[x]}'' then Some [(''x'', ''[x]''), (''y'', ''[x]'')] else None),
      json_Marshal = (\<lambda>_. Inl ''''), js_UnmarshalJSON = (\<lambda>_. Inr ANull), js_AddResource = (\<lambda>_ _. None),
      js_Compile = (\<lambda>_ _. Inr ANull), js_Validate = (\<lambda>_ _. None)\<rparr>"

lemma raw_law_sample: "raw_law sample_vlib"
  by (simp add: raw_law_def sample_vlib_def)

definition bare_component :: "string \<Rightarrow> CompositeField list \<Rightarrow> Component" where
  "bare_component n cfs = \<lparr>comp_Name = n, comp_Category = ''inputs'', comp_Status = '''', comp_Summary = '''',
     comp_BodyKind = '''', comp_ReplicaSafety = '''', comp_ConfigSchema = ''{}'', comp_CompositeFields = cfs\<rparr>"

definition two_fields :: "CompositeField list" where
  "two_fields = [\<lparr>cf_Field = ''x'', cf_Kind = ''inputs'', cf_Multi = True\<rparr>, \<lparr>cf_Field = ''y'', cf_Kind = ''inputs'', cf_Multi = True\<rparr>]"

definition sample_catalog :: Catalog where
  "sample_catalog = \<lparr>byKey =
     [(''inputs/a'', bare_component ''a'' [\<lparr>cf_Field = '''', cf_Kind = ''inputs'', cf_Multi = True\<rparr>]),
      (''inputs/b'', bare_component ''b'' []),
      (''inputs/c'', bare_component ''c'' two_fields)], all_components = []\<rparr>"


text \<open>
  An environment variable of a validated secret reference is a name the substitution of the
  cluster controller recognises: in the rendered text a reference to it, followed by a closing
  brace, is matched with exactly that name.
\<close>

lemma validated_env_is_substitutable:
  assumes "validateSecretRefs refs = []" and "r \<in> set refs"
  shows "match_var (print_var (sr_EnvVar r) None @ rest) = Some (sr_EnvVar r, None, rest)"
proof -
  from assms have "envVarNameRe (sr_EnvVar r)"
    by (auto simp: validateSecretRefs_Nil refs_ok_def list_all_iff)
  then obtain c s where e: "sr_EnvVar r = c # s" "is_name_start c" "list_all is_name_char s"
    by (auto simp: envVarNameRe_def split: list.splits)
  then show ?thesis by (intro match_var_print) (auto simp: is_name_char_def list_all_iff)
qed

lemma validated_env_is_substitutable_witness:
  "match_var (''${KAFKA_USER}@host'') = Some (''KAFKA_USER'', None, ''@host'')"
proof -
  let ?r = "\<lparr>sr_EnvVar = ''KAFKA_USER'', sr_SecretName = ''s'', sr_Key = ''k''\<rparr>"
  have "validateSecretRefs [?r] = []"
    by (simp add: validateSecretRefs_Nil refs_ok_def envVarNameRe_def is_name_char_def is_name_start_def)
  from validated_env_is_substitutable [OF this, of ?r "''@host''"] show ?thesis
    by (simp add: print_var_def)
qed

end
