(* ===== verification/Rpc_Scheduler.thy ===== *)
theory Rpc_Scheduler
  imports Rpc_K8s
begin

text \<open>
  Placement of pipelines on cluster instances: \<^verbatim>\<open>internal/controller/cluster_scheduler.go\<close>
  (the whole file), the two listings that feed it (\<^verbatim>\<open>readyClusterOrdinals\<close>,
  \<^verbatim>\<open>loadByOrdinal\<close> and \<^verbatim>\<open>isPodReady\<close> of \<^verbatim>\<open>pipeline_cluster_assign.go\<close>, over the
  listed objects), and the API's read-only view of the same placement,
  \<^verbatim>\<open>internal/api/cluster_aggregation.go\<close>. Ordinals are \<open>int32\<close> values kept as integers with
  the narrowing written out.
\<close>

section \<open>Ordinals\<close>

definition ordinalFromPodName :: "string \<Rightarrow> string \<Rightarrow> int option" where
  "ordinalFromPodName podName clusterName =
     (let pre = clusterName @ ''-'' in
      if \<not> HasPrefix podName pre then None
      else case Atoi (drop (length pre) podName) of
             None \<Rightarrow> None
           | Some n \<Rightarrow> if n < 0 then None else Some (int32 n))"

text \<open>The instance name the deploy path prints, \<open>fmt.Sprintf("%s-%d", cluster, ordinal)\<close>.\<close>

definition instanceName :: "string \<Rightarrow> int \<Rightarrow> string" where
  "instanceName cluster ord = cluster @ ''-'' @ itoa ord"

definition instanceOrdinal :: "string \<Rightarrow> string \<Rightarrow> int option" where
  "instanceOrdinal instName cluster =
     (let pre = cluster @ ''-'' in
      if \<not> HasPrefix instName pre then None
      else case Atoi (drop (length pre) instName) of
             None \<Rightarrow> None
           | Some n \<Rightarrow> if n < 0 then None else Some (int32 n))"

section \<open>Choosing an instance\<close>

fun least_loop :: "(int \<Rightarrow> int) \<Rightarrow> int \<Rightarrow> int \<Rightarrow> int list \<Rightarrow> int" where
  "least_loop load best bestLoad [] = best"
| "least_loop load best bestLoad (o' # os) =
     (if load o' < bestLoad then least_loop load o' (load o') os
      else least_loop load best bestLoad os)"

definition leastLoadedInstance :: "int list \<Rightarrow> (int \<Rightarrow> int) \<Rightarrow> int option" where
  "leastLoadedInstance readyOrdinals load =
     (case sort readyOrdinals of
        [] \<Rightarrow> None
      | b # rest \<Rightarrow> Some (least_loop load b (load b) rest))"

definition pickInstance ::
  "string \<Rightarrow> string \<Rightarrow> int list \<Rightarrow> (int \<Rightarrow> int) \<Rightarrow> int option" where
  "pickInstance currentInstance clusterName readyOrdinals load =
     (case ordinalFromPodName currentInstance clusterName of
        Some cur \<Rightarrow> if cur \<in> set readyOrdinals then Some cur
                    else leastLoadedInstance readyOrdinals load
      | None \<Rightarrow> leastLoadedInstance readyOrdinals load)"

section \<open>The inputs of the choice\<close>

fun isPodReady_loop :: "(string \<times> ConditionStatus) list \<Rightarrow> bool" where
  "isPodReady_loop [] = False"
| "isPodReady_loop ((t, s) # cs) =
     (if t = ''Ready'' then s = ConditionTrue else isPodReady_loop cs)"

definition isPodReady :: "Pod \<Rightarrow> bool" where
  "isPodReady p = isPodReady_loop (pod_Conditions p)"

fun readyOrdinals_of :: "string \<Rightarrow> Pod list \<Rightarrow> int list" where
  "readyOrdinals_of clusterName [] = []"
| "readyOrdinals_of clusterName (p # ps) =
     (case ordinalFromPodName (pod_Name p) clusterName of
        None \<Rightarrow> readyOrdinals_of clusterName ps
      | Some o' \<Rightarrow> if isPodReady p then o' # readyOrdinals_of clusterName ps
                   else readyOrdinals_of clusterName ps)"

text \<open>The loop of \<open>loadByOrdinal\<close>; a missing map key reads as 0.\<close>

definition counted :: "string \<Rightarrow> string \<Rightarrow> Pipeline \<Rightarrow> int option" where
  "counted clusterName excludePipeline p =
     (if p_Name p = excludePipeline \<or> pst_AssignedCluster (p_Status p) \<noteq> clusterName \<or>
         pst_AssignedInstance (p_Status p) = ''''
      then None
      else ordinalFromPodName (pst_AssignedInstance (p_Status p)) clusterName)"

fun load_of :: "string \<Rightarrow> string \<Rightarrow> Pipeline list \<Rightarrow> (int \<Rightarrow> int) \<Rightarrow> int \<Rightarrow> int" where
  "load_of clusterName excludePipeline [] load = load"
| "load_of clusterName excludePipeline (p # ps) load =
     (case counted clusterName excludePipeline p of
        None \<Rightarrow> load_of clusterName excludePipeline ps load
      | Some o' \<Rightarrow> load_of clusterName excludePipeline ps (load(o' := load o' + 1)))"

section \<open>The API's view of a cluster\<close>

definition clusterLabelKey :: string where
  "clusterLabelKey = ''rpc.operator.io/cluster''"

record ClusterInstance =
  ci_Name :: string
  ci_Ordinal :: int
  ci_Ready :: bool
  ci_AssignedPipelines :: "string list"

record StalePlacement =
  sp_Pipeline :: string
  sp_AssignedInstance :: string

record ClusterDistribution =
  cd_Cluster :: string
  cd_Namespace :: string
  cd_Phase :: PipelineClusterPhase
  cd_DesiredReplicas :: int
  cd_ReadyReplicas :: int
  cd_Instances :: "ClusterInstance list"
  cd_StalePlacements :: "StalePlacement list"

fun readyByOrdinal_of :: "string \<Rightarrow> Pod list \<Rightarrow> (int \<Rightarrow> bool) \<Rightarrow> int \<Rightarrow> bool" where
  "readyByOrdinal_of name [] m = m"
| "readyByOrdinal_of name (p # ps) m =
     (case instanceOrdinal (pod_Name p) name of
        Some ord \<Rightarrow> readyByOrdinal_of name ps (m(ord := isPodReady p))
      | None \<Rightarrow> readyByOrdinal_of name ps m)"

fun place_loop ::
  "string \<Rightarrow> int \<Rightarrow> Pipeline list \<Rightarrow> (int \<Rightarrow> string list) \<Rightarrow> StalePlacement list \<Rightarrow>
   (int \<Rightarrow> string list) \<times> StalePlacement list" where
  "place_loop name replicas [] assigned stale = (assigned, stale)"
| "place_loop name replicas (p # ps) assigned stale =
     (let inst = pst_AssignedInstance (p_Status p) in
      if inst = '''' then place_loop name replicas ps assigned stale
      else case instanceOrdinal inst name of
             None \<Rightarrow> place_loop name replicas ps assigned stale
           | Some ord \<Rightarrow>
               if ord \<ge> replicas
               then place_loop name replicas ps assigned
                      (stale @ [\<lparr>sp_Pipeline = p_Name p, sp_AssignedInstance = inst\<rparr>])
               else place_loop name replicas ps
                      (assigned(ord := assigned ord @ [p_Name p])) stale)"

definition aggregateDistribution ::
  "PipelineCluster \<Rightarrow> Pod list \<Rightarrow> Pipeline list \<Rightarrow> ClusterDistribution" where
  "aggregateDistribution cluster pods pipelines =
     (let name = om_Name (pc_Meta cluster);
          replicas = pcs_Replicas (pc_Spec cluster);
          ready = readyByOrdinal_of name pods (\<lambda>_. False);
          placed = place_loop name replicas pipelines (\<lambda>_. []) [];
          instances = map (\<lambda>ord. \<lparr>ci_Name = instanceName name ord, ci_Ordinal = ord,
                                   ci_Ready = ready ord,
                                   ci_AssignedPipelines = sort (fst placed ord)\<rparr>)
                        (map int [0..<nat replicas])
      in \<lparr>cd_Cluster = name, cd_Namespace = om_Namespace (pc_Meta cluster),
          cd_Phase = pct_Phase (pc_Status cluster), cd_DesiredReplicas = replicas,
          cd_ReadyReplicas = pct_ReadyReplicas (pc_Status cluster), cd_Instances = instances,
          cd_StalePlacements = sort_key sp_Pipeline (snd placed)\<rparr>)"



section \<open>Ordinals are read back\<close>

lemma ordinalFromPodName_iff:
  "ordinalFromPodName s c = Some k \<longleftrightarrow>
     (\<exists>r n. s = c @ CHR ''-'' # r \<and> Atoi r = Some n \<and> 0 \<le> n \<and> k = int32 n)"
  by (auto simp: ordinalFromPodName_def Let_def HasPrefix_iff split: option.splits)

lemma instanceOrdinal_eq: "instanceOrdinal = ordinalFromPodName"
  by (simp add: fun_eq_iff instanceOrdinal_def ordinalFromPodName_def)

lemma ordinal_instanceName:
  assumes "0 \<le> n" and "n < 2 ^ 31"
  shows "ordinalFromPodName (instanceName c n) c = Some n"
proof -
  have "Atoi (itoa n) = Some n" and "int32 n = n" using assms by (simp_all add: Atoi_itoa)
  then show ?thesis using assms by (simp add: ordinalFromPodName_iff instanceName_def)
qed

lemma itoa_no_minus: "0 \<le> n \<Longrightarrow> CHR ''-'' \<notin> set (itoa n)"
  using utoa_digits [of "CHR ''-''" "nat n"] by (auto simp: itoa_def)

lemma ordinal_other_cluster:
  assumes n: "0 \<le> n" and c': "c' \<noteq> []" "last c' \<noteq> CHR ''-''"
    and ord: "ordinalFromPodName (instanceName c' n) c = Some k"
  shows "c = c'"
proof -
  from ord obtain r m where r: "c' @ CHR ''-'' # itoa n = c @ CHR ''-'' # r" and m: "Atoi r = Some m"
    by (auto simp: ordinalFromPodName_iff instanceName_def)
  show ?thesis
  proof (cases "CHR ''-'' \<in> set r")
    case False
    then show ?thesis
      using last_sep_unique [OF r itoa_no_minus [OF n]] by simp
  next
    case True
    then obtain u v where uv: "r = u @ CHR ''-'' # v" "CHR ''-'' \<notin> set v"
      by (meson split_list_last)
    with m have "u = []" by (blast dest: Atoi_minus_only_first)
    with uv r have "c' @ CHR ''-'' # itoa n = (c @ ''-'') @ CHR ''-'' # v" by simp
    from last_sep_unique [OF this itoa_no_minus [OF n] uv(2)] have "c' = c @ ''-''" by simp
    with c' show ?thesis by simp
  qed
qed

text \<open>
  The contract of a naming scheme for the instances of a cluster: printing an ordinal and
  reading it back agree, and a name is never read as an instance of another cluster. The
  controller and the API each have a reader of their own; both meet it.
\<close>

locale instance_naming =
  fixes name :: "string \<Rightarrow> int \<Rightarrow> string"
    and ordinal :: "string \<Rightarrow> string \<Rightarrow> int option"
  assumes ordinal_name: "0 \<le> n \<Longrightarrow> n < 2 ^ 31 \<Longrightarrow> ordinal (name c n) c = Some n"
    and ordinal_foreign:
      "0 \<le> n \<Longrightarrow> c' \<noteq> [] \<Longrightarrow> last c' \<noteq> CHR ''-'' \<Longrightarrow> ordinal (name c' n) c = Some k \<Longrightarrow> c = c'"
begin

lemma ordinal_name_iff:
  assumes "0 \<le> n" and "n < 2 ^ 31" and "c \<noteq> []" and "last c \<noteq> CHR ''-''"
  shows "ordinal (name c n) c' = (if c' = c then Some n else None)"
proof (cases "ordinal (name c n) c'")
  case None
  with assms show ?thesis using ordinal_name [of n c] by auto
next
  case (Some k)
  with assms have "c' = c" using ordinal_foreign by blast
  with assms show ?thesis by (simp add: ordinal_name)
qed

lemma name_inj:
  assumes "0 \<le> n" "n < 2 ^ 31" "0 \<le> m" "m < 2 ^ 31" and "name c n = name c m"
  shows "n = m"
  using assms by (metis ordinal_name option.inject)

end

interpretation controller_naming: instance_naming instanceName ordinalFromPodName
  by unfold_locales (simp add: ordinal_instanceName, rule ordinal_other_cluster)

interpretation api_naming: instance_naming instanceName instanceOrdinal
  by unfold_locales
    (simp add: instanceOrdinal_eq ordinal_instanceName,
      simp add: instanceOrdinal_eq, rule ordinal_other_cluster)

section \<open>The least loaded instance\<close>

definition better :: "(int \<Rightarrow> int) \<Rightarrow> int \<Rightarrow> int \<Rightarrow> bool" where
  "better load b x \<longleftrightarrow> load b < load x \<or> load b = load x \<and> b \<le> x"

lemma better_refl [simp]: "better load b b"
  by (simp add: better_def)

lemma better_trans: "better load a b \<Longrightarrow> better load b c \<Longrightarrow> better load a c"
  by (auto simp: better_def)

lemma least_loop_in: "least_loop load b l os \<in> insert b (set os)"
  by (induction os arbitrary: b l) auto

lemma least_loop_best:
  "sorted (b # os) \<Longrightarrow> x \<in> insert b (set os) \<Longrightarrow>
     better load (least_loop load b (load b) os) x"
proof (induction os arbitrary: b x)
  case (Cons o' os)
  then have s: "sorted (o' # os)" "sorted (b # os)" "b \<le> o'" by auto
  show ?case
  proof (cases "load o' < load b")
    case True
    from Cons.IH [OF s(1), of o'] have "better load (least_loop load o' (load o') os) o'" by simp
    moreover from True have "better load o' b" by (simp add: better_def)
    ultimately have "better load (least_loop load o' (load o') os) b" by (rule better_trans)
    with Cons.IH [OF s(1)] Cons.prems(2) True show ?thesis by auto
  next
    case False
    from Cons.IH [OF s(2), of b] have "better load (least_loop load b (load b) os) b" by simp
    moreover from False s(3) have "better load b o'" by (auto simp: better_def)
    ultimately have "better load (least_loop load b (load b) os) o'" by (rule better_trans)
    with Cons.IH [OF s(2)] Cons.prems(2) False show ?thesis by auto
  qed
qed simp

lemma leastLoadedInstance_None: "leastLoadedInstance ready load = None \<longleftrightarrow> ready = []"
  by (auto simp: leastLoadedInstance_def split: list.splits) (metis length_0_conv length_sort)

lemma leastLoadedInstance_Some:
  assumes "leastLoadedInstance ready load = Some b"
  shows "b \<in> set ready" and "x \<in> set ready \<Longrightarrow> better load b x"
proof -
  from assms obtain c os where s: "sort ready = c # os" and b: "b = least_loop load c (load c) os"
    by (auto simp: leastLoadedInstance_def split: list.splits)
  from s have set: "set ready = insert c (set os)" by (metis list.simps(15) set_sort)
  from s have sorted: "sorted (c # os)" by (metis sorted_sort)
  show "b \<in> set ready" using least_loop_in [of load c "load c" os] by (simp add: b set)
  show "x \<in> set ready \<Longrightarrow> better load b x"
    using least_loop_best [OF sorted, of x load] by (simp add: b set)
qed

lemma pickInstance_in_ready: "pickInstance cur c ready load = Some b \<Longrightarrow> b \<in> set ready"
  by (auto simp: pickInstance_def dest: leastLoadedInstance_Some split: option.splits if_splits)

lemma pickInstance_None: "pickInstance cur c ready load = None \<longleftrightarrow> ready = []"
  by (auto simp: pickInstance_def leastLoadedInstance_None split: option.splits if_splits)

section \<open>The inputs\<close>

lemma readyOrdinals_of_iff:
  "o' \<in> set (readyOrdinals_of c pods) \<longleftrightarrow>
     (\<exists>p\<in>set pods. isPodReady p \<and> ordinalFromPodName (pod_Name p) c = Some o')"
  by (induction pods) (auto split: option.splits)

lemma load_of_count:
  "load_of c ex ps l o' = l o' + int (length (filter (\<lambda>p. counted c ex p = Some o') ps))"
  by (induction ps arbitrary: l) (auto split: option.splits)

section \<open>Aggregation\<close>

text \<open>What the placement loop files under each ordinal and as stale, as filters.\<close>

definition placed_at :: "string \<Rightarrow> Pipeline \<Rightarrow> int option" where
  "placed_at name p = (if pst_AssignedInstance (p_Status p) = '''' then None
     else instanceOrdinal (pst_AssignedInstance (p_Status p)) name)"

definition is_stale :: "string \<Rightarrow> int \<Rightarrow> Pipeline \<Rightarrow> bool" where
  "is_stale name replicas p \<longleftrightarrow> (\<exists>ord. placed_at name p = Some ord \<and> replicas \<le> ord)"

lemma place_loop_fst:
  "fst (place_loop name n ps a st) ord =
     a ord @ (if ord < n then map p_Name (filter (\<lambda>p. placed_at name p = Some ord) ps) else [])"
  by (induction ps arbitrary: a st) (auto simp: placed_at_def Let_def split: option.splits)

lemma place_loop_snd:
  "snd (place_loop name n ps a st) =
     st @ map (\<lambda>p. \<lparr>sp_Pipeline = p_Name p, sp_AssignedInstance = pst_AssignedInstance (p_Status p)\<rparr>)
            (filter (is_stale name n) ps)"
  by (induction ps arbitrary: a st) (auto simp: placed_at_def is_stale_def Let_def split: option.splits)

lemma filter_Some_split:
  "mset (concat (map (\<lambda>o'. map g (filter (\<lambda>p. f p = Some (int o')) ps)) [0..<n]))
     = mset (map g (filter (\<lambda>p. \<exists>o'. f p = Some o' \<and> 0 \<le> o' \<and> o' < int n) ps))"
proof (induction n)
  case 0
  then show ?case by simp
next
  case (Suc n)
  have "mset (filter (\<lambda>p. \<exists>o'. f p = Some o' \<and> 0 \<le> o' \<and> o' < int (Suc n)) ps)
      = mset (filter (\<lambda>p. \<exists>o'. f p = Some o' \<and> 0 \<le> o' \<and> o' < int n) ps)
        + mset (filter (\<lambda>p. f p = Some (int n)) ps)"
  proof (induction ps)
    case (Cons p ps)
    have "o' < int (Suc n) \<longleftrightarrow> o' < int n \<or> o' = int n" for o' by auto
    with Cons show ?case by (cases "f p") auto
  qed simp
  with Suc show ?case by simp
qed

lemma mset_map_sort_key: "mset (map f (sort_key g xs)) = mset (map f xs)"
  by simp

lemma aggregate_instance:
  "i \<in> set (cd_Instances (aggregateDistribution cl pods pipelines)) \<Longrightarrow>
   mset (ci_AssignedPipelines i) =
     mset (map p_Name (filter (\<lambda>p. placed_at (om_Name (pc_Meta cl)) p = Some (ci_Ordinal i)) pipelines)) \<and>
   0 \<le> ci_Ordinal i \<and> ci_Ordinal i < pcs_Replicas (pc_Spec cl)"
  by (auto simp: aggregateDistribution_def Let_def place_loop_fst)

lemma aggregate_conserves:
  assumes rep: "0 \<le> pcs_Replicas (pc_Spec cl)"
  shows "mset (concat (map ci_AssignedPipelines (cd_Instances (aggregateDistribution cl pods pipelines))))
         + mset (map sp_Pipeline (cd_StalePlacements (aggregateDistribution cl pods pipelines)))
         + mset (map p_Name (filter (\<lambda>p. \<exists>ord. placed_at (om_Name (pc_Meta cl)) p = Some ord \<and> ord < 0) pipelines))
       = mset (map p_Name (filter (\<lambda>p. placed_at (om_Name (pc_Meta cl)) p \<noteq> None) pipelines))"
proof -
  define name n where nn: "name = om_Name (pc_Meta cl)" "n = pcs_Replicas (pc_Spec cl)"
  let ?at = "\<lambda>ord. map p_Name (filter (\<lambda>p. placed_at name p = Some ord) pipelines)"
  have sorted_away: "mset (concat (map (\<lambda>o'. sort (f o')) xs)) = mset (concat (map f xs))"
    for f :: "nat \<Rightarrow> string list" and xs by (induction xs) auto
  have "map (\<lambda>o'. if int o' < n then ?at (int o') else []) [0..<nat n] = map (\<lambda>o'. ?at (int o')) [0..<nat n]"
    by (rule map_cong) auto
  then have "mset (concat (map ci_AssignedPipelines (cd_Instances (aggregateDistribution cl pods pipelines))))
      = mset (concat (map (\<lambda>o'. ?at (int o')) [0..<nat n]))"
    by (simp only: aggregateDistribution_def Let_def place_loop_fst comp_def nn sorted_away
        ClusterDistribution.simps ClusterInstance.simps map_map append_Nil)
  also have "\<dots> = mset (map p_Name (filter (\<lambda>p. \<exists>o'. placed_at name p = Some o' \<and> 0 \<le> o' \<and> o' < n) pipelines))"
    using filter_Some_split [of p_Name "placed_at name" pipelines "nat n"] rep by (simp add: nn)
  finally have inst: "mset (concat (map ci_AssignedPipelines (cd_Instances (aggregateDistribution cl pods pipelines))))
      = \<dots>" .
  have stale: "mset (map sp_Pipeline (cd_StalePlacements (aggregateDistribution cl pods pipelines)))
      = mset (map p_Name (filter (is_stale name n) pipelines))"
    by (simp only: aggregateDistribution_def Let_def place_loop_snd nn comp_def mset_map_sort_key
        ClusterDistribution.simps StalePlacement.simps map_map append_Nil)
  have "mset (map p_Name (filter (\<lambda>p. \<exists>o'. placed_at name p = Some o' \<and> 0 \<le> o' \<and> o' < n) ps))
      + mset (map p_Name (filter (is_stale name n) ps))
      + mset (map p_Name (filter (\<lambda>p. \<exists>ord. placed_at name p = Some ord \<and> ord < 0) ps))
      = mset (map p_Name (filter (\<lambda>p. placed_at name p \<noteq> None) ps))" for ps
  proof (induction ps)
    case (Cons p ps)
    then show ?case using rep by (cases "placed_at name p") (auto simp: is_stale_def nn)
  qed simp
  then show ?thesis unfolding inst stale nn(1) [symmetric] .
qed

section \<open>Properties\<close>

text \<open>
  C30: A name printed for an instance of one cluster is read back, by the controller and by the
  API alike, as exactly that ordinal, and for every other cluster name it is not read as an
  ordinal at all (so clusters \<open>etl\<close> and \<open>etl-1\<close> never see each other's placements), for
  every ordinal in the range of \<open>int32\<close> and every legal cluster name.
\<close>

theorem ordinal_round_trip:
  assumes "0 \<le> n" and "n < 2 ^ 31" and "c \<noteq> []" and "last c \<noteq> CHR ''-''"
  shows "ordinalFromPodName (instanceName c n) c' = (if c' = c then Some n else None) \<and>
         instanceOrdinal (instanceName c n) c' = (if c' = c then Some n else None)"
  using controller_naming.ordinal_name_iff [OF assms] api_naming.ordinal_name_iff [OF assms]
  by simp

theorem ordinal_round_trip_witness:
  "ordinalFromPodName (instanceName ''etl-1'' 12) ''etl'' = None \<and>
   ordinalFromPodName (instanceName ''etl-1'' 12) ''etl-1'' = Some 12"
  using ordinal_round_trip [of 12 "''etl-1''" "''etl''"]
    ordinal_round_trip [of 12 "''etl-1''" "''etl-1''"] by simp

text \<open>
  The reader narrows with \<open>int32(n)\<close> and no range check, so the round trip fails outside
  the range: the instance name with ordinal \<open>2\<^sup>3\<^sup>2\<close> is read as ordinal 0.
\<close>

lemma ordinal_wraps:
  "ordinalFromPodName ''etl-4294967296'' ''etl'' = Some 0 \<and>
   ordinalFromPodName ''etl-2147483648'' ''etl'' = Some (- 2147483648)"
  by (simp add: ordinalFromPodName_def HasPrefix_def Atoi_def parse_digits_def is_digit_def
      digit_val_def in_int64_def int32_def)

text \<open>
  C6: The scheduler returns no instance exactly when none is ready. Otherwise the instance is
  a ready one; it is the current one when that is still ready (stickiness), and else it has the
  least load of all ready instances, the lowest ordinal among those with that load.
\<close>

theorem pickInstance_correct:
  "case pickInstance cur c ready load of
     None \<Rightarrow> ready = []
   | Some b \<Rightarrow> b \<in> set ready \<and>
       (case ordinalFromPodName cur c of
          Some k \<Rightarrow> if k \<in> set ready then b = k else list_all (better load b) ready
        | None \<Rightarrow> list_all (better load b) ready)"
  by (auto simp: pickInstance_def leastLoadedInstance_None list_all_iff
      dest: leastLoadedInstance_Some split: option.splits)



end
