(* ===== verification/Rpc_Auth.thy ===== *)
theory Rpc_Auth
  imports Rpc_Validate Rpc_Scheduler
begin

text \<open>
  The frame of the HTTP API: responses of \<^verbatim>\<open>internal/api/errors.go\<close>, the authentication
  middleware and the per-request client of \<^verbatim>\<open>internal/api/auth.go\<close>, the namespace allowlist
  of \<^verbatim>\<open>handlers_namespaces.go\<close>, and the \<open>Server\<close> record of \<^verbatim>\<open>server.go\<close>.

  A handler is a function from a request to a computation that ends in a response. The
  Kubernetes API is a parameter, as for the reconcilers; here every call names the client it is
  made with, which is either the operator's own or one built from a REST configuration, so that
  the trace shows under whose identity a request acted. The context of a request is its two
  keys.
\<close>

section \<open>Requests and responses\<close>

record Request =
  rq_Authorization :: string
  rq_Query :: "(string \<times> string) list"
  rq_PathValues :: "(string \<times> string) list"
  rq_Body :: string
  rq_Cookie :: "string option"
  rq_Token :: "string option"
  rq_Anonymous :: bool

definition query_Get :: "Request \<Rightarrow> string \<Rightarrow> string" where
  "query_Get r k = (case aget (rq_Query r) k of None \<Rightarrow> '''' | Some v \<Rightarrow> v)"

definition PathValue :: "Request \<Rightarrow> string \<Rightarrow> string" where
  "PathValue r k = (case aget (rq_PathValues r) k of None \<Rightarrow> '''' | Some v \<Rightarrow> v)"

text \<open>A \<open>float64\<close>: mantissa and exponent, or one of the special values.\<close>

datatype float64 = Finite int int | PosInf | NegInf | NaN

datatype obj = PipelineObj Pipeline | ClusterObj PipelineCluster | ProjectObj PipelineProject

record whoami =
  wh_Name :: string
  wh_UID :: string
  wh_Groups :: "string list"
  wh_Anonymous :: bool
  wh_ReadOnly :: bool
  wh_AnonymousLogs :: bool
  wh_OidcEnabled :: bool

datatype (plugins only: code) body =
    ErrorBody string string "ValidationError list"
  | ObjBody obj
  | ItemsBody "obj list"
  | DeletedBody string
  | YamlBody string
  | ValidBody bool "ValidationError list"
  | NamespacesBody "string list"
  | CatalogItems "Component list"
  | CatalogEntry Component
  | DistributionBody ClusterDistribution
  | AuthConfigBody bool bool
  | WhoamiBody whoami
  | ConnectionsBody string string
  | BatchBody "(string \<times> string \<times> string) list"
  | MetricsBody string string "(int \<times> float64) list"
  | WebSocket
  | IDTokenBody string
  | NoBody

record Cookie =
  ck_Name :: string
  ck_Value :: string
  ck_Path :: string
  ck_HttpOnly :: bool
  ck_Secure :: bool
  ck_SameSiteLax :: bool
  ck_MaxAge :: int

record Response =
  rsp_Code :: int
  rsp_Body :: body
  rsp_Location :: string
  rsp_Cookie :: "Cookie option"
  rsp_CacheControl :: string

definition writeJSON :: "int \<Rightarrow> body \<Rightarrow> Response" where
  "writeJSON code v = \<lparr>rsp_Code = code, rsp_Body = v, rsp_Location = '''', rsp_Cookie = None, rsp_CacheControl = ''''\<rparr>"

definition writeJSONError :: "int \<Rightarrow> string \<Rightarrow> string \<Rightarrow> Response" where
  "writeJSONError code msg details = writeJSON code (ErrorBody msg details [])"

definition writeValidationErrors :: "ValidationError list \<Rightarrow> Response" where
  "writeValidationErrors errs = writeJSON 422 (ErrorBody ''validation failed'' '''' errs)"

definition writeK8sError :: "error \<Rightarrow> Response" where
  "writeK8sError err =
     (if err_kind err = NotFound then writeJSONError 404 ''not found'' (err_msg err)
      else if err_kind err = AlreadyExists then writeJSONError 409 ''already exists'' (err_msg err)
      else if err_kind err = Conflict then writeJSONError 409 ''conflict'' (err_msg err)
      else writeJSONError 500 ''internal error'' (err_msg err))"

section \<open>Server, clients and calls\<close>

text \<open>
  \<open>rest.Config\<close> of client-go with the fields that carry credentials: a token or a file of one, a
  password, a client certificate, impersonation, and the plugins that provide credentials, by
  their names. \<open>rest.CopyConfig\<close> copies every field.
\<close>

record TLSClientConfig =
  tls_CertFile :: string
  tls_KeyFile :: string
  tls_CertData :: string
  tls_KeyData :: string

record ImpersonationConfig =
  imp_UserName :: string
  imp_UID :: string
  imp_Groups :: "string list"
  imp_Extra :: "(string \<times> string list) list"

record RestConfig =
  rc_Host :: string
  rc_BearerToken :: string
  rc_BearerTokenFile :: string
  rc_Username :: string
  rc_Password :: string
  rc_TLSClientConfig :: TLSClientConfig
  rc_Impersonate :: ImpersonationConfig
  rc_AuthProvider :: "string option"
  rc_ExecProvider :: "string option"

definition no_certificate :: TLSClientConfig where
  "no_certificate = \<lparr>tls_CertFile = '''', tls_KeyFile = '''', tls_CertData = '''', tls_KeyData = ''''\<rparr>"

definition no_impersonation :: ImpersonationConfig where
  "no_impersonation = \<lparr>imp_UserName = '''', imp_UID = '''', imp_Groups = [], imp_Extra = []\<rparr>"

record OIDCConfig =
  oc_Issuer :: string
  oc_ClientID :: string
  oc_Scopes :: "string list"
  oc_RedirectURL :: string
  oc_UIRedirectURL :: string

text \<open>
  The fields of \<open>Server\<close> the handlers read. The operator's client is the constructor
  \<open>OperatorClient\<close>; of the scheme and the clientset only their presence matters.
\<close>

record Server =
  s_Clientset :: bool
  s_Catalog :: Catalog
  s_PrometheusURL :: string
  s_WatchNamespaces :: "string list"
  s_AuthEnabled :: bool
  s_AnonymousRead :: bool
  s_AnonymousLogs :: bool
  s_Scheme :: bool
  s_RestConfig :: "RestConfig option"
  s_OIDC :: "OIDCConfig option"
  s_VisualEditorEnabled :: bool

datatype api_client = OperatorClient | TokenClient RestConfig

datatype res_kind = KPipeline | KCluster | KProject

text \<open>
  The calls of a request on the outside, as events of its trace; the one that opens a log has
  the outcome: an error, or the lines that the log delivers.
\<close>

datatype (plugins only: code) api_event =
    AGet api_client res_kind string string
  | AList api_client res_kind "string option"
  | ACreate api_client obj
  | AUpdate api_client obj
  | ADelete api_client obj
  | APatch api_client Pipeline bool
  | APods api_client string
  | AReview api_client
  | ALogs api_client string string bool "error + string list"
  | PromQuery string
  | ReadClock int
  | WSAccept
  | WSWrite string
  | WSClose bool string

record ('w, 'o) Resource =
  res_Get :: "api_client \<Rightarrow> string \<Rightarrow> string \<Rightarrow> ('w, error + 'o) state"
  res_List :: "api_client \<Rightarrow> string option \<Rightarrow> ('w, error + 'o list) state"
  res_Create :: "api_client \<Rightarrow> 'o \<Rightarrow> ('w, error + 'o) state"
  res_Update :: "api_client \<Rightarrow> 'o \<Rightarrow> ('w, error + 'o) state"
  res_Delete :: "api_client \<Rightarrow> 'o \<Rightarrow> ('w, error option) state"

record UserInfo =
  ui_Username :: string
  ui_UID :: string
  ui_Groups :: "string list"

record LogOptions =
  lo_Follow :: bool
  lo_TailLines :: "int option"
  lo_SinceTime :: "int option"

text \<open>
  The environment of the handlers: the API server by resource type, the construction of clients
  (an error or success), the libraries, the JSON decoders of request bodies and of Prometheus
  responses (status, error text and results with their inner texts), floating point parsing and
  addition, the clock, HTTP requests (URL and query parameters to status and body), the
  WebSocket of a request, and pod logs as the lines a stream delivers until it ends.
\<close>

record 'w ApiEnv =
  e_Lib :: lib
  e_VLib :: vlib
  e_Pipelines :: "('w, Pipeline) Resource"
  e_Clusters :: "('w, PipelineCluster) Resource"
  e_Projects :: "('w, PipelineProject) Resource"
  e_PatchStopped :: "api_client \<Rightarrow> Pipeline \<Rightarrow> bool \<Rightarrow> ('w, error + Pipeline) state"
  e_ListPods :: "api_client \<Rightarrow> string \<Rightarrow> string \<times> string \<Rightarrow> ('w, error + Pod list) state"
  e_SelfSubjectReview :: "api_client \<Rightarrow> ('w, error + UserInfo) state"
  e_NewClient :: "RestConfig \<Rightarrow> error option"
  e_NewClientset :: "RestConfig \<Rightarrow> error option"
  e_Now :: "('w, int) state"
  e_ParseURL :: "string \<Rightarrow> error option"
  e_HTTPGet :: "string \<Rightarrow> (string \<times> string) list \<Rightarrow> ('w, error + int \<times> string) state"
  e_DecodeInstant :: "string \<Rightarrow> string + string \<times> string \<times> ((string \<times> string) list \<times> string) list"
  e_DecodeRange :: "string \<Rightarrow> string + string \<times> string \<times> (string \<times> string) list list"
  e_JsonString :: "string \<Rightarrow> string option"
  e_JsonSeconds :: "string \<Rightarrow> int option"
  e_ParseFloat :: "string \<Rightarrow> float64 option"
  e_FloatAdd :: "float64 \<Rightarrow> float64 \<Rightarrow> float64"
  e_WSAccept :: "Request \<Rightarrow> ('w, bool) state"
  e_WSWrite :: "string \<Rightarrow> ('w, bool) state"
  e_PodLogs :: "api_client \<Rightarrow> string \<Rightarrow> string \<Rightarrow> LogOptions \<Rightarrow> ('w, error + string list) state"
  e_DecodePipeline :: "string \<Rightarrow> string + Pipeline"
  e_DecodeCluster :: "string \<Rightarrow> string + PipelineCluster"
  e_DecodeProject :: "string \<Rightarrow> string + PipelineProject"

type_synonym 'w handling = "('w \<times> api_event list, Response) state"
type_synonym 'w handler = "Request \<Rightarrow> 'w handling"

section \<open>Tokens\<close>

text \<open>
  \<open>strings.TrimSpace\<close>: the encodings of the runes that \<open>unicode.IsSpace\<close> accepts are removed
  at both ends.
\<close>

definition space_runes :: "string list" where
  "space_runes =
     [[CHR 0x09], [CHR 0x0A], [CHR 0x0B], [CHR 0x0C], [CHR 0x0D], [CHR 0x20], [CHR 0xC2, CHR 0x85],
      [CHR 0xC2, CHR 0xA0], [CHR 0xE1, CHR 0x9A, CHR 0x80], [CHR 0xE2, CHR 0x80, CHR 0x80],
      [CHR 0xE2, CHR 0x80, CHR 0x81], [CHR 0xE2, CHR 0x80, CHR 0x82], [CHR 0xE2, CHR 0x80, CHR 0x83],
      [CHR 0xE2, CHR 0x80, CHR 0x84], [CHR 0xE2, CHR 0x80, CHR 0x85], [CHR 0xE2, CHR 0x80, CHR 0x86],
      [CHR 0xE2, CHR 0x80, CHR 0x87], [CHR 0xE2, CHR 0x80, CHR 0x88], [CHR 0xE2, CHR 0x80, CHR 0x89],
      [CHR 0xE2, CHR 0x80, CHR 0x8A], [CHR 0xE2, CHR 0x80, CHR 0xA8], [CHR 0xE2, CHR 0x80, CHR 0xA9],
      [CHR 0xE2, CHR 0x80, CHR 0xAF], [CHR 0xE2, CHR 0x81, CHR 0x9F], [CHR 0xE3, CHR 0x80, CHR 0x80]]"

function trim_left :: "string list \<Rightarrow> string \<Rightarrow> string" where
  "trim_left runes s =
     (case find (\<lambda>p. p \<noteq> [] \<and> HasPrefix s p) runes of
        None \<Rightarrow> s
      | Some p \<Rightarrow> trim_left runes (drop (length p) s))"
  by pat_completeness auto

termination
proof (relation "measure (\<lambda>(runes, s). length s)")
  fix runes s p
  assume "find (\<lambda>p. p \<noteq> [] \<and> HasPrefix s p) runes = Some p"
  then have "p \<noteq> []" "HasPrefix s p" by (auto simp: find_Some_iff)
  then show "((runes, drop (length p) s), runes, s) \<in> measure (\<lambda>(runes, s). length s)"
    by (auto simp: HasPrefix_iff)
qed simp

declare trim_left.simps [simp del]

definition TrimSpace :: "string \<Rightarrow> string" where
  "TrimSpace s = rev (trim_left (map rev space_runes) (rev (trim_left space_runes s)))"

definition CutPrefix :: "string \<Rightarrow> string \<Rightarrow> string option" where
  "CutPrefix s p = (if HasPrefix s p then Some (drop (length p) s) else None)"

definition tokenFromRequest :: "Request \<Rightarrow> string" where
  "tokenFromRequest r =
     (case (if rq_Authorization r \<noteq> '''' then CutPrefix (rq_Authorization r) ''Bearer '' else None) of
        Some tok \<Rightarrow> TrimSpace tok
      | None \<Rightarrow> query_Get r ''token'')"

section \<open>Middleware\<close>

definition unauthorized :: Response where
  "unauthorized = writeJSONError 401 ''unauthorized'' ''missing or empty Bearer token''"

definition authMiddleware :: "'w handler \<Rightarrow> 'w handler" where
  "authMiddleware next r =
     (let token = tokenFromRequest r in
      if token = '''' then State_Monad.return unauthorized
      else next (r\<lparr>rq_Token := Some token\<rparr>))"

definition authIfEnabled :: "Server \<Rightarrow> 'w handler \<Rightarrow> 'w handler" where
  "authIfEnabled S next = (if \<not> s_AuthEnabled S then next else authMiddleware next)"

definition authOrAnonymous :: "Server \<Rightarrow> 'w handler \<Rightarrow> 'w handler" where
  "authOrAnonymous S next =
     (if \<not> s_AuthEnabled S then next
      else (\<lambda>r. let token = tokenFromRequest r in
        if token \<noteq> '''' then next (r\<lparr>rq_Token := Some token\<rparr>)
        else if s_AnonymousRead S then next (r\<lparr>rq_Anonymous := True\<rparr>)
        else State_Monad.return unauthorized))"

definition allowlist :: "Server \<Rightarrow> 'w handler \<Rightarrow> 'w handler" where
  "allowlist S next r =
     (if s_WatchNamespaces S = [] then next r
      else let ns = PathValue r ''namespace'' in
        if ns = '''' \<or> ns \<notin> set (s_WatchNamespaces S)
        then State_Monad.return (writeJSONError 403 ''namespace_not_allowed''
               (''namespace '' @ ns @ '' is outside the operator's allowlist''))
        else next r)"

section \<open>The client of a request\<close>

definition token_config :: "RestConfig \<Rightarrow> string \<Rightarrow> RestConfig" where
  "token_config cfg token =
     cfg\<lparr>rc_BearerToken := token, rc_BearerTokenFile := '''', rc_Username := '''', rc_Password := ''''\<rparr>"

text \<open>
  What a client of a configuration identifies itself with. Of the configuration of a request
  only the first three are its own.
\<close>

datatype credential =
    BearerToken string
  | BearerTokenFile string
  | BasicAuth string string
  | ClientCertificate TLSClientConfig
  | Impersonation ImpersonationConfig
  | AuthProvider string
  | ExecProvider string

definition own_credentials :: "RestConfig \<Rightarrow> credential list" where
  "own_credentials c =
     (if rc_BearerToken c \<noteq> '''' then [BearerToken (rc_BearerToken c)] else []) @
     (if rc_BearerTokenFile c \<noteq> '''' then [BearerTokenFile (rc_BearerTokenFile c)] else []) @
     (if rc_Username c \<noteq> '''' \<or> rc_Password c \<noteq> '''' then [BasicAuth (rc_Username c) (rc_Password c)] else [])"

definition kept_credentials :: "RestConfig \<Rightarrow> credential list" where
  "kept_credentials c =
     (if rc_TLSClientConfig c \<noteq> no_certificate then [ClientCertificate (rc_TLSClientConfig c)] else []) @
     (if rc_Impersonate c \<noteq> no_impersonation then [Impersonation (rc_Impersonate c)] else []) @
     (case rc_AuthProvider c of Some n \<Rightarrow> [AuthProvider n] | None \<Rightarrow> []) @
     (case rc_ExecProvider c of Some n \<Rightarrow> [ExecProvider n] | None \<Rightarrow> [])"

definition credentials :: "RestConfig \<Rightarrow> credential list" where
  "credentials c = own_credentials c @ kept_credentials c"

lemma credentials_token_config:
  "token \<noteq> '''' \<Longrightarrow> credentials (token_config rest token) = BearerToken token # kept_credentials rest"
  by (simp add: credentials_def own_credentials_def kept_credentials_def token_config_def)

definition context_token :: "Request \<Rightarrow> string" where
  "context_token r = (case rq_Token r of None \<Rightarrow> '''' | Some t \<Rightarrow> t)"

definition clientForRequest :: "'w ApiEnv \<Rightarrow> Server \<Rightarrow> Request \<Rightarrow> error + api_client" where
  "clientForRequest E S r =
     (if \<not> s_AuthEnabled S then Inr OperatorClient
      else if rq_Anonymous r then Inr OperatorClient
      else if context_token r = '''' then Inl (Errorf ''no token in context (authMiddleware did not run?)'')
      else case s_RestConfig S of
             None \<Rightarrow> Inl (Errorf ''server missing RestConfig/Scheme; cannot build per-request client'')
           | Some rest \<Rightarrow>
               if \<not> s_Scheme S then Inl (Errorf ''server missing RestConfig/Scheme; cannot build per-request client'')
               else let cfg = token_config rest (context_token r) in
                 case e_NewClient E cfg of Some err \<Rightarrow> Inl err | None \<Rightarrow> Inr (TokenClient cfg))"

text \<open>The clientset of the operator may be nil, then \<open>None\<close> is returned without an error.\<close>

definition clientsetForRequest :: "'w ApiEnv \<Rightarrow> Server \<Rightarrow> Request \<Rightarrow> error + api_client option" where
  "clientsetForRequest E S r =
     (if \<not> s_AuthEnabled S \<or> rq_Anonymous r then Inr (if s_Clientset S then Some OperatorClient else None)
      else if context_token r = '''' then Inl (Errorf ''no token in context (authMiddleware did not run?)'')
      else case s_RestConfig S of
             None \<Rightarrow> Inl (Errorf ''server missing RestConfig; cannot build per-request clientset'')
           | Some rest \<Rightarrow>
               let cfg = token_config rest (context_token r) in
               case e_NewClientset E cfg of Some err \<Rightarrow> Inl err | None \<Rightarrow> Inr (Some (TokenClient cfg)))"

definition internal_error :: "error \<Rightarrow> Response" where
  "internal_error err = writeJSONError 500 ''internal error'' (err_msg err)"

definition with_client :: "'w ApiEnv \<Rightarrow> Server \<Rightarrow> Request \<Rightarrow> (api_client \<Rightarrow> 'w handling) \<Rightarrow> 'w handling" where
  "with_client E S r k =
     (case clientForRequest E S r of
        Inl err \<Rightarrow> State_Monad.return (internal_error err)
      | Inr c \<Rightarrow> k c)"

definition on_ok :: "error + 'a \<Rightarrow> ('a \<Rightarrow> 'w handling) \<Rightarrow> 'w handling" where
  "on_ok res k = (case res of Inl err \<Rightarrow> State_Monad.return (writeK8sError err) | Inr x \<Rightarrow> k x)"

section \<open>Identity and namespaces\<close>

definition AnonymousUser :: string where
  "AnonymousUser = ''system:anonymous''"

definition handleAuthConfig :: "Server \<Rightarrow> 'w handler" where
  "handleAuthConfig S r = State_Monad.return (writeJSON 200 (AuthConfigBody (s_OIDC S \<noteq> None) (s_VisualEditorEnabled S)))"

text \<open>
  In the last branch the clientset cannot be nil: the request is neither anonymous nor without
  authentication.
\<close>

definition handleWhoami :: "'w ApiEnv \<Rightarrow> Server \<Rightarrow> 'w handler" where
  "handleWhoami E S r =
     (let oidcEnabled = (s_OIDC S \<noteq> None);
          anon = (\<lambda>readOnly logs. writeJSON 200 (WhoamiBody \<lparr>wh_Name = AnonymousUser, wh_UID = '''', wh_Groups = [],
                    wh_Anonymous = True, wh_ReadOnly = readOnly, wh_AnonymousLogs = logs, wh_OidcEnabled = oidcEnabled\<rparr>))
      in if \<not> s_AuthEnabled S then State_Monad.return (anon False True)
         else if rq_Anonymous r then State_Monad.return (anon True (s_AnonymousLogs S))
         else case clientsetForRequest E S r of
           Inl err \<Rightarrow> State_Monad.return (internal_error err)
         | Inr None \<Rightarrow> State_Monad.return (internal_error (Errorf ''''))
         | Inr (Some cs) \<Rightarrow> do {
             res \<leftarrow> call (e_SelfSubjectReview E cs) (\<lambda>_. AReview cs);
             case res of
               Inl err \<Rightarrow> State_Monad.return (writeJSONError 401 ''unauthorized'' (''token rejected by apiserver: '' @ err_msg err))
             | Inr info \<Rightarrow> State_Monad.return (writeJSON 200 (WhoamiBody \<lparr>wh_Name = ui_Username info, wh_UID = ui_UID info,
                 wh_Groups = ui_Groups info, wh_Anonymous = False, wh_ReadOnly = False,
                 wh_AnonymousLogs = s_AnonymousLogs S, wh_OidcEnabled = oidcEnabled\<rparr>))
           })"

definition handleListNamespaces :: "Server \<Rightarrow> 'w handler" where
  "handleListNamespaces S r = State_Monad.return (writeJSON 200 (NamespacesBody (s_WatchNamespaces S)))"

end
