(* ===== verification/Rpc_Handlers.thy ===== *)
theory Rpc_Handlers
  imports Rpc_Auth
begin

text \<open>
  The handlers of the resources: \<^verbatim>\<open>internal/api/handlers_pipelines.go\<close>,
  \<^verbatim>\<open>handlers_clusters.go\<close>, \<^verbatim>\<open>handlers_projects.go\<close> and \<^verbatim>\<open>handlers_catalog.go\<close>, one
  definition per handler. What the three resource types do alike (get, list, delete) is
  written once, over the interface \<open>Resource\<close>.
\<close>

section \<open>Common parts\<close>

definition clear_managed :: "ObjectMeta \<Rightarrow> ObjectMeta" where
  "clear_managed m = m\<lparr>om_ManagedFields := []\<rparr>"

definition pipeline_obj :: "Pipeline \<Rightarrow> obj" where
  "pipeline_obj p = PipelineObj (p\<lparr>p_Meta := clear_managed (p_Meta p)\<rparr>)"

definition cluster_obj :: "PipelineCluster \<Rightarrow> obj" where
  "cluster_obj c = ClusterObj (c\<lparr>pc_Meta := clear_managed (pc_Meta c)\<rparr>)"

definition project_obj :: "PipelineProject \<Rightarrow> obj" where
  "project_obj p = ProjectObj (p\<lparr>pj_Meta := clear_managed (pj_Meta p)\<rparr>)"

definition list_handler ::
  "'w ApiEnv \<Rightarrow> Server \<Rightarrow> ('w, 'o) Resource \<Rightarrow> res_kind \<Rightarrow> ('o \<Rightarrow> obj) \<Rightarrow> string option \<Rightarrow> 'w handler" where
  "list_handler E S R kind out ns r = with_client E S r (\<lambda>c. do {
     res \<leftarrow> call (res_List R c ns) (\<lambda>_. AList c kind ns);
     on_ok res (\<lambda>items. State_Monad.return (writeJSON 200 (ItemsBody (map out items))))
   })"

definition get_handler ::
  "'w ApiEnv \<Rightarrow> Server \<Rightarrow> ('w, 'o) Resource \<Rightarrow> res_kind \<Rightarrow> ('o \<Rightarrow> obj) \<Rightarrow> 'w handler" where
  "get_handler E S R kind out r = with_client E S r (\<lambda>c. do {
     let ns = PathValue r ''namespace'';
     let name = PathValue r ''name'';
     res \<leftarrow> call (res_Get R c ns name) (\<lambda>_. AGet c kind ns name);
     on_ok res (\<lambda>p. State_Monad.return (writeJSON 200 (ObjBody (out p))))
   })"

definition delete_handler ::
  "'w ApiEnv \<Rightarrow> Server \<Rightarrow> ('w, 'o) Resource \<Rightarrow> res_kind \<Rightarrow> ('o \<Rightarrow> obj) \<Rightarrow> 'w handler" where
  "delete_handler E S R kind mk r = with_client E S r (\<lambda>c. do {
     let ns = PathValue r ''namespace'';
     let name = PathValue r ''name'';
     res \<leftarrow> call (res_Get R c ns name) (\<lambda>_. AGet c kind ns name);
     on_ok res (\<lambda>p. do {
       e \<leftarrow> call (res_Delete R c p) (\<lambda>_. ADelete c (mk p));
       case e of
         Some err \<Rightarrow> State_Monad.return (writeK8sError err)
       | None \<Rightarrow> State_Monad.return (writeJSON 200 (DeletedBody name))
     })
   })"

text \<open>The last step of a create and of an update: the call, and the object it returns.\<close>

definition create_object ::
  "('w, 'o) Resource \<Rightarrow> ('o \<Rightarrow> obj) \<Rightarrow> ('o \<Rightarrow> obj) \<Rightarrow> api_client \<Rightarrow> 'o \<Rightarrow> 'w handling" where
  "create_object R mk out c p = do {
     res \<leftarrow> call (res_Create R c p) (\<lambda>_. ACreate c (mk p));
     on_ok res (\<lambda>p. State_Monad.return (writeJSON 201 (ObjBody (out p))))
   }"

definition update_object ::
  "('w, 'o) Resource \<Rightarrow> ('o \<Rightarrow> obj) \<Rightarrow> ('o \<Rightarrow> obj) \<Rightarrow> api_client \<Rightarrow> 'o \<Rightarrow> 'w handling" where
  "update_object R mk out c p = do {
     res \<leftarrow> call (res_Update R c p) (\<lambda>_. AUpdate c (mk p));
     on_ok res (\<lambda>p. State_Monad.return (writeJSON 200 (ObjBody (out p))))
   }"

definition invalid_json :: "string \<Rightarrow> Response" where
  "invalid_json err = writeJSONError 400 ''invalid JSON'' err"

definition namespace_mismatch :: Response where
  "namespace_mismatch = writeJSONError 400 ''namespace mismatch'' ''body namespace must equal URL namespace''"

section \<open>Pipelines\<close>

definition handleListAll :: "'w ApiEnv \<Rightarrow> Server \<Rightarrow> 'w handler" where
  "handleListAll E S = list_handler E S (e_Pipelines E) KPipeline pipeline_obj None"

definition handleListNamespaced :: "'w ApiEnv \<Rightarrow> Server \<Rightarrow> 'w handler" where
  "handleListNamespaced E S r =
     list_handler E S (e_Pipelines E) KPipeline pipeline_obj (Some (PathValue r ''namespace'')) r"

definition handleGet :: "'w ApiEnv \<Rightarrow> Server \<Rightarrow> 'w handler" where
  "handleGet E S = get_handler E S (e_Pipelines E) KPipeline pipeline_obj"

text \<open>
  The errors of a pipeline. Validation never runs out of fuel (\<open>validation_meaning\<close>); the
  value there is an error, so that nothing would be written.
\<close>

definition pipeline_errs :: "'w ApiEnv \<Rightarrow> Server \<Rightarrow> Pipeline \<Rightarrow> ValidationError list" where
  "pipeline_errs E S p =
     (case ValidatePipeline (e_Lib E) (e_VLib E) (s_Catalog S) p of
        Some errs \<Rightarrow> errs
      | None \<Rightarrow> [verr ''spec'' ''validation did not terminate''])"

definition handleCreate :: "'w ApiEnv \<Rightarrow> Server \<Rightarrow> 'w handler" where
  "handleCreate E S r =
     (let ns = PathValue r ''namespace'' in
      case e_DecodePipeline E (rq_Body r) of
        Inl err \<Rightarrow> State_Monad.return (invalid_json err)
      | Inr p \<Rightarrow>
          if p_Namespace p \<noteq> '''' \<and> p_Namespace p \<noteq> ns then State_Monad.return namespace_mismatch
          else let p = p\<lparr>p_Meta := (p_Meta p)\<lparr>om_Namespace := ns\<rparr>\<rparr>; verrs = pipeline_errs E S p in
            if verrs \<noteq> [] then State_Monad.return (writeValidationErrors verrs)
            else with_client E S r (\<lambda>c. create_object (e_Pipelines E) PipelineObj pipeline_obj c p))"

definition handleUpdate :: "'w ApiEnv \<Rightarrow> Server \<Rightarrow> 'w handler" where
  "handleUpdate E S r =
     (let ns = PathValue r ''namespace''; name = PathValue r ''name'' in
      case e_DecodePipeline E (rq_Body r) of
        Inl err \<Rightarrow> State_Monad.return (invalid_json err)
      | Inr b \<Rightarrow>
          let b = b\<lparr>p_Meta := (p_Meta b)\<lparr>om_Namespace := ns, om_Name := name\<rparr>\<rparr>; verrs = pipeline_errs E S b in
          if verrs \<noteq> [] then State_Monad.return (writeValidationErrors verrs)
          else with_client E S r (\<lambda>c. do {
            res \<leftarrow> call (res_Get (e_Pipelines E) c ns name) (\<lambda>_. AGet c KPipeline ns name);
            on_ok res (\<lambda>current.
              update_object (e_Pipelines E) PipelineObj pipeline_obj c (current\<lparr>p_Spec := p_Spec b\<rparr>))
          }))"

definition handleDelete :: "'w ApiEnv \<Rightarrow> Server \<Rightarrow> 'w handler" where
  "handleDelete E S = delete_handler E S (e_Pipelines E) KPipeline PipelineObj"

definition patchStopped :: "'w ApiEnv \<Rightarrow> Server \<Rightarrow> bool \<Rightarrow> 'w handler" where
  "patchStopped E S stopped r = with_client E S r (\<lambda>c. do {
     let ns = PathValue r ''namespace'';
     let name = PathValue r ''name'';
     res \<leftarrow> call (res_Get (e_Pipelines E) c ns name) (\<lambda>_. AGet c KPipeline ns name);
     on_ok res (\<lambda>p. do {
       res2 \<leftarrow> call (e_PatchStopped E c p stopped) (\<lambda>_. APatch c p stopped);
       on_ok res2 (\<lambda>p. State_Monad.return (writeJSON 200 (ObjBody (pipeline_obj p))))
     })
   })"

definition handleStop :: "'w ApiEnv \<Rightarrow> Server \<Rightarrow> 'w handler" where
  "handleStop E S = patchStopped E S True"

definition handleRun :: "'w ApiEnv \<Rightarrow> Server \<Rightarrow> 'w handler" where
  "handleRun E S = patchStopped E S False"

definition incomingToRender :: "IncomingTarget list \<Rightarrow> IncomingRoute list" where
  "incomingToRender ins =
     map (\<lambda>t. \<lparr>ir_Subject = in_Subject t, ir_Durable = in_Durable t, ir_When = in_When t\<rparr>) ins"

text \<open>The preview of a project member: every failure on the way leaves the plain rendering.\<close>

definition preview :: "lib \<Rightarrow> PipelineProject \<Rightarrow> Pipeline \<Rightarrow> string \<Rightarrow> string" where
  "preview L project p yamlText =
     (let plan = PlanFor project (p_Namespace p) (p_Name p) in
      if IsEmpty plan then yamlText
      else case ApplyProjectIO L yamlText \<lparr>io_NATSURL = plan_NATSURL plan,
                  io_OutgoingSubjects = plan_OutgoingSubjects plan, io_Incoming = incomingToRender (plan_Incoming plan)\<rparr> of
             Inl _ \<Rightarrow> yamlText
           | Inr text \<Rightarrow> text)"

definition handleRender :: "'w ApiEnv \<Rightarrow> Server \<Rightarrow> 'w handler" where
  "handleRender E S r =
     (case e_DecodePipeline E (rq_Body r) of
        Inl err \<Rightarrow> State_Monad.return (invalid_json err)
      | Inr p \<Rightarrow>
          (case RenderPipelineYAMLForDisplay (e_Lib E) (p_Spec p) of
             Inl err \<Rightarrow> State_Monad.return (writeJSONError 422 ''render failed'' err)
           | Inr yamlText \<Rightarrow>
               (case ps_ProjectRef (p_Spec p) of
                  None \<Rightarrow> State_Monad.return (writeJSON 200 (YamlBody yamlText))
                | Some ref \<Rightarrow>
                    (case clientForRequest E S r of
                       Inl _ \<Rightarrow> State_Monad.return (writeJSON 200 (YamlBody yamlText))
                     | Inr c \<Rightarrow> do {
                         res \<leftarrow> call (res_Get (e_Projects E) c (p_Namespace p) (pr_Name ref))
                                  (\<lambda>_. AGet c KProject (p_Namespace p) (pr_Name ref));
                         case res of
                           Inl _ \<Rightarrow> State_Monad.return (writeJSON 200 (YamlBody yamlText))
                         | Inr project \<Rightarrow>
                             State_Monad.return (writeJSON 200 (YamlBody (preview (e_Lib E) project p yamlText)))
                       }))))"

definition handleValidate :: "'w ApiEnv \<Rightarrow> Server \<Rightarrow> 'w handler" where
  "handleValidate E S r =
     (case e_DecodePipeline E (rq_Body r) of
        Inl err \<Rightarrow> State_Monad.return (invalid_json err)
      | Inr p \<Rightarrow> let verrs = pipeline_errs E S p in State_Monad.return (writeJSON 200 (ValidBody (verrs = []) verrs)))"

section \<open>Clusters\<close>

definition handleListAllClusters :: "'w ApiEnv \<Rightarrow> Server \<Rightarrow> 'w handler" where
  "handleListAllClusters E S = list_handler E S (e_Clusters E) KCluster cluster_obj None"

definition handleListNamespacedClusters :: "'w ApiEnv \<Rightarrow> Server \<Rightarrow> 'w handler" where
  "handleListNamespacedClusters E S r =
     list_handler E S (e_Clusters E) KCluster cluster_obj (Some (PathValue r ''namespace'')) r"

definition handleGetCluster :: "'w ApiEnv \<Rightarrow> Server \<Rightarrow> 'w handler" where
  "handleGetCluster E S = get_handler E S (e_Clusters E) KCluster cluster_obj"

definition handleCreateCluster :: "'w ApiEnv \<Rightarrow> Server \<Rightarrow> 'w handler" where
  "handleCreateCluster E S r =
     (let ns = PathValue r ''namespace'' in
      case e_DecodeCluster E (rq_Body r) of
        Inl err \<Rightarrow> State_Monad.return (invalid_json err)
      | Inr cl \<Rightarrow>
          if om_Namespace (pc_Meta cl) \<noteq> '''' \<and> om_Namespace (pc_Meta cl) \<noteq> ns
          then State_Monad.return namespace_mismatch
          else let cl = cl\<lparr>pc_Meta := (pc_Meta cl)\<lparr>om_Namespace := ns\<rparr>\<rparr> in
            with_client E S r (\<lambda>c. create_object (e_Clusters E) ClusterObj cluster_obj c cl))"

definition handleUpdateCluster :: "'w ApiEnv \<Rightarrow> Server \<Rightarrow> 'w handler" where
  "handleUpdateCluster E S r =
     (let ns = PathValue r ''namespace''; name = PathValue r ''name'' in
      case e_DecodeCluster E (rq_Body r) of
        Inl err \<Rightarrow> State_Monad.return (invalid_json err)
      | Inr b \<Rightarrow> with_client E S r (\<lambda>c. do {
          res \<leftarrow> call (res_Get (e_Clusters E) c ns name) (\<lambda>_. AGet c KCluster ns name);
          on_ok res (\<lambda>current.
            update_object (e_Clusters E) ClusterObj cluster_obj c (current\<lparr>pc_Spec := pc_Spec b\<rparr>))
        }))"

definition handleDeleteCluster :: "'w ApiEnv \<Rightarrow> Server \<Rightarrow> 'w handler" where
  "handleDeleteCluster E S = delete_handler E S (e_Clusters E) KCluster ClusterObj"

definition in_cluster_view :: "string \<Rightarrow> Pipeline \<Rightarrow> bool" where
  "in_cluster_view name p \<longleftrightarrow> ps_ClusterRef (p_Spec p) = name \<or> pst_AssignedCluster (p_Status p) = name"

definition handleClusterInstances :: "'w ApiEnv \<Rightarrow> Server \<Rightarrow> 'w handler" where
  "handleClusterInstances E S r = with_client E S r (\<lambda>c. do {
     let ns = PathValue r ''namespace'';
     let name = PathValue r ''name'';
     res \<leftarrow> call (res_Get (e_Clusters E) c ns name) (\<lambda>_. AGet c KCluster ns name);
     on_ok res (\<lambda>cluster. do {
       res2 \<leftarrow> call (e_ListPods E c ns (clusterLabelKey, name)) (\<lambda>_. APods c ns);
       on_ok res2 (\<lambda>pods. do {
         res3 \<leftarrow> call (res_List (e_Pipelines E) c (Some ns)) (\<lambda>_. AList c KPipeline (Some ns));
         on_ok res3 (\<lambda>pipelines.
           State_Monad.return (writeJSON 200 (DistributionBody
             (aggregateDistribution cluster pods (filter (in_cluster_view name) pipelines)))))
       })
     })
   })"

section \<open>Projects\<close>

definition handleListAllProjects :: "'w ApiEnv \<Rightarrow> Server \<Rightarrow> 'w handler" where
  "handleListAllProjects E S = list_handler E S (e_Projects E) KProject project_obj None"

definition handleListNamespacedProjects :: "'w ApiEnv \<Rightarrow> Server \<Rightarrow> 'w handler" where
  "handleListNamespacedProjects E S r =
     list_handler E S (e_Projects E) KProject project_obj (Some (PathValue r ''namespace'')) r"

definition handleGetProject :: "'w ApiEnv \<Rightarrow> Server \<Rightarrow> 'w handler" where
  "handleGetProject E S = get_handler E S (e_Projects E) KProject project_obj"

definition validateProjectGraph ::
  "'w ApiEnv \<Rightarrow> api_client \<Rightarrow> string \<Rightarrow> PipelineProject \<Rightarrow> ('w \<times> api_event list, ValidationError list) state" where
  "validateProjectGraph E c ns p = do {
     res \<leftarrow> call (res_List (e_Pipelines E) c (Some ns)) (\<lambda>_. AList c KPipeline (Some ns));
     State_Monad.return (case res of
       Inl err \<Rightarrow> [verr ''spec.routes'' (''could not list pipelines: '' @ err_msg err)]
     | Inr pipes \<Rightarrow> api_ValidateProject (e_Lib E) p pipes)
   }"

definition handleCreateProject :: "'w ApiEnv \<Rightarrow> Server \<Rightarrow> 'w handler" where
  "handleCreateProject E S r =
     (let ns = PathValue r ''namespace'' in
      case e_DecodeProject E (rq_Body r) of
        Inl err \<Rightarrow> State_Monad.return (invalid_json err)
      | Inr p \<Rightarrow>
          if pj_Namespace p \<noteq> '''' \<and> pj_Namespace p \<noteq> ns then State_Monad.return namespace_mismatch
          else let p = p\<lparr>pj_Meta := (pj_Meta p)\<lparr>om_Namespace := ns\<rparr>\<rparr> in
            with_client E S r (\<lambda>c. do {
              verrs \<leftarrow> validateProjectGraph E c ns p;
              if verrs \<noteq> [] then State_Monad.return (writeValidationErrors verrs)
              else create_object (e_Projects E) ProjectObj project_obj c p
            }))"

definition handleUpdateProject :: "'w ApiEnv \<Rightarrow> Server \<Rightarrow> 'w handler" where
  "handleUpdateProject E S r =
     (let ns = PathValue r ''namespace''; name = PathValue r ''name'' in
      case e_DecodeProject E (rq_Body r) of
        Inl err \<Rightarrow> State_Monad.return (invalid_json err)
      | Inr b \<Rightarrow> with_client E S r (\<lambda>c. do {
          res \<leftarrow> call (res_Get (e_Projects E) c ns name) (\<lambda>_. AGet c KProject ns name);
          on_ok res (\<lambda>current. do {
            let current = current\<lparr>pj_Spec := pj_Spec b\<rparr>;
            verrs \<leftarrow> validateProjectGraph E c ns current;
            if verrs \<noteq> [] then State_Monad.return (writeValidationErrors verrs)
            else update_object (e_Projects E) ProjectObj project_obj c current
          })
        }))"

definition handleDeleteProject :: "'w ApiEnv \<Rightarrow> Server \<Rightarrow> 'w handler" where
  "handleDeleteProject E S = delete_handler E S (e_Projects E) KProject ProjectObj"

section \<open>Catalog\<close>

definition handleCatalogList :: "Server \<Rightarrow> 'w handler" where
  "handleCatalogList S r = State_Monad.return (writeJSON 200 (CatalogItems (cat_All (s_Catalog S))))"

definition handleCatalogGet :: "Server \<Rightarrow> 'w handler" where
  "handleCatalogGet S r =
     (let category = PathValue r ''category''; name = PathValue r ''name'' in
      State_Monad.return (case cat_Get (s_Catalog S) category name of
        None \<Rightarrow> writeJSONError 404 ''component not found'' (category @ ''/'' @ name @ '' not in v0.2 starter catalog'')
      | Some entry \<Rightarrow> writeJSON 200 (CatalogEntry entry)))"

end
