(* ===== verification/Rpc_Observe.thy ===== *)
theory Rpc_Observe
  imports Rpc_Handlers
begin

text \<open>
  Observability at the API: connection states of \<^verbatim>\<open>internal/api/handlers_connections.go\<close>,
  metrics of \<^verbatim>\<open>handlers_metrics.go\<close> and \<^verbatim>\<open>handlers_clusters_metrics.go\<close>, the stream filter
  of \<^verbatim>\<open>cluster_observability.go\<close> and the log stream of \<^verbatim>\<open>handlers_logs.go\<close>. Prometheus and
  the log source are parameters; a log is the list of lines it delivers until it ends.
\<close>

section \<open>Queries\<close>

definition buildMetricQuery :: "string \<Rightarrow> string \<Rightarrow> string \<Rightarrow> string" where
  "buildMetricQuery metric pod stream =
     (if stream = '''' then ''rate('' @ metric @ ''{pod='' @ go_quote pod @ ''}[1m])''
      else ''rate('' @ metric @ ''{pod='' @ go_quote pod @ '',stream='' @ go_quote stream @ ''}[1m])'')"

definition buildClusterMetricQuery :: "string \<Rightarrow> string \<Rightarrow> string \<Rightarrow> string" where
  "buildClusterMetricQuery metric namespace cluster =
     ''sum(rate('' @ metric @ ''{namespace='' @ go_quote namespace @ '',pod=~'' @ [CHR 0x22] @ cluster @ ''-[0-9]+'' @
     [CHR 0x22] @ ''}[1m]))''"

definition buildConnectionQuery :: "string \<Rightarrow> string \<Rightarrow> string \<Rightarrow> string" where
  "buildConnectionQuery metric pod stream =
     (if stream = '''' then ''max(rate('' @ metric @ ''{pod='' @ go_quote pod @ ''}[30s]))''
      else ''max(rate('' @ metric @ ''{pod='' @ go_quote pod @ '',stream='' @ go_quote stream @ ''}[30s]))'')"

definition buildBatchConnectionQuery :: "string \<Rightarrow> string list \<Rightarrow> string" where
  "buildBatchConnectionQuery metric pods =
     ''max by (pod, stream) (rate('' @ metric @ ''{pod=~'' @ [CHR 0x22] @ ''^('' @ Join pods ''|'' @ '')$'' @ [CHR 0x22] @ ''}[30s]))''"

record InstantSample =
  is_Labels :: "(string \<times> string) list"
  is_Value :: float64

definition prometheus_error :: "string \<Rightarrow> error" where
  "prometheus_error msg = Errorf (''prometheus error: '' @ msg)"

text \<open>One request to Prometheus: the body of a 200 response, or the error.\<close>

definition prometheus_get ::
  "'w ApiEnv \<Rightarrow> Server \<Rightarrow> string \<Rightarrow> string \<Rightarrow> (string \<times> string) list \<Rightarrow> ('w \<times> api_event list, error + string) state" where
  "prometheus_get E S path what params =
     (case e_ParseURL E (s_PrometheusURL S @ path) of
        Some err \<Rightarrow> State_Monad.return (Inl (wrap ''invalid prometheus url: '' err))
      | None \<Rightarrow> do {
          res \<leftarrow> call (e_HTTPGet E (s_PrometheusURL S @ path) params)
                   (\<lambda>_. PromQuery (case aget params ''query'' of Some q \<Rightarrow> q | None \<Rightarrow> ''''));
          State_Monad.return (case res of
            Inl err \<Rightarrow> Inl (wrap (what @ '': '') err)
          | Inr (code, bdy) \<Rightarrow>
              if code \<noteq> 200 then Inl (Errorf (''prometheus returned '' @ itoa code)) else Inr bdy)
        })"

fun instant_samples :: "'w ApiEnv \<Rightarrow> ((string \<times> string) list \<times> string) list \<Rightarrow> InstantSample list" where
  "instant_samples E [] = []"
| "instant_samples E ((labels, raw) # rs) =
     (case e_JsonString E raw of
        None \<Rightarrow> instant_samples E rs
      | Some valStr \<Rightarrow>
          (case e_ParseFloat E valStr of
             None \<Rightarrow> instant_samples E rs
           | Some v \<Rightarrow> \<lparr>is_Labels = labels, is_Value = v\<rparr> # instant_samples E rs))"

definition queryPrometheusInstant ::
  "'w ApiEnv \<Rightarrow> Server \<Rightarrow> string \<Rightarrow> ('w \<times> api_event list, error + InstantSample list) state" where
  "queryPrometheusInstant E S promQL = do {
     res \<leftarrow> prometheus_get E S ''/api/v1/query'' ''prometheus instant query failed'' [(''query'', promQL)];
     State_Monad.return (case res of
       Inl err \<Rightarrow> Inl err
     | Inr bdy \<Rightarrow>
         (case e_DecodeInstant E bdy of
            Inl err \<Rightarrow> Inl (Errorf (''decode prometheus response: '' @ err))
          | Inr (status, msg, result) \<Rightarrow>
              if status \<noteq> ''success'' then Inl (prometheus_error msg) else Inr (instant_samples E result)))
   }"

section \<open>Connection states\<close>

fun float_pos :: "float64 \<Rightarrow> bool" where
  "float_pos (Finite m e) = (m > 0)"
| "float_pos PosInf = True"
| "float_pos NegInf = False"
| "float_pos NaN = False"

definition connStateFromSamples :: "InstantSample list \<Rightarrow> string" where
  "connStateFromSamples samples =
     (if samples = [] then ''unknown''
      else if list_ex (\<lambda>s. float_pos (is_Value s)) samples then ''down''
      else ''up'')"

definition label_of :: "InstantSample \<Rightarrow> string \<Rightarrow> string" where
  "label_of s k = (case aget (is_Labels s) k of None \<Rightarrow> '''' | Some v \<Rightarrow> v)"

definition sample_key :: "string \<Rightarrow> string \<Rightarrow> string" where
  "sample_key pod stream = pod @ [CHR 0x00] @ stream"

fun samplesMap :: "InstantSample list \<Rightarrow> (string \<times> string) list \<Rightarrow> (string \<times> string) list" where
  "samplesMap [] m = m"
| "samplesMap (s # ss) m =
     samplesMap ss (aset (sample_key (label_of s ''pod'') (label_of s ''stream'')) (if float_pos (is_Value s) then ''down'' else ''up'') m)"

text \<open>The pod and the stream of a pipeline, by its placement.\<close>

definition pod_and_stream :: "Pipeline \<Rightarrow> string \<times> string" where
  "pod_and_stream pipe =
     (if pst_AssignedInstance (p_Status pipe) \<noteq> '''' then (pst_AssignedInstance (p_Status pipe), p_Name pipe)
      else (pst_PodName (p_Status pipe), ''''))"

definition prometheus_unavailable :: Response where
  "prometheus_unavailable =
     writeJSONError 503 ''prometheus_unavailable'' ''prometheus is not configured; set --prometheus-url''"

definition conn_state :: "error + InstantSample list \<Rightarrow> string" where
  "conn_state res = (case res of Inl _ \<Rightarrow> ''unknown'' | Inr samples \<Rightarrow> connStateFromSamples samples)"

definition handleConnections :: "'w ApiEnv \<Rightarrow> Server \<Rightarrow> 'w handler" where
  "handleConnections E S r =
     (let ns = PathValue r ''namespace''; name = PathValue r ''name'' in
      if s_PrometheusURL S = '''' then State_Monad.return prometheus_unavailable
      else with_client E S r (\<lambda>c. do {
        res \<leftarrow> call (res_Get (e_Pipelines E) c ns name) (\<lambda>_. AGet c KPipeline ns name);
        on_ok res (\<lambda>pipe.
          let pod = fst (pod_and_stream pipe); stream = snd (pod_and_stream pipe) in
          if pod = '''' then State_Monad.return (writeJSONError 409 ''no_running_pod'' ''pipeline has no running pod'')
          else do {
            input \<leftarrow> queryPrometheusInstant E S (buildConnectionQuery ''input_connection_failed'' pod stream);
            output \<leftarrow> queryPrometheusInstant E S (buildConnectionQuery ''output_connection_failed'' pod stream);
            State_Monad.return (writeJSON 200 (ConnectionsBody (conn_state input) (conn_state output)))
          })
      }))"

definition batch_state :: "error + InstantSample list \<Rightarrow> string \<times> string \<Rightarrow> string" where
  "batch_state res ps =
     (case res of
        Inl _ \<Rightarrow> ''unknown''
      | Inr samples \<Rightarrow> (case aget (samplesMap samples []) (sample_key (fst ps) (snd ps)) of None \<Rightarrow> ''unknown'' | Some v \<Rightarrow> v))"

definition handleNamespaceConnections :: "'w ApiEnv \<Rightarrow> Server \<Rightarrow> 'w handler" where
  "handleNamespaceConnections E S r =
     (let ns = PathValue r ''namespace'' in
      if s_PrometheusURL S = '''' then State_Monad.return prometheus_unavailable
      else with_client E S r (\<lambda>c. do {
        res \<leftarrow> call (res_List (e_Pipelines E) c (Some ns)) (\<lambda>_. AList c KPipeline (Some ns));
        on_ok res (\<lambda>pipes.
          let running = filter (\<lambda>(n, pod, stream). pod \<noteq> '''') (map (\<lambda>p. (p_Name p, pod_and_stream p)) pipes) in
          if running = [] then State_Monad.return (writeJSON 200 (BatchBody []))
          else do {
            let pods = sort (remdups (map (\<lambda>(n, pod, stream). pod) running));
            input \<leftarrow> queryPrometheusInstant E S (buildBatchConnectionQuery ''input_connection_failed'' pods);
            output \<leftarrow> queryPrometheusInstant E S (buildBatchConnectionQuery ''output_connection_failed'' pods);
            State_Monad.return (writeJSON 200 (BatchBody
              (map (\<lambda>(n, ps). (n, batch_state input ps, batch_state output ps)) running)))
          })
      }))"

section \<open>Metrics\<close>

definition knownQueries :: "(string \<times> string \<times> string) list" where
  "knownQueries =
     [(''throughput'', ''output_sent'', ''msg/s''), (''error_rate'', ''output_error'', ''msg/s''),
      (''input_rate'', ''input_received'', ''msg/s''), (''processor_error_rate'', ''processor_error'', ''msg/s'')]"

definition add_point :: "'w ApiEnv \<Rightarrow> string \<times> string \<Rightarrow> (int \<times> float64) list \<Rightarrow> (int \<times> float64) list" where
  "add_point E point sums =
     (case e_JsonSeconds E (fst point) of
        None \<Rightarrow> sums
      | Some ts \<Rightarrow>
          (case e_JsonString E (snd point) of
             None \<Rightarrow> sums
           | Some valStr \<Rightarrow>
               (case e_ParseFloat E valStr of
                  None \<Rightarrow> sums
                | Some v \<Rightarrow> aset ts (e_FloatAdd E (case aget sums ts of None \<Rightarrow> Finite 0 0 | Some s \<Rightarrow> s) v) sums)))"

definition sum_series :: "'w ApiEnv \<Rightarrow> (string \<times> string) list list \<Rightarrow> (int \<times> float64) list" where
  "sum_series E result = fold (add_point E) (concat result) []"

definition queryPrometheus ::
  "'w ApiEnv \<Rightarrow> Server \<Rightarrow> string \<Rightarrow> string \<Rightarrow> string \<Rightarrow> string \<Rightarrow>
   ('w \<times> api_event list, error + (int \<times> float64) list) state" where
  "queryPrometheus E S promQL start stop step = do {
     res \<leftarrow> prometheus_get E S ''/api/v1/query_range'' ''prometheus request failed''
              [(''query'', promQL), (''start'', start), (''end'', stop), (''step'', step)];
     State_Monad.return (case res of
       Inl err \<Rightarrow> Inl err
     | Inr bdy \<Rightarrow>
         (case e_DecodeRange E bdy of
            Inl err \<Rightarrow> Inl (Errorf (''decode prometheus response: '' @ err))
          | Inr (status, msg, result) \<Rightarrow>
              if status \<noteq> ''success'' then Inl (prometheus_error msg)
              else Inr (sort_key fst (sum_series E result))))
   }"

definition metrics_response ::
  "'w ApiEnv \<Rightarrow> Server \<Rightarrow> string \<Rightarrow> string \<Rightarrow> string \<Rightarrow> string \<Rightarrow> string \<Rightarrow> string \<Rightarrow> 'w handling" where
  "metrics_response E S queryName unit promQL start stop step =
     (if s_PrometheusURL S = '''' then State_Monad.return prometheus_unavailable
      else do {
        res \<leftarrow> queryPrometheus E S promQL start stop step;
        State_Monad.return (case res of
          Inl err \<Rightarrow> writeJSONError 502 ''prometheus_error'' (err_msg err)
        | Inr datapoints \<Rightarrow> writeJSON 200 (MetricsBody queryName unit datapoints))
      })"

text \<open>The defaults of the time range and the check of the query name, common to both handlers.\<close>

definition with_query ::
  "'w ApiEnv \<Rightarrow> Request \<Rightarrow> (string \<Rightarrow> string \<Rightarrow> string \<Rightarrow> string \<Rightarrow> string \<Rightarrow> string \<Rightarrow> 'w handling) \<Rightarrow> 'w handling" where
  "with_query E r k = do {
     let queryName = query_Get r ''query'';
     let step = (if query_Get r ''step'' = '''' then ''30s'' else query_Get r ''step'');
     now \<leftarrow> call (e_Now E) ReadClock;
     let stop = (if query_Get r ''end'' = '''' then itoa now else query_Get r ''end'');
     let start = (if query_Get r ''start'' = '''' then itoa (now - 1800) else query_Get r ''start'');
     case aget knownQueries queryName of
       None \<Rightarrow> State_Monad.return (writeJSONError 400 ''unknown_query'' (''unknown query '' @ go_quote queryName @
                 ''; valid: throughput, error_rate, input_rate, processor_error_rate''))
     | Some (metric, unit) \<Rightarrow> k queryName metric unit start stop step
   }"

definition handleMetrics :: "'w ApiEnv \<Rightarrow> Server \<Rightarrow> 'w handler" where
  "handleMetrics E S r = with_query E r (\<lambda>queryName metric unit start stop step.
     with_client E S r (\<lambda>c. do {
       let ns = PathValue r ''namespace'';
       let name = PathValue r ''name'';
       res \<leftarrow> call (res_Get (e_Pipelines E) c ns name) (\<lambda>_. AGet c KPipeline ns name);
       on_ok res (\<lambda>pipe.
         let pod = fst (pod_and_stream pipe); stream = snd (pod_and_stream pipe) in
         if pod = '''' then State_Monad.return (writeJSONError 409 ''no_running_pod'' ''pipeline has no running pod'')
         else metrics_response E S queryName unit (buildMetricQuery metric pod stream) start stop step)
     }))"

definition handleClusterMetrics :: "'w ApiEnv \<Rightarrow> Server \<Rightarrow> 'w handler" where
  "handleClusterMetrics E S r = with_query E r (\<lambda>queryName metric unit start stop step.
     with_client E S r (\<lambda>c. do {
       let ns = PathValue r ''namespace'';
       let name = PathValue r ''name'';
       res \<leftarrow> call (res_Get (e_Clusters E) c ns name) (\<lambda>_. AGet c KCluster ns name);
       on_ok res (\<lambda>cluster.
         metrics_response E S queryName unit (buildClusterMetricQuery metric ns name) start stop step)
     }))"

section \<open>Logs\<close>

definition streamLogMatch :: "'w ApiEnv \<Rightarrow> string \<Rightarrow> string \<Rightarrow> bool" where
  "streamLogMatch E line streamID =
     (if \<not> HasPrefix (TrimSpace line) ''{'' then False
      else case json_fields (e_VLib E) line of
        None \<Rightarrow> False
      | Some m \<Rightarrow>
          (case aget m ''stream'' of
             None \<Rightarrow> False
           | Some raw \<Rightarrow> e_JsonString E raw = Some streamID))"

text \<open>
  \<open>bufio.Scanner\<close> with a buffer limit: the lines up to the first that does not fit, on which it
  stops.
\<close>

definition scan_lines :: "nat \<Rightarrow> string list \<Rightarrow> string list" where
  "scan_lines limit ls = takeWhile (\<lambda>l. length l < limit) ls"

definition filterBacklog :: "'w ApiEnv \<Rightarrow> string list \<Rightarrow> string \<Rightarrow> nat \<Rightarrow> string list" where
  "filterBacklog E stream streamID capN =
     (let matches = filter (\<lambda>l. streamLogMatch E l streamID) (scan_lines (1024 * 1024) stream) in
      if length matches > capN then drop (length matches - capN) matches else matches)"

definition clusterLogPodWindow :: int where
  "clusterLogPodWindow = 2000"

definition clusterLogBacklogLines :: nat where
  "clusterLogBacklogLines = 200"

text \<open>Writing lines to the WebSocket until one fails; the result says whether all were sent.\<close>

fun ws_send :: "'w ApiEnv \<Rightarrow> string list \<Rightarrow> ('w \<times> api_event list, bool) state" where
  "ws_send E [] = State_Monad.return True"
| "ws_send E (l # ls) = do {
     sent \<leftarrow> call (e_WSWrite E l) (\<lambda>_. WSWrite l);
     if sent then ws_send E ls else State_Monad.return False
   }"

definition ws_done :: Response where
  "ws_done = writeJSON 101 WebSocket"

definition ws_error :: "'w ApiEnv \<Rightarrow> error \<Rightarrow> 'w handling" where
  "ws_error E err = do {
     _ \<leftarrow> call (e_WSWrite E (''error: '' @ err_msg err)) (\<lambda>_. WSWrite (''error: '' @ err_msg err));
     emit (WSClose False ''stream open failed'');
     State_Monad.return ws_done
   }"

definition ws_finish :: "bool \<Rightarrow> 'w handling" where
  "ws_finish sent =
     (if sent then do { emit (WSClose True ''''); State_Monad.return ws_done } else State_Monad.return ws_done)"

definition pod_logs :: "'w ApiEnv \<Rightarrow> api_client \<Rightarrow> string \<Rightarrow> string \<Rightarrow> 'w handling" where
  "pod_logs E cs ns pod = do {
     res \<leftarrow> call (e_PodLogs E cs ns pod \<lparr>lo_Follow = True, lo_TailLines = Some 200, lo_SinceTime = None\<rparr>)
              (ALogs cs ns pod True);
     case res of
       Inl err \<Rightarrow> ws_error E err
     | Inr ls \<Rightarrow> do { sent \<leftarrow> ws_send E (scan_lines (64 * 1024) ls); ws_finish sent }
   }"

definition stream_logs :: "'w ApiEnv \<Rightarrow> api_client \<Rightarrow> string \<Rightarrow> string \<Rightarrow> string \<Rightarrow> 'w handling" where
  "stream_logs E cs ns pod streamID = do {
     start \<leftarrow> call (e_Now E) ReadClock;
     res \<leftarrow> call (e_PodLogs E cs ns pod \<lparr>lo_Follow = False, lo_TailLines = Some clusterLogPodWindow, lo_SinceTime = None\<rparr>)
              (ALogs cs ns pod False);
     case res of
       Inl err \<Rightarrow> ws_error E err
     | Inr backlog \<Rightarrow> do {
         sent \<leftarrow> ws_send E (filterBacklog E backlog streamID clusterLogBacklogLines);
         if \<not> sent then State_Monad.return ws_done
         else do {
           res2 \<leftarrow> call (e_PodLogs E cs ns pod \<lparr>lo_Follow = True, lo_TailLines = None, lo_SinceTime = Some start\<rparr>)
                     (ALogs cs ns pod True);
           case res2 of
             Inl err \<Rightarrow> ws_error E err
           | Inr ls \<Rightarrow> do {
               sent2 \<leftarrow> ws_send E (filter (\<lambda>l. streamLogMatch E l streamID) (scan_lines (1024 * 1024) ls));
               ws_finish sent2
             }
         }
       }
   }"

text \<open>The handler after the check of the token.\<close>

definition log_stream :: "'w ApiEnv \<Rightarrow> Server \<Rightarrow> 'w handler" where
  "log_stream E S r = with_client E S r (\<lambda>c. do {
     let ns = PathValue r ''namespace'';
     let name = PathValue r ''name'';
     res \<leftarrow> call (res_Get (e_Pipelines E) c ns name) (\<lambda>_. AGet c KPipeline ns name);
     on_ok res (\<lambda>pipe.
       let pod = fst (pod_and_stream pipe); streamID = snd (pod_and_stream pipe) in
       if pod = '''' then State_Monad.return (writeJSONError 409 ''no pod'' ''pipeline has no running pod'')
       else case clientsetForRequest E S r of
         Inl err \<Rightarrow> State_Monad.return (internal_error err)
       | Inr None \<Rightarrow> State_Monad.return (writeJSONError 503 ''not available'' ''log streaming not configured'')
       | Inr (Some cs) \<Rightarrow> do {
           accepted \<leftarrow> call (e_WSAccept E r) (\<lambda>_. WSAccept);
           if \<not> accepted then State_Monad.return (writeJSON 400 NoBody)
           else if streamID = '''' then pod_logs E cs ns pod
           else stream_logs E cs ns pod streamID
         })
   })"

definition handleLogStream :: "'w ApiEnv \<Rightarrow> Server \<Rightarrow> 'w handler" where
  "handleLogStream E S r =
     (if s_AuthEnabled S then
        let token = tokenFromRequest r in
        if token \<noteq> '''' then log_stream E S (r\<lparr>rq_Token := Some token\<rparr>)
        else if s_AnonymousLogs S then log_stream E S (r\<lparr>rq_Anonymous := True\<rparr>)
        else State_Monad.return (writeJSONError 401 ''unauthorized'' ''missing token query parameter'')
      else log_stream E S r)"

end
