(* ===== verification/Rpc_Base64.thy ===== *)
theory Rpc_Base64
  imports Rpc_Prelude "HOL-Library.Word"
begin

text \<open>
  \<open>base64.RawURLEncoding\<close> of the Go standard library, with which \<^verbatim>\<open>internal/api/oidc.go\<close> writes
  random bytes and hashes as text: three bytes are four characters of an alphabet that needs no
  escaping in a URL or a cookie, and there is no padding.
\<close>

definition url_alphabet :: string where
  "url_alphabet = ''ABCDEFGHIJKLMNOPQRSTUVWXYZabcdefghijklmnopqrstuvwxyz0123456789-_''"

abbreviation sextet_char :: "nat \<Rightarrow> char" where
  "sextet_char v \<equiv> url_alphabet ! (v mod 64)"

fun RawURLEncode :: "8 word list \<Rightarrow> string" where
  "RawURLEncode [] = ''''"
| "RawURLEncode [a] = (let v = 16 * unat a in [sextet_char (v div 64), sextet_char v])"
| "RawURLEncode [a, b] =
     (let v = 4 * (256 * unat a + unat b) in [sextet_char (v div 4096), sextet_char (v div 64), sextet_char v])"
| "RawURLEncode (a # b # c # bs) =
     (let v = 65536 * unat a + 256 * unat b + unat c
      in sextet_char (v div 262144) # sextet_char (v div 4096) # sextet_char (v div 64) # sextet_char v # RawURLEncode bs)"

text \<open>The reader of such a text, and that it gets back what was written.\<close>

definition sextet :: "char \<Rightarrow> nat" where
  "sextet c = length (takeWhile (\<lambda>x. x \<noteq> c) url_alphabet)"

fun RawURLDecode :: "string \<Rightarrow> 8 word list" where
  "RawURLDecode (p # q # r # s # cs) =
     (let v = 262144 * sextet p + 4096 * sextet q + 64 * sextet r + sextet s
      in of_nat (v div 65536) # of_nat (v div 256) # of_nat v # RawURLDecode cs)"
| "RawURLDecode [p, q, r] =
     (let v = (4096 * sextet p + 64 * sextet q + sextet r) div 4 in [of_nat (v div 256), of_nat v])"
| "RawURLDecode [p, q] = [of_nat ((64 * sextet p + sextet q) div 16)]"
| "RawURLDecode _ = []"

lemma alphabet_length: "length url_alphabet = 64"
  by (simp add: url_alphabet_def)

lemma sextets: "list_all (\<lambda>i. sextet (url_alphabet ! i) = i) [0..<64]"
  by code_simp

lemma sextet_char [simp]: "sextet (sextet_char v) = v mod 64"
proof -
  have "v mod 64 \<in> set [0..<64]" by simp
  with sextets show ?thesis unfolding list_all_iff by blast
qed

lemma sextet_char_in [simp]: "sextet_char v \<in> set url_alphabet"
  by (simp add: alphabet_length)

lemma unat_byte: "unat (a :: 8 word) < 256"
  using unsigned_less [of a, where 'a = nat] by simp

lemma two_sextets: "64 * (v div 64) + v mod 64 = (v :: nat)"
  by (rule mult_div_mod_eq)

lemma three_sextets:
  assumes "v < 262144"
  shows "4096 * (v div 4096 mod 64) + 64 * (v div 64 mod 64) + v mod 64 = (v :: nat)"
proof -
  have "v div 64 div 64 = v div 4096" by (simp add: div_mult2_eq [symmetric])
  moreover have "v div 4096 mod 64 = v div 4096" using assms by (simp add: less_mult_imp_div_less)
  ultimately show ?thesis using two_sextets [of v] two_sextets [of "v div 64"] by linarith
qed

lemma four_sextets:
  assumes "v < 16777216"
  shows "262144 * (v div 262144 mod 64) + 4096 * (v div 4096 mod 64) + 64 * (v div 64 mod 64) + v mod 64 = (v :: nat)"
proof -
  have "v div 64 < 262144" using assms by (simp add: less_mult_imp_div_less)
  then have "4096 * (v div 64 div 4096 mod 64) + 64 * (v div 64 div 64 mod 64) + v div 64 mod 64 = v div 64"
    by (rule three_sextets)
  moreover have "v div 64 div 4096 = v div 262144" "v div 64 div 64 = v div 4096" by (simp_all add: div_mult2_eq [symmetric])
  ultimately have "4096 * (v div 262144 mod 64) + 64 * (v div 4096 mod 64) + v div 64 mod 64 = v div 64" by (simp only:)
  moreover have "4096 * p + 64 * q + r = w \<Longrightarrow> 64 * w + s = v \<Longrightarrow> 262144 * p + 4096 * q + 64 * r + s = v" for p q r s w
    by simp
  ultimately show ?thesis using two_sextets by blast
qed

text \<open>The bytes of a number.\<close>

lemma three_bytes:
  assumes "a < 256" and "b < 256" and "c < (256 :: nat)"
  shows "(65536 * a + 256 * b + c) div 65536 = a" and "(65536 * a + 256 * b + c) div 256 = 256 * a + b"
proof -
  have "65536 * a + 256 * b + c = (256 * a + b) * 256 + c" by simp
  then show *: "(65536 * a + 256 * b + c) div 256 = 256 * a + b" using assms(3) by (simp only: div_mult_self3)
  have "(65536 * a + 256 * b + c) div 65536 = (65536 * a + 256 * b + c) div 256 div 256"
    by (simp add: div_mult2_eq [symmetric])
  then show "(65536 * a + 256 * b + c) div 65536 = a" unfolding * using assms(2) by simp
qed

lemma of_nat_byte: "n mod 256 = unat a \<Longrightarrow> of_nat n = (a :: 8 word)"
  by (rule word_unat_eq_iff [THEN iffD2]) (simp add: unat_of_nat)

lemma RawURLDecode_Encode: "RawURLDecode (RawURLEncode bs) = bs"
proof (induction bs rule: RawURLEncode.induct)
  case (2 a)
  have "16 * unat a div 64 < 64" using unat_byte [of a] by (simp only: less_mult_imp_div_less)
  then have "64 * (16 * unat a div 64 mod 64) + 16 * unat a mod 64 = 16 * unat a"
    using two_sextets [of "16 * unat a"] by (simp only: mod_less)
  then show ?case
    unfolding RawURLEncode.simps Let_def RawURLDecode.simps sextet_char by (simp only:) simp
next
  case (3 a b)
  have lt: "4 * (256 * unat a + unat b) < 262144" using unat_byte [of a] unat_byte [of b] by simp
  have "4 * (256 * unat a + unat b) div 4 = 256 * unat a + unat b" "(256 * unat a + unat b) div 256 = unat a"
    using unat_byte [of b] by simp_all
  then show ?case
    unfolding RawURLEncode.simps Let_def RawURLDecode.simps sextet_char three_sextets [OF lt]
    by (simp only: list.inject) (intro conjI refl of_nat_byte; simp add: unat_byte)
next
  case (4 a b c bs)
  have lt: "65536 * unat a + 256 * unat b + unat c < 16777216"
    using unat_byte [of a] unat_byte [of b] unat_byte [of c] by simp
  have c: "(65536 * unat a + 256 * unat b + unat c) mod 256 = unat c"
    using unat_byte [of c] mod_mult_self3 [of "256 * unat a + unat b" 256 "unat c"] by (simp add: algebra_simps)
  show ?case
    unfolding RawURLEncode.simps Let_def RawURLDecode.simps sextet_char four_sextets [OF lt] 4
      three_bytes [OF unat_byte unat_byte unat_byte]
    by (simp only: list.inject 4) (intro conjI refl of_nat_byte; simp add: unat_byte c)
qed simp

lemma RawURLEncode_inj: "RawURLEncode bs = RawURLEncode bs' \<longleftrightarrow> bs = bs'"
  by (metis RawURLDecode_Encode)

lemma RawURLEncode_length: "length (RawURLEncode bs) = (8 * length bs + 5) div 6"
  by (induction bs rule: RawURLEncode.induct) (simp_all add: Let_def)

lemma RawURLEncode_alphabet: "set (RawURLEncode bs) \<subseteq> set url_alphabet"
  by (induction bs rule: RawURLEncode.induct) (simp_all add: Let_def)

end
