(* ===== verification/Rpc_Oidc.thy ===== *)
theory Rpc_Oidc
  imports Rpc_Auth Rpc_Base64
begin

text \<open>
  The OIDC login of the API, \<^verbatim>\<open>internal/api/oidc.go\<close>: the session store with its time to
  live, the lazily built provider, and the four handlers of the PKCE flow. The identity provider
  (discovery, code exchange, refresh, verification of tokens), the clock and the random source
  are parameters; the store and the result of the one discovery are explicit state. A handler
  runs under the store's mutex in steps; between the steps other requests may run, which the
  step relation at the end makes explicit for refresh and logout.
\<close>

section \<open>Sessions\<close>

record oidcSession =
  os_state :: string
  os_codeVerifier :: string
  os_nonce :: string
  os_refreshToken :: string
  os_createdAt :: int

type_synonym sessions = "(string \<times> oidcSession) list"

definition oidcSessionTTL :: int where
  "oidcSessionTTL = 10 * 60 * 1000000000"

definition store_put :: "string \<Rightarrow> oidcSession \<Rightarrow> sessions \<Rightarrow> sessions" where
  "store_put sid sess m = aset sid sess m"

definition store_get :: "int \<Rightarrow> int \<Rightarrow> string \<Rightarrow> sessions \<Rightarrow> oidcSession option \<times> sessions" where
  "store_get ttl now sid m =
     (case aget m sid of
        None \<Rightarrow> (None, m)
      | Some sess \<Rightarrow> if now - os_createdAt sess > ttl then (None, adel sid m) else (Some sess, m))"

definition store_delete :: "string \<Rightarrow> sessions \<Rightarrow> sessions" where
  "store_delete sid m = adel sid m"

definition store_gc :: "int \<Rightarrow> int \<Rightarrow> sessions \<Rightarrow> sessions" where
  "store_gc ttl now m = (let cutoff = now - ttl in filter (\<lambda>(sid, sess). \<not> os_createdAt sess < cutoff) m)"

section \<open>Cookies\<close>

definition oidcCookieName :: string where
  "oidcCookieName = ''rpc-oidc-state''"

definition oidcCookiePath :: string where
  "oidcCookiePath = ''/api/v1/auth/''"

definition oidcCookieMaxAge :: int where
  "oidcCookieMaxAge = 10 * 60"

definition session_cookie :: "string \<Rightarrow> int \<Rightarrow> Cookie" where
  "session_cookie v age = \<lparr>ck_Name = oidcCookieName, ck_Value = v, ck_Path = oidcCookiePath, ck_HttpOnly = True,
     ck_Secure = True, ck_SameSiteLax = True, ck_MaxAge = age\<rparr>"

definition setSessionCookie :: "string \<Rightarrow> Response \<Rightarrow> Response" where
  "setSessionCookie sessID w = w\<lparr>rsp_Cookie := Some (session_cookie sessID oidcCookieMaxAge)\<rparr>"

definition clearSessionCookie :: "Response \<Rightarrow> Response" where
  "clearSessionCookie w = w\<lparr>rsp_Cookie := Some (session_cookie '''' (-1))\<rparr>"

definition uiRedirectTarget :: "OIDCConfig \<Rightarrow> string" where
  "uiRedirectTarget cfg = (if oc_UIRedirectURL cfg \<noteq> '''' then oc_UIRedirectURL cfg else ''/'')"

definition Redirect :: "string \<Rightarrow> Response" where
  "Redirect url = (writeJSON 302 NoBody)\<lparr>rsp_Location := url\<rparr>"

section \<open>The identity provider\<close>

record Tokens =
  tk_IDToken :: string
  tk_RefreshToken :: string

record 'w IdP =
  idp_NewProvider :: "string \<Rightarrow> ('w, error option) state"
  idp_AuthCodeURL :: "OIDCConfig \<Rightarrow> string \<Rightarrow> (string \<times> string) list \<Rightarrow> string"
  idp_Exchange :: "string \<Rightarrow> string \<Rightarrow> ('w, error + Tokens) state"
  idp_Refresh :: "string \<Rightarrow> ('w, error + Tokens) state"
  idp_Verify :: "string \<Rightarrow> ('w, error option) state"
  idp_Nonce :: "string \<Rightarrow> error + string"
  rand_Read :: "nat \<Rightarrow> ('w, 8 word list) state"
  time_Now :: "('w, int) state"
  sha256_Sum256 :: "string \<Rightarrow> 8 word list"

text \<open>
  The state of the server: the outcome of the discovery once it has run, and the sessions.
\<close>

record oidc_state =
  oidc_RT :: "error option option"
  oidc_Sessions :: sessions

type_synonym ('w, 'a) oidc = "('w \<times> oidc_state, 'a) state"

definition idp :: "('w, 'a) state \<Rightarrow> ('w, 'a) oidc" where
  "idp m = State (\<lambda>(w, s). case run_state m w of (a, w') \<Rightarrow> (a, (w', s)))"

definition on_store :: "(sessions \<Rightarrow> 'a \<times> sessions) \<Rightarrow> ('w, 'a) oidc" where
  "on_store f = State (\<lambda>(w, s). case f (oidc_Sessions s) of (a, m) \<Rightarrow> (a, (w, s\<lparr>oidc_Sessions := m\<rparr>)))"

definition oidc_init :: "'w IdP \<Rightarrow> OIDCConfig \<Rightarrow> ('w, error option) oidc" where
  "oidc_init I cfg = State (\<lambda>(w, s).
     case oidc_RT s of
       Some err \<Rightarrow> (err, (w, s))
     | None \<Rightarrow>
         (case run_state (idp_NewProvider I (oc_Issuer cfg)) w of
            (e, w') \<Rightarrow> let err = map_option (wrap ''oidc discovery: '') e in (err, (w', s\<lparr>oidc_RT := Some err\<rparr>))))"

definition session_of :: "'w IdP \<Rightarrow> string \<Rightarrow> ('w, oidcSession option) oidc" where
  "session_of I sid = do {
     now \<leftarrow> idp (time_Now I);
     on_store (store_get oidcSessionTTL now sid)
   }"

definition put_session :: "string \<Rightarrow> oidcSession \<Rightarrow> ('w, unit) oidc" where
  "put_session sid sess = on_store (\<lambda>m. ((), store_put sid sess m))"

definition delete_session :: "string \<Rightarrow> ('w, unit) oidc" where
  "delete_session sid = on_store (\<lambda>m. ((), store_delete sid m))"

definition fail :: "int \<Rightarrow> string \<Rightarrow> string \<Rightarrow> ('w, Response) oidc" where
  "fail code msg details = State_Monad.return (writeJSONError code msg details)"

text \<open>The two guards at the start of login, callback and refresh.\<close>

definition with_oidc :: "'w IdP \<Rightarrow> Server \<Rightarrow> (OIDCConfig \<Rightarrow> ('w, Response) oidc) \<Rightarrow> ('w, Response) oidc" where
  "with_oidc I S k =
     (case s_OIDC S of
        None \<Rightarrow> fail 404 ''oidc_disabled'' ''OIDC is not configured''
      | Some cfg \<Rightarrow> do {
          e \<leftarrow> oidc_init I cfg;
          case e of
            Some err \<Rightarrow> fail 503 ''oidc_init_failed'' (err_msg err)
          | None \<Rightarrow> k cfg
        })"

section \<open>Handlers\<close>

text \<open>
  Random bytes and hashes as text. \<open>rand.Read\<close> fills its argument and returns no error, so the
  panic of \<open>randB64\<close> is not taken.
\<close>

definition randB64 :: "'w IdP \<Rightarrow> nat \<Rightarrow> ('w, string) state" where
  "randB64 I n = do { b \<leftarrow> rand_Read I n; State_Monad.return (RawURLEncode b) }"

definition s256Challenge :: "'w IdP \<Rightarrow> string \<Rightarrow> string" where
  "s256Challenge I verifier = RawURLEncode (sha256_Sum256 I verifier)"

definition handleOIDCLogin :: "'w IdP \<Rightarrow> Server \<Rightarrow> Request \<Rightarrow> ('w, Response) oidc" where
  "handleOIDCLogin I S r = with_oidc I S (\<lambda>cfg. do {
     sessID \<leftarrow> idp (randB64 I 32);
     st \<leftarrow> idp (randB64 I 32);
     codeVerifier \<leftarrow> idp (randB64 I 64);
     nonce \<leftarrow> idp (randB64 I 16);
     now \<leftarrow> idp (time_Now I);
     put_session sessID \<lparr>os_state = st, os_codeVerifier = codeVerifier, os_nonce = nonce, os_refreshToken = '''',
       os_createdAt = now\<rparr>;
     State_Monad.return (setSessionCookie sessID (Redirect (idp_AuthCodeURL I cfg st
       [(''code_challenge'', s256Challenge I codeVerifier), (''code_challenge_method'', ''S256''), (''nonce'', nonce)])))
   })"

definition finish_login :: "OIDCConfig \<Rightarrow> string \<Rightarrow> oidcSession \<Rightarrow> Tokens \<Rightarrow> ('w, Response) oidc" where
  "finish_login cfg sid sess tok = do {
     put_session sid (sess\<lparr>os_refreshToken := tk_RefreshToken tok\<rparr>);
     State_Monad.return (setSessionCookie sid
       ((Redirect (uiRedirectTarget cfg @ ''#id_token='' @ tk_IDToken tok))
          \<lparr>rsp_CacheControl := ''no-store, no-cache, must-revalidate''\<rparr>))
   }"

definition check_id_token ::
  "'w IdP \<Rightarrow> OIDCConfig \<Rightarrow> string \<Rightarrow> oidcSession \<Rightarrow> Tokens \<Rightarrow> ('w, Response) oidc" where
  "check_id_token I cfg sid sess tok =
     (if tk_IDToken tok = '''' then
        fail 502 ''no_id_token'' ''IdP response is missing id_token; verify scope=openid is requested''
      else do {
        e \<leftarrow> idp (idp_Verify I (tk_IDToken tok));
        case e of
          Some err \<Rightarrow> fail 401 ''id_token_invalid'' (err_msg err)
        | None \<Rightarrow>
            (case idp_Nonce I (tk_IDToken tok) of
               Inl err \<Rightarrow> fail 401 ''id_token_claims_unreadable'' (err_msg err)
             | Inr nonce \<Rightarrow>
                 if nonce \<noteq> os_nonce sess then do {
                   delete_session sid;
                   fail 401 ''nonce_mismatch'' ''id_token nonce does not match login request''
                 }
                 else finish_login cfg sid sess tok)
      })"

definition callback_session :: "'w IdP \<Rightarrow> OIDCConfig \<Rightarrow> Request \<Rightarrow> string \<Rightarrow> oidcSession \<Rightarrow> ('w, Response) oidc" where
  "callback_session I cfg r sid sess =
     (if query_Get r ''state'' \<noteq> os_state sess then do {
        delete_session sid;
        fail 400 ''state_mismatch'' ''state parameter does not match''
      }
      else if query_Get r ''code'' = '''' then fail 400 ''missing_code'' ''no auth code in callback''
      else do {
        res \<leftarrow> idp (idp_Exchange I (query_Get r ''code'') (os_codeVerifier sess));
        case res of
          Inl err \<Rightarrow> do {
            delete_session sid;
            fail 502 ''token_exchange_failed'' (err_msg err)
          }
        | Inr tok \<Rightarrow> check_id_token I cfg sid sess tok
      })"

definition handleOIDCCallback :: "'w IdP \<Rightarrow> Server \<Rightarrow> Request \<Rightarrow> ('w, Response) oidc" where
  "handleOIDCCallback I S r = with_oidc I S (\<lambda>cfg.
     case rq_Cookie r of
       None \<Rightarrow> fail 400 ''missing_state_cookie'' ''http: named cookie not present''
     | Some sid \<Rightarrow> do {
         g \<leftarrow> session_of I sid;
         case g of
           None \<Rightarrow> fail 400 ''session_not_found'' ''state cookie expired or unknown''
         | Some sess \<Rightarrow> callback_session I cfg r sid sess
       })"

definition refresh_session :: "'w IdP \<Rightarrow> string \<Rightarrow> oidcSession \<Rightarrow> ('w, Response) oidc" where
  "refresh_session I sid sess = do {
     res \<leftarrow> idp (idp_Refresh I (os_refreshToken sess));
     case res of
       Inl err \<Rightarrow> do {
         delete_session sid;
         State_Monad.return (clearSessionCookie (writeJSONError 401 ''refresh_failed'' (err_msg err)))
       }
     | Inr tok \<Rightarrow>
         if tk_IDToken tok = '''' then fail 502 ''no_id_token'' ''refresh response is missing id_token''
         else do {
           e \<leftarrow> idp (idp_Verify I (tk_IDToken tok));
           case e of
             Some err \<Rightarrow> fail 401 ''id_token_invalid'' (err_msg err)
           | None \<Rightarrow> do {
               (if tk_RefreshToken tok \<noteq> '''' \<and> tk_RefreshToken tok \<noteq> os_refreshToken sess
                then put_session sid (sess\<lparr>os_refreshToken := tk_RefreshToken tok\<rparr>)
                else State_Monad.return ());
               State_Monad.return (writeJSON 200 (IDTokenBody (tk_IDToken tok)))
             }
         }
   }"

definition handleOIDCRefresh :: "'w IdP \<Rightarrow> Server \<Rightarrow> Request \<Rightarrow> ('w, Response) oidc" where
  "handleOIDCRefresh I S r = with_oidc I S (\<lambda>cfg.
     case rq_Cookie r of
       None \<Rightarrow> fail 401 ''no_session'' ''no oidc session cookie''
     | Some sid \<Rightarrow> do {
         g \<leftarrow> session_of I sid;
         case g of
           None \<Rightarrow> fail 401 ''session_expired'' ''session not found or has no refresh token''
         | Some sess \<Rightarrow>
             if os_refreshToken sess = ''''
             then fail 401 ''session_expired'' ''session not found or has no refresh token''
             else refresh_session I sid sess
       })"

definition handleOIDCLogout :: "Server \<Rightarrow> Request \<Rightarrow> ('w, Response) oidc" where
  "handleOIDCLogout S r =
     (if s_OIDC S = None then State_Monad.return (writeJSON 204 NoBody)
      else case rq_Cookie r of
        None \<Rightarrow> State_Monad.return (clearSessionCookie (writeJSON 204 NoBody))
      | Some sid \<Rightarrow> do {
          delete_session sid;
          State_Monad.return (clearSessionCookie (writeJSON 204 NoBody))
        })"

text \<open>One tick of the collector that runs beside the handlers.\<close>

definition gc_tick :: "'w IdP \<Rightarrow> ('w, unit) oidc" where
  "gc_tick I = do {
     now \<leftarrow> idp (time_Now I);
     on_store (\<lambda>m. ((), store_gc oidcSessionTTL now m))
   }"

section \<open>Weakest preconditions\<close>

lemma wp_idp [wp_simps]: "wp (idp m) Q (w, s) = (case run_state m w of (a, w') \<Rightarrow> Q a (w', s))"
  by (simp add: wp_def idp_def split: prod.split)

lemma wp_on_store [wp_simps]:
  "wp (on_store f) Q (w, s) = (case f (oidc_Sessions s) of (a, m) \<Rightarrow> Q a (w, s\<lparr>oidc_Sessions := m\<rparr>))"
  by (simp add: wp_def on_store_def split: prod.split)

lemma wp_put_session [wp_simps]:
  "wp (put_session sid sess) Q (w, s) = Q () (w, s\<lparr>oidc_Sessions := store_put sid sess (oidc_Sessions s)\<rparr>)"
  by (simp add: put_session_def wp_simps)

lemma wp_delete_session [wp_simps]:
  "wp (delete_session sid) Q (w, s) = Q () (w, s\<lparr>oidc_Sessions := store_delete sid (oidc_Sessions s)\<rparr>)"
  by (simp add: delete_session_def wp_simps)

lemma wp_fail [wp_simps]: "wp (fail code msg details) Q ws = Q (writeJSONError code msg details) ws"
  by (simp add: fail_def)

lemma wp_session_of [wp_simps]:
  "wp (session_of I sid) Q (w, s) =
     (case run_state (time_Now I) w of (now, w') \<Rightarrow>
        (case store_get oidcSessionTTL now sid (oidc_Sessions s) of (g, m) \<Rightarrow> Q g (w', s\<lparr>oidc_Sessions := m\<rparr>)))"
  by (simp add: session_of_def wp_simps split: prod.split)

lemma oidc_init_run:
  "run_state (oidc_init I cfg) (w, s) = (e, (w', s')) \<Longrightarrow> oidc_Sessions s' = oidc_Sessions s \<and> oidc_RT s' = Some e"
  by (auto simp: oidc_init_def Let_def split: option.splits prod.splits)

text \<open>
  The handlers behind the two guards: what holds of the body from every state with the same
  sessions, and of the two error responses, holds of the handler.
\<close>

lemma wp_with_oidc:
  assumes "\<And>code msg details w' s'. code \<in> {404, 503} \<Longrightarrow> oidc_Sessions s' = oidc_Sessions s \<Longrightarrow>
      Q (writeJSONError code msg details) (w', s')"
    and "\<And>cfg w' s'. s_OIDC S = Some cfg \<Longrightarrow> oidc_Sessions s' = oidc_Sessions s \<Longrightarrow> oidc_RT s' = Some None \<Longrightarrow>
      wp (k cfg) Q (w', s')"
  shows "wp (with_oidc I S k) Q (w, s)"
proof (cases "s_OIDC S")
  case None
  with assms(1) [of 404 s] show ?thesis by (simp add: with_oidc_def wp_simps)
next
  case (Some cfg)
  obtain e w' s' where run: "run_state (oidc_init I cfg) (w, s) = (e, (w', s'))" by (cases "run_state (oidc_init I cfg) (w, s)") auto
  from oidc_init_run [OF this] have "oidc_Sessions s' = oidc_Sessions s" "oidc_RT s' = Some e" by simp_all
  with Some assms run show ?thesis
    by (cases e) (simp_all add: with_oidc_def wp_def [of "oidc_init I cfg"] wp_simps)
qed

section \<open>The session store\<close>

text \<open>
  What the handlers rely on: the store is a map, a session older than the time to live is not
  returned, and the collector removes only such sessions.
\<close>

locale session_store =
  fixes wf :: "'m \<Rightarrow> bool" and lookup :: "'m \<Rightarrow> string \<Rightarrow> oidcSession option"
    and put :: "string \<Rightarrow> oidcSession \<Rightarrow> 'm \<Rightarrow> 'm" and get :: "int \<Rightarrow> int \<Rightarrow> string \<Rightarrow> 'm \<Rightarrow> oidcSession option \<times> 'm"
    and delete :: "string \<Rightarrow> 'm \<Rightarrow> 'm" and gc :: "int \<Rightarrow> int \<Rightarrow> 'm \<Rightarrow> 'm"
  assumes wf_put: "wf m \<Longrightarrow> wf (put sid sess m)" and wf_delete: "wf m \<Longrightarrow> wf (delete sid m)" and wf_gc: "wf m \<Longrightarrow> wf (gc ttl now m)"
    and lookup_put: "lookup (put sid sess m) k = (if k = sid then Some sess else lookup m k)"
    and lookup_delete: "lookup (delete sid m) k = (if k = sid then None else lookup m k)"
    and lookup_gc: "wf m \<Longrightarrow> lookup (gc ttl now m) k =
      (case lookup m k of None \<Rightarrow> None | Some sess \<Rightarrow> if now - os_createdAt sess \<le> ttl then Some sess else None)"
    and get_eq: "get ttl now sid m = (case lookup m sid of None \<Rightarrow> (None, m)
      | Some sess \<Rightarrow> if now - os_createdAt sess > ttl then (None, delete sid m) else (Some sess, m))"
begin

lemma get_Some: "get ttl now sid m = (Some sess, m') \<longleftrightarrow> lookup m sid = Some sess \<and> now - os_createdAt sess \<le> ttl \<and> m' = m"
  by (auto simp: get_eq split: option.splits if_splits)

lemma get_keeps:
  assumes "wf m" and "get ttl now sid m = (g, m')"
  shows "wf m' \<and> (lookup m' k = Some sess \<longrightarrow> lookup m k = Some sess)"
  using assms by (auto simp: get_eq lookup_delete intro: wf_delete split: option.splits if_splits)

lemma gc_keeps: "wf m \<Longrightarrow> wf (gc ttl now m) \<and> (lookup (gc ttl now m) k = Some sess \<longrightarrow> lookup m k = Some sess)"
  by (auto simp: lookup_gc intro: wf_gc split: option.splits if_splits)

lemma get_after_gc: "wf m \<Longrightarrow> now \<le> now' \<Longrightarrow> fst (get ttl now' sid (gc ttl now m)) = fst (get ttl now' sid m)"
  by (auto simp: get_eq lookup_gc split: option.splits)

end

lemma aget_filter:
  assumes "distinct (map fst m)"
  shows "aget (filter (\<lambda>(k, v). P v) m) k = (case aget m k of None \<Rightarrow> None | Some v \<Rightarrow> if P v then Some v else None)"
  using assms
proof (induction m)
  case (Cons e m)
  then show ?case
    by (cases e) (auto simp: map_of_eq_None_iff split: option.splits dest: map_of_SomeD)
qed simp

interpretation store: session_store "\<lambda>m. distinct (map fst m)" aget store_put store_get store_delete store_gc
proof unfold_locales
  show "aget (store_gc ttl now m) k =
      (case aget m k of None \<Rightarrow> None | Some sess \<Rightarrow> if now - os_createdAt sess \<le> ttl then Some sess else None)"
    if "distinct (map fst m)" for m ttl now k
    using aget_filter [OF that, of "\<lambda>v. \<not> os_createdAt v < now - ttl" k]
    by (auto simp: store_gc_def Let_def split: option.splits)
qed (auto simp: store_put_def store_delete_def store_get_def store_gc_def distinct_update distinct_delete distinct_map_filter
    split: option.split)

definition authenticated :: "'w IdP \<Rightarrow> oidcSession \<Rightarrow> bool" where
  "authenticated I sess \<longleftrightarrow>
     (\<exists>code tok w w'. run_state (idp_Exchange I code (os_codeVerifier sess)) w = (Inr tok, w') \<and>
        tk_IDToken tok \<noteq> '''' \<and> idp_Nonce I (tk_IDToken tok) = Inr (os_nonce sess) \<and>
        (\<exists>v v'. run_state (idp_Verify I (tk_IDToken tok)) v = (None, v')))"

lemma authenticated_refreshed [simp]: "authenticated I (sess\<lparr>os_refreshToken := t\<rparr>) = authenticated I sess"
  by (simp add: authenticated_def)

lemma authenticatedI:
  "run_state (idp_Exchange I code (os_codeVerifier sess)) w = (Inr tok, w') \<Longrightarrow> tk_IDToken tok \<noteq> '''' \<Longrightarrow>
   run_state (idp_Verify I (tk_IDToken tok)) v = (None, v') \<Longrightarrow> idp_Nonce I (tk_IDToken tok) = Inr (os_nonce sess) \<Longrightarrow>
   authenticated I sess"
  unfolding authenticated_def by blast

definition sessions_ok :: "'w IdP \<Rightarrow> sessions \<Rightarrow> bool" where
  "sessions_ok I m \<longleftrightarrow> distinct (map fst m) \<and>
     (\<forall>sid sess. aget m sid = Some sess \<longrightarrow> os_refreshToken sess \<noteq> '''' \<longrightarrow> authenticated I sess)"

lemma sessions_ok_sub:
  assumes "sessions_ok I m" and "\<And>sid sess. distinct (map fst m') \<and> (aget m' sid = Some sess \<longrightarrow> aget m sid = Some sess)"
  shows "sessions_ok I m'"
  using assms unfolding sessions_ok_def by blast

lemma sessions_ok_put:
  "sessions_ok I m \<Longrightarrow> (os_refreshToken sess \<noteq> '''' \<Longrightarrow> authenticated I sess) \<Longrightarrow> sessions_ok I (store_put sid sess m)"
  by (auto simp: sessions_ok_def store.lookup_put intro: store.wf_put)

lemma sessions_ok_delete: "sessions_ok I m \<Longrightarrow> sessions_ok I (store_delete sid m)"
  by (rule sessions_ok_sub) (auto simp: sessions_ok_def store.lookup_delete store.wf_delete)

lemma sessions_ok_get: "sessions_ok I m \<Longrightarrow> store_get ttl now sid m = (g, m') \<Longrightarrow> sessions_ok I m'"
  by (rule sessions_ok_sub, assumption, rule store.get_keeps) (auto simp: sessions_ok_def)

lemma sessions_ok_gc: "sessions_ok I m \<Longrightarrow> sessions_ok I (store_gc ttl now m)"
  by (rule sessions_ok_sub, assumption, rule store.gc_keeps) (auto simp: sessions_ok_def)

section \<open>Requests in any order\<close>

text \<open>
  The states the server can be in. A request runs in some order with the others and with the
  collector, from any state of the outside. Callback and refresh read their session first and
  act on it later, when other requests have run in between: their second halves are steps of
  their own, with a session that was in the store in some earlier state.
\<close>

inductive oidc_reach :: "'w IdP \<Rightarrow> Server \<Rightarrow> oidc_state \<Rightarrow> bool" for I :: "'w IdP" and S :: Server where
  start: "oidc_reach I S \<lparr>oidc_RT = None, oidc_Sessions = []\<rparr>"
| login: "oidc_reach I S s \<Longrightarrow> run_state (handleOIDCLogin I S r) (w, s) = (rsp, (w', s')) \<Longrightarrow> oidc_reach I S s'"
| callback: "oidc_reach I S s \<Longrightarrow> run_state (handleOIDCCallback I S r) (w, s) = (rsp, (w', s')) \<Longrightarrow> oidc_reach I S s'"
| callback_late: "oidc_reach I S s0 \<Longrightarrow> aget (oidc_Sessions s0) sid = Some sess \<Longrightarrow> oidc_reach I S s \<Longrightarrow>
     run_state (callback_session I cfg r sid sess) (w, s) = (rsp, (w', s')) \<Longrightarrow> oidc_reach I S s'"
| refresh: "oidc_reach I S s \<Longrightarrow> run_state (handleOIDCRefresh I S r) (w, s) = (rsp, (w', s')) \<Longrightarrow> oidc_reach I S s'"
| refresh_late: "oidc_reach I S s0 \<Longrightarrow> aget (oidc_Sessions s0) sid = Some sess \<Longrightarrow> os_refreshToken sess \<noteq> '''' \<Longrightarrow>
     oidc_reach I S s \<Longrightarrow> run_state (refresh_session I sid sess) (w, s) = (rsp, (w', s')) \<Longrightarrow> oidc_reach I S s'"
| logout: "oidc_reach I S s \<Longrightarrow> run_state (handleOIDCLogout S r) (w :: 'w, s) = (rsp, (w', s')) \<Longrightarrow> oidc_reach I S s'"
| gc: "oidc_reach I S s \<Longrightarrow> run_state (gc_tick I) (w, s) = (u, (w', s')) \<Longrightarrow> oidc_reach I S s'"

abbreviation keeps_ok :: "'w IdP \<Rightarrow> 'a \<Rightarrow> 'w \<times> oidc_state \<Rightarrow> bool" where
  "keeps_ok I \<equiv> (\<lambda>_ (w, s). sessions_ok I (oidc_Sessions s))"

lemma callback_session_ok:
  "sessions_ok I (oidc_Sessions s) \<Longrightarrow> wp (callback_session I cfg r sid sess) (keeps_ok I) (w, s)"
  by (auto simp: callback_session_def check_id_token_def finish_login_def wp_simps
      intro: authenticatedI intro!: sessions_ok_delete sessions_ok_put split: prod.split sum.split option.split)

lemma refresh_session_ok:
  "sessions_ok I (oidc_Sessions s) \<Longrightarrow> authenticated I sess \<Longrightarrow> wp (refresh_session I sid sess) (keeps_ok I) (w, s)"
  by (auto simp: refresh_session_def wp_simps
      intro!: sessions_ok_delete sessions_ok_put split: prod.split sum.split option.split)

lemma login_ok:
  "sessions_ok I (oidc_Sessions s) \<Longrightarrow> wp (handleOIDCLogin I S r) (keeps_ok I) (w, s)"
  unfolding handleOIDCLogin_def
  by (rule wp_with_oidc) (auto simp: wp_simps intro!: sessions_ok_put split: prod.split)

lemma callback_ok:
  assumes "sessions_ok I (oidc_Sessions s)"
  shows "wp (handleOIDCCallback I S r) (keeps_ok I) (w, s)"
  unfolding handleOIDCCallback_def
proof (rule wp_with_oidc)
  fix cfg w' and s' :: oidc_state
  assume s': "oidc_Sessions s' = oidc_Sessions s"
  have "wp (case g of None \<Rightarrow> fail 400 ''session_not_found'' ''state cookie expired or unknown''
      | Some sess \<Rightarrow> callback_session I cfg r sid sess) (keeps_ok I) (v, t)"
    if "sessions_ok I (oidc_Sessions t)" for g sid v t
    using that callback_session_ok [OF that] by (cases g) (simp_all add: wp_simps)
  with assms s' show "wp (case rq_Cookie r of None \<Rightarrow> fail 400 ''missing_state_cookie'' ''http: named cookie not present''
     | Some sid \<Rightarrow> State_Monad.bind (session_of I sid) (\<lambda>g. case g of
           None \<Rightarrow> fail 400 ''session_not_found'' ''state cookie expired or unknown''
         | Some sess \<Rightarrow> callback_session I cfg r sid sess)) (keeps_ok I) (w', s')"
    by (cases "rq_Cookie r") (auto simp: wp_simps dest: sessions_ok_get split: prod.split)
qed (use assms in simp)

lemma refresh_ok:
  assumes "sessions_ok I (oidc_Sessions s)"
  shows "wp (handleOIDCRefresh I S r) (keeps_ok I) (w, s)"
  unfolding handleOIDCRefresh_def
proof (rule wp_with_oidc)
  fix cfg w' and s' :: oidc_state
  assume s': "oidc_Sessions s' = oidc_Sessions s"
  have "authenticated I sess"
    if "store_get oidcSessionTTL now sid (oidc_Sessions s) = (Some sess, m)" "os_refreshToken sess \<noteq> ''''" for now sid sess m
    using that assms by (auto simp: store.get_Some sessions_ok_def)
  with assms s' show "wp (case rq_Cookie r of None \<Rightarrow> fail 401 ''no_session'' ''no oidc session cookie''
     | Some sid \<Rightarrow> State_Monad.bind (session_of I sid) (\<lambda>g. case g of
           None \<Rightarrow> fail 401 ''session_expired'' ''session not found or has no refresh token''
         | Some sess \<Rightarrow> if os_refreshToken sess = '''' then fail 401 ''session_expired'' ''session not found or has no refresh token''
             else refresh_session I sid sess)) (keeps_ok I) (w', s')"
    by (cases "rq_Cookie r")
      (auto simp: wp_simps intro!: refresh_session_ok dest: sessions_ok_get split: prod.split option.split)
qed (use assms in simp)

lemma logout_ok: "sessions_ok I (oidc_Sessions s) \<Longrightarrow> wp (handleOIDCLogout S r) (keeps_ok I) (w, s)"
  by (auto simp: handleOIDCLogout_def wp_simps intro!: sessions_ok_delete split: option.split)

lemma gc_ok: "sessions_ok I (oidc_Sessions s) \<Longrightarrow> wp (gc_tick I) (keeps_ok I) (w, s)"
  by (auto simp: gc_tick_def wp_simps intro!: sessions_ok_gc split: prod.split)

lemma keeps_okD: "wp m (keeps_ok I) (w, s) \<Longrightarrow> run_state m (w, s) = (a, (w', s')) \<Longrightarrow> sessions_ok I (oidc_Sessions s')"
  by (drule (1) wp_run) simp

lemma oidc_reach_ok: "oidc_reach I S s \<Longrightarrow> sessions_ok I (oidc_Sessions s)"
proof (induction rule: oidc_reach.induct)
  case start
  show ?case by (simp add: sessions_ok_def)
next
  case (refresh_late s0 sid sess s w rsp w' s')
  from refresh_late.IH(1) refresh_late.hyps(2,3) have "authenticated I sess" by (auto simp: sessions_ok_def)
  with refresh_late.IH(2) refresh_late.hyps(5) show ?case by (blast intro: refresh_session_ok keeps_okD)
qed (blast intro: login_ok callback_ok callback_session_ok refresh_ok logout_ok gc_ok keeps_okD)+

section \<open>A provider for evaluating the model\<close>

definition sample_idp :: "unit IdP" where
  "sample_idp =
     \<lparr>idp_NewProvider = (\<lambda>_. State_Monad.return None), idp_AuthCodeURL = (\<lambda>_ st _. ''https://idp/auth?state='' @ st),
      idp_Exchange = (\<lambda>_ _. State_Monad.return (Inr \<lparr>tk_IDToken = ''tok'', tk_RefreshToken = ''r1''\<rparr>)),
      idp_Refresh = (\<lambda>_. State_Monad.return (Inr \<lparr>tk_IDToken = ''tok2'', tk_RefreshToken = ''r2''\<rparr>)),
      idp_Verify = (\<lambda>_. State_Monad.return None), idp_Nonce = (\<lambda>_. Inr ''rnd0''),
      rand_Read = (\<lambda>_. State_Monad.return [174, 119, 116]), time_Now = State_Monad.return 0, sha256_Sum256 = (\<lambda>v. [])\<rparr>"

definition sample_server :: Server where
  "sample_server = \<lparr>s_Clientset = True, s_Catalog = sample_catalog, s_PrometheusURL = '''', s_WatchNamespaces = [],
     s_AuthEnabled = True, s_AnonymousRead = False, s_AnonymousLogs = False, s_Scheme = True,
     s_RestConfig = Some \<lparr>rc_Host = ''h'', rc_BearerToken = ''sa'', rc_BearerTokenFile = ''f'', rc_Username = '''', rc_Password = '''',
       rc_TLSClientConfig = no_certificate, rc_Impersonate = no_impersonation, rc_AuthProvider = None, rc_ExecProvider = None\<rparr>,
     s_OIDC = Some \<lparr>oc_Issuer = ''https://idp'', oc_ClientID = ''c'', oc_Scopes = [], oc_RedirectURL = '''', oc_UIRedirectURL = ''''\<rparr>,
     s_VisualEditorEnabled = False\<rparr>"

definition bare_request :: Request where
  "bare_request = \<lparr>rq_Authorization = '''', rq_Query = [], rq_PathValues = [], rq_Body = '''', rq_Cookie = None,
     rq_Token = None, rq_Anonymous = False\<rparr>"

definition sample_callback :: Request where
  "sample_callback = bare_request\<lparr>rq_Query := [(''state'', ''rnd0''), (''code'', ''c'')], rq_Cookie := Some ''rnd0''\<rparr>"

definition sample_session :: "string \<Rightarrow> oidcSession" where
  "sample_session tok = \<lparr>os_state = ''rnd0'', os_codeVerifier = ''rnd0'', os_nonce = ''rnd0'', os_refreshToken = tok, os_createdAt = 0\<rparr>"

lemma sample_bytes:
  "url_alphabet ! 43 = CHR ''r''" "url_alphabet ! 39 = CHR ''n''" "url_alphabet ! 29 = CHR ''d''" "url_alphabet ! 52 = CHR ''0''"
  by (simp_all add: url_alphabet_def)

lemmas oidc_run_simps = randB64_def sample_bytes with_oidc_def oidc_init_def idp_def on_store_def put_session_def delete_session_def session_of_def
  store_put_def store_get_def store_delete_def fail_def sample_idp_def sample_server_def sample_callback_def bare_request_def

lemma sample_login_run:
  "run_state (handleOIDCLogin sample_idp sample_server bare_request) ((), \<lparr>oidc_RT = None, oidc_Sessions = []\<rparr>) =
     (setSessionCookie ''rnd0'' (Redirect ''https://idp/auth?state=rnd0''),
      ((), \<lparr>oidc_RT = Some None, oidc_Sessions = [(''rnd0'', sample_session '''')]\<rparr>))"
  by (simp add: handleOIDCLogin_def oidc_run_simps sample_session_def)

lemma sample_callback_run:
  "\<exists>rsp. run_state (handleOIDCCallback sample_idp sample_server sample_callback)
      ((), \<lparr>oidc_RT = Some None, oidc_Sessions = [(''rnd0'', sample_session '''')]\<rparr>) =
     (rsp, ((), \<lparr>oidc_RT = Some None, oidc_Sessions = [(''rnd0'', sample_session ''r1'')]\<rparr>)) \<and> rsp_Code rsp = 302"
  by (simp add: handleOIDCCallback_def callback_session_def check_id_token_def finish_login_def query_Get_def
      oidc_run_simps sample_session_def oidcSessionTTL_def setSessionCookie_def Redirect_def writeJSON_def)

section \<open>Properties\<close>

text \<open>
  C15: In every state the server can reach, with logins, callbacks, refreshes, logouts and
  collections interleaved in any order, session ids are unique and a session holds a refresh
  token only if a code was exchanged with the verifier of that very session for an ID token that
  was verified and carries the nonce of that session.
\<close>

theorem oidc_sessions_authenticated:
  assumes "oidc_reach I S s"
  shows "distinct (map fst (oidc_Sessions s)) \<and>
    (\<forall>sid sess. aget (oidc_Sessions s) sid = Some sess \<longrightarrow> os_refreshToken sess \<noteq> '''' \<longrightarrow> authenticated I sess)"
  using oidc_reach_ok [OF assms] by (simp add: sessions_ok_def)

theorem oidc_sessions_authenticated_witness:
  "oidc_reach sample_idp sample_server \<lparr>oidc_RT = Some None, oidc_Sessions = [(''rnd0'', sample_session ''r1'')]\<rparr> \<and>
   authenticated sample_idp (sample_session ''r1'')"
proof -
  have "oidc_reach sample_idp sample_server \<lparr>oidc_RT = Some None, oidc_Sessions = [(''rnd0'', sample_session '''')]\<rparr>"
    by (rule oidc_reach.login [OF oidc_reach.start sample_login_run])
  with sample_callback_run
  have reach: "oidc_reach sample_idp sample_server \<lparr>oidc_RT = Some None, oidc_Sessions = [(''rnd0'', sample_session ''r1'')]\<rparr>"
    by (blast intro: oidc_reach.callback)
  with oidc_sessions_authenticated [OF this] show ?thesis by (auto simp: sample_session_def)
qed

text \<open>
  C11: The browser receives an ID token from the callback only in a login it started itself: its
  cookie names a session of the store that is not older than ten minutes, the state parameter is
  the one of that session, the code was exchanged with the verifier of that session, and the ID
  token in the redirect was verified and carries the nonce of that session.
\<close>

theorem callback_bound_to_login:
  assumes "run_state (handleOIDCCallback I S r) (w, s) = (rsp, (w', s'))" and "rsp_Code rsp = 302"
  shows "\<exists>cfg sid sess tok now w1 w2 w3 w4. s_OIDC S = Some cfg \<and> rq_Cookie r = Some sid \<and>
    aget (oidc_Sessions s) sid = Some sess \<and>
    run_state (time_Now I) w1 = (now, w2) \<and> now - os_createdAt sess \<le> oidcSessionTTL \<and>
    query_Get r ''state'' = os_state sess \<and>
    run_state (idp_Exchange I (query_Get r ''code'') (os_codeVerifier sess)) w2 = (Inr tok, w3) \<and>
    run_state (idp_Verify I (tk_IDToken tok)) w3 = (None, w4) \<and> idp_Nonce I (tk_IDToken tok) = Inr (os_nonce sess) \<and>
    rsp_Location rsp = uiRedirectTarget cfg @ ''#id_token='' @ tk_IDToken tok \<and>
    aget (oidc_Sessions s') sid = Some (sess\<lparr>os_refreshToken := tk_RefreshToken tok\<rparr>)"
    (is "?P rsp s'")
proof -
  have "wp (handleOIDCCallback I S r) (\<lambda>rsp (w', s'). rsp_Code rsp = 302 \<longrightarrow> ?P rsp s') (w, s)"
    unfolding handleOIDCCallback_def
  proof (rule wp_with_oidc)
    fix cfg w1 and s1 :: oidc_state
    assume "s_OIDC S = Some cfg" "oidc_Sessions s1 = oidc_Sessions s"
    then show "wp (case rq_Cookie r of None \<Rightarrow> fail 400 ''missing_state_cookie'' ''http: named cookie not present''
       | Some sid \<Rightarrow> State_Monad.bind (session_of I sid) (\<lambda>g. case g of
             None \<Rightarrow> fail 400 ''session_not_found'' ''state cookie expired or unknown''
           | Some sess \<Rightarrow> callback_session I cfg r sid sess)) (\<lambda>rsp (w', s'). rsp_Code rsp = 302 \<longrightarrow> ?P rsp s') (w1, s1)"
      by (auto simp: wp_simps callback_session_def check_id_token_def finish_login_def writeJSONError_def writeJSON_def
          store.get_Some setSessionCookie_def Redirect_def store_put_def split: option.split prod.split sum.split) blast
  qed (auto simp: writeJSONError_def writeJSON_def)
  from wp_run [OF this assms(1)] assms(2) show ?thesis by simp
qed

theorem callback_bound_to_login_witness:
  "\<exists>rsp s'. run_state (handleOIDCCallback sample_idp sample_server sample_callback)
      ((), \<lparr>oidc_RT = Some None, oidc_Sessions = [(''rnd0'', sample_session '''')]\<rparr>) = (rsp, ((), s')) \<and>
     rsp_Location rsp = ''/#id_token=tok'' \<and> aget (oidc_Sessions s') ''rnd0'' = Some (sample_session ''r1'')"
proof -
  obtain rsp s' where run: "run_state (handleOIDCCallback sample_idp sample_server sample_callback)
      ((), \<lparr>oidc_RT = Some None, oidc_Sessions = [(''rnd0'', sample_session '''')]\<rparr>) = (rsp, ((), s'))" and "rsp_Code rsp = 302"
    using sample_callback_run by blast
  from callback_bound_to_login [OF this]
  have "rsp_Location rsp = ''/#id_token=tok'' \<and> aget (oidc_Sessions s') ''rnd0'' = Some (sample_session ''r1'')"
    by (auto simp: sample_callback_def sample_idp_def sample_server_def uiRedirectTarget_def sample_session_def)
  with run show ?thesis by blast
qed

lemma callback_completes:
  assumes "s_OIDC S = Some cfg" and "oidc_RT s = Some None" and "aget (oidc_Sessions s) sid = Some sess" and "rq_Cookie r = Some sid"
    and "query_Get r ''state'' = os_state sess" and "query_Get r ''code'' \<noteq> ''''"
    and t: "run_state (time_Now I) w = (now, w1)" and "now - os_createdAt sess \<le> oidcSessionTTL"
    and x: "run_state (idp_Exchange I (query_Get r ''code'') (os_codeVerifier sess)) w1 = (Inr tok, w2)"
    and "tk_IDToken tok \<noteq> ''''" and v: "run_state (idp_Verify I (tk_IDToken tok)) w2 = (None, w3)"
    and "idp_Nonce I (tk_IDToken tok) = Inr (os_nonce sess)"
  shows "\<exists>rsp s'. run_state (handleOIDCCallback I S r) (w, s) = (rsp, (w3, s')) \<and> rsp_Code rsp = 302 \<and>
    rsp_Location rsp = uiRedirectTarget cfg @ ''#id_token='' @ tk_IDToken tok"
proof -
  from assms(8) have now: "\<not> oidcSessionTTL < now - os_createdAt sess" by simp
  have "run_state (session_of I sid) (w, s) = (Some sess, (w1, s))"
    by (simp add: session_of_def idp_def on_store_def store_get_def t now assms(3))
  moreover have "run_state (oidc_init I cfg) (w, s) = (None, (w, s))"
    by (simp add: oidc_init_def assms(2))
  moreover have "run_state (idp (idp_Exchange I (query_Get r ''code'') (os_codeVerifier sess))) (w1, s) = (Inr tok, (w2, s))"
    "run_state (idp (idp_Verify I (tk_IDToken tok))) (w2, s) = (None, (w3, s))"
    by (simp_all add: idp_def x v)
  ultimately show ?thesis
    using assms by (simp add: handleOIDCCallback_def with_oidc_def callback_session_def check_id_token_def finish_login_def
        put_session_def on_store_def setSessionCookie_def Redirect_def writeJSON_def)
qed

text \<open>
  C24: A login can be completed: it stores a session under the id in its cookie and redirects
  to the provider with the state of that session; and however the world moves on and whatever
  other requests do to other sessions, a callback that carries the cookie, that state and a
  code ends in the redirect to the UI with the ID token, provided that in this very run the clock
  reads at most ten minutes after the start of the login, the provider then exchanges the code
  for that token, and then verifies it, and the token is for the nonce of the session.
\<close>

theorem login_completes:
  assumes "run_state (handleOIDCLogin I S r) (w, s) = (rsp, (w1, s1))" and "rsp_Code rsp = 302"
  shows "\<exists>cfg sid sess params. s_OIDC S = Some cfg \<and> oidc_RT s1 = Some None \<and> aget (oidc_Sessions s1) sid = Some sess \<and>
    rsp_Cookie rsp = Some (session_cookie sid oidcCookieMaxAge) \<and>
    rsp_Location rsp = idp_AuthCodeURL I cfg (os_state sess) params \<and>
    (\<forall>w2 s2 r2 now w3 tok w4 w5.
       oidc_RT s2 = Some None \<longrightarrow> aget (oidc_Sessions s2) sid = Some sess \<longrightarrow> rq_Cookie r2 = Some sid \<longrightarrow>
       query_Get r2 ''state'' = os_state sess \<longrightarrow> query_Get r2 ''code'' \<noteq> '''' \<longrightarrow>
       run_state (time_Now I) w2 = (now, w3) \<longrightarrow> now - os_createdAt sess \<le> oidcSessionTTL \<longrightarrow>
       run_state (idp_Exchange I (query_Get r2 ''code'') (os_codeVerifier sess)) w3 = (Inr tok, w4) \<longrightarrow>
       tk_IDToken tok \<noteq> '''' \<longrightarrow> run_state (idp_Verify I (tk_IDToken tok)) w4 = (None, w5) \<longrightarrow>
       idp_Nonce I (tk_IDToken tok) = Inr (os_nonce sess) \<longrightarrow>
       (\<exists>rsp2 s3. run_state (handleOIDCCallback I S r2) (w2, s2) = (rsp2, (w5, s3)) \<and> rsp_Code rsp2 = 302 \<and>
          rsp_Location rsp2 = uiRedirectTarget cfg @ ''#id_token='' @ tk_IDToken tok))"
proof -
  have "wp (handleOIDCLogin I S r) (\<lambda>rsp (w1, s1). rsp_Code rsp = 302 \<longrightarrow>
      (\<exists>cfg sid sess params. s_OIDC S = Some cfg \<and> oidc_RT s1 = Some None \<and> aget (oidc_Sessions s1) sid = Some sess \<and>
        rsp_Cookie rsp = Some (session_cookie sid oidcCookieMaxAge) \<and>
        rsp_Location rsp = idp_AuthCodeURL I cfg (os_state sess) params)) (w, s)"
    unfolding handleOIDCLogin_def
  proof (rule wp_with_oidc, goal_cases)
    case (2 cfg w' s')
    then show ?case
      by (auto simp: wp_simps store_put_def setSessionCookie_def Redirect_def writeJSON_def split: prod.split)
  qed (auto simp: writeJSONError_def writeJSON_def)
  from wp_run [OF this assms(1)] assms(2) obtain cfg sid sess params where cfg: "s_OIDC S = Some cfg"
    and login: "oidc_RT s1 = Some None" "aget (oidc_Sessions s1) sid = Some sess" "rsp_Cookie rsp = Some (session_cookie sid oidcCookieMaxAge)"
    "rsp_Location rsp = idp_AuthCodeURL I cfg (os_state sess) params" by auto
  have "\<exists>rsp2 s3. run_state (handleOIDCCallback I S r2) (w2, s2) = (rsp2, (w5, s3)) \<and> rsp_Code rsp2 = 302 \<and>
      rsp_Location rsp2 = uiRedirectTarget cfg @ ''#id_token='' @ tk_IDToken tok"
    if "oidc_RT s2 = Some None" "aget (oidc_Sessions s2) sid = Some sess" "rq_Cookie r2 = Some sid"
      "query_Get r2 ''state'' = os_state sess" "query_Get r2 ''code'' \<noteq> ''''"
      "run_state (time_Now I) w2 = (now, w3)" "now - os_createdAt sess \<le> oidcSessionTTL"
      "run_state (idp_Exchange I (query_Get r2 ''code'') (os_codeVerifier sess)) w3 = (Inr tok, w4)"
      "tk_IDToken tok \<noteq> ''''" "run_state (idp_Verify I (tk_IDToken tok)) w4 = (None, w5)"
      "idp_Nonce I (tk_IDToken tok) = Inr (os_nonce sess)" for w2 s2 r2 now w3 tok w4 w5
    by (rule callback_completes [OF cfg that])
  with cfg login show ?thesis by blast
qed

theorem login_completes_witness:
  "\<exists>rsp2 s3. run_state (handleOIDCCallback sample_idp sample_server sample_callback)
      ((), \<lparr>oidc_RT = Some None, oidc_Sessions = [(''rnd0'', sample_session '''')]\<rparr>) = (rsp2, ((), s3)) \<and>
     rsp_Location rsp2 = ''/#id_token=tok''"
proof -
  have "rsp_Code (setSessionCookie ''rnd0'' (Redirect ''https://idp/auth?state=rnd0'')) = 302"
    by (simp add: setSessionCookie_def Redirect_def writeJSON_def)
  from login_completes [OF sample_login_run this] obtain cfg sid sess where cfg: "s_OIDC sample_server = Some cfg"
    and sess: "aget [(''rnd0'', sample_session '''')] sid = Some sess"
    and step: "\<And>s2 r2 now tok. oidc_RT s2 = Some None \<Longrightarrow> aget (oidc_Sessions s2) sid = Some sess \<Longrightarrow> rq_Cookie r2 = Some sid \<Longrightarrow>
       query_Get r2 ''state'' = os_state sess \<Longrightarrow> query_Get r2 ''code'' \<noteq> '''' \<Longrightarrow>
       run_state (time_Now sample_idp) () = (now, ()) \<Longrightarrow> now - os_createdAt sess \<le> oidcSessionTTL \<Longrightarrow>
       run_state (idp_Exchange sample_idp (query_Get r2 ''code'') (os_codeVerifier sess)) () = (Inr tok, ()) \<Longrightarrow>
       tk_IDToken tok \<noteq> '''' \<Longrightarrow> run_state (idp_Verify sample_idp (tk_IDToken tok)) () = (None, ()) \<Longrightarrow>
       idp_Nonce sample_idp (tk_IDToken tok) = Inr (os_nonce sess) \<Longrightarrow>
       \<exists>rsp2 s3. run_state (handleOIDCCallback sample_idp sample_server r2) ((), s2) = (rsp2, ((), s3)) \<and> rsp_Code rsp2 = 302 \<and>
          rsp_Location rsp2 = uiRedirectTarget cfg @ ''#id_token='' @ tk_IDToken tok"
    by auto
  from sess have [simp]: "sid = ''rnd0''" "sess = sample_session ''''" by (auto split: if_splits)
  have "uiRedirectTarget cfg = ''/''" using cfg by (auto simp: sample_server_def uiRedirectTarget_def)
  moreover have "\<exists>rsp2 s3. run_state (handleOIDCCallback sample_idp sample_server sample_callback)
      ((), \<lparr>oidc_RT = Some None, oidc_Sessions = [(''rnd0'', sample_session '''')]\<rparr>) = (rsp2, ((), s3)) \<and> rsp_Code rsp2 = 302 \<and>
      rsp_Location rsp2 = uiRedirectTarget cfg @ ''#id_token='' @ tk_IDToken \<lparr>tk_IDToken = ''tok'', tk_RefreshToken = ''r1''\<rparr>"
    by (rule step [where now = 0]) (simp_all add: sample_callback_def query_Get_def bare_request_def sample_session_def sample_idp_def
        oidcSessionTTL_def)
  ultimately show ?thesis by simp blast
qed

text \<open>
  The collector is not observable: at any time after it ran, every session id is answered by
  the store exactly as it would have been without it, and nothing that had expired when it ran
  is kept.
\<close>

lemma gc_transparent:
  assumes "distinct (map fst m)" and "now \<le> now'"
  shows "fst (store_get ttl now' sid (store_gc ttl now m)) = fst (store_get ttl now' sid m) \<and>
    list_all (\<lambda>(sid, sess). now - os_createdAt sess \<le> ttl) (store_gc ttl now m)"
  using store.get_after_gc [OF assms] by (auto simp: store_gc_def list_all_iff)

lemma gc_transparent_witness:
  "fst (store_get oidcSessionTTL 2 ''rnd0'' (store_gc oidcSessionTTL 1 [(''rnd0'', sample_session '''')])) =
     Some (sample_session '''')"
  using gc_transparent [of "[(''rnd0'', sample_session '''')]" 1 2 oidcSessionTTL "''rnd0''"]
  by (simp add: store_get_def sample_session_def oidcSessionTTL_def)

text \<open>
  A logout that comes between the two halves of a refresh is undone by it when the provider
  rotates the refresh token: the session is put back into the store.
\<close>

lemma logout_race_revives:
  assumes "run_state (idp_Refresh I (os_refreshToken sess)) w = (Inr tok, w1)" and "tk_IDToken tok \<noteq> ''''"
    and "run_state (idp_Verify I (tk_IDToken tok)) w1 = (None, w2)"
    and "tk_RefreshToken tok \<noteq> ''''" and "tk_RefreshToken tok \<noteq> os_refreshToken sess"
    and "aget (oidc_Sessions s) sid = None"
  shows "\<exists>s'. run_state (refresh_session I sid sess) (w, s) = (writeJSON 200 (IDTokenBody (tk_IDToken tok)), (w2, s')) \<and>
    aget (oidc_Sessions s') sid = Some (sess\<lparr>os_refreshToken := tk_RefreshToken tok\<rparr>)"
  using assms
  by (simp add: refresh_session_def idp_def put_session_def on_store_def store_put_def)


section \<open>What a login sends\<close>

definition url_text :: "nat \<Rightarrow> string \<Rightarrow> bool" where
  "url_text n t \<longleftrightarrow> length t = n \<and> set t \<subseteq> set url_alphabet"

definition full_reads :: "'w IdP \<Rightarrow> bool" where
  "full_reads I \<longleftrightarrow> (\<forall>n w. length (fst (run_state (rand_Read I n) w)) = n) \<and> (\<forall>t. length (sha256_Sum256 I t) = 32)"

lemma randB64_text:
  assumes "full_reads I" and "run_state (randB64 I n) w = (t, w')"
  shows "url_text ((8 * n + 5) div 6) t"
proof -
  obtain b where "t = RawURLEncode b" "b = fst (run_state (rand_Read I n) w)"
    using assms(2) by (auto simp: randB64_def split: prod.splits)
  with assms(1) show ?thesis by (simp add: full_reads_def url_text_def RawURLEncode_length RawURLEncode_alphabet)
qed

lemma s256Challenge_text: "full_reads I \<Longrightarrow> url_text 43 (s256Challenge I v)"
  by (simp add: full_reads_def url_text_def s256Challenge_def RawURLEncode_length RawURLEncode_alphabet)

text \<open>
  C25: A login keeps to PKCE. The session it stores has a verifier of 86 characters, within the 43
  to 128 of RFC 7636, and the redirect carries the challenge of that verifier by S256: 43
  characters from which the provider reads the SHA-256 of the verifier back. The id in the
  cookie, the state and the nonce are as long as their random bytes require, and all of these are
  written in the characters of a URL that need no escaping.
\<close>

theorem login_keeps_to_pkce:
  assumes "full_reads I" and "run_state (handleOIDCLogin I S r) (w, s) = (rsp, (w', s'))" and "rsp_Code rsp = 302"
  shows "\<exists>cfg sid sess challenge. s_OIDC S = Some cfg \<and> aget (oidc_Sessions s') sid = Some sess \<and>
    rsp_Cookie rsp = Some (session_cookie sid oidcCookieMaxAge) \<and>
    rsp_Location rsp = idp_AuthCodeURL I cfg (os_state sess)
      [(''code_challenge'', challenge), (''code_challenge_method'', ''S256''), (''nonce'', os_nonce sess)] \<and>
    url_text 43 challenge \<and> RawURLDecode challenge = sha256_Sum256 I (os_codeVerifier sess) \<and>
    url_text 86 (os_codeVerifier sess) \<and> url_text 43 sid \<and> url_text 43 (os_state sess) \<and> url_text 22 (os_nonce sess)"
proof -
  have decode: "RawURLDecode (s256Challenge I v) = sha256_Sum256 I v" for v
    by (simp add: s256Challenge_def RawURLDecode_Encode)
  have written: "run_state (randB64 I 32) v = (t, v') \<Longrightarrow> url_text 43 t" "run_state (randB64 I 64) v = (t, v') \<Longrightarrow> url_text 86 t"
    "run_state (randB64 I 16) v = (t, v') \<Longrightarrow> url_text 22 t" for v t v'
    using randB64_text [OF assms(1)] by force+
  have "wp (handleOIDCLogin I S r) (\<lambda>rsp (w', s'). rsp_Code rsp = 302 \<longrightarrow>
      (\<exists>cfg sid st v nonce now m. s_OIDC S = Some cfg \<and> url_text 43 sid \<and> url_text 43 st \<and> url_text 86 v \<and> url_text 22 nonce \<and>
        oidc_Sessions s' = store_put sid
          \<lparr>os_state = st, os_codeVerifier = v, os_nonce = nonce, os_refreshToken = '''', os_createdAt = now\<rparr> m \<and>
        rsp = setSessionCookie sid (Redirect (idp_AuthCodeURL I cfg st [(''code_challenge'', s256Challenge I v),
          (''code_challenge_method'', ''S256''), (''nonce'', nonce)])))) (w, s)"
    unfolding handleOIDCLogin_def
  proof (rule wp_with_oidc, goal_cases)
    case (2 cfg w' s')
    then show ?case
      by (simp add: wp_simps split: prod.split) (blast dest: written)
  qed (auto simp: writeJSONError_def writeJSON_def)
  from wp_run [OF this assms(2)] assms(3) obtain cfg sid st v nonce now m where
    "s_OIDC S = Some cfg" "url_text 43 sid" "url_text 43 st" "url_text 86 v" "url_text 22 nonce"
    "oidc_Sessions s' = store_put sid
       \<lparr>os_state = st, os_codeVerifier = v, os_nonce = nonce, os_refreshToken = '''', os_createdAt = now\<rparr> m"
    "rsp = setSessionCookie sid (Redirect (idp_AuthCodeURL I cfg st [(''code_challenge'', s256Challenge I v),
       (''code_challenge_method'', ''S256''), (''nonce'', nonce)]))" by auto
  then show ?thesis
    using decode s256Challenge_text [OF assms(1)]
    by (intro exI [of _ cfg] exI [of _ sid] exI [of _ "\<lparr>os_state = st, os_codeVerifier = v, os_nonce = nonce,
        os_refreshToken = '''', os_createdAt = now\<rparr>"] exI [of _ "s256Challenge I v"])
      (simp add: store_put_def setSessionCookie_def Redirect_def)
qed

definition exact_idp :: "unit IdP" where
  "exact_idp = sample_idp\<lparr>rand_Read := (\<lambda>n. State_Monad.return (replicate n 7)), sha256_Sum256 := (\<lambda>_. replicate 32 9)\<rparr>"

theorem login_keeps_to_pkce_witness:
  "\<exists>rsp s' sid sess. run_state (handleOIDCLogin exact_idp sample_server bare_request) ((), \<lparr>oidc_RT = None, oidc_Sessions = []\<rparr>) =
      (rsp, ((), s')) \<and> aget (oidc_Sessions s') sid = Some sess \<and> url_text 86 (os_codeVerifier sess) \<and> url_text 43 sid"
proof -
  have ok: "full_reads exact_idp" by (simp add: full_reads_def exact_idp_def)
  obtain rsp s' where run: "run_state (handleOIDCLogin exact_idp sample_server bare_request) ((), \<lparr>oidc_RT = None, oidc_Sessions = []\<rparr>) =
      (rsp, ((), s'))" and "rsp_Code rsp = 302"
    by (auto simp: handleOIDCLogin_def oidc_run_simps exact_idp_def setSessionCookie_def Redirect_def writeJSON_def)
  from login_keeps_to_pkce [OF ok this] run show ?thesis by blast
qed

end
