(* ===== verification/Rpc_Streams.thy ===== *)
theory Rpc_Streams
  imports Rpc_Env
begin

text \<open>
  The clients of the Redpanda Connect streams API: \<^verbatim>\<open>internal/streams/client.go\<close>, the
  production client over HTTP, whose transport is a parameter, and
  \<^verbatim>\<open>internal/streams/fake.go\<close>, the in-memory client. Both are values of the record that
  stands for the Go interface \<open>streams.Client\<close>. The locale \<open>streams_client\<close> is the contract
  the reconciler relies on; the in-memory client is proved to meet it.
\<close>

section \<open>Classification of responses\<close>

definition configRejected :: "int \<Rightarrow> string \<Rightarrow> bool" where
  "configRejected status body =
     (if status \<ge> 400 \<and> status < 500 then True
      else if status = 502 \<and> Contains body ''failed to init'' then True
      else False)"

definition rejection :: "string \<Rightarrow> int \<Rightarrow> string \<Rightarrow> error" where
  "rejection streamID status body =
     Err (ConfigRejectedError streamID status body)
       (''ensure stream '' @ streamID @ '': status '' @ itoa status @ '': '' @ body)"

section \<open>The client over HTTP\<close>

text \<open>
  The transport: \<open>NewRequest\<close> fails on a malformed URL, \<open>Do\<close> sends a method, a URL and a
  body and gives the status code and the body of the response. A body that cannot be read to
  its end reads as what was received, as in the source, which ignores that error.
\<close>

record 'w HTTPTransport =
  NewRequest :: "string \<Rightarrow> error option"
  Do :: "string \<Rightarrow> string \<Rightarrow> string \<Rightarrow> ('w, error + int \<times> string) state"

definition TrimRight :: "string \<Rightarrow> char \<Rightarrow> string" where
  "TrimRight s c = rev (dropWhile (\<lambda>x. x = c) (rev s))"

definition streamURL :: "string \<Rightarrow> string \<Rightarrow> string" where
  "streamURL podBaseURL streamID = TrimRight podBaseURL (CHR ''/'') @ ''/streams/'' @ streamID"

definition streamReq ::
  "'w HTTPTransport \<Rightarrow> string \<Rightarrow> string \<Rightarrow> string \<Rightarrow> string \<Rightarrow> ('w, error + int \<times> string) state" where
  "streamReq T meth podBaseURL streamID configYAML =
     (let url = streamURL podBaseURL streamID in
      case NewRequest T url of
        Some err \<Rightarrow> State_Monad.return (Inl err)
      | None \<Rightarrow> do {
          r \<leftarrow> Do T meth url configYAML;
          State_Monad.return (case r of
            Inl err \<Rightarrow> Inl (wrap (meth @ '' stream '' @ streamID @ '': '') err)
          | Inr resp \<Rightarrow> Inr resp)
        })"

definition ensure_outcome :: "string \<Rightarrow> int \<Rightarrow> string \<Rightarrow> error option" where
  "ensure_outcome streamID status body =
     (if configRejected status body then Some (rejection streamID status body)
      else if status \<ge> 300
      then Some (Errorf (''ensure stream '' @ streamID @ '': status '' @ itoa status @ '': '' @ body))
      else None)"

definition http_EnsureStream ::
  "'w HTTPTransport \<Rightarrow> string \<Rightarrow> string \<Rightarrow> string \<Rightarrow> ('w, error option) state" where
  "http_EnsureStream T podBaseURL streamID configYAML = do {
     r \<leftarrow> streamReq T ''PUT'' podBaseURL streamID configYAML;
     case r of
       Inl err \<Rightarrow> State_Monad.return (Some err)
     | Inr (status, body) \<Rightarrow>
         if status = 404 then do {
           r \<leftarrow> streamReq T ''POST'' podBaseURL streamID configYAML;
           State_Monad.return (case r of
             Inl err \<Rightarrow> Some err
           | Inr (status, body) \<Rightarrow> ensure_outcome streamID status body)
         }
         else State_Monad.return (ensure_outcome streamID status body)
   }"

definition http_DeleteStream :: "'w HTTPTransport \<Rightarrow> string \<Rightarrow> string \<Rightarrow> ('w, error option) state" where
  "http_DeleteStream T podBaseURL streamID =
     (let url = streamURL podBaseURL streamID in
      case NewRequest T url of
        Some err \<Rightarrow> State_Monad.return (Some err)
      | None \<Rightarrow> do {
          r \<leftarrow> Do T ''DELETE'' url '''';
          State_Monad.return (case r of
            Inl err \<Rightarrow> Some (wrap (''DELETE stream '' @ streamID @ '': '') err)
          | Inr (status, body) \<Rightarrow>
              if status = 404 then None
              else if status \<ge> 300
              then Some (Errorf (''DELETE stream '' @ streamID @ '': status '' @ itoa status @ '': '' @ body))
              else None)
        })"

definition decode_streams :: "lib \<Rightarrow> string \<Rightarrow> string + string list" where
  "decode_streams L body =
     (case json_Unmarshal L body of
        Inl err \<Rightarrow> Inl err
      | Inr (AObj raw) \<Rightarrow> Inr (map fst raw)
      | Inr ANull \<Rightarrow> Inr []
      | Inr _ \<Rightarrow> Inl ''json: cannot unmarshal into Go value of type map[string]json.RawMessage'')"

definition http_ListStreams :: "lib \<Rightarrow> 'w HTTPTransport \<Rightarrow> string \<Rightarrow> ('w, error + string list) state" where
  "http_ListStreams L T podBaseURL =
     (let url = TrimRight podBaseURL (CHR ''/'') @ ''/streams'' in
      case NewRequest T url of
        Some err \<Rightarrow> State_Monad.return (Inl err)
      | None \<Rightarrow> do {
          r \<leftarrow> Do T ''GET'' url '''';
          State_Monad.return (case r of
            Inl err \<Rightarrow> Inl (wrap ''GET streams: '' err)
          | Inr (status, body) \<Rightarrow>
              if status \<ge> 300
              then Inl (Errorf (''GET streams: status '' @ itoa status @ '': '' @ body))
              else case decode_streams L body of
                     Inl err \<Rightarrow> Inl (Errorf (''decode streams: '' @ err))
                   | Inr ids \<Rightarrow> Inr ids)
        })"

definition http_EnsureCacheResource ::
  "'w HTTPTransport \<Rightarrow> string \<Rightarrow> string \<Rightarrow> string \<Rightarrow> ('w, error option) state" where
  "http_EnsureCacheResource T podBaseURL label configYAML =
     (let url = TrimRight podBaseURL (CHR ''/'') @ ''/resources/cache/'' @ label in
      case NewRequest T url of
        Some err \<Rightarrow> State_Monad.return (Some err)
      | None \<Rightarrow> do {
          r \<leftarrow> Do T ''POST'' url configYAML;
          State_Monad.return (case r of
            Inl err \<Rightarrow> Some (wrap (''POST cache resource '' @ label @ '': '') err)
          | Inr (status, body) \<Rightarrow>
              if configRejected status body then Some (rejection label status body)
              else if status \<ge> 300
              then Some (Errorf (''POST cache resource '' @ label @ '': status '' @ itoa status @ '': '' @ body))
              else None)
        })"

definition http_DeleteCacheResource :: "string \<Rightarrow> string \<Rightarrow> ('w, error option) state" where
  "http_DeleteCacheResource podBaseURL label = State_Monad.return None"

text \<open>Decoding into \<open>struct{Active bool; Uptime float64}\<close>; absent fields keep their zero value.\<close>

definition decode_active :: "any option \<Rightarrow> bool option" where
  "decode_active v = (case v of
      None \<Rightarrow> Some False
    | Some (ABool b) \<Rightarrow> Some b
    | Some ANull \<Rightarrow> Some False
    | Some _ \<Rightarrow> None)"

definition decode_uptime :: "any option \<Rightarrow> string option" where
  "decode_uptime v = (case v of
      None \<Rightarrow> Some ''0''
    | Some (ANum n) \<Rightarrow> Some n
    | Some ANull \<Rightarrow> Some ''0''
    | Some _ \<Rightarrow> None)"

definition decode_status :: "lib \<Rightarrow> string \<Rightarrow> string + StreamStatus" where
  "decode_status L body =
     (case json_Unmarshal L body of
        Inl err \<Rightarrow> Inl err
      | Inr ANull \<Rightarrow> Inr \<lparr>Active = False, Uptime = ''0''\<rparr>
      | Inr (AObj m) \<Rightarrow>
          (case decode_active (aget m ''active'') of
             None \<Rightarrow> Inl ''json: cannot unmarshal into Go struct field .active of type bool''
           | Some a \<Rightarrow>
               (case decode_uptime (aget m ''uptime'') of
                  None \<Rightarrow> Inl ''json: cannot unmarshal into Go struct field .uptime of type float64''
                | Some u \<Rightarrow> Inr \<lparr>Active = a, Uptime = u\<rparr>))
      | Inr _ \<Rightarrow> Inl ''json: cannot unmarshal into Go value'')"

definition http_GetStreamStatus ::
  "lib \<Rightarrow> 'w HTTPTransport \<Rightarrow> string \<Rightarrow> string \<Rightarrow> ('w, error + StreamStatus) state" where
  "http_GetStreamStatus L T podBaseURL streamID =
     (let url = streamURL podBaseURL streamID in
      case NewRequest T url of
        Some err \<Rightarrow> State_Monad.return (Inl err)
      | None \<Rightarrow> do {
          r \<leftarrow> Do T ''GET'' url '''';
          State_Monad.return (case r of
            Inl err \<Rightarrow> Inl (wrap (''GET stream '' @ streamID @ '': '') err)
          | Inr (status, body) \<Rightarrow>
              if status = 404 then Inl (Err ErrStreamNotFound ''stream not found'')
              else if status \<ge> 300
              then Inl (Errorf (''GET stream '' @ streamID @ '': status '' @ itoa status @ '': '' @ body))
              else case decode_status L body of
                     Inl err \<Rightarrow> Inl (Errorf (''decode stream '' @ streamID @ '' status: '' @ err))
                   | Inr st \<Rightarrow> Inr st)
        })"

definition HTTPClient :: "lib \<Rightarrow> 'w HTTPTransport \<Rightarrow> 'w StreamsClient" where
  "HTTPClient L T =
     \<lparr>EnsureStream = http_EnsureStream T,
      DeleteStream = http_DeleteStream T,
      ListStreams = http_ListStreams L T,
      GetStreamStatus = http_GetStreamStatus L T,
      EnsureCacheResource = http_EnsureCacheResource T,
      DeleteCacheResource = http_DeleteCacheResource\<rparr>"

section \<open>The in-memory client\<close>

text \<open>
  The nested maps of the Go code as one map from base URL and id; \<open>f_EnsureErr\<close> and the
  other failure injections are the fields of the same name. The mutex has no counterpart: each
  method holds it from start to end.
\<close>

record FakeClient =
  f_streams :: "(string \<times> string) \<rightharpoonup> string"
  f_caches :: "(string \<times> string) \<rightharpoonup> string"
  f_EnsureCount :: int
  f_EnsureErr :: "error option"
  f_DropNextEnsure :: bool
  f_EnsureCacheErr :: "error option"
  f_GetErr :: "error option"
  f_inactive :: "string \<Rightarrow> bool"

definition NewFakeClient :: FakeClient where
  "NewFakeClient =
     \<lparr>f_streams = Map.empty, f_caches = Map.empty, f_EnsureCount = 0, f_EnsureErr = None,
      f_DropNextEnsure = False, f_EnsureCacheErr = None, f_GetErr = None,
      f_inactive = (\<lambda>_. False)\<rparr>"

definition fake_EnsureStream :: "string \<Rightarrow> string \<Rightarrow> string \<Rightarrow> (FakeClient, error option) state" where
  "fake_EnsureStream podBaseURL streamID configYAML = State (\<lambda>f.
     let f = f\<lparr>f_EnsureCount := f_EnsureCount f + 1\<rparr> in
     if f_EnsureErr f \<noteq> None then (f_EnsureErr f, f)
     else if f_DropNextEnsure f then (None, f\<lparr>f_DropNextEnsure := False\<rparr>)
     else (None, f\<lparr>f_streams := (f_streams f)((podBaseURL, streamID) \<mapsto> configYAML)\<rparr>))"

definition fake_DeleteStream :: "string \<Rightarrow> string \<Rightarrow> (FakeClient, error option) state" where
  "fake_DeleteStream podBaseURL streamID =
     State (\<lambda>f. (None, f\<lparr>f_streams := (f_streams f)((podBaseURL, streamID) := None)\<rparr>))"

definition Has :: "FakeClient \<Rightarrow> string \<Rightarrow> string \<Rightarrow> bool" where
  "Has f podBaseURL streamID \<longleftrightarrow> f_streams f (podBaseURL, streamID) \<noteq> None"

text \<open>What the tests read back; a missing entry of a map of strings reads as the empty string.\<close>

definition HasCacheResource :: "FakeClient \<Rightarrow> string \<Rightarrow> string \<Rightarrow> bool" where
  "HasCacheResource f podBaseURL label \<longleftrightarrow> f_caches f (podBaseURL, label) \<noteq> None"

definition CacheResourceBody :: "FakeClient \<Rightarrow> string \<Rightarrow> string \<Rightarrow> string" where
  "CacheResourceBody f podBaseURL label = (case f_caches f (podBaseURL, label) of None \<Rightarrow> '''' | Some b \<Rightarrow> b)"

definition StreamBody :: "FakeClient \<Rightarrow> string \<Rightarrow> string \<Rightarrow> string" where
  "StreamBody f podBaseURL streamID = (case f_streams f (podBaseURL, streamID) of None \<Rightarrow> '''' | Some b \<Rightarrow> b)"

definition DropPod :: "string \<Rightarrow> FakeClient \<Rightarrow> FakeClient" where
  "DropPod podBaseURL f =
     f\<lparr>f_streams := (\<lambda>(u, i). if u = podBaseURL then None else f_streams f (u, i)),
       f_caches := (\<lambda>(u, i). if u = podBaseURL then None else f_caches f (u, i))\<rparr>"

definition fake_EnsureCacheResource ::
  "string \<Rightarrow> string \<Rightarrow> string \<Rightarrow> (FakeClient, error option) state" where
  "fake_EnsureCacheResource podBaseURL label configYAML = State (\<lambda>f.
     if f_EnsureCacheErr f \<noteq> None then (f_EnsureCacheErr f, f)
     else (None, f\<lparr>f_caches := (f_caches f)((podBaseURL, label) \<mapsto> configYAML)\<rparr>))"

definition fake_DeleteCacheResource :: "string \<Rightarrow> string \<Rightarrow> (FakeClient, error option) state" where
  "fake_DeleteCacheResource podBaseURL label =
     State (\<lambda>f. (None, f\<lparr>f_caches := (f_caches f)((podBaseURL, label) := None)\<rparr>))"

text \<open>The status reported for a stream the instance holds.\<close>

definition held_status :: "bool \<Rightarrow> StreamStatus" where
  "held_status b = (if b then \<lparr>Active = True, Uptime = ''1''\<rparr> else \<lparr>Active = False, Uptime = ''0''\<rparr>)"

lemma held_status_active [simp]: "Active (held_status b) = b"
  by (simp add: held_status_def)

definition fake_GetStreamStatus :: "string \<Rightarrow> string \<Rightarrow> (FakeClient, error + StreamStatus) state" where
  "fake_GetStreamStatus podBaseURL streamID = State (\<lambda>f.
     (case f_GetErr f of
        Some err \<Rightarrow> Inl err
      | None \<Rightarrow>
          if f_streams f (podBaseURL, streamID) = None
          then Inl (Err ErrStreamNotFound ''stream not found'')
          else if f_inactive f streamID then Inr (held_status False)
          else Inr (held_status True), f))"

definition SetStreamActive :: "string \<Rightarrow> bool \<Rightarrow> FakeClient \<Rightarrow> FakeClient" where
  "SetStreamActive streamID active f = f\<lparr>f_inactive := (f_inactive f)(streamID := \<not> active)\<rparr>"

text \<open>Listing is not called by any reconciler; the ids come from the argument in some order.\<close>

definition fake_client :: "(FakeClient \<Rightarrow> string \<Rightarrow> string list) \<Rightarrow> FakeClient StreamsClient" where
  "fake_client ids =
     \<lparr>EnsureStream = fake_EnsureStream,
      DeleteStream = fake_DeleteStream,
      ListStreams = (\<lambda>u. State (\<lambda>f. (Inr (ids f u), f))),
      GetStreamStatus = fake_GetStreamStatus,
      EnsureCacheResource = fake_EnsureCacheResource,
      DeleteCacheResource = fake_DeleteCacheResource\<rparr>"

section \<open>The contract\<close>

text \<open>
  What a client of the streams API promises: deleting and upserting one stream leaves the
  others alone, a deleted stream is gone, reading changes nothing and tells the truth where
  the instance answers, and an accepted upsert loads the stream unless the instance is about
  to drop one (\<open>dropping\<close>), which an accepted upsert uses up.
\<close>

locale streams_client =
  fixes C :: "'w StreamsClient"
    and holds :: "'w \<Rightarrow> string \<Rightarrow> string \<Rightarrow> bool"
    and dropping :: "'w \<Rightarrow> bool"
    and readable :: "'w \<Rightarrow> bool"
  assumes delete_gone: "run_state (DeleteStream C u i) w = (None, w') \<Longrightarrow> \<not> holds w' u i"
    and delete_frame: "run_state (DeleteStream C u i) w = (r, w') \<Longrightarrow> (u', i') \<noteq> (u, i) \<Longrightarrow>
      holds w' u' i' = holds w u' i'"
    and delete_flags: "run_state (DeleteStream C u i) w = (r, w') \<Longrightarrow>
      (dropping w' \<longrightarrow> dropping w) \<and> readable w' = readable w"
    and ensure_loads: "run_state (EnsureStream C u i b) w = (None, w') \<Longrightarrow> \<not> dropping w \<Longrightarrow> holds w' u i"
    and ensure_frame: "run_state (EnsureStream C u i b) w = (r, w') \<Longrightarrow> (u', i') \<noteq> (u, i) \<Longrightarrow>
      holds w' u' i' = holds w u' i'"
    and ensure_flags: "run_state (EnsureStream C u i b) w = (None, w') \<Longrightarrow>
      \<not> dropping w' \<and> readable w' = readable w"
    and status_pure: "run_state (GetStreamStatus C u i) w = (s, w') \<Longrightarrow> w' = w"
    and status_sound: "run_state (GetStreamStatus C u i) w = (s, w') \<Longrightarrow> readable w \<Longrightarrow>
      holds w u i = (\<exists>st. s = Inr st) \<and> (\<forall>e. s = Inl e \<longrightarrow> err_kind e = ErrStreamNotFound)"
begin

lemma delete_idempotent:
  assumes "run_state (DeleteStream C u i) w = (None, w1)" and "run_state (DeleteStream C u i) w1 = (None, w2)"
  shows "holds w2 u' i' = holds w1 u' i'"
  using assms delete_gone delete_frame by (metis prod.inject)

end

lemmas fake_defs = fake_client_def fake_EnsureStream_def fake_DeleteStream_def
  fake_GetStreamStatus_def fake_EnsureCacheResource_def fake_DeleteCacheResource_def

interpretation fake: streams_client "fake_client ids" Has f_DropNextEnsure "\<lambda>f. f_GetErr f = None" for ids
  by unfold_locales (auto simp: fake_defs Has_def Let_def split: if_splits option.splits)

section \<open>Properties\<close>

lemma ensure_outcome_cases:
  "ensure_outcome i s b = None \<longleftrightarrow> s < 300"
  "(\<exists>e id st bd. ensure_outcome i s b = Some e \<and> err_kind e = ConfigRejectedError id st bd) \<longleftrightarrow>
     400 \<le> s \<and> s < 500 \<or> s = 502 \<and> Contains b ''failed to init''"
  by (auto simp: ensure_outcome_def configRejected_def rejection_def Errorf_def)

text \<open>
  The production client upserts with PUT and creates with POST only when PUT reports the
  stream missing. The answer of the last request decides: success exactly below 300, a
  permanent rejection exactly for a 4xx or for a 502 that reports a failed initialisation, and
  any other status a plain (transient) error.
\<close>

lemma http_EnsureStream_outcome:
  assumes url: "NewRequest T (streamURL u i) = None"
    and put: "run_state (Do T ''PUT'' (streamURL u i) b) w = (Inr (s1, b1), w1)"
    and post: "run_state (Do T ''POST'' (streamURL u i) b) w1 = (Inr (s2, b2), w2)"
    and last: "(s, bd, w') = (if s1 = 404 then (s2, b2, w2) else (s1, b1, w1))"
  shows "\<exists>r. run_state (EnsureStream (HTTPClient L T) u i b) w = (r, w') \<and>
     (r = None \<longleftrightarrow> s < 300) \<and>
     ((\<exists>e id st body. r = Some e \<and> err_kind e = ConfigRejectedError id st body) \<longleftrightarrow>
        400 \<le> s \<and> s < 500 \<or> s = 502 \<and> Contains bd ''failed to init'')"
proof -
  have "run_state (EnsureStream (HTTPClient L T) u i b) w = (ensure_outcome i s bd, w')"
    using assms by (auto simp: HTTPClient_def http_EnsureStream_def streamReq_def Let_def split: if_splits)
  then show ?thesis using ensure_outcome_cases [of i s bd] by auto
qed

definition sample_transport :: "unit HTTPTransport" where
  "sample_transport =
     \<lparr>NewRequest = (\<lambda>_. None),
      Do = (\<lambda>meth url body. State_Monad.return
        (Inr (if meth = ''PUT'' then (404, '''') else (502, ''failed to init cache''))))\<rparr>"

lemma http_EnsureStream_outcome_witness:
  "\<exists>e id st body. run_state (EnsureStream (HTTPClient sample_lib sample_transport) ''http://p'' ''a'' ''c'') () =
      (Some e, ()) \<and> err_kind e = ConfigRejectedError id st body"
  using http_EnsureStream_outcome [of sample_transport "''http://p''" "''a''" "''c''" "()" 404 "''''" "()"
      502 "''failed to init cache''" "()" 502 "''failed to init cache''" "()" sample_lib]
  by (auto simp: sample_transport_def HasPrefix_def)

text \<open>
  The in-memory client meets the contract of the streams API: what is deleted is gone, an
  accepted upsert that is not dropped is held and then read back as present, and neither
  touches another stream.
\<close>

lemma fake_client_contract:
  assumes "run_state (EnsureStream (fake_client ids) u i b) w = (None, w1)" and "\<not> f_DropNextEnsure w"
    and "f_GetErr w = None"
    and "run_state (DeleteStream (fake_client ids) u i) w1 = (r, w2)" and "(u', i') \<noteq> (u, i)"
  shows "Has w1 u i \<and> (\<exists>st. run_state (GetStreamStatus (fake_client ids) u i) w1 = (Inr st, w1)) \<and>
     \<not> Has w2 u i \<and> (\<exists>e. run_state (GetStreamStatus (fake_client ids) u i) w2 = (Inl e, w2) \<and>
        err_kind e = ErrStreamNotFound) \<and>
     Has w1 u' i' = Has w u' i' \<and> Has w2 u' i' = Has w u' i'"
proof -
  have r: "r = None" using assms(4) by (simp add: fake_defs)
  obtain s1 v1 where s1: "run_state (GetStreamStatus (fake_client ids) u i) w1 = (s1, v1)" by fastforce
  obtain s2 v2 where s2: "run_state (GetStreamStatus (fake_client ids) u i) w2 = (s2, v2)" by fastforce
  have flags: "f_GetErr w1 = None" "f_GetErr w2 = None"
    using fake.ensure_flags [OF assms(1)] fake.delete_flags [OF assms(4)] assms(3) by auto
  have h1: "Has w1 u i" using fake.ensure_loads assms(1,2) by blast
  have h2: "\<not> Has w2 u i" using fake.delete_gone assms(4) r by blast
  have st1: "v1 = w1 \<and> (\<exists>st. s1 = Inr st)"
    using fake.status_pure [OF s1] fake.status_sound [OF s1] flags h1 by blast
  have "\<nexists>st. s2 = Inr st" using fake.status_sound [OF s2] flags h2 by blast
  then obtain e where "s2 = Inl e" by (cases s2) auto
  then have st2: "v2 = w2 \<and> s2 = Inl e \<and> err_kind e = ErrStreamNotFound"
    using fake.status_pure [OF s2] fake.status_sound [OF s2] flags by blast
  show ?thesis
    using h1 h2 st1 st2 s1 s2 fake.ensure_frame [OF assms(1,5)] fake.delete_frame [OF assms(4,5)]
    by auto
qed

lemma fake_client_contract_witness:
  "Has (NewFakeClient\<lparr>f_streams := [(''u'', ''a'') \<mapsto> ''c''], f_EnsureCount := 1\<rparr>) ''u'' ''a'' \<and>
   \<not> Has (NewFakeClient\<lparr>f_streams := Map.empty, f_EnsureCount := 1\<rparr>) ''u'' ''a''"
  using fake_client_contract [of "\<lambda>_ _. []" "''u''" "''a''" "''c''" NewFakeClient
      "NewFakeClient\<lparr>f_streams := [(''u'', ''a'') \<mapsto> ''c''], f_EnsureCount := 1\<rparr>" None
      "NewFakeClient\<lparr>f_streams := Map.empty, f_EnsureCount := 1\<rparr>"
      "''u''" "''b''"]
  by (simp add: fake_defs NewFakeClient_def)

end
