(* ===== verification/Rpc_Pipeline.thy ===== *)
theory Rpc_Pipeline
  imports Rpc_Scheduler Rpc_Render Rpc_Streams Rpc_Secrets
begin

text \<open>
  The Pipeline reconciler: \<^verbatim>\<open>internal/controller/pipeline_controller.go\<close>,
  \<^verbatim>\<open>pipeline_pod.go\<close>, \<^verbatim>\<open>pipeline_cluster_assign.go\<close> and \<^verbatim>\<open>pipeline_project_assign.go\<close>.
  Each method of \<open>PipelineReconciler\<close> is a definition of the same name in the state monad,
  with the receiver's fields as arguments: the library \<open>L\<close>, the Kubernetes client \<open>K\<close> and the
  streams client \<open>S\<close>. The pipeline a Go method mutates through its pointer is passed by value;
  where a caller reads it afterwards it is returned.
\<close>

section \<open>The pod\<close>

definition defaultImage :: string where
  "defaultImage = ''docker.redpanda.com/redpandadata/connect:4''"

definition configMountPath :: string where
  "configMountPath = ''/etc/rpc''"

definition configFileName :: string where
  "configFileName = ''pipeline.yaml''"

definition httpPort :: int where
  "httpPort = 4195"

definition rpcUID :: int where
  "rpcUID = 10001"

definition http_probe :: "string \<Rightarrow> int \<Rightarrow> int \<Rightarrow> Probe" where
  "http_probe path delay period =
     \<lparr>pb_Path = path, pb_PortName = ''http'', pb_InitialDelaySeconds = delay, pb_PeriodSeconds = period\<rparr>"

definition restricted_pod_security :: "int \<Rightarrow> PodSecurity" where
  "restricted_pod_security uid =
     \<lparr>psec_RunAsNonRoot = True, psec_RunAsUser = uid, psec_FSGroup = uid,
      psec_SeccompProfile = ''RuntimeDefault''\<rparr>"

definition restricted_container_security :: ContainerSecurity where
  "restricted_container_security =
     \<lparr>csec_AllowPrivilegeEscalation = False, csec_ReadOnlyRootFilesystem = True,
      csec_DropCapabilities = [''ALL'']\<rparr>"

definition buildPodSpec :: "string \<Rightarrow> string \<Rightarrow> EnvVar list \<Rightarrow> PodSpec" where
  "buildPodSpec cmName img envVars =
     (let img = (if img = '''' then defaultImage else img) in
      \<lparr>pds_RestartPolicy = ''OnFailure'',
       pds_TerminationGracePeriodSeconds = 30,
       pds_Security = restricted_pod_security rpcUID,
       pds_Containers =
         [\<lparr>ct_Name = ''connect'',
           ct_Image = img,
           ct_Args = [''run'', configMountPath @ ''/'' @ configFileName],
           ct_Ports = [\<lparr>cp_Name = ''http'', cp_Port = httpPort, cp_Protocol = ''TCP''\<rparr>],
           ct_LivenessProbe = http_probe ''/ping'' 5 10,
           ct_ReadinessProbe = http_probe ''/ready'' 2 5,
           ct_Security = restricted_container_security,
           ct_Resources = ([(''cpu'', ''50m''), (''memory'', ''64Mi'')],
                           [(''cpu'', ''500m''), (''memory'', ''256Mi'')]),
           ct_Env = envVars,
           ct_VolumeMounts = [\<lparr>vm_Name = ''cfg'', vm_MountPath = configMountPath, vm_ReadOnly = True\<rparr>]\<rparr>],
       pds_Volumes =
         [\<lparr>cv_Name = ''cfg'', cv_ConfigMap = cmName, cv_Items = [(configFileName, configFileName)]\<rparr>]\<rparr>)"

definition secretRefsToEnvVars :: "SecretRef list \<Rightarrow> EnvVar list" where
  "secretRefsToEnvVars refs =
     map (\<lambda>r. \<lparr>ev_Name = sr_EnvVar r, ev_ValueFrom = SecretKeyRef (sr_SecretName r) (sr_Key r)\<rparr>) refs"

section \<open>Phase and condition of a pod\<close>

definition derivePhase :: "Pod \<Rightarrow> PipelinePhase" where
  "derivePhase pod = (case pod_Phase pod of
      PodRunning \<Rightarrow> PhaseRunning
    | PodFailed \<Rightarrow> PhaseFailed
    | PodSucceeded \<Rightarrow> PhaseStopped
    | _ \<Rightarrow> PhasePending)"

fun first_reason :: "string option list \<Rightarrow> string" where
  "first_reason [] = ''''"
| "first_reason (w # ws) = (case w of
      Some r \<Rightarrow> if r \<noteq> '''' then r else first_reason ws
    | None \<Rightarrow> first_reason ws)"

definition containerWaitReason :: "Pod \<Rightarrow> string" where
  "containerWaitReason pod = first_reason (pod_WaitingReasons pod)"

definition deriveCondition :: "Pod \<Rightarrow> PipelinePhase \<Rightarrow> Condition" where
  "deriveCondition pod phase =
     (let reason = containerWaitReason pod in
      if reason = ''ImagePullBackOff'' \<or> reason = ''ErrImagePull''
      then mkCondition ''Ready'' ConditionFalse ''ImagePullBackOff'' (''Container image cannot be pulled: '' @ reason)
      else if reason = ''CrashLoopBackOff''
      then mkCondition ''Ready'' ConditionFalse ''CrashLoopBackOff'' ''Container is crash-looping''
      else if phase = PhaseRunning
      then mkCondition ''Ready'' ConditionTrue ''Running'' ''Pipeline pod is running''
      else if phase = PhaseStopped
      then mkCondition ''Ready'' ConditionFalse ''Completed'' ''Pipeline pod has completed''
      else if phase = PhaseFailed
      then mkCondition ''Ready'' ConditionFalse ''PodFailed'' ''Pipeline pod has failed''
      else mkCondition ''Ready'' ConditionUnknown ''Pending'' ''Pipeline pod is pending'')"

text \<open>The comparison of a condition with the one that is stored, as the reconcilers write it.\<close>

definition cond_differs :: "Condition option \<Rightarrow> Condition \<Rightarrow> bool" where
  "cond_differs existing cond = (case existing of
      None \<Rightarrow> True
    | Some e \<Rightarrow> c_Status e \<noteq> c_Status cond \<or> c_Reason e \<noteq> c_Reason cond \<or> c_Message e \<noteq> c_Message cond)"

section \<open>Names\<close>

definition finalizerName :: string where
  "finalizerName = ''rpc.operator.io/finalizer''"

definition specHashAnnotation :: string where
  "specHashAnnotation = ''rpc.operator.io/spec-hash''"

definition condStreamActive :: string where
  "condStreamActive = ''StreamActive''"

definition resyncInterval :: int where
  "resyncInterval = 2 * 60 * 1000000000"

definition clusterPodURL :: "string \<Rightarrow> string \<Rightarrow> int \<Rightarrow> string" where
  "clusterPodURL clusterName namespace ordinal =
     ''http://'' @ clusterName @ ''-'' @ itoa ordinal @ ''.'' @ clusterName @ ''.'' @ namespace @
     ''.svc:'' @ itoa httpPort"

definition streamConfigHash :: "lib \<Rightarrow> string \<Rightarrow> string \<Rightarrow> string" where
  "streamConfigHash L instance_name body = sha256_hex L (instance_name @ [CHR 0x00] @ body)"

definition projectChildClusterName :: "string \<Rightarrow> string" where
  "projectChildClusterName projectName = projectName @ ''-cluster''"

section \<open>Writing the status of a clustered pipeline\<close>

definition after_status_update :: "Result \<Rightarrow> error option \<Rightarrow> outcome" where
  "after_status_update res err = (case err of
      None \<Rightarrow> (res, None)
    | Some e \<Rightarrow> if err_kind e = Conflict then (requeue, None) else (ok, Some e))"

definition set_cluster_status ::
  "lib \<Rightarrow> PipelinePhase \<Rightarrow> string \<Rightarrow> string \<Rightarrow> string \<Rightarrow> string \<Rightarrow> Condition \<Rightarrow> Condition option \<Rightarrow>
   Pipeline \<Rightarrow> Pipeline" where
  "set_cluster_status L phase assignedCluster assignedInstance streamID configHash cond streamActive pipe =
     (let st = p_Status pipe;
          conds = SetStatusCondition L cond (pst_Conditions st);
          conds = (case streamActive of
              None \<Rightarrow> RemoveStatusCondition L condStreamActive conds
            | Some sa \<Rightarrow> SetStatusCondition L sa conds)
      in pipe\<lparr>p_Status := st\<lparr>pst_Phase := phase, pst_AssignedCluster := assignedCluster,
           pst_AssignedInstance := assignedInstance, pst_StreamID := streamID,
           pst_StreamConfigHash := configHash, pst_PodName := '''',
           pst_ObservedGeneration := om_Generation (p_Meta pipe), pst_Conditions := conds\<rparr>\<rparr>)"

definition cluster_status_changed ::
  "lib \<Rightarrow> PipelinePhase \<Rightarrow> string \<Rightarrow> string \<Rightarrow> string \<Rightarrow> string \<Rightarrow> Condition \<Rightarrow> Condition option \<Rightarrow>
   Pipeline \<Rightarrow> bool" where
  "cluster_status_changed L phase assignedCluster assignedInstance streamID configHash cond streamActive pipe =
     (let st = p_Status pipe;
          condChanged = cond_differs (FindStatusCondition L (pst_Conditions st) ''Ready'') cond;
          existingSA = FindStatusCondition L (pst_Conditions st) condStreamActive;
          saChanged = (case streamActive of
              None \<Rightarrow> existingSA \<noteq> None
            | Some sa \<Rightarrow> cond_differs existingSA sa)
      in condChanged \<or> saChanged \<or> pst_Phase st \<noteq> phase \<or> pst_AssignedCluster st \<noteq> assignedCluster \<or>
         pst_AssignedInstance st \<noteq> assignedInstance \<or> pst_StreamID st \<noteq> streamID \<or>
         pst_StreamConfigHash st \<noteq> configHash \<or> pst_PodName st \<noteq> '''' \<or>
         pst_ObservedGeneration st \<noteq> om_Generation (p_Meta pipe))"

definition writeClusterStatus ::
  "lib \<Rightarrow> 'w KubeClient \<Rightarrow> Pipeline \<Rightarrow> PipelinePhase \<Rightarrow> string \<Rightarrow> string \<Rightarrow> string \<Rightarrow> string \<Rightarrow>
   Condition \<Rightarrow> Condition option \<Rightarrow> int \<Rightarrow> ('w traced, outcome) state" where
  "writeClusterStatus L K pipe phase assignedCluster assignedInstance streamID configHash cond streamActive requeueAfter =
     (if cluster_status_changed L phase assignedCluster assignedInstance streamID configHash cond streamActive pipe
      then do {
        let pipe' = set_cluster_status L phase assignedCluster assignedInstance streamID configHash cond streamActive pipe;
        err \<leftarrow> call (StatusUpdate_Pipeline K pipe') (UpdateStatus pipe');
        State_Monad.return (after_status_update (requeue_after requeueAfter) err)
      }
      else State_Monad.return (requeue_after requeueAfter, None))"

definition markClusterFailed ::
  "lib \<Rightarrow> 'w KubeClient \<Rightarrow> Pipeline \<Rightarrow> string \<Rightarrow> string \<Rightarrow> int \<Rightarrow> ('w traced, outcome) state" where
  "markClusterFailed L K pipe reason msg requeueAfter =
     writeClusterStatus L K pipe PhaseFailed '''' '''' '''' ''''
       (mkCondition ''Ready'' ConditionFalse reason msg) None requeueAfter"

definition markClusterPending ::
  "lib \<Rightarrow> 'w KubeClient \<Rightarrow> Pipeline \<Rightarrow> string \<Rightarrow> string \<Rightarrow> ('w traced, outcome) state" where
  "markClusterPending L K pipe reason msg =
     writeClusterStatus L K pipe PhasePending '''' '''' '''' ''''
       (mkCondition ''Ready'' ConditionFalse reason msg) None resyncInterval"

section \<open>Streams of a clustered pipeline\<close>

definition deleteAssignedStream ::
  "'w StreamsClient \<Rightarrow> Pipeline \<Rightarrow> ('w traced, error option) state" where
  "deleteAssignedStream S pipe =
     (let ac = pst_AssignedCluster (p_Status pipe); ai = pst_AssignedInstance (p_Status pipe) in
      if ac = '''' \<or> ai = '''' then State_Monad.return None
      else case ordinalFromPodName ai ac of
          None \<Rightarrow> State_Monad.return None
        | Some ord \<Rightarrow> do {
            let url = clusterPodURL ac (p_Namespace pipe) ord;
            err \<leftarrow> call (DeleteStream S url (p_Name pipe)) (StreamDeleted url (p_Name pipe));
            State_Monad.return (map_option (wrap ''delete assigned stream: '') err)
          })"

definition migrateFromOldCluster ::
  "'w StreamsClient \<Rightarrow> Pipeline \<Rightarrow> string \<Rightarrow> ('w traced, error option) state" where
  "migrateFromOldCluster S pipe newCluster =
     (let old = pst_AssignedCluster (p_Status pipe); ai = pst_AssignedInstance (p_Status pipe) in
      if old = '''' \<or> old = newCluster \<or> ai = '''' then State_Monad.return None
      else case ordinalFromPodName ai old of
          None \<Rightarrow> State_Monad.return None
        | Some ord \<Rightarrow> do {
            let url = clusterPodURL old (p_Namespace pipe) ord;
            err \<leftarrow> call (DeleteStream S url (p_Name pipe)) (StreamDeleted url (p_Name pipe));
            State_Monad.return (map_option (wrap (''delete stream on old cluster '' @ old @ '': '')) err)
          })"

definition is_stream_missing :: "error + StreamStatus \<Rightarrow> bool" where
  "is_stream_missing r = (case r of Inl e \<Rightarrow> err_kind e = ErrStreamNotFound | Inr _ \<Rightarrow> False)"

definition ensureStreamPresent ::
  "'w StreamsClient \<Rightarrow> string \<Rightarrow> string \<Rightarrow> string \<Rightarrow> ('w traced, error option) state" where
  "ensureStreamPresent S podURL streamID body = do {
     err \<leftarrow> call (EnsureStream S podURL streamID body) (StreamEnsured podURL streamID body);
     case err of
       Some e \<Rightarrow> State_Monad.return (Some e)
     | None \<Rightarrow> do {
         st \<leftarrow> call (GetStreamStatus S podURL streamID) (StreamRead podURL streamID);
         if is_stream_missing st then do {
           _ \<leftarrow> call (DeleteStream S podURL streamID) (StreamDeleted podURL streamID);
           call (EnsureStream S podURL streamID body) (StreamEnsured podURL streamID body)
         }
         else State_Monad.return None
       }
   }"

definition streamActiveCondition ::
  "'w StreamsClient \<Rightarrow> string \<Rightarrow> string \<Rightarrow> ('w traced, Condition) state" where
  "streamActiveCondition S podURL streamID = do {
     r \<leftarrow> call (GetStreamStatus S podURL streamID) (StreamRead podURL streamID);
     State_Monad.return (case r of
       Inl e \<Rightarrow>
         if err_kind e = ErrStreamNotFound
         then mkCondition condStreamActive ConditionFalse ''StreamMissing'' ''stream not found on instance''
         else mkCondition condStreamActive ConditionUnknown ''StatusUnavailable'' (err_msg e)
     | Inr st \<Rightarrow>
         if Active st then mkCondition condStreamActive ConditionTrue ''Running'' ''stream active''
         else mkCondition condStreamActive ConditionFalse ''StreamNotActive'' ''stream not active'')
   }"

definition deletePodModeChildren ::
  "'w KubeClient \<Rightarrow> Pipeline \<Rightarrow> ('w traced, error option) state" where
  "deletePodModeChildren K pipe = do {
     e1 \<leftarrow> call (Delete_Pod K (p_Name pipe) (p_Namespace pipe)) (DeletePod (p_Name pipe) (p_Namespace pipe));
     case IgnoreNotFound e1 of
       Some e \<Rightarrow> State_Monad.return (Some (wrap ''delete pod: '' e))
     | None \<Rightarrow> do {
         let cm = p_Name pipe @ ''-config'';
         e2 \<leftarrow> call (Delete_ConfigMap K cm (p_Namespace pipe)) (DeleteConfigMap cm (p_Namespace pipe));
         case IgnoreNotFound e2 of
           Some e \<Rightarrow> State_Monad.return (Some (wrap ''delete configmap: '' e))
         | None \<Rightarrow> do {
             e3 \<leftarrow> call (Delete_PodMonitor K (p_Name pipe) (p_Namespace pipe))
                     (DeletePodMonitor (p_Name pipe) (p_Namespace pipe));
             State_Monad.return (case IgnoreNotFound e3 of
               Some e \<Rightarrow> if err_kind e = NoMatch \<or> err_kind e = NotRegistered then None
                         else Some (wrap ''delete podmonitor: '' e)
             | None \<Rightarrow> None)
           }
       }
   }"

definition readyClusterOrdinals ::
  "'w KubeClient \<Rightarrow> string \<Rightarrow> string \<Rightarrow> ('w traced, error + int list) state" where
  "readyClusterOrdinals K clusterName namespace = do {
     r \<leftarrow> call (List_Pods K namespace (clusterLabelKey, clusterName))
             (ListPods namespace (clusterLabelKey, clusterName));
     State_Monad.return (case r of Inl e \<Rightarrow> Inl e | Inr pods \<Rightarrow> Inr (readyOrdinals_of clusterName pods))
   }"

definition loadByOrdinal ::
  "'w KubeClient \<Rightarrow> string \<Rightarrow> string \<Rightarrow> string \<Rightarrow> ('w traced, error + (int \<Rightarrow> int)) state" where
  "loadByOrdinal K clusterName namespace excludePipeline = do {
     r \<leftarrow> call (List_Pipelines K namespace) (ListPipelines namespace);
     State_Monad.return (case r of
       Inl e \<Rightarrow> Inl e
     | Inr pipes \<Rightarrow> Inr (load_of clusterName excludePipeline pipes (\<lambda>_. 0)))
   }"

section \<open>Deploying a clustered pipeline\<close>

text \<open>
  \<open>handleClusterAssigned\<close> in parts: rendering the body of the stream, deploying it when
  needed, choosing the instance, and the whole handler. A rendering failure carries the reason
  under which it is recorded.
\<close>

definition stream_body ::
  "lib \<Rightarrow> 'w KubeClient \<Rightarrow> Pipeline \<Rightarrow> ProjectIOPlan option \<Rightarrow> ('w traced, (string \<times> string) + string) state" where
  "stream_body L K pipe ioPlan =
     (case RenderStreamConfig L (p_Spec pipe) of
        Inl err \<Rightarrow> State_Monad.return (Inl (''RenderError'', err))
      | Inr body \<Rightarrow>
          (case (case ioPlan of None \<Rightarrow> Inr body | Some plan \<Rightarrow> ApplyProjectIO L body plan) of
             Inl err \<Rightarrow> State_Monad.return (Inl (''RewriteError'', err))
           | Inr body \<Rightarrow>
               if ps_SecretRefs (p_Spec pipe) = [] then State_Monad.return (Inr body)
               else do {
                 r \<leftarrow> fetchSecretValues K (p_Namespace pipe) (ps_SecretRefs (p_Spec pipe));
                 State_Monad.return (case r of
                   Inl err \<Rightarrow> Inl (''SecretNotFound'', err_msg err)
                 | Inr vals \<Rightarrow> Inr (substituteSecrets body (ps_SecretRefs (p_Spec pipe)) vals))
               }))"

definition need_deploy ::
  "'w StreamsClient \<Rightarrow> Pipeline \<Rightarrow> string \<Rightarrow> string \<Rightarrow> ('w traced, bool) state" where
  "need_deploy S pipe podURL desiredHash =
     (if pst_StreamConfigHash (p_Status pipe) \<noteq> desiredHash then State_Monad.return True
      else do {
        r \<leftarrow> call (GetStreamStatus S podURL (p_Name pipe)) (StreamRead podURL (p_Name pipe));
        State_Monad.return (case r of
          Inl e \<Rightarrow> err_kind e = ErrStreamNotFound
        | Inr st \<Rightarrow> \<not> Active st)
      })"

definition placement_condition :: "Pipeline \<Rightarrow> string \<Rightarrow> string \<Rightarrow> Condition" where
  "placement_condition pipe clusterName instance_name =
     (let st = p_Status pipe in
      if pst_AssignedCluster st = clusterName \<and> pst_AssignedInstance st \<noteq> '''' \<and>
         pst_AssignedInstance st \<noteq> instance_name
      then mkCondition ''Ready'' ConditionTrue ''Rescheduling''
             (''rescheduled from '' @ pst_AssignedInstance st @ '' to '' @ instance_name)
      else mkCondition ''Ready'' ConditionTrue ''Assigned'' (''stream running on '' @ instance_name))"

definition deploy_on ::
  "lib \<Rightarrow> 'w KubeClient \<Rightarrow> 'w StreamsClient \<Rightarrow> Pipeline \<Rightarrow> string \<Rightarrow> int \<Rightarrow> string \<Rightarrow>
   ('w traced, outcome) state" where
  "deploy_on L K S pipe clusterName ordinal body = do {
     let podURL = clusterPodURL clusterName (p_Namespace pipe) ordinal;
     let instance_name = instanceName clusterName ordinal;
     let desiredHash = streamConfigHash L instance_name body;
     needDeploy \<leftarrow> need_deploy S pipe podURL desiredHash;
     err \<leftarrow> (if needDeploy then ensureStreamPresent S podURL (p_Name pipe) body
             else State_Monad.return None);
     case err of
       Some e \<Rightarrow>
         (case err_kind e of
            ConfigRejectedError _ _ rejected_body \<Rightarrow>
              markClusterFailed L K pipe ''StreamConfigInvalid'' rejected_body 0
          | _ \<Rightarrow> State_Monad.return (ok, Some (wrap ''ensure stream: '' e)))
     | None \<Rightarrow> do {
         sa \<leftarrow> streamActiveCondition S podURL (p_Name pipe);
         writeClusterStatus L K pipe PhaseRunning clusterName instance_name (p_Name pipe) desiredHash
           (placement_condition pipe clusterName instance_name) (Some sa) resyncInterval
       }
   }"

definition deploy_ready ::
  "lib \<Rightarrow> 'w KubeClient \<Rightarrow> 'w StreamsClient \<Rightarrow> Pipeline \<Rightarrow> string \<Rightarrow> ProjectIOPlan option \<Rightarrow> int list \<Rightarrow>
   (int \<Rightarrow> int) \<Rightarrow> ('w traced, outcome) state" where
  "deploy_ready L K S pipe cn ioPlan ready load =
     (let currentInstance = (if pst_AssignedCluster (p_Status pipe) = cn
                             then pst_AssignedInstance (p_Status pipe) else '''')
      in case pickInstance currentInstance cn ready load of
           None \<Rightarrow> markClusterPending L K pipe ''ClusterNotReady''
                     (''cluster '' @ go_quote cn @ '' has no ready instances'')
         | Some ordinal \<Rightarrow> do {
             b \<leftarrow> stream_body L K pipe ioPlan;
             case b of
               Inl failure \<Rightarrow> markClusterFailed L K pipe (fst failure) (snd failure) 0
             | Inr body \<Rightarrow> deploy_on L K S pipe cn ordinal body
           })"

definition schedule_and_deploy ::
  "lib \<Rightarrow> 'w KubeClient \<Rightarrow> 'w StreamsClient \<Rightarrow> Pipeline \<Rightarrow> string \<Rightarrow> ProjectIOPlan option \<Rightarrow>
   ('w traced, outcome) state" where
  "schedule_and_deploy L K S pipe cn ioPlan = do {
     r1 \<leftarrow> readyClusterOrdinals K cn (p_Namespace pipe);
     case r1 of
       Inl e \<Rightarrow> State_Monad.return (ok, Some e)
     | Inr ready \<Rightarrow> do {
         r2 \<leftarrow> loadByOrdinal K cn (p_Namespace pipe) (p_Name pipe);
         case r2 of
           Inl e \<Rightarrow> State_Monad.return (ok, Some e)
         | Inr load \<Rightarrow> deploy_ready L K S pipe cn ioPlan ready load
       }
   }"

definition handleClusterAssigned ::
  "lib \<Rightarrow> 'w KubeClient \<Rightarrow> 'w StreamsClient \<Rightarrow> Pipeline \<Rightarrow> string \<Rightarrow> ProjectIOPlan option \<Rightarrow>
   ('w traced, outcome) state" where
  "handleClusterAssigned L K S pipe clusterName ioPlan = do {
     r \<leftarrow> call (Get_PipelineCluster K clusterName (p_Namespace pipe))
             (GetPipelineCluster clusterName (p_Namespace pipe));
     case r of
       Inl e \<Rightarrow>
         if err_kind e = NotFound
         then markClusterFailed L K pipe ''ClusterNotFound''
                (''PipelineCluster '' @ go_quote clusterName @ '' not found'') resyncInterval
         else State_Monad.return (ok, Some e)
     | Inr cluster \<Rightarrow> do {
         e1 \<leftarrow> deletePodModeChildren K pipe;
         case e1 of
           Some e \<Rightarrow> State_Monad.return (ok, Some e)
         | None \<Rightarrow> do {
             e2 \<leftarrow> migrateFromOldCluster S pipe (om_Name (pc_Meta cluster));
             case e2 of
               Some e \<Rightarrow> State_Monad.return (ok, Some e)
             | None \<Rightarrow> schedule_and_deploy L K S pipe (om_Name (pc_Meta cluster)) ioPlan
           }
       }
   }"

definition handleProjectAssigned ::
  "lib \<Rightarrow> 'w KubeClient \<Rightarrow> 'w StreamsClient \<Rightarrow> Pipeline \<Rightarrow> string \<Rightarrow> ('w traced, outcome) state" where
  "handleProjectAssigned L K S pipe projectName = do {
     r \<leftarrow> call (Get_PipelineProject K projectName (p_Namespace pipe))
             (GetPipelineProject projectName (p_Namespace pipe));
     case r of
       Inl e \<Rightarrow>
         if err_kind e = NotFound
         then markClusterFailed L K pipe ''ProjectNotFound''
                (''PipelineProject '' @ go_quote projectName @ '' not found'') 0
         else State_Monad.return (ok, Some e)
     | Inr project \<Rightarrow>
         (let plan = PlanFor project (p_Namespace pipe) (p_Name pipe);
              clusterName = projectChildClusterName (pj_Name project)
          in if IsEmpty plan then handleClusterAssigned L K S pipe clusterName None
             else handleClusterAssigned L K S pipe clusterName (Some (toRenderPlan plan)))
   }"

definition handleClusterFallback ::
  "lib \<Rightarrow> 'w KubeClient \<Rightarrow> 'w StreamsClient \<Rightarrow> Pipeline \<Rightarrow> ('w traced, outcome) state" where
  "handleClusterFallback L K S pipe = do {
     e1 \<leftarrow> deleteAssignedStream S pipe;
     case e1 of
       Some e \<Rightarrow> State_Monad.return (ok, Some e)
     | None \<Rightarrow> do {
         let st = p_Status pipe;
         let pipe' = pipe\<lparr>p_Status := st\<lparr>pst_AssignedCluster := '''', pst_AssignedInstance := '''',
               pst_StreamID := '''',
               pst_Conditions := RemoveStatusCondition L condStreamActive (pst_Conditions st)\<rparr>\<rparr>;
         err \<leftarrow> call (StatusUpdate_Pipeline K pipe') (UpdateStatus pipe');
         State_Monad.return (after_status_update requeue err)
       }
   }"

section \<open>Stopping\<close>

definition stopped_condition :: Condition where
  "stopped_condition = mkCondition ''Ready'' ConditionFalse ''StoppedByUser''
     ''Pipeline stopped by user (spec.stopped=true)''"

definition stopped_changed :: "lib \<Rightarrow> Pipeline \<Rightarrow> bool" where
  "stopped_changed L pipe =
     (let st = p_Status pipe;
          condChanged = (case FindStatusCondition L (pst_Conditions st) ''Ready'' of
              None \<Rightarrow> True
            | Some e \<Rightarrow> c_Status e \<noteq> c_Status stopped_condition \<or> c_Reason e \<noteq> c_Reason stopped_condition);
          hadStreamActive = (FindStatusCondition L (pst_Conditions st) condStreamActive \<noteq> None)
      in condChanged \<or> hadStreamActive \<or> pst_Phase st \<noteq> PhaseStopped \<or> pst_PodName st \<noteq> '''' \<or>
         pst_AssignedCluster st \<noteq> '''' \<or> pst_AssignedInstance st \<noteq> '''' \<or> pst_StreamID st \<noteq> '''' \<or>
         pst_ObservedGeneration st \<noteq> om_Generation (p_Meta pipe))"

definition set_stopped_status :: "lib \<Rightarrow> Pipeline \<Rightarrow> Pipeline" where
  "set_stopped_status L pipe =
     (let st = p_Status pipe in
      pipe\<lparr>p_Status := st\<lparr>pst_Phase := PhaseStopped, pst_PodName := '''', pst_AssignedCluster := '''',
        pst_AssignedInstance := '''', pst_StreamID := '''',
        pst_ObservedGeneration := om_Generation (p_Meta pipe),
        pst_Conditions := RemoveStatusCondition L condStreamActive
          (SetStatusCondition L stopped_condition (pst_Conditions st))\<rparr>\<rparr>)"

definition handleStopped ::
  "lib \<Rightarrow> 'w KubeClient \<Rightarrow> 'w StreamsClient \<Rightarrow> Pipeline \<Rightarrow> ('w traced, outcome) state" where
  "handleStopped L K S pipe = do {
     e1 \<leftarrow> deleteAssignedStream S pipe;
     case e1 of
       Some e \<Rightarrow> State_Monad.return (ok, Some e)
     | None \<Rightarrow> do {
         e2 \<leftarrow> call (Delete_Pod K (p_Name pipe) (p_Namespace pipe)) (DeletePod (p_Name pipe) (p_Namespace pipe));
         case IgnoreNotFound e2 of
           Some e \<Rightarrow> State_Monad.return (ok, Some (wrap ''delete pod on stop: '' e))
         | None \<Rightarrow>
             if stopped_changed L pipe then do {
               let pipe' = set_stopped_status L pipe;
               err \<leftarrow> call (StatusUpdate_Pipeline K pipe') (UpdateStatus pipe');
               State_Monad.return (after_status_update ok err)
             }
             else State_Monad.return (ok, None)
       }
   }"

section \<open>Pod mode\<close>

definition markFailed ::
  "lib \<Rightarrow> 'w KubeClient \<Rightarrow> Pipeline \<Rightarrow> string \<Rightarrow> string \<Rightarrow> ('w traced, outcome) state" where
  "markFailed L K pipe reason msg = do {
     let st = p_Status pipe;
     let pipe' = pipe\<lparr>p_Status := st\<lparr>pst_Phase := PhaseFailed,
           pst_Conditions := SetStatusCondition L (mkCondition ''Ready'' ConditionFalse reason msg)
             (pst_Conditions st)\<rparr>\<rparr>;
     err \<leftarrow> call (StatusUpdate_Pipeline K pipe') (UpdateStatus pipe');
     State_Monad.return (ok, err)
   }"

text \<open>The hash that decides whether the pod is current, and the mutations applied to the children.\<close>

definition pod_hash :: "lib \<Rightarrow> Pipeline \<Rightarrow> string \<Rightarrow> string" where
  "pod_hash L pipe yamlStr =
     sha256_hex L (yamlStr @ [CHR 0x00] @ ps_Image (p_Spec pipe) @ [CHR 0x00] @
       json_Marshal_secretRefs L (ps_SecretRefs (p_Spec pipe)))"

definition own :: "'w KubeClient \<Rightarrow> ObjectMeta \<Rightarrow> ObjectMeta \<Rightarrow> (ObjectMeta \<Rightarrow> 'a) \<Rightarrow> error + 'a" where
  "own K owner m f = (case SetControllerReference K owner m of Inl e \<Rightarrow> Inl e | Inr m' \<Rightarrow> Inr (f m'))"

definition mutate_config_map :: "'w KubeClient \<Rightarrow> Pipeline \<Rightarrow> string \<Rightarrow> ConfigMap \<Rightarrow> error + ConfigMap" where
  "mutate_config_map K pipe yamlStr cm =
     (let cm = cm\<lparr>cm_Data := [(configFileName, yamlStr)]\<rparr> in
      own K (p_Meta pipe) (cm_Meta cm) (\<lambda>m. cm\<lparr>cm_Meta := m\<rparr>))"

definition mutate_pod :: "'w KubeClient \<Rightarrow> Pipeline \<Rightarrow> string \<Rightarrow> string \<Rightarrow> Pod \<Rightarrow> error + Pod" where
  "mutate_pod K pipe cmName newHash pod =
     (let pod = (if \<not> om_Created (pod_Meta pod)
          then pod\<lparr>pod_Spec := buildPodSpec cmName (ps_Image (p_Spec pipe))
                              (secretRefsToEnvVars (ps_SecretRefs (p_Spec pipe))),
                   pod_Meta := (pod_Meta pod)\<lparr>om_Labels := [(''rpc.operator.io/pipeline'', p_Name pipe)],
                                              om_Annotations := [(specHashAnnotation, newHash)]\<rparr>\<rparr>
          else pod)
      in own K (p_Meta pipe) (pod_Meta pod) (\<lambda>m. pod\<lparr>pod_Meta := m\<rparr>))"

definition mutate_pod_monitor :: "'w KubeClient \<Rightarrow> Pipeline \<Rightarrow> PodMonitor \<Rightarrow> error + PodMonitor" where
  "mutate_pod_monitor K pipe pm =
     (let pm = pm\<lparr>pm_Selector := [(''rpc.operator.io/pipeline'', p_Name pipe)],
                  pm_Endpoints := [\<lparr>pme_Port = ''http'', pme_Path = ''/metrics'', pme_Interval = ''15s''\<rparr>]\<rparr>
      in own K (p_Meta pipe) (pm_Meta pm) (\<lambda>m. pm\<lparr>pm_Meta := m\<rparr>))"

definition pod_status_changed :: "lib \<Rightarrow> Pipeline \<Rightarrow> Pod \<Rightarrow> bool" where
  "pod_status_changed L pipe pod =
     (let st = p_Status pipe; desired = derivePhase pod in
      cond_differs (FindStatusCondition L (pst_Conditions st) ''Ready'') (deriveCondition pod desired) \<or>
      pst_Phase st \<noteq> desired \<or> pst_PodName st \<noteq> pod_Name pod \<or>
      pst_ObservedGeneration st \<noteq> om_Generation (p_Meta pipe))"

definition set_pod_status :: "lib \<Rightarrow> Pipeline \<Rightarrow> Pod \<Rightarrow> Pipeline" where
  "set_pod_status L pipe pod =
     (let st = p_Status pipe; desired = derivePhase pod in
      pipe\<lparr>p_Status := st\<lparr>pst_Phase := desired, pst_PodName := pod_Name pod,
        pst_ObservedGeneration := om_Generation (p_Meta pipe),
        pst_Conditions := SetStatusCondition L (deriveCondition pod desired) (pst_Conditions st)\<rparr>\<rparr>)"

definition apply_pod_monitor :: "'w KubeClient \<Rightarrow> Pipeline \<Rightarrow> ('w traced, error option) state" where
  "apply_pod_monitor K pipe = do {
     r \<leftarrow> call (CreateOrUpdate_PodMonitor K (p_Name pipe) (p_Namespace pipe) (mutate_pod_monitor K pipe))
             (ApplyPodMonitor (p_Name pipe) (p_Namespace pipe));
     State_Monad.return (case r of
       Inl e \<Rightarrow> if err_kind e = NoMatch \<or> err_kind e = NotRegistered then None
                else Some (wrap ''apply podmonitor: '' e)
     | Inr _ \<Rightarrow> None)
   }"

definition apply_pod :: "lib \<Rightarrow> 'w KubeClient \<Rightarrow> Pipeline \<Rightarrow> string \<Rightarrow> string \<Rightarrow> ('w traced, outcome) state" where
  "apply_pod L K pipe cmName newHash = do {
     r \<leftarrow> call (CreateOrUpdate_Pod K (p_Name pipe) (p_Namespace pipe) (mutate_pod K pipe cmName newHash))
             (ApplyPod (p_Name pipe) (p_Namespace pipe));
     case r of
       Inl e \<Rightarrow> State_Monad.return (ok, Some (wrap ''apply pod: '' e))
     | Inr pod \<Rightarrow> do {
         e \<leftarrow> apply_pod_monitor K pipe;
         case e of
           Some e \<Rightarrow> State_Monad.return (ok, Some e)
         | None \<Rightarrow>
             if pod_status_changed L pipe pod then do {
               let pipe' = set_pod_status L pipe pod;
               err \<leftarrow> call (StatusUpdate_Pipeline K pipe') (UpdateStatus pipe');
               State_Monad.return (after_status_update ok err)
             }
             else State_Monad.return (ok, None)
       }
   }"

text \<open>Indexing a Go map with a missing key gives the zero value.\<close>

definition annotation :: "ObjectMeta \<Rightarrow> string \<Rightarrow> string" where
  "annotation m k = (case aget (om_Annotations m) k of None \<Rightarrow> '''' | Some v \<Rightarrow> v)"

definition reconcile_pod :: "lib \<Rightarrow> 'w KubeClient \<Rightarrow> Pipeline \<Rightarrow> ('w traced, outcome) state" where
  "reconcile_pod L K pipe =
     (case RenderPipelineYAML L (p_Spec pipe) of
        Inl err \<Rightarrow> markFailed L K pipe ''RenderError'' err
      | Inr yamlStr \<Rightarrow> do {
          let newHash = pod_hash L pipe yamlStr;
          let cmName = p_Name pipe @ ''-config'';
          r \<leftarrow> call (CreateOrUpdate_ConfigMap K cmName (p_Namespace pipe) (mutate_config_map K pipe yamlStr))
                  (ApplyConfigMap cmName (p_Namespace pipe));
          case r of
            Inl e \<Rightarrow> State_Monad.return (ok, Some (wrap ''apply configmap: '' e))
          | Inr cm \<Rightarrow> do {
              r2 \<leftarrow> call (Get_Pod K (p_Name pipe) (p_Namespace pipe)) (GetPod (p_Name pipe) (p_Namespace pipe));
              case r2 of
                Inr existingPod \<Rightarrow>
                  if annotation (pod_Meta existingPod) specHashAnnotation \<noteq> newHash then do {
                    delErr \<leftarrow> call (Delete_Pod K (pod_Name existingPod) (om_Namespace (pod_Meta existingPod)))
                                (DeletePod (pod_Name existingPod) (om_Namespace (pod_Meta existingPod)));
                    State_Monad.return (case IgnoreNotFound delErr of
                      Some e \<Rightarrow> (ok, Some (wrap ''delete stale pod: '' e))
                    | None \<Rightarrow> (requeue, None))
                  }
                  else apply_pod L K pipe (om_Name (cm_Meta cm)) newHash
              | Inl e \<Rightarrow>
                  if err_kind e \<noteq> NotFound then State_Monad.return (ok, Some (wrap ''get pod: '' e))
                  else apply_pod L K pipe (om_Name (cm_Meta cm)) newHash
            }
        })"

section \<open>Reconcile\<close>

definition reconcile_deletion ::
  "lib \<Rightarrow> 'w KubeClient \<Rightarrow> 'w StreamsClient \<Rightarrow> Pipeline \<Rightarrow> ('w traced, outcome) state" where
  "reconcile_deletion L K S pipe =
     (if ContainsFinalizer L (om_Finalizers (p_Meta pipe)) finalizerName then do {
        e \<leftarrow> deleteAssignedStream S pipe;
        case e of
          Some e \<Rightarrow> State_Monad.return (ok, Some e)
        | None \<Rightarrow> do {
            let m = p_Meta pipe;
            let pipe' = pipe\<lparr>p_Meta := m\<lparr>om_Finalizers := RemoveFinalizer L (om_Finalizers m) finalizerName\<rparr>\<rparr>;
            err \<leftarrow> call (Update_Pipeline K pipe') (UpdatePipeline pipe');
            State_Monad.return (ok, err)
          }
      }
      else State_Monad.return (ok, None))"

definition reconcile_live ::
  "lib \<Rightarrow> 'w KubeClient \<Rightarrow> 'w StreamsClient \<Rightarrow> Pipeline \<Rightarrow> ('w traced, outcome) state" where
  "reconcile_live L K S pipe =
     (let m = p_Meta pipe; (fs, added) = AddFinalizer L (om_Finalizers m) finalizerName in
      if added then do {
        let pipe' = pipe\<lparr>p_Meta := m\<lparr>om_Finalizers := fs\<rparr>\<rparr>;
        err \<leftarrow> call (Update_Pipeline K pipe') (UpdatePipeline pipe');
        State_Monad.return (case err of Some e \<Rightarrow> (ok, Some e) | None \<Rightarrow> (requeue, None))
      }
      else if ps_Stopped (p_Spec pipe) then handleStopped L K S pipe
      else case ps_ProjectRef (p_Spec pipe) of
        Some ref \<Rightarrow> handleProjectAssigned L K S pipe (pr_Name ref)
      | None \<Rightarrow>
          if ps_ClusterRef (p_Spec pipe) \<noteq> ''''
          then handleClusterAssigned L K S pipe (ps_ClusterRef (p_Spec pipe)) None
          else if pst_AssignedInstance (p_Status pipe) \<noteq> '''' then handleClusterFallback L K S pipe
          else reconcile_pod L K pipe)"

definition Reconcile ::
  "lib \<Rightarrow> 'w KubeClient \<Rightarrow> 'w StreamsClient \<Rightarrow> string \<Rightarrow> string \<Rightarrow> ('w traced, outcome) state" where
  "Reconcile L K S name namespace = do {
     r \<leftarrow> call (Get_Pipeline K name namespace) (GetPipeline name namespace);
     case r of
       Inl e \<Rightarrow> State_Monad.return (ok, IgnoreNotFound (Some e))
     | Inr pipe \<Rightarrow>
         if om_Deleting (p_Meta pipe) then reconcile_deletion L K S pipe
         else reconcile_live L K S pipe
   }"

section \<open>Watches\<close>

definition pipelinesForSecret :: "'w KubeClient \<Rightarrow> string \<Rightarrow> string \<Rightarrow> ('w, (string \<times> string) list) state" where
  "pipelinesForSecret K name namespace = do {
     r \<leftarrow> List_PipelinesBySecret K namespace name;
     State_Monad.return (case r of Inl e \<Rightarrow> [] | Inr pipes \<Rightarrow> map (\<lambda>p. (p_Namespace p, p_Name p)) pipes)
   }"

definition pipelinesForProject :: "'w KubeClient \<Rightarrow> PipelineProject \<Rightarrow> ('w, (string \<times> string) list) state" where
  "pipelinesForProject K project = do {
     r \<leftarrow> List_Pipelines K (pj_Namespace project);
     State_Monad.return (case r of
       Inl e \<Rightarrow> []
     | Inr pipes \<Rightarrow> map (\<lambda>p. (p_Namespace p, p_Name p))
         (filter (\<lambda>p. case ps_ProjectRef (p_Spec p) of None \<Rightarrow> False | Some ref \<Rightarrow> pr_Name ref = pj_Name project) pipes))
   }"

text \<open>\<open>equality.Semantic.DeepEqual\<close> does not tell a nil slice from an empty one.\<close>

definition projectChangeRedeploysMembers :: "PipelineProject \<Rightarrow> PipelineProject \<Rightarrow> bool" where
  "projectChangeRedeploysMembers oldP newP =
     (if om_Generation (pj_Meta oldP) \<noteq> om_Generation (pj_Meta newP) then True
      else slice (pjt_CacheResources (pj_Status oldP)) \<noteq> slice (pjt_CacheResources (pj_Status newP)))"

text \<open>The field index behind \<open>List_PipelinesBySecret\<close>.\<close>

definition secretNameIndex :: "Pipeline \<Rightarrow> string list" where
  "secretNameIndex pipe = map sr_SecretName (ps_SecretRefs (p_Spec pipe))"

section \<open>Which calls a mode makes\<close>

text \<open>
  The calls each mode of the reconciler may make, with the constraint each of them obeys; a
  status write never touches the spec or the metadata, and only the finalizer handling writes
  the object itself.
\<close>

definition same_object :: "Pipeline \<Rightarrow> Pipeline \<Rightarrow> bool" where
  "same_object pipe p \<longleftrightarrow> p_Spec p = p_Spec pipe \<and> p_Meta p = p_Meta pipe"

definition stream_mode_event :: "Pipeline \<Rightarrow> event \<Rightarrow> bool" where
  "stream_mode_event pipe e = (case e of
      GetPipelineCluster n ns r \<Rightarrow> ns = p_Namespace pipe
    | GetPipelineProject n ns r \<Rightarrow> ns = p_Namespace pipe
    | GetSecret n ns r \<Rightarrow> ns = p_Namespace pipe
    | ListPods ns l r \<Rightarrow> ns = p_Namespace pipe
    | ListPipelines ns r \<Rightarrow> ns = p_Namespace pipe
    | DeletePod n ns r \<Rightarrow> n = p_Name pipe \<and> ns = p_Namespace pipe
    | DeleteConfigMap n ns r \<Rightarrow> n = p_Name pipe @ ''-config'' \<and> ns = p_Namespace pipe
    | DeletePodMonitor n ns r \<Rightarrow> n = p_Name pipe \<and> ns = p_Namespace pipe
    | StreamEnsured u i b r \<Rightarrow> i = p_Name pipe
    | StreamDeleted u i r \<Rightarrow> i = p_Name pipe
    | StreamRead u i r \<Rightarrow> i = p_Name pipe
    | UpdateStatus p r \<Rightarrow> same_object pipe p
    | _ \<Rightarrow> False)"

definition pod_mode_event :: "Pipeline \<Rightarrow> event \<Rightarrow> bool" where
  "pod_mode_event pipe e = (case e of
      ApplyConfigMap n ns r \<Rightarrow> n = p_Name pipe @ ''-config'' \<and> ns = p_Namespace pipe
    | GetPod n ns r \<Rightarrow> n = p_Name pipe \<and> ns = p_Namespace pipe
    | DeletePod n ns r \<Rightarrow> True
    | ApplyPod n ns r \<Rightarrow> n = p_Name pipe \<and> ns = p_Namespace pipe
    | ApplyPodMonitor n ns r \<Rightarrow> n = p_Name pipe \<and> ns = p_Namespace pipe
    | UpdateStatus p r \<Rightarrow> same_object pipe p
    | _ \<Rightarrow> False)"

definition unplaced :: "Pipeline \<Rightarrow> bool" where
  "unplaced p \<longleftrightarrow> pst_AssignedCluster (p_Status p) = '''' \<and> pst_AssignedInstance (p_Status p) = '''' \<and>
     pst_StreamID (p_Status p) = ''''"

definition stop_event :: "Pipeline \<Rightarrow> event \<Rightarrow> bool" where
  "stop_event pipe e = (case e of
      StreamDeleted u i r \<Rightarrow> i = p_Name pipe
    | DeletePod n ns r \<Rightarrow> n = p_Name pipe \<and> ns = p_Namespace pipe
    | UpdateStatus p r \<Rightarrow> same_object pipe p \<and> unplaced p
    | _ \<Rightarrow> False)"

definition finalizer_event :: "Pipeline \<Rightarrow> event \<Rightarrow> bool" where
  "finalizer_event pipe e = (case e of
      StreamDeleted u i r \<Rightarrow> i = p_Name pipe
    | UpdatePipeline p r \<Rightarrow> p_Spec p = p_Spec pipe \<and> p_Status p = p_Status pipe \<and>
        (\<exists>fs. p_Meta p = (p_Meta pipe)\<lparr>om_Finalizers := fs\<rparr>)
    | _ \<Rightarrow> False)"

lemmas event_defs = stream_mode_event_def pod_mode_event_def stop_event_def finalizer_event_def

lemma cond_differs_same: "same_condition c' c \<Longrightarrow> \<not> cond_differs (Some c') c"
  by (simp add: cond_differs_def same_condition_def)

lemma same_object_set_cluster_status [simp]: "same_object pipe (set_cluster_status L ph ac ai si h c sa pipe)"
  by (simp add: same_object_def set_cluster_status_def Let_def)

lemma same_object_set_stopped_status [simp]: "same_object pipe (set_stopped_status L pipe)"
  by (simp add: same_object_def set_stopped_status_def Let_def)

lemma same_object_set_pod_status [simp]: "same_object pipe (set_pod_status L pipe pod)"
  by (simp add: same_object_def set_pod_status_def Let_def)

lemma same_object_status_update [simp]: "same_object pipe (pipe\<lparr>p_Status := st\<rparr>)"
  by (simp add: same_object_def)

lemma unplaced_set_stopped_status [simp]: "unplaced (set_stopped_status L pipe)"
  by (simp add: unplaced_def set_stopped_status_def Let_def)

lemma emits_case_prod [emits_intros]:
  "(\<And>a b. r = (a, b) \<Longrightarrow> emits P (f a b)) \<Longrightarrow> emits P (case r of (a, b) \<Rightarrow> f a b)"
  by (cases r) auto

lemma emits_case_kind [emits_intros]:
  assumes "\<And>a b c. k = ConfigRejectedError a b c \<Longrightarrow> emits P (f a b c)" and "emits P g"
  shows "emits P (case k of ConfigRejectedError a b c \<Rightarrow> f a b c | _ \<Rightarrow> g)"
  using assms by (cases k) auto

lemma emits_writeClusterStatus [emits_intros]:
  "(\<And>r. P (UpdateStatus (set_cluster_status L ph ac ai si h c sa pipe) r)) \<Longrightarrow>
     emits P (writeClusterStatus L K pipe ph ac ai si h c sa d)"
  unfolding writeClusterStatus_def by (intro emits_intros) simp

lemma emits_markClusterFailed [emits_intros]:
  "(\<And>ph c r. P (UpdateStatus (set_cluster_status L ph '''' '''' '''' '''' c None pipe) r)) \<Longrightarrow>
     emits P (markClusterFailed L K pipe reason msg d)"
  unfolding markClusterFailed_def by (intro emits_intros)

lemma emits_markClusterPending [emits_intros]:
  "(\<And>ph c r. P (UpdateStatus (set_cluster_status L ph '''' '''' '''' '''' c None pipe) r)) \<Longrightarrow>
     emits P (markClusterPending L K pipe reason msg)"
  unfolding markClusterPending_def by (intro emits_intros)

lemma emits_deleteAssignedStream [emits_intros]:
  "(\<And>u r. P (StreamDeleted u (p_Name pipe) r)) \<Longrightarrow> emits P (deleteAssignedStream S pipe)"
  unfolding deleteAssignedStream_def by (intro emits_intros) simp

lemma emits_migrateFromOldCluster [emits_intros]:
  "(\<And>u r. P (StreamDeleted u (p_Name pipe) r)) \<Longrightarrow> emits P (migrateFromOldCluster S pipe c)"
  unfolding migrateFromOldCluster_def by (intro emits_intros) simp

lemma emits_fetch_secrets [emits_intros]:
  "(\<And>n r. P (GetSecret n ns r)) \<Longrightarrow> emits P (fetch_secrets K ns refs secrets)"
  by (induction refs arbitrary: secrets) (auto intro!: emits_intros)

lemma emits_fetchSecretValues [emits_intros]:
  "(\<And>n r. P (GetSecret n ns r)) \<Longrightarrow> emits P (fetchSecretValues K ns refs)"
  unfolding fetchSecretValues_def by (intro emits_intros)

lemma emits_deploy_on:
  "emits (stream_mode_event pipe) (deploy_on L K S pipe cn ordinal body)"
  unfolding deploy_on_def need_deploy_def ensureStreamPresent_def streamActiveCondition_def
  by (intro emits_intros; simp add: stream_mode_event_def)

lemma emits_stream_body: "emits (stream_mode_event pipe) (stream_body L K pipe ioPlan)"
  unfolding stream_body_def by (intro emits_intros; simp add: stream_mode_event_def)

lemma emits_handleClusterAssigned:
  "emits (stream_mode_event pipe) (handleClusterAssigned L K S pipe clusterName ioPlan)"
  unfolding handleClusterAssigned_def schedule_and_deploy_def deploy_ready_def deletePodModeChildren_def
    readyClusterOrdinals_def loadByOrdinal_def
  by (intro emits_intros emits_deploy_on emits_stream_body; simp add: stream_mode_event_def)

lemma emits_handleProjectAssigned:
  "emits (stream_mode_event pipe) (handleProjectAssigned L K S pipe projectName)"
  unfolding handleProjectAssigned_def
  by (intro emits_intros emits_handleClusterAssigned; simp add: stream_mode_event_def)

lemma emits_handleClusterFallback: "emits (stop_event pipe) (handleClusterFallback L K S pipe)"
  unfolding handleClusterFallback_def
  by (intro emits_intros; simp add: stop_event_def unplaced_def)

lemma emits_handleStopped: "emits (stop_event pipe) (handleStopped L K S pipe)"
  unfolding handleStopped_def by (intro emits_intros; simp add: stop_event_def)

lemma emits_reconcile_pod: "emits (pod_mode_event pipe) (reconcile_pod L K pipe)"
  unfolding reconcile_pod_def markFailed_def apply_pod_def apply_pod_monitor_def
  by (intro emits_intros; simp add: pod_mode_event_def)

lemma emits_reconcile_deletion: "emits (finalizer_event pipe) (reconcile_deletion L K S pipe)"
  unfolding reconcile_deletion_def by (intro emits_intros; auto simp: finalizer_event_def)

section \<open>Traces of the parts\<close>

text \<open>Where the status says a pipeline's stream is: the cluster and the ordinal.\<close>

definition placement :: "Pipeline \<Rightarrow> (string \<times> int) option" where
  "placement pipe =
     (let ac = pst_AssignedCluster (p_Status pipe); ai = pst_AssignedInstance (p_Status pipe) in
      if ac = '''' \<or> ai = '''' then None else map_option (Pair ac) (ordinalFromPodName ai ac))"

lemma always_let [always_intros]: "always (f v) Q tr \<Longrightarrow> always (let x = v in f x) Q tr"
  by simp

lemma always_deleteAssignedStream [always_intros]:
  assumes "placement pipe = None \<Longrightarrow> Q None tr"
    and "\<And>c k e. placement pipe = Some (c, k) \<Longrightarrow>
      Q (map_option (wrap ''delete assigned stream: '') e)
        (tr @ [StreamDeleted (clusterPodURL c (p_Namespace pipe) k) (p_Name pipe) e])"
  shows "always (deleteAssignedStream S pipe) Q tr"
  using assms unfolding deleteAssignedStream_def
  by (auto simp: placement_def Let_def intro!: always_intros split: option.split)

lemma always_writeClusterStatus [always_intros]:
  assumes "\<not> cluster_status_changed L ph ac ai si h c sa pipe \<Longrightarrow> Q (requeue_after d, None) tr"
    and "\<And>r. Q (after_status_update (requeue_after d) r)
      (tr @ [UpdateStatus (set_cluster_status L ph ac ai si h c sa pipe) r])"
  shows "always (writeClusterStatus L K pipe ph ac ai si h c sa d) Q tr"
  using assms unfolding writeClusterStatus_def by (auto intro!: always_intros)

lemma always_case_kind [always_intros]:
  assumes "\<And>a b c. k = ConfigRejectedError a b c \<Longrightarrow> always (f a b c) Q tr"
    and "(\<And>a b c. k \<noteq> ConfigRejectedError a b c) \<Longrightarrow> always g Q tr"
  shows "always (case k of ConfigRejectedError a b c \<Rightarrow> f a b c | _ \<Rightarrow> g) Q tr"
  using assms by (cases k) auto

lemma Reconcile_run:
  assumes "run_state (Reconcile L K S n ns) (w, []) = (out, (w', tr))"
    and "GetPipeline n ns (Inr pipe) \<in> set tr"
  obtains w1 where "run_state (if om_Deleting (p_Meta pipe) then reconcile_deletion L K S pipe
      else reconcile_live L K S pipe) (w1, [GetPipeline n ns (Inr pipe)]) = (out, (w', tr))"
proof -
  obtain r w1 where r: "run_state (Get_Pipeline K n ns) w = (r, w1)" by fastforce
  show thesis
  proof (cases r)
    case (Inl e)
    with assms r show thesis by (auto simp: Reconcile_def run_call)
  next
    case (Inr q)
    let ?m = "if om_Deleting (p_Meta q) then reconcile_deletion L K S q else reconcile_live L K S q"
    have run: "run_state ?m (w1, [GetPipeline n ns (Inr q)]) = (out, (w', tr))"
      using assms(1) r Inr by (simp add: Reconcile_def run_call)
    have "emits (\<lambda>e. \<forall>p. e \<noteq> GetPipeline n ns (Inr p)) ?m"
      unfolding reconcile_live_def
      by (intro emits_intros emits_mono [OF emits_handleStopped] emits_mono [OF emits_handleProjectAssigned]
          emits_mono [OF emits_handleClusterAssigned] emits_mono [OF emits_handleClusterFallback]
          emits_mono [OF emits_reconcile_pod] emits_mono [OF emits_reconcile_deletion];
          auto simp: event_defs)
    from emits_run [OF this run] assms(2) have "pipe = q" by (auto simp: list_all_iff)
    with run that show thesis by blast
  qed
qed

text \<open>What the deletion path does, call by call.\<close>

lemma always_reconcile_deletion:
  "always (reconcile_deletion L K S pipe)
     (\<lambda>out tr'. \<forall>p e. UpdatePipeline p e \<in> set tr' \<longrightarrow> UpdatePipeline p e \<notin> set tr \<longrightarrow>
        (\<forall>c k. placement pipe = Some (c, k) \<longrightarrow>
           tr' = tr @ [StreamDeleted (clusterPodURL c (p_Namespace pipe) k) (p_Name pipe) None,
                       UpdatePipeline p e])) tr"
  unfolding reconcile_deletion_def by (intro always_intros) auto

section \<open>Deploying only on ready instances\<close>

definition ready_in :: "event set \<Rightarrow> string \<Rightarrow> string \<Rightarrow> int \<Rightarrow> bool" where
  "ready_in E ns cn k \<longleftrightarrow> (\<exists>pods pod. ListPods ns (clusterLabelKey, cn) (Inr pods) \<in> E \<and> pod \<in> set pods \<and>
     isPodReady pod \<and> ordinalFromPodName (pod_Name pod) cn = Some k)"

definition deploy_ok :: "Pipeline \<Rightarrow> event set \<Rightarrow> event \<Rightarrow> bool" where
  "deploy_ok pipe E e = (case e of
      StreamEnsured u i b r \<Rightarrow> \<exists>cn k. u = clusterPodURL cn (p_Namespace pipe) k \<and> ready_in E (p_Namespace pipe) cn k
    | UpdateStatus p r \<Rightarrow> pst_Phase (p_Status p) = PhaseRunning \<longrightarrow>
        (\<exists>cn k. pst_AssignedCluster (p_Status p) = cn \<and> pst_AssignedInstance (p_Status p) = instanceName cn k \<and>
           ready_in E (p_Namespace pipe) cn k)
    | _ \<Rightarrow> True)"

definition deploys_ok :: "Pipeline \<Rightarrow> event list \<Rightarrow> bool" where
  "deploys_ok pipe tr \<longleftrightarrow> (\<forall>e\<in>set tr. deploy_ok pipe (set tr) e)"

lemma ready_in_mono: "ready_in E ns cn k \<Longrightarrow> E \<subseteq> E' \<Longrightarrow> ready_in E' ns cn k"
  by (auto simp: ready_in_def)

lemma deploy_ok_mono: "deploy_ok pipe E e \<Longrightarrow> E \<subseteq> E' \<Longrightarrow> deploy_ok pipe E' e"
  by (cases e) (auto simp: deploy_ok_def dest: ready_in_mono)

lemma deploys_ok_snoc:
  "deploys_ok pipe tr \<Longrightarrow> deploy_ok pipe (set tr) e \<Longrightarrow> deploys_ok pipe (tr @ [e])"
  unfolding deploys_ok_def by (auto elim!: deploy_ok_mono)

lemma always_deploys_ok:
  assumes "emits (deploy_ok pipe (set tr)) m" and "deploys_ok pipe tr"
  shows "always m (\<lambda>_ tr'. set tr \<subseteq> set tr' \<and> deploys_ok pipe tr') tr"
proof -
  have "deploys_ok pipe (tr @ evs)" if "list_all (deploy_ok pipe (set tr)) evs" for evs
    using assms(2) that unfolding deploys_ok_def list_all_iff by (auto elim!: deploy_ok_mono)
  moreover have "always m (\<lambda>_ tr'. \<exists>evs. tr' = tr @ evs \<and> list_all (deploy_ok pipe (set tr)) evs) tr"
    using assms(1) by (simp add: emits_def)
  ultimately show ?thesis by (auto elim!: always_mono)
qed

lemma emits_deploy_on_ready:
  assumes "ready_in E (p_Namespace pipe) cn ordinal"
  shows "emits (deploy_ok pipe E) (deploy_on L K S pipe cn ordinal body)"
  unfolding deploy_on_def need_deploy_def ensureStreamPresent_def streamActiveCondition_def markClusterFailed_def
  by (intro emits_intros; use assms in \<open>auto simp: deploy_ok_def set_cluster_status_def Let_def\<close>)

lemma emits_quiet:
  assumes "emits P m" and "\<And>e. P e \<Longrightarrow> (case e of StreamEnsured u i b r \<Rightarrow> False
      | UpdateStatus p r \<Rightarrow> pst_Phase (p_Status p) \<noteq> PhaseRunning | _ \<Rightarrow> True)"
  shows "emits (deploy_ok pipe E) m"
  using assms(1)
proof (rule emits_mono)
  fix e
  assume "P e"
  from assms(2) [OF this] show "deploy_ok pipe E e" by (cases e) (auto simp: deploy_ok_def)
qed

lemma deploys_ok_quiet_call:
  "deploys_ok pipe tr \<Longrightarrow> (case e of StreamEnsured u i b r \<Rightarrow> False
      | UpdateStatus p r \<Rightarrow> pst_Phase (p_Status p) \<noteq> PhaseRunning | _ \<Rightarrow> True) \<Longrightarrow> deploys_ok pipe (tr @ [e])"
  by (erule deploys_ok_snoc) (cases e; simp add: deploy_ok_def)

lemma pick_ready_in:
  assumes "pickInstance cur cn (readyOrdinals_of cn pods) load = Some k"
    and "ListPods ns (clusterLabelKey, cn) (Inr pods) \<in> E"
  shows "ready_in E ns cn k"
  using pickInstance_in_ready [OF assms(1)] assms(2) by (auto simp: readyOrdinals_of_iff ready_in_def)

definition quiet_event :: "event \<Rightarrow> bool" where
  "quiet_event e = (case e of StreamEnsured u i b r \<Rightarrow> False
      | UpdateStatus p r \<Rightarrow> pst_Phase (p_Status p) \<noteq> PhaseRunning | _ \<Rightarrow> True)"

lemma phase_set_cluster_status [simp]: "pst_Phase (p_Status (set_cluster_status L ph ac ai si h c sa pipe)) = ph"
  by (simp add: set_cluster_status_def Let_def)

lemma quiet_parts [emits_intros]:
  "emits quiet_event (stream_body L K pipe ioPlan)"
  "emits quiet_event (deletePodModeChildren K pipe)"
  "emits quiet_event (migrateFromOldCluster S pipe cn)"
  "emits quiet_event (markClusterFailed L K pipe reason msg d)"
  "emits quiet_event (markClusterPending L K pipe reason msg)"
  unfolding stream_body_def deletePodModeChildren_def markClusterFailed_def markClusterPending_def
  by (intro emits_intros; simp add: quiet_event_def)+

lemma always_quiet:
  assumes "emits quiet_event m" and "deploys_ok pipe tr" and "\<And>a tr'. set tr \<subseteq> set tr' \<Longrightarrow> deploys_ok pipe tr' \<Longrightarrow> Q a tr'"
  shows "always m Q tr"
proof -
  have "emits (deploy_ok pipe (set tr)) m"
    using assms(1) by (rule emits_quiet) (auto simp: quiet_event_def split: event.splits)
  from always_deploys_ok [OF this assms(2)] assms(3) show ?thesis by (auto elim!: always_mono)
qed

lemma always_readyClusterOrdinals [always_intros]:
  assumes "\<And>e. Q (Inl e) (tr @ [ListPods ns (clusterLabelKey, cn) (Inl e)])"
    and "\<And>pods. Q (Inr (readyOrdinals_of cn pods)) (tr @ [ListPods ns (clusterLabelKey, cn) (Inr pods)])"
  shows "always (readyClusterOrdinals K cn ns) Q tr"
  unfolding readyClusterOrdinals_def using assms by (auto intro!: always_intros split: sum.split)

lemma always_loadByOrdinal [always_intros]:
  assumes "\<And>e. Q (Inl e) (tr @ [ListPipelines ns (Inl e)])"
    and "\<And>pipes. Q (Inr (load_of cn ex pipes (\<lambda>_. 0))) (tr @ [ListPipelines ns (Inr pipes)])"
  shows "always (loadByOrdinal K cn ns ex) Q tr"
  unfolding loadByOrdinal_def using assms by (auto intro!: always_intros split: sum.split)

lemma always_deploy_ready:
  assumes ok: "deploys_ok pipe tr"
    and pods: "ListPods (p_Namespace pipe) (clusterLabelKey, cn) (Inr pods) \<in> set tr"
  shows "always (deploy_ready L K S pipe cn ioPlan (readyOrdinals_of cn pods) load) (\<lambda>_ tr'. deploys_ok pipe tr') tr"
proof -
  let ?cur = "if pst_AssignedCluster (p_Status pipe) = cn then pst_AssignedInstance (p_Status pipe) else ''''"
  show ?thesis
  proof (cases "pickInstance ?cur cn (readyOrdinals_of cn pods) load")
    case None
    then show ?thesis unfolding deploy_ready_def Let_def
      by (simp, intro always_quiet [OF quiet_parts(5) ok])
  next
    case (Some k)
    have "always (case b of Inl failure \<Rightarrow> markClusterFailed L K pipe (fst failure) (snd failure) 0
        | Inr body \<Rightarrow> deploy_on L K S pipe cn k body) (\<lambda>_ tr'. deploys_ok pipe tr') tr'"
      if tr': "set tr \<subseteq> set tr'" "deploys_ok pipe tr'" for b tr'
    proof (intro always_intros)
      fix failure
      show "always (markClusterFailed L K pipe (fst failure) (snd failure) 0) (\<lambda>_ tr'. deploys_ok pipe tr') tr'"
        by (intro always_quiet [OF quiet_parts(4) tr'(2)])
    next
      fix body
      have "ready_in (set tr') (p_Namespace pipe) cn k"
        using pick_ready_in [OF Some] pods tr'(1) by blast
      from always_deploys_ok [OF emits_deploy_on_ready [OF this] tr'(2)]
      show "always (deploy_on L K S pipe cn k body) (\<lambda>_ tr'. deploys_ok pipe tr') tr'"
        by (rule always_mono) simp
    qed
    then have "always (stream_body L K pipe ioPlan) (\<lambda>b. always (case b of
          Inl failure \<Rightarrow> markClusterFailed L K pipe (fst failure) (snd failure) 0
        | Inr body \<Rightarrow> deploy_on L K S pipe cn k body) (\<lambda>_ tr'. deploys_ok pipe tr')) tr"
      by (intro always_quiet [OF quiet_parts(1) ok])
    with Some show ?thesis unfolding deploy_ready_def Let_def by (auto intro!: always_bind)
  qed
qed

lemma always_schedule_and_deploy:
  assumes "deploys_ok pipe tr"
  shows "always (schedule_and_deploy L K S pipe cn ioPlan) (\<lambda>_ tr'. deploys_ok pipe tr') tr"
proof -
  have step: "deploys_ok pipe (tr' @ [ListPods ns l r])" "deploys_ok pipe (tr' @ [ListPipelines ns r'])"
    if "deploys_ok pipe tr'" for tr' ns l r r'
    using that by (auto intro: deploys_ok_quiet_call)
  note ok = step(1) [OF assms] step(2) [OF step(1) [OF assms], simplified]
  show ?thesis
    unfolding schedule_and_deploy_def
    by (intro always_intros; simp add: ok; clarsimp; intro always_deploy_ready ok; simp)
qed

lemma always_handleClusterAssigned:
  assumes "deploys_ok pipe tr"
  shows "always (handleClusterAssigned L K S pipe clusterName ioPlan) (\<lambda>_ tr'. deploys_ok pipe tr') tr"
proof -
  have ok: "deploys_ok pipe (tr @ [GetPipelineCluster clusterName (p_Namespace pipe) r])" for r
    using assms by (auto intro: deploys_ok_quiet_call)
  have migrate: "always (migrateFromOldCluster S pipe cn) (\<lambda>e. always (case e of
        Some e \<Rightarrow> State_Monad.return (ok, Some e) | None \<Rightarrow> schedule_and_deploy L K S pipe cn ioPlan)
        (\<lambda>_ tr'. deploys_ok pipe tr')) tr'" if "deploys_ok pipe tr'" for cn tr'
    by (intro always_quiet [OF quiet_parts(3) that] always_intros always_schedule_and_deploy)
  have children: "always (deletePodModeChildren K pipe) (\<lambda>e. always (case e of
        Some e \<Rightarrow> State_Monad.return (ok, Some e)
      | None \<Rightarrow> migrateFromOldCluster S pipe cn \<bind> (\<lambda>e. case e of
          Some e \<Rightarrow> State_Monad.return (ok, Some e) | None \<Rightarrow> schedule_and_deploy L K S pipe cn ioPlan))
        (\<lambda>_ tr'. deploys_ok pipe tr')) tr'" if "deploys_ok pipe tr'" for cn tr'
    by (intro always_quiet [OF quiet_parts(2) that] always_case_option always_return always_bind migrate)
  show ?thesis
    unfolding handleClusterAssigned_def
    by (intro always_bind always_call always_case_sum always_if always_return children ok
        always_quiet [OF quiet_parts(4) ok])
qed

lemma always_handleProjectAssigned:
  assumes "deploys_ok pipe tr"
  shows "always (handleProjectAssigned L K S pipe projectName) (\<lambda>_ tr'. deploys_ok pipe tr') tr"
proof -
  have ok: "deploys_ok pipe (tr @ [GetPipelineProject projectName (p_Namespace pipe) r])" for r
    using assms by (auto intro: deploys_ok_quiet_call)
  show ?thesis
    unfolding handleProjectAssigned_def
    by (intro always_bind always_call always_case_sum always_if always_let always_return ok
        always_quiet [OF quiet_parts(4) ok] always_handleClusterAssigned)
qed

end
