(* ===== verification/Rpc_Cluster.thy ===== *)
theory Rpc_Cluster
  imports Rpc_Pipeline
begin

text \<open>
  The PipelineCluster reconciler: \<^verbatim>\<open>internal/controller/pipelinecluster_resources.go\<close> (the
  objects a cluster consists of) and \<^verbatim>\<open>pipelinecluster_controller.go\<close>. A callback passed to
  \<open>controllerutil.CreateOrUpdate\<close> is a \<open>mutate\<close> function of its own.
\<close>

section \<open>Resources\<close>

definition clusterConfigFile :: string where
  "clusterConfigFile = ''connect.yaml''"

definition newline :: string where
  "newline = [CHR 0x0A]"

definition clusterConfigYAML :: "bool \<Rightarrow> string" where
  "clusterConfigYAML jsonLogging =
     (let format = (if jsonLogging then ''json'' else ''logfmt'') in
      ''http:'' @ newline @
      ''  address: 0.0.0.0:'' @ itoa httpPort @ newline @
      ''  enabled: true'' @ newline @
      ''logger:'' @ newline @
      ''  level: INFO'' @ newline @
      ''  format: '' @ format @ newline @
      ''  add_timestamp: true'' @ newline)"

definition buildClusterService :: "string \<Rightarrow> string \<Rightarrow> Service" where
  "buildClusterService clusterName svcName =
     \<lparr>svc_Meta = object_key svcName '''',
      svc_ClusterIP = ''None'',
      svc_PublishNotReadyAddresses = True,
      svc_Selector = [(clusterLabelKey, clusterName)],
      svc_Ports = [\<lparr>sp_Name = ''http'', sp_Port = httpPort, sp_TargetPort = ''http'', sp_Protocol = ''TCP''\<rparr>]\<rparr>"

definition clusterPodTemplate :: "string \<Rightarrow> ResourceRequirements \<Rightarrow> string \<Rightarrow> PodSpec" where
  "clusterPodTemplate img resources cmName =
     \<lparr>pds_RestartPolicy = '''',
      pds_TerminationGracePeriodSeconds = 30,
      pds_Security = restricted_pod_security rpcUID,
      pds_Containers =
        [\<lparr>ct_Name = ''connect'',
          ct_Image = img,
          ct_Args = [''-c'', configMountPath @ ''/'' @ clusterConfigFile, ''streams''],
          ct_Ports = [\<lparr>cp_Name = ''http'', cp_Port = httpPort, cp_Protocol = ''TCP''\<rparr>],
          ct_LivenessProbe = http_probe ''/ping'' 5 10,
          ct_ReadinessProbe = http_probe ''/ping'' 2 5,
          ct_Security = restricted_container_security,
          ct_Resources = resources,
          ct_Env = [],
          ct_VolumeMounts = [\<lparr>vm_Name = ''cfg'', vm_MountPath = configMountPath, vm_ReadOnly = True\<rparr>]\<rparr>],
      pds_Volumes =
        [\<lparr>cv_Name = ''cfg'', cv_ConfigMap = cmName, cv_Items = [(clusterConfigFile, clusterConfigFile)]\<rparr>]\<rparr>"

definition buildClusterStatefulSet ::
  "string \<Rightarrow> string \<Rightarrow> int \<Rightarrow> ResourceRequirements \<Rightarrow> string \<Rightarrow> string \<Rightarrow> StatefulSet" where
  "buildClusterStatefulSet clusterName img replicas resources cmName svcName =
     (let img = (if img = '''' then defaultImage else img);
          labels = [(clusterLabelKey, clusterName)]
      in \<lparr>ss_Meta = object_key clusterName '''',
          ss_Replicas = replicas,
          ss_ServiceName = svcName,
          ss_Selector = labels,
          ss_TemplateLabels = labels,
          ss_TemplateSpec = clusterPodTemplate img resources cmName,
          ss_VolumeClaimTemplates = [],
          ss_ReadyReplicas = 0\<rparr>)"

definition buildClusterPodMonitor :: "string \<Rightarrow> string \<Rightarrow> PodMonitor" where
  "buildClusterPodMonitor clusterName namespace =
     \<lparr>pm_Meta = object_key clusterName namespace,
      pm_Selector = [(clusterLabelKey, clusterName)],
      pm_Endpoints = [\<lparr>pme_Port = ''http'', pme_Path = ''/metrics'', pme_Interval = ''15s''\<rparr>]\<rparr>"

section \<open>Reconcile\<close>

abbreviation pc_Name :: "PipelineCluster \<Rightarrow> string" where
  "pc_Name c \<equiv> om_Name (pc_Meta c)"

abbreviation pc_Namespace :: "PipelineCluster \<Rightarrow> string" where
  "pc_Namespace c \<equiv> om_Namespace (pc_Meta c)"

definition clusterConfigMapName :: "PipelineCluster \<Rightarrow> string" where
  "clusterConfigMapName cluster = pc_Name cluster @ ''-config''"

definition mutate_cluster_config_map ::
  "'w KubeClient \<Rightarrow> PipelineCluster \<Rightarrow> ConfigMap \<Rightarrow> error + ConfigMap" where
  "mutate_cluster_config_map K cluster cm =
     (let cm = cm\<lparr>cm_Data := [(clusterConfigFile, clusterConfigYAML (pcs_JSONLogging (pc_Spec cluster)))]\<rparr>
      in own K (pc_Meta cluster) (cm_Meta cm) (\<lambda>m. cm\<lparr>cm_Meta := m\<rparr>))"

definition mutate_cluster_service ::
  "'w KubeClient \<Rightarrow> PipelineCluster \<Rightarrow> Service \<Rightarrow> error + Service" where
  "mutate_cluster_service K cluster svc =
     (let built = buildClusterService (pc_Name cluster) (pc_Name cluster);
          svc = svc\<lparr>svc_ClusterIP := svc_ClusterIP built, svc_Selector := svc_Selector built,
                    svc_Ports := svc_Ports built\<rparr>
      in own K (pc_Meta cluster) (svc_Meta svc) (\<lambda>m. svc\<lparr>svc_Meta := m\<rparr>))"

definition mutate_cluster_statefulset ::
  "'w KubeClient \<Rightarrow> PipelineCluster \<Rightarrow> StatefulSet \<Rightarrow> error + StatefulSet" where
  "mutate_cluster_statefulset K cluster ss =
     (let spec = pc_Spec cluster;
          built = buildClusterStatefulSet (pc_Name cluster) (pcs_Image spec) (pcs_Replicas spec)
                    (pcs_Resources spec) (clusterConfigMapName cluster) (pc_Name cluster);
          ss = (if \<not> om_Created (ss_Meta ss) then ss\<lparr>ss_Selector := ss_Selector built\<rparr> else ss);
          ss = ss\<lparr>ss_Replicas := ss_Replicas built, ss_ServiceName := ss_ServiceName built,
                  ss_TemplateLabels := ss_TemplateLabels built, ss_TemplateSpec := ss_TemplateSpec built\<rparr>
      in own K (pc_Meta cluster) (ss_Meta ss) (\<lambda>m. ss\<lparr>ss_Meta := m\<rparr>))"

definition mutate_cluster_pod_monitor ::
  "'w KubeClient \<Rightarrow> PipelineCluster \<Rightarrow> PodMonitor \<Rightarrow> error + PodMonitor" where
  "mutate_cluster_pod_monitor K cluster pm =
     (let built = buildClusterPodMonitor (pc_Name cluster) (pc_Namespace cluster);
          pm = pm\<lparr>pm_Selector := pm_Selector built, pm_Endpoints := pm_Endpoints built\<rparr>
      in own K (pc_Meta cluster) (pm_Meta pm) (\<lambda>m. pm\<lparr>pm_Meta := m\<rparr>))"

definition clusterPhase :: "int \<Rightarrow> int \<Rightarrow> PipelineClusterPhase" where
  "clusterPhase ready desired =
     (if ready \<ge> desired \<and> desired > 0 then ClusterPhaseReady
      else if ready > 0 then ClusterPhaseDegraded
      else ClusterPhasePending)"

definition clusterCondition :: "int \<Rightarrow> int \<Rightarrow> Condition" where
  "clusterCondition ready desired =
     (let msg = itoa ready @ ''/'' @ itoa desired @ '' instances ready'' in
      if clusterPhase ready desired = ClusterPhaseReady
      then mkCondition ''Ready'' ConditionTrue ''AllReady'' msg
      else mkCondition ''Ready'' ConditionFalse ''ScalingUp'' msg)"

definition clusterStatusChanged :: "lib \<Rightarrow> PipelineCluster \<Rightarrow> int \<Rightarrow> bool" where
  "clusterStatusChanged L cluster ready =
     (let st = pc_Status cluster; desired = pcs_Replicas (pc_Spec cluster) in
      cond_differs (FindStatusCondition L (pct_Conditions st) ''Ready'') (clusterCondition ready desired) \<or>
      pct_Phase st \<noteq> clusterPhase ready desired \<or> pct_ReadyReplicas st \<noteq> ready \<or>
      pct_ObservedGeneration st \<noteq> om_Generation (pc_Meta cluster))"

definition setClusterStatus :: "lib \<Rightarrow> PipelineCluster \<Rightarrow> int \<Rightarrow> PipelineCluster" where
  "setClusterStatus L cluster ready =
     (let st = pc_Status cluster; desired = pcs_Replicas (pc_Spec cluster) in
      cluster\<lparr>pc_Status := st\<lparr>pct_Phase := clusterPhase ready desired, pct_ReadyReplicas := ready,
        pct_ObservedGeneration := om_Generation (pc_Meta cluster),
        pct_Conditions := SetStatusCondition L (clusterCondition ready desired) (pct_Conditions st)\<rparr>\<rparr>)"

definition reconcile_cluster_status ::
  "lib \<Rightarrow> 'w KubeClient \<Rightarrow> PipelineCluster \<Rightarrow> int \<Rightarrow> ('w traced, outcome) state" where
  "reconcile_cluster_status L K cluster ready =
     (if clusterStatusChanged L cluster ready then do {
        let cluster' = setClusterStatus L cluster ready;
        err \<leftarrow> call (StatusUpdate_PipelineCluster K cluster') (UpdateClusterStatus cluster');
        State_Monad.return (after_status_update ok err)
      }
      else State_Monad.return (ok, None))"

definition apply_cluster_pod_monitor ::
  "'w KubeClient \<Rightarrow> PipelineCluster \<Rightarrow> ('w traced, error option) state" where
  "apply_cluster_pod_monitor K cluster = do {
     r \<leftarrow> call (CreateOrUpdate_PodMonitor K (pc_Name cluster) (pc_Namespace cluster)
               (mutate_cluster_pod_monitor K cluster))
             (ApplyPodMonitor (pc_Name cluster) (pc_Namespace cluster));
     State_Monad.return (case r of
       Inl e \<Rightarrow> if err_kind e = NoMatch \<or> err_kind e = NotRegistered then None
                else Some (wrap ''apply podmonitor: '' e)
     | Inr _ \<Rightarrow> None)
   }"

definition reconcile_cluster_children ::
  "lib \<Rightarrow> 'w KubeClient \<Rightarrow> PipelineCluster \<Rightarrow> ('w traced, outcome) state" where
  "reconcile_cluster_children L K cluster = do {
     r1 \<leftarrow> call (CreateOrUpdate_ConfigMap K (clusterConfigMapName cluster) (pc_Namespace cluster)
                (mutate_cluster_config_map K cluster))
              (ApplyConfigMap (clusterConfigMapName cluster) (pc_Namespace cluster));
     case r1 of
       Inl e \<Rightarrow> State_Monad.return (ok, Some (wrap ''apply configmap: '' e))
     | Inr cm \<Rightarrow> do {
         r2 \<leftarrow> call (CreateOrUpdate_Service K (pc_Name cluster) (pc_Namespace cluster)
                    (mutate_cluster_service K cluster))
                  (ApplyService (pc_Name cluster) (pc_Namespace cluster));
         case r2 of
           Inl e \<Rightarrow> State_Monad.return (ok, Some (wrap ''apply service: '' e))
         | Inr svc \<Rightarrow> do {
             r3 \<leftarrow> call (CreateOrUpdate_StatefulSet K (pc_Name cluster) (pc_Namespace cluster)
                        (mutate_cluster_statefulset K cluster))
                      (ApplyStatefulSet (pc_Name cluster) (pc_Namespace cluster));
             case r3 of
               Inl e \<Rightarrow> State_Monad.return (ok, Some (wrap ''apply statefulset: '' e))
             | Inr ss \<Rightarrow> do {
                 e \<leftarrow> apply_cluster_pod_monitor K cluster;
                 case e of
                   Some e \<Rightarrow> State_Monad.return (ok, Some e)
                 | None \<Rightarrow> reconcile_cluster_status L K cluster (ss_ReadyReplicas ss)
               }
           }
       }
   }"

definition ReconcileCluster ::
  "lib \<Rightarrow> 'w KubeClient \<Rightarrow> string \<Rightarrow> string \<Rightarrow> ('w traced, outcome) state" where
  "ReconcileCluster L K name namespace = do {
     r \<leftarrow> call (Get_PipelineCluster K name namespace) (GetPipelineCluster name namespace);
     case r of
       Inl e \<Rightarrow> State_Monad.return (ok, IgnoreNotFound (Some e))
     | Inr cluster \<Rightarrow> reconcile_cluster_children L K cluster
   }"

section \<open>The children of a cluster fit together\<close>

lemma own_Inr: "own K owner m f = Inr x \<longleftrightarrow> (\<exists>m'. SetControllerReference K owner m = Inr m' \<and> x = f m')"
  by (auto simp: own_def split: sum.splits)

lemma clusterPodTemplate_consistent: "pod_consistent (clusterPodTemplate img res cm) []"
  by (simp add: pod_consistent_def container_consistent_def clusterPodTemplate_def http_probe_def)

lemma clusterPodTemplate_restricted: "pod_restricted (clusterPodTemplate img res cm)"
  by (simp add: pod_restricted_def clusterPodTemplate_def restricted_pod_security_def
      restricted_container_security_def rpcUID_def)

lemma mutate_cluster_service_Inr:
  "mutate_cluster_service K cluster svc = Inr svc' \<Longrightarrow>
     svc_ClusterIP svc' = ''None'' \<and> svc_Selector svc' = [(clusterLabelKey, pc_Name cluster)] \<and>
     svc_Ports svc' = [\<lparr>sp_Name = ''http'', sp_Port = httpPort, sp_TargetPort = ''http'', sp_Protocol = ''TCP''\<rparr>] \<and>
     svc_PublishNotReadyAddresses svc' = svc_PublishNotReadyAddresses svc"
  by (auto simp: mutate_cluster_service_def Let_def own_Inr buildClusterService_def)

lemma mutate_cluster_statefulset_Inr:
  "mutate_cluster_statefulset K cluster ss = Inr ss' \<Longrightarrow>
     ss_Replicas ss' = pcs_Replicas (pc_Spec cluster) \<and> ss_ServiceName ss' = pc_Name cluster \<and>
     ss_TemplateLabels ss' = [(clusterLabelKey, pc_Name cluster)] \<and>
     (\<exists>img. ss_TemplateSpec ss' = clusterPodTemplate img (pcs_Resources (pc_Spec cluster)) (clusterConfigMapName cluster)) \<and>
     ss_Selector ss' = (if om_Created (ss_Meta ss) then ss_Selector ss else [(clusterLabelKey, pc_Name cluster)])"
  by (auto simp: mutate_cluster_statefulset_def Let_def own_Inr buildClusterStatefulSet_def)

text \<open>
  The network name of an instance: the pod of a StatefulSet behind a headless Service is reached
  as pod name, service name, namespace, on the port of the Service.
\<close>

definition pod_dns_url :: "StatefulSet \<Rightarrow> string \<Rightarrow> Service \<Rightarrow> string \<Rightarrow> int \<Rightarrow> string" where
  "pod_dns_url ss name svc ns k =
     ''http://'' @ name @ ''-'' @ itoa k @ ''.'' @ ss_ServiceName ss @ ''.'' @ ns @ ''.svc:'' @
     itoa (sp_Port (hd (svc_Ports svc)))"

definition bare_pod_spec :: PodSpec where
  "bare_pod_spec = clusterPodTemplate '''' ([], []) ''''"

definition bare_service :: "string \<Rightarrow> Service" where
  "bare_service n = \<lparr>svc_Meta = object_key n ''ns'', svc_ClusterIP = '''', svc_PublishNotReadyAddresses = False,
     svc_Selector = [], svc_Ports = []\<rparr>"

definition bare_statefulset :: "string \<Rightarrow> StatefulSet" where
  "bare_statefulset n = \<lparr>ss_Meta = object_key n ''ns'', ss_Replicas = 0, ss_ServiceName = '''', ss_Selector = [],
     ss_TemplateLabels = [], ss_TemplateSpec = bare_pod_spec, ss_VolumeClaimTemplates = [], ss_ReadyReplicas = 0\<rparr>"

definition bare_config_map :: "string \<Rightarrow> ConfigMap" where
  "bare_config_map n = \<lparr>cm_Meta = object_key n ''ns'', cm_Data = []\<rparr>"



text \<open>
  The Service that is built publishes the addresses of pods that are not ready, which its
  comment calls necessary for managing streams on such pods; the reconciler does not copy the
  field, so a Service it creates never does.
\<close>

lemma not_ready_addresses_lost:
  "svc_PublishNotReadyAddresses (buildClusterService cn sn) \<and>
   (case mutate_cluster_service K cluster (bare_service n) of
      Inl _ \<Rightarrow> True | Inr svc' \<Rightarrow> \<not> svc_PublishNotReadyAddresses svc')"
  using mutate_cluster_service_Inr [of K cluster "bare_service n"]
  by (auto simp: buildClusterService_def bare_service_def split: sum.split)

section \<open>The status of a cluster\<close>

lemma clusterPhase_iff:
  "clusterPhase ready desired = ClusterPhaseReady \<longleftrightarrow> 0 < desired \<and> desired \<le> ready"
  "clusterPhase ready desired = ClusterPhaseDegraded \<longleftrightarrow> 0 < ready \<and> (ready < desired \<or> desired \<le> 0)"
  "clusterPhase ready desired = ClusterPhasePending \<longleftrightarrow> ready \<le> 0"
  by (auto simp: clusterPhase_def)

lemma clusterCondition_simps [simp]:
  "c_Type (clusterCondition ready desired) = ''Ready''"
  "c_Status (clusterCondition ready desired) = ConditionTrue \<longleftrightarrow> clusterPhase ready desired = ClusterPhaseReady"
  by (simp_all add: clusterCondition_def mkCondition_def Let_def)

lemma setClusterStatus_settled:
  assumes "condition_laws L"
  shows "\<not> clusterStatusChanged L (setClusterStatus L cluster ready) ready"
proof -
  let ?c = "clusterCondition ready (pcs_Replicas (pc_Spec cluster))"
  obtain c' where "FindStatusCondition L (SetStatusCondition L ?c (pct_Conditions (pc_Status cluster))) ''Ready'' = Some c'"
      and "same_condition c' ?c"
    using assms unfolding condition_laws_def by (metis clusterCondition_simps(1))
  then show ?thesis
    by (simp add: clusterStatusChanged_def setClusterStatus_def Let_def cond_differs_same)
qed

text \<open>A status write of the run reports the replicas of the StatefulSet that was just applied.\<close>

definition reports :: "lib \<Rightarrow> PipelineCluster \<Rightarrow> event list \<Rightarrow> bool" where
  "reports L cluster tr \<longleftrightarrow> (\<forall>c r. UpdateClusterStatus c r \<in> set tr \<longrightarrow>
     (\<exists>ss. ApplyStatefulSet (pc_Name cluster) (pc_Namespace cluster) (Inr ss) \<in> set tr \<and>
        c = setClusterStatus L cluster (ss_ReadyReplicas ss)))"

lemma always_reconcile_cluster_children:
  assumes "\<And>c r. UpdateClusterStatus c r \<notin> set tr"
  shows "always (reconcile_cluster_children L K cluster) (\<lambda>_. reports L cluster) tr"
  unfolding reconcile_cluster_children_def apply_cluster_pod_monitor_def reconcile_cluster_status_def
  by (intro always_intros; use assms in \<open>auto simp: reports_def\<close>)

lemma ReconcileCluster_run:
  assumes "run_state (ReconcileCluster L K n ns) (w, []) = (out, (w', tr))"
    and "UpdateClusterStatus c r \<in> set tr"
  shows "\<exists>cluster. GetPipelineCluster n ns (Inr cluster) \<in> set tr \<and> reports L cluster tr"
proof -
  obtain g w1 where g: "run_state (Get_PipelineCluster K n ns) w = (g, w1)" by fastforce
  show ?thesis
  proof (cases g)
    case (Inl e)
    with assms g show ?thesis by (auto simp: ReconcileCluster_def run_call)
  next
    case (Inr cluster)
    let ?ev = "GetPipelineCluster n ns (Inr cluster)"
    have run: "run_state (reconcile_cluster_children L K cluster) (w1, [?ev]) = (out, (w', tr))"
      using assms(1) g Inr by (simp add: ReconcileCluster_def run_call)
    have "always (reconcile_cluster_children L K cluster) (\<lambda>_ tr. ?ev \<in> set tr) [?ev]"
      unfolding reconcile_cluster_children_def apply_cluster_pod_monitor_def reconcile_cluster_status_def
      by (intro always_intros; simp)
    from always_run [OF this run] always_run [OF always_reconcile_cluster_children run]
    show ?thesis by auto
  qed
qed

text \<open>
  The status of a cluster is truthful and settles: what a run writes keeps the spec and the
  metadata that were read, counts the ready replicas of the StatefulSet applied in that run,
  says Ready (phase and condition) exactly when there is at least one desired replica and all
  of them are ready, Pending exactly when none is ready, Degraded otherwise; and computing the
  status again from the same count finds nothing to write.
\<close>

lemma cluster_status_truthful:
  assumes "condition_laws L" and "run_state (ReconcileCluster L K n ns) (w, []) = (out, (w', tr))"
    and "UpdateClusterStatus c r \<in> set tr"
  shows "\<exists>cluster ss. GetPipelineCluster n ns (Inr cluster) \<in> set tr \<and>
    ApplyStatefulSet (pc_Name cluster) (pc_Namespace cluster) (Inr ss) \<in> set tr \<and>
    pc_Spec c = pc_Spec cluster \<and> pc_Meta c = pc_Meta cluster \<and>
    pct_ReadyReplicas (pc_Status c) = ss_ReadyReplicas ss \<and>
    (pct_Phase (pc_Status c) = ClusterPhaseReady \<longleftrightarrow>
       0 < pcs_Replicas (pc_Spec c) \<and> pcs_Replicas (pc_Spec c) \<le> ss_ReadyReplicas ss) \<and>
    (pct_Phase (pc_Status c) = ClusterPhasePending \<longleftrightarrow> ss_ReadyReplicas ss \<le> 0) \<and>
    pct_Phase (pc_Status c) \<noteq> ClusterPhaseUnset \<and>
    (\<exists>cond. FindStatusCondition L (pct_Conditions (pc_Status c)) ''Ready'' = Some cond \<and>
       (c_Status cond = ConditionTrue \<longleftrightarrow> pct_Phase (pc_Status c) = ClusterPhaseReady)) \<and>
    \<not> clusterStatusChanged L c (ss_ReadyReplicas ss)"
proof -
  obtain cluster where get: "GetPipelineCluster n ns (Inr cluster) \<in> set tr" and rep: "reports L cluster tr"
    using ReconcileCluster_run [OF assms(2,3)] by blast
  then obtain ss where ss: "ApplyStatefulSet (pc_Name cluster) (pc_Namespace cluster) (Inr ss) \<in> set tr"
      and c: "c = setClusterStatus L cluster (ss_ReadyReplicas ss)"
    using assms(3) by (auto simp: reports_def)
  let ?c = "clusterCondition (ss_ReadyReplicas ss) (pcs_Replicas (pc_Spec cluster))"
  obtain c' where cond: "FindStatusCondition L (SetStatusCondition L ?c (pct_Conditions (pc_Status cluster))) ''Ready'' = Some c'"
      and same: "same_condition c' ?c"
    using assms(1) unfolding condition_laws_def by (metis clusterCondition_simps(1))
  have "c_Status c' = ConditionTrue \<longleftrightarrow> clusterPhase (ss_ReadyReplicas ss) (pcs_Replicas (pc_Spec cluster)) = ClusterPhaseReady"
    using same clusterCondition_simps(2) by (simp add: same_condition_def)
  moreover have "clusterPhase a b \<noteq> ClusterPhaseUnset" for a b by (simp add: clusterPhase_def)
  ultimately show ?thesis
    using get ss cond setClusterStatus_settled [OF assms(1), of cluster "ss_ReadyReplicas ss"] c
    by (intro exI [of _ cluster] exI [of _ ss]) (simp add: setClusterStatus_def Let_def clusterPhase_iff)
qed

definition cluster_kube :: "PipelineCluster \<Rightarrow> int \<Rightarrow> unit KubeClient" where
  "cluster_kube cluster ready = failing_kube
     \<lparr>Get_PipelineCluster := (\<lambda>_ _. State_Monad.return (Inr cluster)),
      CreateOrUpdate_ConfigMap := (\<lambda>n _ f. State_Monad.return (f (bare_config_map n))),
      CreateOrUpdate_Service := (\<lambda>n _ f. State_Monad.return (f (bare_service n))),
      CreateOrUpdate_StatefulSet := (\<lambda>n _ f. State_Monad.return (f ((bare_statefulset n)\<lparr>ss_ReadyReplicas := ready\<rparr>))),
      CreateOrUpdate_PodMonitor := (\<lambda>_ _ _. State_Monad.return (Inl (Err NoMatch ''no kind PodMonitor''))),
      StatusUpdate_PipelineCluster := (\<lambda>_. State_Monad.return None)\<rparr>"

lemma cluster_kube_run:
  "\<exists>cm svc ss. ss_ReadyReplicas ss = ready \<and>
   run_state (ReconcileCluster sample_lib (cluster_kube (sample_cluster ''etl'' 2) ready) ''etl'' ''ns'') ((), []) =
   ((ok, None), ((),
     [GetPipelineCluster ''etl'' ''ns'' (Inr (sample_cluster ''etl'' 2)), ApplyConfigMap ''etl-config'' ''ns'' (Inr cm),
      ApplyService ''etl'' ''ns'' (Inr svc), ApplyStatefulSet ''etl'' ''ns'' (Inr ss),
      ApplyPodMonitor ''etl'' ''ns'' (Inl (Err NoMatch ''no kind PodMonitor'')),
      UpdateClusterStatus (setClusterStatus sample_lib (sample_cluster ''etl'' 2) ready) None]))"
proof -
  let ?K = "cluster_kube (sample_cluster ''etl'' 2) ready"
  let ?c = "sample_cluster ''etl'' 2"
  have own: "own ?K o' m f = Inr (f m)" for o' m and f :: "ObjectMeta \<Rightarrow> 'x"
    by (simp add: own_def cluster_kube_def failing_kube_def)
  have name: "pc_Name ?c = ''etl''" "pc_Namespace ?c = ''ns''" "clusterConfigMapName ?c = ''etl-config''"
    by (simp_all add: sample_cluster_def sample_meta_def clusterConfigMapName_def)
  obtain cm where cm: "mutate_cluster_config_map ?K ?c (bare_config_map ''etl-config'') = Inr cm"
    by (simp add: mutate_cluster_config_map_def own Let_def)
  obtain svc where svc: "mutate_cluster_service ?K ?c (bare_service ''etl'') = Inr svc"
    by (simp add: mutate_cluster_service_def own Let_def)
  obtain ss where ss: "mutate_cluster_statefulset ?K ?c ((bare_statefulset ''etl'')\<lparr>ss_ReadyReplicas := ready\<rparr>) = Inr ss"
      and ready: "ss_ReadyReplicas ss = ready"
    by (simp add: mutate_cluster_statefulset_def own Let_def)
  have changed: "clusterStatusChanged sample_lib ?c ready"
    by (simp add: clusterStatusChanged_def sample_lib_def list_lib_def sample_cluster_def cond_differs_def)
  have "run_state (ReconcileCluster sample_lib ?K ''etl'' ''ns'') ((), []) =
   ((ok, None), ((),
     [GetPipelineCluster ''etl'' ''ns'' (Inr ?c), ApplyConfigMap ''etl-config'' ''ns'' (Inr cm),
      ApplyService ''etl'' ''ns'' (Inr svc), ApplyStatefulSet ''etl'' ''ns'' (Inr ss),
      ApplyPodMonitor ''etl'' ''ns'' (Inl (Err NoMatch ''no kind PodMonitor'')),
      UpdateClusterStatus (setClusterStatus sample_lib ?c ready) None]))"
    using cm svc ss changed ready
    by (simp add: ReconcileCluster_def reconcile_cluster_children_def apply_cluster_pod_monitor_def
        reconcile_cluster_status_def run_call cluster_kube_def name after_status_update_def Let_def)
  with ready show ?thesis by blast
qed

lemma cluster_status_truthful_witness:
  "condition_laws sample_lib \<and>
   (\<exists>out w' tr c. run_state (ReconcileCluster sample_lib (cluster_kube (sample_cluster ''etl'' 2) 1) ''etl'' ''ns'') ((), []) =
      (out, (w', tr)) \<and> UpdateClusterStatus c None \<in> set tr \<and> pct_Phase (pc_Status c) = ClusterPhaseDegraded \<and>
      \<not> clusterStatusChanged sample_lib c 1)"
proof -
  have laws: "condition_laws sample_lib"
    unfolding sample_lib_def by (rule condition_laws_list_lib)
  obtain out w' tr where run: "run_state (ReconcileCluster sample_lib (cluster_kube (sample_cluster ''etl'' 2) 1) ''etl'' ''ns'') ((), []) =
      (out, (w', tr))" and c: "UpdateClusterStatus (setClusterStatus sample_lib (sample_cluster ''etl'' 2) 1) None \<in> set tr"
    using cluster_kube_run [of 1] by force
  from cluster_status_truthful [OF laws run c]
  have "\<not> clusterStatusChanged sample_lib (setClusterStatus sample_lib (sample_cluster ''etl'' 2) 1) 1"
    by (auto simp: setClusterStatus_def Let_def)
  moreover have "pct_Phase (pc_Status (setClusterStatus sample_lib (sample_cluster ''etl'' 2) 1)) = ClusterPhaseDegraded"
    by (simp add: setClusterStatus_def Let_def sample_cluster_def clusterPhase_def)
  ultimately show ?thesis using laws run c by blast
qed

end
