(* ===== verification/Rpc_Nats.thy ===== *)
theory Rpc_Nats
  imports Rpc_Env
begin

text \<open>
  The package \<^verbatim>\<open>src/internal/nats\<close>: the production \<open>JSManager\<close>, which dials NATS for every
  call, over the functions of the client library as a parameter \<open>NatsLib\<close>; the in-memory
  \<open>FakeManager\<close>; and the contract of \<open>StreamManager\<close> as the locale \<open>stream_manager\<close>,
  interpreted on the in-memory manager.
\<close>

section \<open>The production manager\<close>

record StreamConfig =
  sc_Name :: string
  sc_Subjects :: "string list"
  sc_Retention :: string
  sc_Storage :: string
  sc_MaxAge :: int
  sc_MaxBytes :: int
  sc_MaxMsgs :: int

record KeyValueConfig =
  kvb_Bucket :: string
  kvb_TTL :: int
  kvb_History :: int
  kvb_MaxBytes :: int
  kvb_Storage :: string

text \<open>The functions of \<open>nats.go\<close> and its \<open>jetstream\<close> package that are called. A connection is a handle.\<close>

record 'w NatsLib =
  nats_Connect :: "string \<Rightarrow> int \<Rightarrow> ('w, error + nat) state"
  nats_Close :: "nat \<Rightarrow> ('w, unit) state"
  jetstream_New :: "nat \<Rightarrow> ('w, error option) state"
  CreateOrUpdateStream :: "nat \<Rightarrow> StreamConfig \<Rightarrow> ('w, error option) state"
  js_DeleteStream :: "nat \<Rightarrow> string \<Rightarrow> ('w, error option) state"
  CreateOrUpdateKeyValue :: "nat \<Rightarrow> KeyValueConfig \<Rightarrow> ('w, error option) state"
  js_DeleteKeyValue :: "nat \<Rightarrow> string \<Rightarrow> ('w, error option) state"

definition dialTimeout :: "int \<Rightarrow> int" where
  "dialTimeout t = (if t = 0 then 5000000000 else t)"

definition connect :: "'w NatsLib \<Rightarrow> int \<Rightarrow> string \<Rightarrow> ('w, error + nat) state" where
  "connect N DialTimeout natsURL = do {
     r \<leftarrow> nats_Connect N natsURL (dialTimeout DialTimeout);
     case r of
       Inl err \<Rightarrow> State_Monad.return (Inl err)
     | Inr nc \<Rightarrow> do {
         e \<leftarrow> jetstream_New N nc;
         case e of
           Some err \<Rightarrow> do { _ \<leftarrow> nats_Close N nc; State_Monad.return (Inl err) }
         | None \<Rightarrow> State_Monad.return (Inr nc)
       }
   }"

text \<open>
  The common frame of the four operations: connect, do the work, and close the connection on
  return (\<open>defer nc.Close()\<close>).
\<close>

definition with_connection ::
  "'w NatsLib \<Rightarrow> int \<Rightarrow> string \<Rightarrow> (nat \<Rightarrow> ('w, error option) state) \<Rightarrow> ('w, error option) state" where
  "with_connection N DialTimeout natsURL f = do {
     c \<leftarrow> connect N DialTimeout natsURL;
     case c of
       Inl err \<Rightarrow> State_Monad.return (Some err)
     | Inr nc \<Rightarrow> do {
         err \<leftarrow> f nc;
         _ \<leftarrow> nats_Close N nc;
         State_Monad.return err
       }
   }"

definition missing_is_success :: "error_kind \<Rightarrow> error option \<Rightarrow> error option" where
  "missing_is_success k e = (case e of
      None \<Rightarrow> None
    | Some err \<Rightarrow> if err_kind err = k then None else Some err)"

definition jsm_EnsureStream ::
  "'w NatsLib \<Rightarrow> int \<Rightarrow> string \<Rightarrow> string \<Rightarrow> string \<Rightarrow> Retention \<Rightarrow> ('w, error option) state" where
  "jsm_EnsureStream N to natsURL stream subject r = with_connection N to natsURL (\<lambda>nc.
     CreateOrUpdateStream N nc
       \<lparr>sc_Name = stream, sc_Subjects = [subject], sc_Retention = ''LimitsPolicy'',
        sc_Storage = ''FileStorage'', sc_MaxAge = re_MaxAge r, sc_MaxBytes = re_MaxBytes r,
        sc_MaxMsgs = re_MaxMsgs r\<rparr>)"

definition jsm_DeleteStream :: "'w NatsLib \<Rightarrow> int \<Rightarrow> string \<Rightarrow> string \<Rightarrow> ('w, error option) state" where
  "jsm_DeleteStream N to natsURL stream = with_connection N to natsURL (\<lambda>nc. do {
     err \<leftarrow> js_DeleteStream N nc stream;
     State_Monad.return (missing_is_success JSStreamNotFound err)
   })"

definition jsm_EnsureKV ::
  "'w NatsLib \<Rightarrow> int \<Rightarrow> string \<Rightarrow> string \<Rightarrow> KVConfig \<Rightarrow> ('w, error option) state" where
  "jsm_EnsureKV N to natsURL bucket cfg = with_connection N to natsURL (\<lambda>nc.
     let history = (if kvc_History cfg = 0 then 1 else kvc_History cfg) in
     CreateOrUpdateKeyValue N nc
       \<lparr>kvb_Bucket = bucket, kvb_TTL = kvc_TTL cfg, kvb_History = history,
        kvb_MaxBytes = kvc_MaxBytes cfg, kvb_Storage = ''FileStorage''\<rparr>)"

definition jsm_DeleteKV :: "'w NatsLib \<Rightarrow> int \<Rightarrow> string \<Rightarrow> string \<Rightarrow> ('w, error option) state" where
  "jsm_DeleteKV N to natsURL bucket = with_connection N to natsURL (\<lambda>nc. do {
     err \<leftarrow> js_DeleteKeyValue N nc bucket;
     State_Monad.return (missing_is_success JSBucketNotFound err)
   })"

definition JSManager :: "'w NatsLib \<Rightarrow> int \<Rightarrow> 'w StreamManager" where
  "JSManager N DialTimeout =
     \<lparr>JSEnsureStream = jsm_EnsureStream N DialTimeout,
      JSDeleteStream = jsm_DeleteStream N DialTimeout,
      JSEnsureKV = jsm_EnsureKV N DialTimeout,
      JSDeleteKV = jsm_DeleteKV N DialTimeout\<rparr>"

section \<open>The in-memory manager\<close>

text \<open>\<open>EnsureFn\<close> and \<open>EnsureKVFn\<close> inject failures; a nil hook is the one that never fails.\<close>

record FakeManager =
  fm_Streams :: "string \<rightharpoonup> string"
  fm_Buckets :: "string \<rightharpoonup> unit"
  fm_EnsureFn :: "string \<Rightarrow> string \<Rightarrow> error option"
  fm_EnsureKVFn :: "string \<Rightarrow> error option"

definition NewFakeManager :: FakeManager where
  "NewFakeManager = \<lparr>fm_Streams = (\<lambda>_. None), fm_Buckets = (\<lambda>_. None),
     fm_EnsureFn = (\<lambda>_ _. None), fm_EnsureKVFn = (\<lambda>_. None)\<rparr>"

definition fm_key :: "string \<Rightarrow> string \<Rightarrow> string" where
  "fm_key url stream = url @ ''|'' @ stream"

definition fm_EnsureStream ::
  "string \<Rightarrow> string \<Rightarrow> string \<Rightarrow> Retention \<Rightarrow> (FakeManager, error option) state" where
  "fm_EnsureStream natsURL stream subject r = State (\<lambda>f.
     case fm_EnsureFn f stream subject of
       Some err \<Rightarrow> (Some err, f)
     | None \<Rightarrow> (None, f\<lparr>fm_Streams := (fm_Streams f)(fm_key natsURL stream \<mapsto> subject)\<rparr>))"

definition fm_DeleteStream :: "string \<Rightarrow> string \<Rightarrow> (FakeManager, error option) state" where
  "fm_DeleteStream natsURL stream = State (\<lambda>f.
     (None, f\<lparr>fm_Streams := (fm_Streams f)(fm_key natsURL stream := None)\<rparr>))"

definition fm_Has :: "FakeManager \<Rightarrow> string \<Rightarrow> string \<Rightarrow> bool" where
  "fm_Has f natsURL stream \<longleftrightarrow> fm_Streams f (fm_key natsURL stream) \<noteq> None"

definition fm_EnsureKV :: "string \<Rightarrow> string \<Rightarrow> KVConfig \<Rightarrow> (FakeManager, error option) state" where
  "fm_EnsureKV natsURL bucket cfg = State (\<lambda>f.
     case fm_EnsureKVFn f bucket of
       Some err \<Rightarrow> (Some err, f)
     | None \<Rightarrow> (None, f\<lparr>fm_Buckets := (fm_Buckets f)(fm_key natsURL bucket \<mapsto> ())\<rparr>))"

definition fm_DeleteKV :: "string \<Rightarrow> string \<Rightarrow> (FakeManager, error option) state" where
  "fm_DeleteKV natsURL bucket = State (\<lambda>f.
     (None, f\<lparr>fm_Buckets := (fm_Buckets f)(fm_key natsURL bucket := None)\<rparr>))"

definition HasKV :: "FakeManager \<Rightarrow> string \<Rightarrow> string \<Rightarrow> bool" where
  "HasKV f natsURL bucket \<longleftrightarrow> fm_Buckets f (fm_key natsURL bucket) \<noteq> None"

definition fake_manager :: "FakeManager StreamManager" where
  "fake_manager =
     \<lparr>JSEnsureStream = fm_EnsureStream, JSDeleteStream = fm_DeleteStream,
      JSEnsureKV = fm_EnsureKV, JSDeleteKV = fm_DeleteKV\<rparr>"

section \<open>The contract of a stream manager\<close>

text \<open>
  What the project controller relies on: an accepted upsert leaves the stream on the server, no
  upsert removes it, an accepted delete removes it, and an operation on one stream or bucket of a server leaves the
  others of that server as they are, whether it succeeds or not.
\<close>

locale stream_manager =
  fixes M :: "'w StreamManager"
    and holds :: "'w \<Rightarrow> string \<Rightarrow> string \<Rightarrow> bool"
    and holds_kv :: "'w \<Rightarrow> string \<Rightarrow> string \<Rightarrow> bool"
  assumes ensured: "run_state (JSEnsureStream M u s subj r) w = (None, w') \<Longrightarrow> holds w' u s"
    and ensure_others: "run_state (JSEnsureStream M u s subj r) w = (e, w') \<Longrightarrow> s' \<noteq> s \<Longrightarrow>
      holds w' u s' = holds w u s'"
    and ensure_keeps: "run_state (JSEnsureStream M u s subj r) w = (e, w') \<Longrightarrow> holds w u s \<Longrightarrow> holds w' u s"
    and deleted: "run_state (JSDeleteStream M u s) w = (None, w') \<Longrightarrow> \<not> holds w' u s"
    and delete_others: "run_state (JSDeleteStream M u s) w = (e, w') \<Longrightarrow> s' \<noteq> s \<Longrightarrow>
      holds w' u s' = holds w u s'"
    and kv_ensured: "run_state (JSEnsureKV M u s c) w = (None, w') \<Longrightarrow> holds_kv w' u s"
    and kv_ensure_others: "run_state (JSEnsureKV M u s c) w = (e, w') \<Longrightarrow> s' \<noteq> s \<Longrightarrow>
      holds_kv w' u s' = holds_kv w u s'"
    and kv_deleted: "run_state (JSDeleteKV M u s) w = (None, w') \<Longrightarrow> \<not> holds_kv w' u s"
    and kv_delete_others: "run_state (JSDeleteKV M u s) w = (e, w') \<Longrightarrow> s' \<noteq> s \<Longrightarrow>
      holds_kv w' u s' = holds_kv w u s'"

lemma fm_key_inj [simp]: "fm_key u s = fm_key u s' \<longleftrightarrow> s = s'"
  by (simp add: fm_key_def)

interpretation fm: stream_manager fake_manager fm_Has HasKV
  by unfold_locales
    (auto simp: fake_manager_def fm_EnsureStream_def fm_DeleteStream_def fm_EnsureKV_def
      fm_DeleteKV_def fm_Has_def HasKV_def split: option.splits)

section \<open>Connections\<close>

text \<open>
  The documented behaviour of the client library, as a hypothesis on the set of open
  connections of a world: a successful dial opens one new connection and a failed one none,
  closing closes exactly its connection, and nothing else opens or closes one.
\<close>

definition conn_laws :: "'w NatsLib \<Rightarrow> ('w \<Rightarrow> nat set) \<Rightarrow> bool" where
  "conn_laws N conns \<longleftrightarrow>
     (\<forall>u t w. case run_state (nats_Connect N u t) w of
        (Inl _, w') \<Rightarrow> conns w' = conns w
      | (Inr c, w') \<Rightarrow> c \<notin> conns w \<and> conns w' = insert c (conns w)) \<and>
     (\<forall>c w. conns (snd (run_state (nats_Close N c) w)) = conns w - {c}) \<and>
     (\<forall>c w. conns (snd (run_state (jetstream_New N c) w)) = conns w) \<and>
     (\<forall>c cfg w. conns (snd (run_state (CreateOrUpdateStream N c cfg) w)) = conns w) \<and>
     (\<forall>c s w. conns (snd (run_state (js_DeleteStream N c s) w)) = conns w) \<and>
     (\<forall>c cfg w. conns (snd (run_state (CreateOrUpdateKeyValue N c cfg) w)) = conns w) \<and>
     (\<forall>c s w. conns (snd (run_state (js_DeleteKeyValue N c s) w)) = conns w)"

definition keeps_conns :: "('w \<Rightarrow> nat set) \<Rightarrow> ('w, 'a) state \<Rightarrow> bool" where
  "keeps_conns conns m \<longleftrightarrow> (\<forall>w. conns (snd (run_state m w)) = conns w)"

lemma keeps_conns_bind:
  "keeps_conns conns m \<Longrightarrow> (\<And>a. keeps_conns conns (f a)) \<Longrightarrow> keeps_conns conns (State_Monad.bind m f)"
proof -
  assume m: "keeps_conns conns m" and f: "\<And>a. keeps_conns conns (f a)"
  have "conns (snd (run_state (State_Monad.bind m f) w)) = conns w" for w
    using m f unfolding keeps_conns_def by (cases "run_state m w") (simp, metis snd_conv)
  then show ?thesis by (simp add: keeps_conns_def)
qed

lemma keeps_conns_return: "keeps_conns conns (State_Monad.return a)"
  by (simp add: keeps_conns_def)

lemma connect_conns:
  assumes "conn_laws N conns"
  shows "case run_state (connect N to u) w of
    (Inl _, w') \<Rightarrow> conns w' = conns w
  | (Inr c, w') \<Rightarrow> c \<notin> conns w \<and> conns w' = insert c (conns w)"
proof -
  obtain r w1 where r: "run_state (nats_Connect N u (dialTimeout to)) w = (r, w1)" by fastforce
  show ?thesis
  proof (cases r)
    case (Inl e)
    moreover have "conns w1 = conns w"
      using assms r Inl unfolding conn_laws_def by (auto dest!: spec [of _ u] spec [of _ "dialTimeout to"] spec [of _ w])
    ultimately show ?thesis by (simp add: connect_def r)
  next
    case (Inr c)
    have c: "c \<notin> conns w" "conns w1 = insert c (conns w)"
      using assms r Inr unfolding conn_laws_def by (auto dest!: spec [of _ u] spec [of _ "dialTimeout to"] spec [of _ w])
    obtain e w2 where e: "run_state (jetstream_New N c) w1 = (e, w2)" by fastforce
    have w2: "conns w2 = conns w1" using assms e unfolding conn_laws_def by (metis snd_conv)
    obtain w3 where x: "run_state (nats_Close N c) w2 = ((), w3)" by (metis old.unit.exhaust surj_pair)
    have w3: "conns w3 = conns w2 - {c}" using assms x unfolding conn_laws_def by (metis snd_conv)
    show ?thesis
      using c w2 w3 by (cases e) (simp_all add: connect_def r Inr e x)
  qed
qed

lemma with_connection_conns:
  assumes "conn_laws N conns" and "\<And>c. keeps_conns conns (f c)"
  shows "keeps_conns conns (with_connection N to u f)"
  unfolding keeps_conns_def
proof
  fix w
  obtain r w1 where r: "run_state (connect N to u) w = (r, w1)" by fastforce
  show "conns (snd (run_state (with_connection N to u f) w)) = conns w"
  proof (cases r)
    case (Inl e)
    then show ?thesis using connect_conns [OF assms(1), where to = to and u = u and w = w] by (simp add: with_connection_def r)
  next
    case (Inr c)
    then have c: "c \<notin> conns w" "conns w1 = insert c (conns w)"
      using connect_conns [OF assms(1), where to = to and u = u and w = w] r by simp_all
    obtain e w2 where e: "run_state (f c) w1 = (e, w2)" by fastforce
    have w2: "conns w2 = conns w1" using assms(2) e unfolding keeps_conns_def by (metis snd_conv)
    obtain w3 where x: "run_state (nats_Close N c) w2 = ((), w3)" by (metis old.unit.exhaust surj_pair)
    have w3: "conns w3 = conns w2 - {c}" using assms(1) x unfolding conn_laws_def by (metis snd_conv)
    show ?thesis using c w2 w3 by (simp add: with_connection_def r Inr e x)
  qed
qed

lemma conn_laws_keeps:
  assumes "conn_laws N conns"
  shows "keeps_conns conns (CreateOrUpdateStream N c cfg)" "keeps_conns conns (js_DeleteStream N c s)"
    "keeps_conns conns (CreateOrUpdateKeyValue N c kcfg)" "keeps_conns conns (js_DeleteKeyValue N c s)"
  using assms by (simp_all add: conn_laws_def keeps_conns_def)

text \<open>
  The production manager leaks no connection: whatever the server answers, each of its four
  operations leaves exactly the connections open that were open before, on every path, the
  failure of creating the JetStream context included.
\<close>

lemma js_manager_closes:
  assumes "conn_laws N conns"
  shows "conns (snd (run_state (JSEnsureStream (JSManager N to) u s subj r) w)) = conns w \<and>
    conns (snd (run_state (JSDeleteStream (JSManager N to) u s) w)) = conns w \<and>
    conns (snd (run_state (JSEnsureKV (JSManager N to) u s cfg) w)) = conns w \<and>
    conns (snd (run_state (JSDeleteKV (JSManager N to) u s) w)) = conns w"
proof -
  note ops = conn_laws_keeps [OF assms]
  have "keeps_conns conns (jsm_EnsureStream N to u s subj r)" "keeps_conns conns (jsm_DeleteStream N to u s)"
    "keeps_conns conns (jsm_EnsureKV N to u s cfg)" "keeps_conns conns (jsm_DeleteKV N to u s)"
    unfolding jsm_EnsureStream_def jsm_DeleteStream_def jsm_EnsureKV_def jsm_DeleteKV_def Let_def
    by (intro with_connection_conns [OF assms] keeps_conns_bind keeps_conns_return ops)+
  then show ?thesis by (simp add: JSManager_def keeps_conns_def)
qed

text \<open>
  A server whose world is the list of open connections, which hands out fresh handles and
  refuses the JetStream context.
\<close>

definition sample_nats :: "nat list NatsLib" where
  "sample_nats =
     \<lparr>nats_Connect = (\<lambda>_ _. State (\<lambda>cs. (Inr (Suc (sum_list cs)), Suc (sum_list cs) # cs))),
      nats_Close = (\<lambda>c. State (\<lambda>cs. ((), removeAll c cs))),
      jetstream_New = (\<lambda>_. State_Monad.return (Some (Errorf ''no jetstream''))),
      CreateOrUpdateStream = (\<lambda>_ _. State_Monad.return None),
      js_DeleteStream = (\<lambda>_ _. State_Monad.return None),
      CreateOrUpdateKeyValue = (\<lambda>_ _. State_Monad.return None),
      js_DeleteKeyValue = (\<lambda>_ _. State_Monad.return None)\<rparr>"

lemma sample_nats_laws: "conn_laws sample_nats set"
proof -
  have "Suc (sum_list cs) \<notin> set cs" for cs :: "nat list"
    using member_le_sum_list [of "Suc (sum_list cs)" cs] by auto
  then show ?thesis by (simp add: conn_laws_def sample_nats_def)
qed

lemma js_manager_closes_witness:
  "conn_laws sample_nats set \<and>
   run_state (JSDeleteStream (JSManager sample_nats 0) ''nats://p'' ''S'') [7] = (Some (Errorf ''no jetstream''), [7]) \<and>
   set (snd (run_state (JSDeleteStream (JSManager sample_nats 0) ''nats://p'' ''S'') [7])) = {7}"
proof (intro conjI)
  show "conn_laws sample_nats set" by (rule sample_nats_laws)
  show "run_state (JSDeleteStream (JSManager sample_nats 0) ''nats://p'' ''S'') [7] = (Some (Errorf ''no jetstream''), [7])"
    by (simp add: JSManager_def jsm_DeleteStream_def with_connection_def connect_def sample_nats_def)
  show "set (snd (run_state (JSDeleteStream (JSManager sample_nats 0) ''nats://p'' ''S'') [7])) = {7}"
    using js_manager_closes [OF sample_nats_laws, of 0 "''nats://p''" "''S''"] by simp
qed

end
