(* ===== verification/Rpc_Project.thy ===== *)
theory Rpc_Project
  imports Rpc_Cluster Rpc_Nats
begin

text \<open>
  The PipelineProject reconciler: the objects of a project in
  \<^verbatim>\<open>internal/controller/pipelineproject_resources.go\<close>, route validation and JetStream streams in
  \<^verbatim>\<open>pipelineproject_routes.go\<close>, cache resources in \<^verbatim>\<open>pipelineproject_caches.go\<close>, and
  \<open>Reconcile\<close> with the deletion path and the watch mappings in
  \<^verbatim>\<open>pipelineproject_controller.go\<close>.
\<close>

section \<open>Resources\<close>

definition projectLabelKey :: string where
  "projectLabelKey = ''rpc.operator.io/project''"

definition natsImageDefault :: string where
  "natsImageDefault = ''nats:2.10-alpine''"

definition NATSImageDefault :: string where
  "NATSImageDefault = natsImageDefault"

definition natsClientPort :: int where
  "natsClientPort = 4222"

definition natsClusterPort :: int where
  "natsClusterPort = 6222"

definition natsMonitorPort :: int where
  "natsMonitorPort = 8222"

definition natsStorageDefault :: int where
  "natsStorageDefault = 10 * 2 ^ 30"

definition natsConfigFile :: string where
  "natsConfigFile = ''nats-server.conf''"

definition projectChildNATSName :: "string \<Rightarrow> string" where
  "projectChildNATSName projectName = projectName @ ''-nats''"

definition buildProjectCluster :: "PipelineProject \<Rightarrow> PipelineCluster" where
  "buildProjectCluster project =
     (let instances = (case pjs_Cluster (pj_Spec project) of
            None \<Rightarrow> 1
          | Some c \<Rightarrow> (case pjc_Instances c of None \<Rightarrow> 1 | Some n \<Rightarrow> n));
          resources = (case pjs_Cluster (pj_Spec project) of
            None \<Rightarrow> ([], [])
          | Some c \<Rightarrow> (case pjc_Resources c of None \<Rightarrow> ([], []) | Some r \<Rightarrow> r))
      in \<lparr>pc_Meta = (object_key (projectChildClusterName (pj_Name project)) '''')
                      \<lparr>om_Labels := [(projectLabelKey, pj_Name project)]\<rparr>,
          pc_Spec = \<lparr>pcs_Replicas = instances, pcs_Image = '''', pcs_JSONLogging = True, pcs_Resources = resources\<rparr>,
          pc_Status = \<lparr>pct_Phase = ClusterPhaseUnset, pct_ReadyReplicas = 0, pct_ObservedGeneration = 0,
            pct_Conditions = []\<rparr>\<rparr>)"

text \<open>The comment line of the configuration carries a dash outside ASCII, here its three bytes.\<close>

definition natsBaseConfig :: string where
  "natsBaseConfig =
     ''# Generated by rpc-operator '' @ [CHR 0xE2, CHR 0x80, CHR 0x94] @ '' do not edit by hand.'' @ newline @
     ''server_name: $POD_NAME'' @ newline @
     ''listen: 0.0.0.0:'' @ itoa natsClientPort @ newline @
     ''http: 0.0.0.0:'' @ itoa natsMonitorPort @ newline @ newline @
     ''jetstream {'' @ newline @
     ''  store_dir: '' @ [CHR 0x22] @ ''/data/jetstream'' @ [CHR 0x22] @ newline @
     ''}'' @ newline"

definition natsRoute :: "string \<Rightarrow> int \<Rightarrow> string" where
  "natsRoute svc i =
     ''    nats-route://'' @ svc @ ''-'' @ itoa i @ ''.'' @ svc @ '':'' @ itoa natsClusterPort @ newline"

definition natsServerConfig :: "string \<Rightarrow> int \<Rightarrow> string" where
  "natsServerConfig projectName replicas =
     (if replicas \<le> 1 then natsBaseConfig
      else let svc = projectChildNATSName projectName in
        natsBaseConfig @ newline @
        ''cluster {'' @ newline @
        ''  name: '' @ go_quote projectName @ newline @
        ''  listen: 0.0.0.0:'' @ itoa natsClusterPort @ newline @
        ''  routes = ['' @ newline @
        natsRoute svc 0 @ natsRoute svc 1 @ natsRoute svc 2 @
        ''  ]'' @ newline @
        ''}'' @ newline)"

definition project_meta :: "string \<Rightarrow> ObjectMeta" where
  "project_meta projectName =
     (object_key (projectChildNATSName projectName) '''')\<lparr>om_Labels := [(projectLabelKey, projectName)]\<rparr>"

definition natsLabels :: "string \<Rightarrow> (string \<times> string) list" where
  "natsLabels projectName = [(projectLabelKey, projectName), (''rpc.operator.io/component'', ''nats'')]"

definition buildProjectNATSConfigMap :: "string \<Rightarrow> int \<Rightarrow> ConfigMap" where
  "buildProjectNATSConfigMap projectName replicas =
     \<lparr>cm_Meta = project_meta projectName,
      cm_Data = [(natsConfigFile, natsServerConfig projectName replicas)]\<rparr>"

definition buildProjectNATSService :: "string \<Rightarrow> Service" where
  "buildProjectNATSService projectName =
     \<lparr>svc_Meta = project_meta projectName,
      svc_ClusterIP = ''None'',
      svc_PublishNotReadyAddresses = False,
      svc_Selector = natsLabels projectName,
      svc_Ports =
        [\<lparr>sp_Name = ''client'', sp_Port = natsClientPort, sp_TargetPort = ''client'', sp_Protocol = ''TCP''\<rparr>,
         \<lparr>sp_Name = ''cluster'', sp_Port = natsClusterPort, sp_TargetPort = ''cluster'', sp_Protocol = ''TCP''\<rparr>,
         \<lparr>sp_Name = ''monitor'', sp_Port = natsMonitorPort, sp_TargetPort = ''monitor'', sp_Protocol = ''TCP''\<rparr>]\<rparr>"

definition natsPodTemplate :: "string \<Rightarrow> string \<Rightarrow> PodSpec" where
  "natsPodTemplate projectName natsImage =
     \<lparr>pds_RestartPolicy = '''',
      pds_TerminationGracePeriodSeconds = 30,
      pds_Security = restricted_pod_security 1000,
      pds_Containers =
        [\<lparr>ct_Name = ''nats'',
          ct_Image = natsImage,
          ct_Args = [''--config'', ''/etc/nats/'' @ natsConfigFile],
          ct_Ports =
            [\<lparr>cp_Name = ''client'', cp_Port = natsClientPort, cp_Protocol = ''TCP''\<rparr>,
             \<lparr>cp_Name = ''cluster'', cp_Port = natsClusterPort, cp_Protocol = ''TCP''\<rparr>,
             \<lparr>cp_Name = ''monitor'', cp_Port = natsMonitorPort, cp_Protocol = ''TCP''\<rparr>],
          ct_LivenessProbe = \<lparr>pb_Path = ''/healthz'', pb_PortName = ''monitor'',
            pb_InitialDelaySeconds = 10, pb_PeriodSeconds = 10\<rparr>,
          ct_ReadinessProbe = \<lparr>pb_Path = ''/healthz?js-enabled-only=true'', pb_PortName = ''monitor'',
            pb_InitialDelaySeconds = 3, pb_PeriodSeconds = 5\<rparr>,
          ct_Security = restricted_container_security,
          ct_Resources = ([], []),
          ct_Env = [\<lparr>ev_Name = ''POD_NAME'', ev_ValueFrom = FieldRef ''metadata.name''\<rparr>],
          ct_VolumeMounts =
            [\<lparr>vm_Name = ''config'', vm_MountPath = ''/etc/nats'', vm_ReadOnly = True\<rparr>,
             \<lparr>vm_Name = ''data'', vm_MountPath = ''/data'', vm_ReadOnly = False\<rparr>]\<rparr>],
      pds_Volumes =
        [\<lparr>cv_Name = ''config'', cv_ConfigMap = projectChildNATSName projectName,
          cv_Items = [(natsConfigFile, natsConfigFile)]\<rparr>]\<rparr>"

definition buildProjectNATSStatefulSet :: "string \<Rightarrow> string \<Rightarrow> int \<Rightarrow> int \<Rightarrow> StatefulSet" where
  "buildProjectNATSStatefulSet projectName natsImage replicas storage =
     (let natsImage = (if natsImage = '''' then natsImageDefault else natsImage);
          storage = (if storage = 0 then natsStorageDefault else storage)
      in \<lparr>ss_Meta = project_meta projectName,
          ss_Replicas = replicas,
          ss_ServiceName = projectChildNATSName projectName,
          ss_Selector = natsLabels projectName,
          ss_TemplateLabels = natsLabels projectName,
          ss_TemplateSpec = natsPodTemplate projectName natsImage,
          ss_VolumeClaimTemplates =
            [\<lparr>vct_Name = ''data'', vct_Labels = natsLabels projectName, vct_AccessModes = [''ReadWriteOnce''],
              vct_Storage = storage\<rparr>],
          ss_ReadyReplicas = 0\<rparr>)"

section \<open>The reconciler's fields\<close>

text \<open>
  The stream manager and the instances may be nil; of the recorder only its presence matters.
  \<open>r_Now\<close> is the clock read by \<open>metav1.Now\<close>.
\<close>

record 'w ProjectReconciler =
  r_Client :: "'w KubeClient"
  r_NATSImage :: string
  r_Streams :: "'w StreamManager option"
  r_Instances :: "'w StreamsClient option"
  r_Recorder :: bool
  r_Now :: "('w, int) state"

definition nil_dereference :: error where
  "nil_dereference = Err NilDereference ''panic: invalid memory address or nil pointer dereference [recovered]''"

text \<open>A panic unwinds past the callers that would wrap an error.\<close>

definition propagate :: "string \<Rightarrow> error \<Rightarrow> error" where
  "propagate pre e = (if e = nil_dereference then e else wrap pre e)"

section \<open>Routes\<close>

definition rawHasTopKey :: "lib \<Rightarrow> string \<Rightarrow> string \<Rightarrow> bool" where
  "rawHasTopKey L rawYAML key =
     (case yaml_Unmarshal L rawYAML of
        Inr (AObj m) \<Rightarrow> aget m key \<noteq> None
      | _ \<Rightarrow> False)"

definition pipelineHasOutput :: "lib \<Rightarrow> Pipeline \<Rightarrow> bool" where
  "pipelineHasOutput L p =
     (if ps_RawYAML (p_Spec p) \<noteq> '''' then rawHasTopKey L (ps_RawYAML (p_Spec p)) ''output''
      else cs_Type (ps_Output (p_Spec p)) \<noteq> '''')"

definition pipelineHasInput :: "lib \<Rightarrow> Pipeline \<Rightarrow> bool" where
  "pipelineHasInput L p =
     (if ps_RawYAML (p_Spec p) \<noteq> '''' then rawHasTopKey L (ps_RawYAML (p_Spec p)) ''input''
      else cs_Type (ps_Input (p_Spec p)) \<noteq> '''')"

definition pipelineView :: "lib \<Rightarrow> Pipeline \<Rightarrow> PipelineView" where
  "pipelineView L p =
     \<lparr>pv_Name = p_Name p,
      pv_ProjectName = (case ps_ProjectRef (p_Spec p) of None \<Rightarrow> '''' | Some ref \<Rightarrow> pr_Name ref),
      pv_HasInput = pipelineHasInput L p,
      pv_HasOutput = pipelineHasOutput L p\<rparr>"

fun views_of :: "lib \<Rightarrow> Pipeline list \<Rightarrow> (string \<times> PipelineView) list \<Rightarrow> (string \<times> PipelineView) list" where
  "views_of L [] views = views"
| "views_of L (p # ps) views = views_of L ps (aset (p_Name p) (pipelineView L p) views)"

definition validateProjectRoutes ::
  "lib \<Rightarrow> 'w ProjectReconciler \<Rightarrow> PipelineProject \<Rightarrow> ('w traced, error + string) state" where
  "validateProjectRoutes L R project = do {
     r \<leftarrow> call (List_Pipelines (r_Client R) (pj_Namespace project)) (ListPipelines (pj_Namespace project));
     State_Monad.return (case r of
       Inl err \<Rightarrow> Inl err
     | Inr pipes \<Rightarrow>
         (case ValidateProject L project (views_of L pipes []) of
            [] \<Rightarrow> Inr ''''
          | e # _ \<Rightarrow> Inr (pe_Message e)))
   }"

definition retentionFrom :: "ProjectNATSRetention option \<Rightarrow> Retention" where
  "retentionFrom r = (case r of
      None \<Rightarrow> \<lparr>re_MaxAge = 0, re_MaxBytes = 0, re_MaxMsgs = 0\<rparr>
    | Some r \<Rightarrow>
        \<lparr>re_MaxAge = (case ret_MaxAge r of None \<Rightarrow> 0 | Some d \<Rightarrow> d),
         re_MaxBytes = (case ret_MaxBytes r of None \<Rightarrow> 0 | Some b \<Rightarrow> b),
         re_MaxMsgs = (case ret_MaxMsgs r of None \<Rightarrow> 0 | Some m \<Rightarrow> m)\<rparr>)"

definition dayNanos :: int where
  "dayNanos = 24 * 3600 * 1000000000"

definition projectDefaultRetention :: "PipelineProject \<Rightarrow> Retention" where
  "projectDefaultRetention project =
     (case pjs_NATS (pj_Spec project) of
        None \<Rightarrow> \<lparr>re_MaxAge = dayNanos, re_MaxBytes = 2 ^ 30, re_MaxMsgs = 0\<rparr>
      | Some n \<Rightarrow>
          (let ret = retentionFrom (Some (pjn_Retention n));
               ret = (if re_MaxAge ret = 0 then ret\<lparr>re_MaxAge := dayNanos\<rparr> else ret)
           in if re_MaxBytes ret = 0 then ret\<lparr>re_MaxBytes := 2 ^ 30\<rparr> else ret))"

definition mergeRetention :: "Retention \<Rightarrow> ProjectNATSRetention option \<Rightarrow> Retention" where
  "mergeRetention base override =
     (let o' = retentionFrom override;
          base = (if re_MaxAge o' \<noteq> 0 then base\<lparr>re_MaxAge := re_MaxAge o'\<rparr> else base);
          base = (if re_MaxBytes o' \<noteq> 0 then base\<lparr>re_MaxBytes := re_MaxBytes o'\<rparr> else base)
      in if re_MaxMsgs o' \<noteq> 0 then base\<lparr>re_MaxMsgs := re_MaxMsgs o'\<rparr> else base)"

definition routeRetention :: "Retention \<Rightarrow> ProjectRoute \<Rightarrow> Retention" where
  "routeRetention defaultRet route =
     (if r_Retention route \<noteq> None then mergeRetention defaultRet (r_Retention route) else defaultRet)"

definition projectRoutePhaseReady :: string where
  "projectRoutePhaseReady = ''Ready''"

definition projectRoutePhaseFailed :: string where
  "projectRoutePhaseFailed = ''Failed''"

definition failure_condition :: "string \<Rightarrow> error \<Rightarrow> int \<Rightarrow> Condition" where
  "failure_condition reason err now =
     (mkCondition ''Ready'' ConditionFalse reason (err_msg err))\<lparr>c_LastTransitionTime := now\<rparr>"

definition ensure_route ::
  "'w ProjectReconciler \<Rightarrow> 'w StreamManager \<Rightarrow> string \<Rightarrow> string \<Rightarrow> Retention \<Rightarrow> ProjectRoute \<Rightarrow>
   ('w traced, ProjectRouteStatus) state" where
  "ensure_route R M project natsURL defaultRet route = do {
     let stream = StreamName project (r_Name route);
     let subject = Subject project (r_Name route);
     let st = \<lparr>rs_Name = r_Name route, rs_Subject = subject, rs_Stream = stream,
               rs_Phase = projectRoutePhaseReady, rs_Conditions = []\<rparr>;
     let ret = routeRetention defaultRet route;
     e \<leftarrow> call (JSEnsureStream M natsURL stream subject ret) (JSStreamEnsured natsURL stream subject ret);
     case e of
       None \<Rightarrow> State_Monad.return st
     | Some err \<Rightarrow> do {
         now \<leftarrow> call (r_Now R) ClockRead;
         State_Monad.return (st\<lparr>rs_Phase := projectRoutePhaseFailed,
           rs_Conditions := [failure_condition ''StreamError'' err now]\<rparr>)
       }
   }"

fun ensure_routes ::
  "'w ProjectReconciler \<Rightarrow> 'w StreamManager \<Rightarrow> string \<Rightarrow> string \<Rightarrow> Retention \<Rightarrow> ProjectRoute list \<Rightarrow>
   ('w traced, ProjectRouteStatus list) state" where
  "ensure_routes R M project natsURL defaultRet [] = State_Monad.return []"
| "ensure_routes R M project natsURL defaultRet (route # routes) = do {
     st \<leftarrow> ensure_route R M project natsURL defaultRet route;
     sts \<leftarrow> ensure_routes R M project natsURL defaultRet routes;
     State_Monad.return (st # sts)
   }"

fun delete_stale_streams ::
  "'w StreamManager \<Rightarrow> string \<Rightarrow> string list \<Rightarrow> ProjectRouteStatus list \<Rightarrow> ('w traced, error option) state" where
  "delete_stale_streams M natsURL desired [] = State_Monad.return None"
| "delete_stale_streams M natsURL desired (old # olds) =
     (if rs_Stream old \<notin> set desired \<and> rs_Stream old \<noteq> '''' then do {
        e \<leftarrow> call (JSDeleteStream M natsURL (rs_Stream old)) (JSStreamDeleted natsURL (rs_Stream old));
        case e of
          Some err \<Rightarrow> State_Monad.return (Some (wrap (''delete stale stream '' @ rs_Stream old @ '': '') err))
        | None \<Rightarrow> delete_stale_streams M natsURL desired olds
      }
      else delete_stale_streams M natsURL desired olds)"

definition reconcileRouteStreams ::
  "'w ProjectReconciler \<Rightarrow> PipelineProject \<Rightarrow> ('w traced, ProjectRouteStatus list \<times> error option) state" where
  "reconcileRouteStreams R project =
     (case r_Streams R of
        None \<Rightarrow> State_Monad.return (RouteStatuses project, None)
      | Some M \<Rightarrow> do {
          let natsURL = NATSURL (pj_Name project) (pj_Namespace project);
          let routes = pjs_Routes (pj_Spec project);
          let desired = map (\<lambda>r. StreamName (pj_Name project) (r_Name r)) routes;
          statuses \<leftarrow> ensure_routes R M (pj_Name project) natsURL (projectDefaultRetention project) routes;
          e \<leftarrow> delete_stale_streams M natsURL desired (slice (pjt_Routes (pj_Status project)));
          State_Monad.return (statuses, e)
        })"

section \<open>Cache resources\<close>

definition readyClusterInstanceURLs ::
  "'w KubeClient \<Rightarrow> string \<Rightarrow> string \<Rightarrow> ('w traced, error + string list) state" where
  "readyClusterInstanceURLs K clusterName namespace = do {
     r \<leftarrow> call (List_Pods K namespace (clusterLabelKey, clusterName)) (ListPods namespace (clusterLabelKey, clusterName));
     State_Monad.return (case r of
       Inl err \<Rightarrow> Inl err
     | Inr pods \<Rightarrow> Inr (map (clusterPodURL clusterName namespace) (readyOrdinals_of clusterName pods)))
   }"

definition kv_config :: "ProjectNATSKVCache \<Rightarrow> KVConfig" where
  "kv_config kv =
     \<lparr>kvc_TTL = (case kv_TTL kv of None \<Rightarrow> 0 | Some d \<Rightarrow> d),
      kvc_History = (case kv_History kv of None \<Rightarrow> 0 | Some h \<Rightarrow> uint8 h),
      kvc_MaxBytes = (case kv_MaxBytes kv of None \<Rightarrow> 0 | Some b \<Rightarrow> b)\<rparr>"

definition ensureKVBucket ::
  "'w StreamManager \<Rightarrow> string \<Rightarrow> string \<Rightarrow> ProjectNATSKVCache \<Rightarrow> ('w traced, error option) state" where
  "ensureKVBucket M natsURL bucket kv =
     call (JSEnsureKV M natsURL bucket (kv_config kv)) (KVEnsured natsURL bucket (kv_config kv))"

fun pushCacheToInstances ::
  "'w StreamsClient \<Rightarrow> string list \<Rightarrow> string \<Rightarrow> string \<Rightarrow> ('w traced, error option) state" where
  "pushCacheToInstances I [] label body = State_Monad.return None"
| "pushCacheToInstances I (url # urls) label body = do {
     e \<leftarrow> call (EnsureCacheResource I url label body) (CachePushed url label body);
     case e of
       Some err \<Rightarrow> State_Monad.return (Some err)
     | None \<Rightarrow> pushCacheToInstances I urls label body
   }"

definition failedCacheStatus ::
  "'w ProjectReconciler \<Rightarrow> ProjectCacheResourceStatus \<Rightarrow> string \<Rightarrow> error \<Rightarrow>
   ('w traced, ProjectCacheResourceStatus) state" where
  "failedCacheStatus R st reason err = do {
     now \<leftarrow> call (r_Now R) ClockRead;
     State_Monad.return (st\<lparr>crs_Phase := ''Failed'', crs_Conditions := [failure_condition reason err now]\<rparr>)
   }"

text \<open>
  One resource: its status, or the error that ends the reconcile (a push that failed for a
  transient reason).
\<close>

definition push_cache ::
  "lib \<Rightarrow> 'w ProjectReconciler \<Rightarrow> 'w StreamsClient \<Rightarrow> string \<Rightarrow> string list \<Rightarrow> ProjectCacheResource \<Rightarrow>
   string \<Rightarrow> ProjectCacheResourceStatus \<Rightarrow> ('w traced, error + ProjectCacheResourceStatus) state" where
  "push_cache L R I natsURL urls cr bucket st =
     (case BuildCacheResourceConfig L cr natsURL bucket of
        Inl err \<Rightarrow> do { s \<leftarrow> failedCacheStatus R st ''RenderFailed'' (Errorf err); State_Monad.return (Inr s) }
      | Inr body \<Rightarrow> do {
          e \<leftarrow> pushCacheToInstances I urls (cr_Name cr) body;
          case e of
            None \<Rightarrow> State_Monad.return (Inr st)
          | Some err \<Rightarrow>
              (case err_kind err of
                 ConfigRejectedError _ _ _ \<Rightarrow>
                   do { s \<leftarrow> failedCacheStatus R st ''PushFailed'' err; State_Monad.return (Inr s) }
               | _ \<Rightarrow> State_Monad.return (Inl (wrap (''push cache resource '' @ cr_Name cr @ '': '') err)))
        })"

definition reconcile_cache ::
  "lib \<Rightarrow> 'w ProjectReconciler \<Rightarrow> 'w StreamsClient \<Rightarrow> string \<Rightarrow> string \<Rightarrow> string list \<Rightarrow> ProjectCacheResource \<Rightarrow>
   ('w traced, error + ProjectCacheResourceStatus) state" where
  "reconcile_cache L R I project natsURL urls cr =
     (let st = \<lparr>crs_Name = cr_Name cr, crs_Bucket = '''', crs_Phase = ''Ready'', crs_Conditions = []\<rparr> in
      case cr_NatsKV cr of
        None \<Rightarrow> push_cache L R I natsURL urls cr '''' st
      | Some kv \<Rightarrow>
          (let bucket = CacheBucket project (cr_Name cr); st = st\<lparr>crs_Bucket := bucket\<rparr> in
           case r_Streams R of
             None \<Rightarrow> State_Monad.return (Inl nil_dereference)
           | Some M \<Rightarrow> do {
               e \<leftarrow> ensureKVBucket M natsURL bucket kv;
               case e of
                 Some err \<Rightarrow> do { s \<leftarrow> failedCacheStatus R st ''BucketFailed'' err; State_Monad.return (Inr s) }
               | None \<Rightarrow> push_cache L R I natsURL urls cr bucket st
             }))"

fun reconcile_caches ::
  "lib \<Rightarrow> 'w ProjectReconciler \<Rightarrow> 'w StreamsClient \<Rightarrow> string \<Rightarrow> string \<Rightarrow> string list \<Rightarrow> ProjectCacheResource list \<Rightarrow>
   ('w traced, ProjectCacheResourceStatus list \<times> error option) state" where
  "reconcile_caches L R I project natsURL urls [] = State_Monad.return ([], None)"
| "reconcile_caches L R I project natsURL urls (cr # crs) = do {
     r \<leftarrow> reconcile_cache L R I project natsURL urls cr;
     case r of
       Inl err \<Rightarrow> State_Monad.return ([], Some err)
     | Inr st \<Rightarrow> do {
         p \<leftarrow> reconcile_caches L R I project natsURL urls crs;
         State_Monad.return (st # fst p, snd p)
       }
   }"

fun delete_cache_entries ::
  "'w StreamsClient \<Rightarrow> string list \<Rightarrow> string \<Rightarrow> ('w traced, error option) state" where
  "delete_cache_entries I [] label = State_Monad.return None"
| "delete_cache_entries I (url # urls) label = do {
     e \<leftarrow> call (DeleteCacheResource I url label) (CacheDeleted url label);
     case e of
       Some err \<Rightarrow> State_Monad.return
         (Some (wrap (''delete cache resource '' @ label @ '' from '' @ url @ '': '') err))
     | None \<Rightarrow> delete_cache_entries I urls label
   }"

definition delete_bucket ::
  "'w ProjectReconciler \<Rightarrow> string \<Rightarrow> string \<Rightarrow> ('w traced, error option) state" where
  "delete_bucket R natsURL bucket =
     (if bucket = '''' then State_Monad.return None
      else case r_Streams R of
        None \<Rightarrow> State_Monad.return (Some nil_dereference)
      | Some M \<Rightarrow> do {
          e \<leftarrow> call (JSDeleteKV M natsURL bucket) (KVDeleted natsURL bucket);
          State_Monad.return (map_option (wrap (''delete kv bucket '' @ bucket @ '': '')) e)
        })"

fun teardown_caches ::
  "'w ProjectReconciler \<Rightarrow> 'w StreamsClient \<Rightarrow> string \<Rightarrow> string list \<Rightarrow> string list \<Rightarrow>
   ProjectCacheResourceStatus list \<Rightarrow> ('w traced, error option) state" where
  "teardown_caches R I natsURL urls desired [] = State_Monad.return None"
| "teardown_caches R I natsURL urls desired (old # olds) =
     (if crs_Name old \<in> set desired then teardown_caches R I natsURL urls desired olds
      else do {
        e \<leftarrow> delete_cache_entries I urls (crs_Name old);
        case e of
          Some err \<Rightarrow> State_Monad.return (Some err)
        | None \<Rightarrow> do {
            e2 \<leftarrow> delete_bucket R natsURL (crs_Bucket old);
            case e2 of
              Some err \<Rightarrow> State_Monad.return (Some err)
            | None \<Rightarrow> teardown_caches R I natsURL urls desired olds
          }
      })"

definition reconcileCacheResources ::
  "lib \<Rightarrow> 'w ProjectReconciler \<Rightarrow> PipelineProject \<Rightarrow>
   ('w traced, ProjectCacheResourceStatus list option \<times> error option) state" where
  "reconcileCacheResources L R project =
     (case r_Instances R of
        None \<Rightarrow> State_Monad.return (pjt_CacheResources (pj_Status project), None)
      | Some I \<Rightarrow> do {
          let natsURL = NATSURL (pj_Name project) (pj_Namespace project);
          let crs = pjs_CacheResources (pj_Spec project);
          r \<leftarrow> readyClusterInstanceURLs (r_Client R) (projectChildClusterName (pj_Name project)) (pj_Namespace project);
          case r of
            Inl err \<Rightarrow> State_Monad.return (None, Some (wrap ''list cluster instances: '' err))
          | Inr urls \<Rightarrow> do {
              p \<leftarrow> reconcile_caches L R I (pj_Name project) natsURL urls crs;
              case snd p of
                Some err \<Rightarrow> State_Monad.return (Some (fst p), Some err)
              | None \<Rightarrow> do {
                  e \<leftarrow> teardown_caches R I natsURL urls (map cr_Name crs) (slice (pjt_CacheResources (pj_Status project)));
                  State_Monad.return (Some (fst p), e)
                }
            }
        })"

section \<open>Deletion\<close>

definition projectFinalizer :: string where
  "projectFinalizer = ''rpc.operator.io/pipelineproject''"

definition reclaimPolicy :: "PipelineProject \<Rightarrow> string" where
  "reclaimPolicy project = (case pjs_NATS (pj_Spec project) of
      None \<Rightarrow> ''Retain''
    | Some n \<Rightarrow> if pjn_StorageReclaimPolicy n \<noteq> '''' then pjn_StorageReclaimPolicy n else ''Retain'')"

fun delete_pvcs :: "'w KubeClient \<Rightarrow> PersistentVolumeClaim list \<Rightarrow> ('w traced, error option) state" where
  "delete_pvcs K [] = State_Monad.return None"
| "delete_pvcs K (pvc # pvcs) = do {
     e \<leftarrow> call (Delete_PVC K (om_Name (pvc_Meta pvc)) (om_Namespace (pvc_Meta pvc)))
             (DeletePVC (om_Name (pvc_Meta pvc)) (om_Namespace (pvc_Meta pvc)));
     case IgnoreNotFound e of
       Some err \<Rightarrow> State_Monad.return (Some (wrap (''delete pvc '' @ om_Name (pvc_Meta pvc) @ '': '') err))
     | None \<Rightarrow> delete_pvcs K pvcs
   }"

definition cleanupForDelete :: "'w KubeClient \<Rightarrow> PipelineProject \<Rightarrow> ('w traced, error option) state" where
  "cleanupForDelete K project =
     (if reclaimPolicy project \<noteq> ''Delete'' then State_Monad.return None
      else do {
        r \<leftarrow> call (List_PVCs K (pj_Namespace project) (projectLabelKey, pj_Name project))
                (ListPVCs (pj_Namespace project) (projectLabelKey, pj_Name project));
        case r of
          Inl err \<Rightarrow> State_Monad.return (Some (wrap ''list pvcs: '' err))
        | Inr pvcs \<Rightarrow> delete_pvcs K pvcs
      })"

definition reconcile_project_deletion ::
  "lib \<Rightarrow> 'w KubeClient \<Rightarrow> PipelineProject \<Rightarrow> ('w traced, outcome) state" where
  "reconcile_project_deletion L K project =
     (if ContainsFinalizer L (om_Finalizers (pj_Meta project)) projectFinalizer then do {
        e \<leftarrow> cleanupForDelete K project;
        case e of
          Some err \<Rightarrow> State_Monad.return (ok, Some (wrap ''project cleanup: '' err))
        | None \<Rightarrow> do {
            let m = pj_Meta project;
            let project' = project\<lparr>pj_Meta := m\<lparr>om_Finalizers := RemoveFinalizer L (om_Finalizers m) projectFinalizer\<rparr>\<rparr>;
            err \<leftarrow> call (Update_PipelineProject K project') (UpdatePipelineProject project');
            State_Monad.return (ok, err)
          }
      }
      else State_Monad.return (ok, None))"

section \<open>Status\<close>

definition projectNATSReplicas :: "PipelineProject \<Rightarrow> int" where
  "projectNATSReplicas p = (case pjs_NATS (pj_Spec p) of
      None \<Rightarrow> 1
    | Some n \<Rightarrow> (case pjn_Replicas n of None \<Rightarrow> 1 | Some r \<Rightarrow> r))"

definition projectNATSStorage :: "PipelineProject \<Rightarrow> int" where
  "projectNATSStorage p = (case pjs_NATS (pj_Spec p) of
      None \<Rightarrow> natsStorageDefault
    | Some n \<Rightarrow> (case pjn_Storage n of None \<Rightarrow> natsStorageDefault | Some q \<Rightarrow> q))"

definition deriveProjectPhase :: "ProjectChildStatus \<Rightarrow> ProjectChildStatus \<Rightarrow> PipelineProjectPhase" where
  "deriveProjectPhase cluster natsStatus =
     (if ch_Total cluster > 0 \<and> ch_Ready cluster \<ge> ch_Total cluster \<and>
         ch_Total natsStatus > 0 \<and> ch_Ready natsStatus \<ge> ch_Total natsStatus
      then ProjectPhaseReady else ProjectPhaseProvisioning)"

definition projectPhase :: "ProjectChildStatus \<Rightarrow> ProjectChildStatus \<Rightarrow> string \<Rightarrow> PipelineProjectPhase" where
  "projectPhase clusterChild natsChild routeErr =
     (if routeErr \<noteq> '''' then ProjectPhaseDegraded else deriveProjectPhase clusterChild natsChild)"

definition routesCondition :: "string \<Rightarrow> Condition" where
  "routesCondition routeErr =
     (if routeErr \<noteq> '''' then mkCondition ''RoutesValid'' ConditionFalse ''InvalidRoutes'' routeErr
      else mkCondition ''RoutesValid'' ConditionTrue ''Valid'' ''all routes valid'')"

definition readyCondition :: "ProjectChildStatus \<Rightarrow> ProjectChildStatus \<Rightarrow> PipelineProjectPhase \<Rightarrow> Condition" where
  "readyCondition clusterChild natsChild phase =
     (let msg = ''cluster '' @ itoa (ch_Ready clusterChild) @ ''/'' @ itoa (ch_Total clusterChild) @
                '', nats '' @ itoa (ch_Ready natsChild) @ ''/'' @ itoa (ch_Total natsChild)
      in case phase of
           ProjectPhaseReady \<Rightarrow> mkCondition ''Ready'' ConditionTrue ''AllReady'' msg
         | ProjectPhaseDegraded \<Rightarrow> mkCondition ''Ready'' ConditionFalse ''ChildDegraded'' msg
         | _ \<Rightarrow> mkCondition ''Ready'' ConditionFalse ''Provisioning'' msg)"

text \<open>The comparison of the two conditions differs: a changed reason of \<open>RoutesValid\<close> is not looked at.\<close>

definition routes_cond_changed :: "Condition option \<Rightarrow> Condition \<Rightarrow> bool" where
  "routes_cond_changed existing desired = (case existing of
      None \<Rightarrow> True
    | Some c \<Rightarrow> c_Status c \<noteq> c_Status desired \<or> c_Message c \<noteq> c_Message desired)"

definition projectStatusChanged ::
  "lib \<Rightarrow> PipelineProject \<Rightarrow> ProjectChildStatus \<Rightarrow> ProjectChildStatus \<Rightarrow> string \<Rightarrow>
   ProjectRouteStatus list option \<Rightarrow> ProjectCacheResourceStatus list option \<Rightarrow> bool" where
  "projectStatusChanged L project clusterChild natsChild routeErr routeStatuses cacheStatuses =
     (let st = pj_Status project; phase = projectPhase clusterChild natsChild routeErr in
      cond_differs (FindStatusCondition L (pjt_Conditions st) ''Ready'') (readyCondition clusterChild natsChild phase) \<or>
      routes_cond_changed (FindStatusCondition L (pjt_Conditions st) ''RoutesValid'') (routesCondition routeErr) \<or>
      pjt_Routes st \<noteq> routeStatuses \<or> pjt_CacheResources st \<noteq> cacheStatuses \<or>
      pjt_Phase st \<noteq> phase \<or> pjt_Cluster st \<noteq> clusterChild \<or> pjt_NATS st \<noteq> natsChild \<or>
      pjt_ObservedGeneration st \<noteq> om_Generation (pj_Meta project))"

definition setProjectStatus ::
  "lib \<Rightarrow> PipelineProject \<Rightarrow> ProjectChildStatus \<Rightarrow> ProjectChildStatus \<Rightarrow> string \<Rightarrow>
   ProjectRouteStatus list option \<Rightarrow> ProjectCacheResourceStatus list option \<Rightarrow> PipelineProject" where
  "setProjectStatus L project clusterChild natsChild routeErr routeStatuses cacheStatuses =
     (let st = pj_Status project; phase = projectPhase clusterChild natsChild routeErr in
      project\<lparr>pj_Status := st\<lparr>pjt_Phase := phase, pjt_Cluster := clusterChild, pjt_NATS := natsChild,
        pjt_ObservedGeneration := om_Generation (pj_Meta project),
        pjt_Routes := routeStatuses, pjt_CacheResources := cacheStatuses,
        pjt_Conditions := SetStatusCondition L (routesCondition routeErr)
          (SetStatusCondition L (readyCondition clusterChild natsChild phase) (pjt_Conditions st))\<rparr>\<rparr>)"

definition write_project_status ::
  "lib \<Rightarrow> 'w ProjectReconciler \<Rightarrow> PipelineProject \<Rightarrow> ProjectChildStatus \<Rightarrow> ProjectChildStatus \<Rightarrow> string \<Rightarrow>
   ProjectRouteStatus list option \<Rightarrow> ProjectCacheResourceStatus list option \<Rightarrow> ('w traced, outcome) state" where
  "write_project_status L R project clusterChild natsChild routeErr routeStatuses cacheStatuses =
     (if projectStatusChanged L project clusterChild natsChild routeErr routeStatuses cacheStatuses then do {
        let project' = setProjectStatus L project clusterChild natsChild routeErr routeStatuses cacheStatuses;
        err \<leftarrow> call (StatusUpdate_PipelineProject (r_Client R) project') (UpdateProjectStatus project');
        State_Monad.return (after_status_update ok err)
      }
      else State_Monad.return (ok, None))"

section \<open>Reconcile\<close>

definition mutate_project_cluster ::
  "'w KubeClient \<Rightarrow> PipelineProject \<Rightarrow> PipelineCluster \<Rightarrow> error + PipelineCluster" where
  "mutate_project_cluster K project cluster =
     (let built = buildProjectCluster project;
          cluster = cluster\<lparr>pc_Meta := (pc_Meta cluster)\<lparr>om_Labels := om_Labels (pc_Meta built)\<rparr>,
                            pc_Spec := pc_Spec built\<rparr>
      in own K (pj_Meta project) (pc_Meta cluster) (\<lambda>m. cluster\<lparr>pc_Meta := m\<rparr>))"

definition mutate_nats_config_map ::
  "'w KubeClient \<Rightarrow> PipelineProject \<Rightarrow> ConfigMap \<Rightarrow> error + ConfigMap" where
  "mutate_nats_config_map K project cm =
     (let built = buildProjectNATSConfigMap (pj_Name project) (projectNATSReplicas project);
          cm = cm\<lparr>cm_Meta := (cm_Meta cm)\<lparr>om_Labels := om_Labels (cm_Meta built)\<rparr>, cm_Data := cm_Data built\<rparr>
      in own K (pj_Meta project) (cm_Meta cm) (\<lambda>m. cm\<lparr>cm_Meta := m\<rparr>))"

definition mutate_nats_service ::
  "'w KubeClient \<Rightarrow> PipelineProject \<Rightarrow> Service \<Rightarrow> error + Service" where
  "mutate_nats_service K project svc =
     (let built = buildProjectNATSService (pj_Name project);
          svc = svc\<lparr>svc_Meta := (svc_Meta svc)\<lparr>om_Labels := om_Labels (svc_Meta built)\<rparr>,
                    svc_ClusterIP := svc_ClusterIP built, svc_Selector := svc_Selector built,
                    svc_Ports := svc_Ports built\<rparr>
      in own K (pj_Meta project) (svc_Meta svc) (\<lambda>m. svc\<lparr>svc_Meta := m\<rparr>))"

definition mutate_nats_statefulset ::
  "'w KubeClient \<Rightarrow> string \<Rightarrow> PipelineProject \<Rightarrow> StatefulSet \<Rightarrow> error + StatefulSet" where
  "mutate_nats_statefulset K natsImage project ss =
     (let built = buildProjectNATSStatefulSet (pj_Name project) natsImage (projectNATSReplicas project)
                    (projectNATSStorage project);
          ss = ss\<lparr>ss_Meta := (ss_Meta ss)\<lparr>om_Labels := om_Labels (ss_Meta built)\<rparr>\<rparr>;
          ss = (if \<not> om_Created (ss_Meta ss)
                then ss\<lparr>ss_Selector := ss_Selector built, ss_ServiceName := ss_ServiceName built,
                        ss_VolumeClaimTemplates := ss_VolumeClaimTemplates built\<rparr>
                else ss);
          ss = ss\<lparr>ss_Replicas := ss_Replicas built, ss_TemplateLabels := ss_TemplateLabels built,
                  ss_TemplateSpec := ss_TemplateSpec built\<rparr>
      in own K (pj_Meta project) (ss_Meta ss) (\<lambda>m. ss\<lparr>ss_Meta := m\<rparr>))"

text \<open>The part of \<open>Reconcile\<close> after the children were applied: routes, caches and status.\<close>

definition reconcile_routes_and_status ::
  "lib \<Rightarrow> 'w ProjectReconciler \<Rightarrow> PipelineProject \<Rightarrow> ProjectChildStatus \<Rightarrow> ProjectChildStatus \<Rightarrow> string \<Rightarrow>
   ('w traced, outcome) state" where
  "reconcile_routes_and_status L R project clusterChild natsChild routeErr = do {
     rs \<leftarrow> (if routeErr = '''' then do {
              p \<leftarrow> reconcileRouteStreams R project;
              State_Monad.return (Some (fst p), snd p)
            }
            else State_Monad.return (None, None));
     case snd rs of
       Some err \<Rightarrow> State_Monad.return (ok, Some (wrap ''reconcile route streams: '' err))
     | None \<Rightarrow> do {
         cs \<leftarrow> reconcileCacheResources L R project;
         case snd cs of
           Some err \<Rightarrow> State_Monad.return (ok, Some (propagate ''reconcile cache resources: '' err))
         | None \<Rightarrow> write_project_status L R project clusterChild natsChild routeErr (fst rs) (fst cs)
       }
   }"

definition reconcile_validated ::
  "lib \<Rightarrow> 'w ProjectReconciler \<Rightarrow> PipelineProject \<Rightarrow> ProjectChildStatus \<Rightarrow> ProjectChildStatus \<Rightarrow>
   ('w traced, outcome) state" where
  "reconcile_validated L R project clusterChild natsChild = do {
     v \<leftarrow> validateProjectRoutes L R project;
     case v of
       Inl err \<Rightarrow> State_Monad.return (ok, Some (wrap ''validate routes: '' err))
     | Inr routeErr \<Rightarrow> do {
         _ \<leftarrow> (if routeErr \<noteq> '''' \<and> r_Recorder R then emit (RecordEvent ''InvalidRoutes'' routeErr)
              else State_Monad.return ());
         reconcile_routes_and_status L R project clusterChild natsChild routeErr
       }
   }"

definition reconcile_project_children ::
  "lib \<Rightarrow> 'w ProjectReconciler \<Rightarrow> PipelineProject \<Rightarrow> ('w traced, outcome) state" where
  "reconcile_project_children L R project = do {
     let K = r_Client R;
     let ns = pj_Namespace project;
     let clusterName = projectChildClusterName (pj_Name project);
     let natsName = projectChildNATSName (pj_Name project);
     r1 \<leftarrow> call (CreateOrUpdate_PipelineCluster K clusterName ns (mutate_project_cluster K project))
              (ApplyPipelineCluster clusterName ns);
     case r1 of
       Inl e \<Rightarrow> State_Monad.return (ok, Some (wrap ''apply pipelinecluster: '' e))
     | Inr cluster \<Rightarrow> do {
         r2 \<leftarrow> call (CreateOrUpdate_ConfigMap K natsName ns (mutate_nats_config_map K project)) (ApplyConfigMap natsName ns);
         case r2 of
           Inl e \<Rightarrow> State_Monad.return (ok, Some (wrap ''apply nats configmap: '' e))
         | Inr cm \<Rightarrow> do {
             r3 \<leftarrow> call (CreateOrUpdate_Service K natsName ns (mutate_nats_service K project)) (ApplyService natsName ns);
             case r3 of
               Inl e \<Rightarrow> State_Monad.return (ok, Some (wrap ''apply nats service: '' e))
             | Inr svc \<Rightarrow> do {
                 r4 \<leftarrow> call (CreateOrUpdate_StatefulSet K natsName ns (mutate_nats_statefulset K (r_NATSImage R) project))
                          (ApplyStatefulSet natsName ns);
                 case r4 of
                   Inl e \<Rightarrow> State_Monad.return (ok, Some (wrap ''apply nats statefulset: '' e))
                 | Inr ss \<Rightarrow>
                     reconcile_validated L R project
                       \<lparr>ch_Name = om_Name (pc_Meta cluster), ch_Ready = pct_ReadyReplicas (pc_Status cluster),
                        ch_Total = pcs_Replicas (pc_Spec cluster)\<rparr>
                       \<lparr>ch_Name = om_Name (ss_Meta ss), ch_Ready = ss_ReadyReplicas ss,
                        ch_Total = projectNATSReplicas project\<rparr>
               }
           }
       }
   }"

definition reconcile_project_live ::
  "lib \<Rightarrow> 'w ProjectReconciler \<Rightarrow> PipelineProject \<Rightarrow> ('w traced, outcome) state" where
  "reconcile_project_live L R project =
     (let m = pj_Meta project in
      if \<not> ContainsFinalizer L (om_Finalizers m) projectFinalizer then do {
        let project' = project\<lparr>pj_Meta := m\<lparr>om_Finalizers := fst (AddFinalizer L (om_Finalizers m) projectFinalizer)\<rparr>\<rparr>;
        err \<leftarrow> call (Update_PipelineProject (r_Client R) project') (UpdatePipelineProject project');
        State_Monad.return (case err of Some e \<Rightarrow> (ok, Some e) | None \<Rightarrow> (requeue, None))
      }
      else reconcile_project_children L R project)"

definition ReconcileProject ::
  "lib \<Rightarrow> 'w ProjectReconciler \<Rightarrow> string \<Rightarrow> string \<Rightarrow> ('w traced, outcome) state" where
  "ReconcileProject L R name namespace = do {
     r \<leftarrow> call (Get_PipelineProject (r_Client R) name namespace) (GetPipelineProject name namespace);
     case r of
       Inl e \<Rightarrow> State_Monad.return (ok, IgnoreNotFound (Some e))
     | Inr project \<Rightarrow>
         if om_Deleting (pj_Meta project) then reconcile_project_deletion L (r_Client R) project
         else reconcile_project_live L R project
   }"

section \<open>Watches\<close>

text \<open>The requests a change of a pod or of a pipeline enqueues: name and namespace of projects.\<close>

definition projectsForClusterPod :: "Pod \<Rightarrow> (string \<times> string) list" where
  "projectsForClusterPod pod =
     (let cluster = (case aget (om_Labels (pod_Meta pod)) clusterLabelKey of None \<Rightarrow> '''' | Some c \<Rightarrow> c) in
      if cluster = '''' \<or> \<not> HasSuffix cluster ''-cluster'' then []
      else [(TrimSuffix cluster ''-cluster'', om_Namespace (pod_Meta pod))])"

definition projectsForPipeline :: "'w KubeClient \<Rightarrow> Pipeline \<Rightarrow> ('w, (string \<times> string) list) state" where
  "projectsForPipeline K p = do {
     r \<leftarrow> List_PipelineProjects K (p_Namespace p);
     State_Monad.return (case r of
       Inl _ \<Rightarrow> []
     | Inr projects \<Rightarrow> map (\<lambda>pj. (pj_Name pj, pj_Namespace pj)) projects)
   }"

end
