(* ===== verification/Rpc_Pipeline_Props.thy ===== *)
theory Rpc_Pipeline_Props
  imports Rpc_Pipeline
begin

text \<open>
  Properties of the Pipeline reconciler, for every behaviour of the Kubernetes API and of the
  Connect instances unless a hypothesis says otherwise: what is written and in which order,
  when a stream is deployed, how failures are reported, and what is left behind.
\<close>

section \<open>Events of a whole run\<close>

definition keeps_spec :: "Pipeline \<Rightarrow> event \<Rightarrow> bool" where
  "keeps_spec pipe e = (case e of
      UpdateStatus p r \<Rightarrow> p_Spec p = p_Spec pipe \<and> p_Meta p = p_Meta pipe
    | UpdatePipeline p r \<Rightarrow> p_Spec p = p_Spec pipe \<and> p_Status p = p_Status pipe
    | _ \<Rightarrow> True)"

lemma mode_keeps_spec:
  "stream_mode_event pipe e \<Longrightarrow> keeps_spec pipe e" "pod_mode_event pipe e \<Longrightarrow> keeps_spec pipe e"
  "stop_event pipe e \<Longrightarrow> keeps_spec pipe e" "finalizer_event pipe e \<Longrightarrow> keeps_spec pipe e"
  by (cases e; auto simp: event_defs keeps_spec_def same_object_def)+

lemma keeps_spec_update [simp]:
  "keeps_spec pipe (UpdatePipeline p r) \<longleftrightarrow> p_Spec p = p_Spec pipe \<and> p_Status p = p_Status pipe"
  by (simp add: keeps_spec_def)

lemma emits_keeps_spec_live: "emits (keeps_spec pipe) (reconcile_live L K S pipe)"
  unfolding reconcile_live_def
  by (intro emits_intros emits_mono [OF emits_handleStopped] emits_mono [OF emits_handleProjectAssigned]
      emits_mono [OF emits_handleClusterAssigned] emits_mono [OF emits_handleClusterFallback]
      emits_mono [OF emits_reconcile_pod]; simp add: mode_keeps_spec)

definition deploys_stream :: "event \<Rightarrow> bool" where
  "deploys_stream e = (case e of StreamEnsured u i b r \<Rightarrow> True | _ \<Rightarrow> False)"

definition deploys_pod :: "event \<Rightarrow> bool" where
  "deploys_pod e = (case e of
      ApplyPod n ns r \<Rightarrow> True | ApplyConfigMap n ns r \<Rightarrow> True | ApplyPodMonitor n ns r \<Rightarrow> True | _ \<Rightarrow> False)"

lemma mode_deploys:
  "stream_mode_event pipe e \<Longrightarrow> \<not> deploys_pod e" "pod_mode_event pipe e \<Longrightarrow> \<not> deploys_stream e"
  "stop_event pipe e \<Longrightarrow> \<not> deploys_stream e \<and> \<not> deploys_pod e"
  "finalizer_event pipe e \<Longrightarrow> \<not> deploys_stream e \<and> \<not> deploys_pod e"
  by (cases e; auto simp: event_defs deploys_stream_def deploys_pod_def)+

definition stream_mode :: "Pipeline \<Rightarrow> bool" where
  "stream_mode pipe \<longleftrightarrow> ps_ProjectRef (p_Spec pipe) \<noteq> None \<or> ps_ClusterRef (p_Spec pipe) \<noteq> ''''"

definition mode_ok :: "Pipeline \<Rightarrow> event \<Rightarrow> bool" where
  "mode_ok pipe e \<longleftrightarrow>
     (deploys_stream e \<longrightarrow> stream_mode pipe \<and> \<not> ps_Stopped (p_Spec pipe) \<and> \<not> om_Deleting (p_Meta pipe)) \<and>
     (deploys_pod e \<longrightarrow> \<not> stream_mode pipe \<and> \<not> ps_Stopped (p_Spec pipe) \<and> \<not> om_Deleting (p_Meta pipe))"

lemma emits_mode_ok:
  "emits (mode_ok pipe) (if om_Deleting (p_Meta pipe) then reconcile_deletion L K S pipe else reconcile_live L K S pipe)"
  unfolding reconcile_live_def
  by (intro emits_intros emits_mono [OF emits_handleStopped] emits_mono [OF emits_handleProjectAssigned]
      emits_mono [OF emits_handleClusterAssigned] emits_mono [OF emits_handleClusterFallback]
      emits_mono [OF emits_reconcile_pod] emits_mono [OF emits_reconcile_deletion];
      auto simp: mode_ok_def stream_mode_def mode_deploys deploys_stream_def deploys_pod_def dest: mode_deploys)

section \<open>Deploying\<close>

lemma always_streamActiveCondition [always_intros]:
  "(\<And>c r. Q c (tr @ [StreamRead u i r])) \<Longrightarrow> always (streamActiveCondition S u i) Q tr"
  unfolding streamActiveCondition_def by (intro always_intros)

definition is_ensure :: "event \<Rightarrow> bool" where
  "is_ensure e = (case e of StreamEnsured u i b r \<Rightarrow> True | _ \<Rightarrow> False)"

definition wants_redeploy :: "error + StreamStatus \<Rightarrow> bool" where
  "wants_redeploy r = (case r of Inl e \<Rightarrow> err_kind e = ErrStreamNotFound | Inr st \<Rightarrow> \<not> Active st)"

lemma always_deploy_on_gate:
  "always (deploy_on L K S pipe cn k body) (\<lambda>out tr.
     (\<exists>e\<in>set tr. is_ensure e) \<longleftrightarrow>
       (pst_StreamConfigHash (p_Status pipe) \<noteq> streamConfigHash L (instanceName cn k) body \<or>
        (\<exists>r. tr \<noteq> [] \<and> hd tr = StreamRead (clusterPodURL cn (p_Namespace pipe) k) (p_Name pipe) r \<and> wants_redeploy r))) []"
  unfolding deploy_on_def need_deploy_def ensureStreamPresent_def markClusterFailed_def
  by (intro always_intros; auto simp: is_ensure_def wants_redeploy_def split: sum.splits)

text \<open>
  A status that records a rejection with its text: failed, without any placement, and current. It
  is what \<open>set_cluster_status\<close> writes and all that \<open>cluster_status_changed\<close> compares.
\<close>

definition says_rejected :: "lib \<Rightarrow> string \<Rightarrow> Pipeline \<Rightarrow> bool" where
  "says_rejected L msg p \<longleftrightarrow>
     (let st = p_Status p in
      pst_Phase st = PhaseFailed \<and> pst_AssignedCluster st = '''' \<and> pst_AssignedInstance st = '''' \<and>
      pst_StreamID st = '''' \<and> pst_StreamConfigHash st = '''' \<and> pst_PodName st = '''' \<and>
      pst_ObservedGeneration st = om_Generation (p_Meta p) \<and>
      FindStatusCondition L (pst_Conditions st) condStreamActive = None \<and>
      (\<exists>c. FindStatusCondition L (pst_Conditions st) ''Ready'' = Some c \<and> c_Status c = ConditionFalse \<and>
         c_Reason c = ''StreamConfigInvalid'' \<and> c_Message c = msg))"

lemma rejection_changed:
  "cluster_status_changed L PhaseFailed '''' '''' '''' ''''
     (mkCondition ''Ready'' ConditionFalse ''StreamConfigInvalid'' msg) None p \<longleftrightarrow> \<not> says_rejected L msg p"
  by (auto simp: says_rejected_def cluster_status_changed_def cond_differs_def mkCondition_def Let_def split: option.splits)

text \<open>
  How the failed upsert \<open>ev\<close> is reported: it is the last upsert of the run; a rejection ends in
  a status write unless the status records it already, anything else in the error.
\<close>

definition reported :: "lib \<Rightarrow> Pipeline \<Rightarrow> outcome \<Rightarrow> event list \<Rightarrow> event \<Rightarrow> error \<Rightarrow> bool" where
  "reported L pipe out tr ev e \<longleftrightarrow> last (filter is_ensure tr) = ev \<and>
     (case err_kind e of
        ConfigRejectedError i st msg \<Rightarrow>
          if says_rejected L msg pipe then out = (ok, None) \<and> last tr = ev
          else \<exists>p r. last tr = UpdateStatus p r \<and> says_rejected L msg p \<and> p_Spec p = p_Spec pipe \<and> p_Meta p = p_Meta pipe \<and>
            out = (case r of None \<Rightarrow> (ok, None) | Some x \<Rightarrow> if err_kind x = Conflict then (requeue, None) else (ok, Some x))
      | _ \<Rightarrow> out = (ok, Some (wrap ''ensure stream: '' e)) \<and> (\<forall>p r. UpdateStatus p r \<notin> set tr))"

lemma unplaced_failed [simp]: "unplaced (set_cluster_status L ph '''' '''' '''' h c sa pipe)"
  by (simp add: unplaced_def set_cluster_status_def Let_def)

lemma object_set_cluster_status [simp]:
  "p_Spec (set_cluster_status L ph ac ai si h c sa pipe) = p_Spec pipe"
  "p_Meta (set_cluster_status L ph ac ai si h c sa pipe) = p_Meta pipe"
  by (simp_all add: set_cluster_status_def Let_def)

lemma always_deploy_on_reported:
  assumes "\<And>msg. says_rejected L msg (set_cluster_status L PhaseFailed '''' '''' '''' ''''
      (mkCondition ''Ready'' ConditionFalse ''StreamConfigInvalid'' msg) None pipe)"
  shows "always (deploy_on L K S pipe cn k body) (\<lambda>out tr.
     \<forall>e. StreamEnsured (clusterPodURL cn (p_Namespace pipe) k) (p_Name pipe) body (Some e) \<in> set tr \<longrightarrow>
       reported L pipe out tr (StreamEnsured (clusterPodURL cn (p_Namespace pipe) k) (p_Name pipe) body (Some e)) e) []"
  unfolding deploy_on_def need_deploy_def ensureStreamPresent_def markClusterFailed_def writeClusterStatus_def Let_def
  by (intro always_intros; auto simp: assms reported_def rejection_changed after_status_update_def is_ensure_def
      split: error_kind.splits option.splits)

section \<open>Status writes settle\<close>

lemma cluster_status_settles:
  assumes laws: "condition_laws L" and "c_Type cond = ''Ready''"
    and sa: "\<And>a. sa = Some a \<Longrightarrow> c_Type a = condStreamActive"
  shows "\<not> cluster_status_changed L ph ac ai si h cond sa (set_cluster_status L ph ac ai si h cond sa pipe)"
proof -
  let ?cs = "SetStatusCondition L cond (pst_Conditions (p_Status pipe))"
  have ne: "condStreamActive \<noteq> ''Ready''" by (simp add: condStreamActive_def)
  obtain c' where c': "FindStatusCondition L ?cs ''Ready'' = Some c'" "same_condition c' cond"
    using laws assms(2) unfolding condition_laws_def by metis
  show ?thesis
  proof (cases sa)
    case None
    let ?ds = "RemoveStatusCondition L condStreamActive ?cs"
    have "FindStatusCondition L ?ds ''Ready'' = Some c'" "FindStatusCondition L ?ds condStreamActive = None"
      using laws c'(1) ne unfolding condition_laws_def by metis+
    with None c'(2) show ?thesis
      by (auto simp: cluster_status_changed_def set_cluster_status_def Let_def dest: cond_differs_same)
  next
    case (Some a)
    let ?ds = "SetStatusCondition L a ?cs"
    have a: "c_Type a = condStreamActive" using sa Some by simp
    have "FindStatusCondition L ?ds ''Ready'' = Some c'"
      using laws c'(1) ne a unfolding condition_laws_def by metis
    moreover obtain a' where "FindStatusCondition L ?ds condStreamActive = Some a'" "same_condition a' a"
      using laws a unfolding condition_laws_def by metis
    ultimately show ?thesis using Some c'(2)
      by (auto simp: cluster_status_changed_def set_cluster_status_def Let_def dest: cond_differs_same)
  qed
qed

section \<open>After an accepted upsert\<close>

text \<open>
  What a status says of the stream after the answer \<open>rd\<close> of the instance: the pipeline is
  Running on the instance, and the stream is active, missing, not active or of unknown state as
  the answer says.
\<close>

definition reads_as :: "error + StreamStatus \<Rightarrow> Condition \<Rightarrow> bool" where
  "reads_as rd c \<longleftrightarrow>
     (case rd of
        Inr s \<Rightarrow> c_Status c = (if Active s then ConditionTrue else ConditionFalse)
      | Inl e \<Rightarrow> if err_kind e = ErrStreamNotFound then c_Status c = ConditionFalse \<and> c_Reason c = ''StreamMissing''
                 else c_Status c = ConditionUnknown)"

definition says_running :: "lib \<Rightarrow> string \<Rightarrow> int \<Rightarrow> error + StreamStatus \<Rightarrow> Pipeline \<Rightarrow> bool" where
  "says_running L cn k rd p \<longleftrightarrow>
     (let st = p_Status p in
      pst_Phase st = PhaseRunning \<and> pst_AssignedCluster st = cn \<and> pst_AssignedInstance st = instanceName cn k \<and>
      (\<exists>c. FindStatusCondition L (pst_Conditions st) condStreamActive = Some c \<and> reads_as rd c))"

text \<open>
  The rest of a run after an accepted upsert: the instance is asked for the stream; one it misses
  is deleted and sent once more; and unless that fails the instance is asked again, and the
  status, old or written, says what it answered.
\<close>

definition last_read :: "lib \<Rightarrow> string \<Rightarrow> int \<Rightarrow> Pipeline \<Rightarrow> event list \<Rightarrow> bool" where
  "last_read L cn k pipe tr \<longleftrightarrow> (\<exists>rd p. says_running L cn k rd p \<and>
     (tr = [StreamRead (clusterPodURL cn (p_Namespace pipe) k) (p_Name pipe) rd] \<and> p = pipe \<or>
      (\<exists>r. tr = [StreamRead (clusterPodURL cn (p_Namespace pipe) k) (p_Name pipe) rd, UpdateStatus p r])))"

definition confirmed :: "lib \<Rightarrow> string \<Rightarrow> int \<Rightarrow> string \<Rightarrow> Pipeline \<Rightarrow> outcome \<Rightarrow> event list \<Rightarrow> bool" where
  "confirmed L cn k body pipe out tr \<longleftrightarrow>
     (let url = clusterPodURL cn (p_Namespace pipe) k; name = p_Name pipe in
      \<exists>rd rest. tr = StreamEnsured url name body None # StreamRead url name rd # rest \<and>
        (if \<exists>e. rd = Inl e \<and> err_kind e = ErrStreamNotFound
         then \<exists>d res rest2. rest = StreamDeleted url name d # StreamEnsured url name body res # rest2 \<and>
                (res = None \<longrightarrow> last_read L cn k pipe rest2)
         else last_read L cn k pipe rest))"

lemma says_running_settled:
  assumes "\<not> cluster_status_changed L PhaseRunning cn (instanceName cn k) si h cond (Some sa) p" and "reads_as rd sa"
  shows "says_running L cn k rd p"
  using assms by (auto simp: says_running_def cluster_status_changed_def cond_differs_def reads_as_def Let_def split: option.splits sum.splits)

lemma says_running_written:
  assumes "condition_laws L" and "c_Type cond = ''Ready''" and "c_Type sa = condStreamActive" and "reads_as rd sa"
  shows "says_running L cn k rd (set_cluster_status L PhaseRunning cn (instanceName cn k) si h cond (Some sa) pipe)"
proof (rule says_running_settled [OF _ assms(4)])
  show "\<not> cluster_status_changed L PhaseRunning cn (instanceName cn k) si h cond (Some sa)
      (set_cluster_status L PhaseRunning cn (instanceName cn k) si h cond (Some sa) pipe)"
    by (rule cluster_status_settles [OF assms(1,2)]) (simp add: assms(3))
qed

lemma always_active_read:
  "always (streamActiveCondition S u i)
     (\<lambda>sa tr'. \<exists>rd. tr' = tr @ [StreamRead u i rd] \<and> c_Type sa = condStreamActive \<and> reads_as rd sa) tr"
  unfolding streamActiveCondition_def by (intro always_bind always_call always_return) (auto simp: reads_as_def mkCondition_def split: sum.split)

lemma last_read_intros:
  "says_running L cn k rd pipe \<Longrightarrow> last_read L cn k pipe [StreamRead (clusterPodURL cn (p_Namespace pipe) k) (p_Name pipe) rd]"
  "says_running L cn k rd p \<Longrightarrow>
     last_read L cn k pipe [StreamRead (clusterPodURL cn (p_Namespace pipe) k) (p_Name pipe) rd, UpdateStatus p r]"
  unfolding last_read_def by blast+

lemma always_read_and_write:
  assumes "condition_laws L" and "c_Type cond = ''Ready''"
  shows "always (do {
      sa \<leftarrow> streamActiveCondition S (clusterPodURL cn (p_Namespace pipe) k) (p_Name pipe);
      writeClusterStatus L K pipe PhaseRunning cn (instanceName cn k) si h cond (Some sa) d })
    (\<lambda>out tr'. \<exists>evs. tr' = tr @ evs \<and> last_read L cn k pipe evs) tr"
proof (rule always_bind, rule always_mono [OF always_active_read], elim exE conjE)
  fix sa tr' rd
  assume "tr' = tr @ [StreamRead (clusterPodURL cn (p_Namespace pipe) k) (p_Name pipe) rd]"
    and sa: "c_Type sa = condStreamActive" "reads_as rd sa"
  then show "always (writeClusterStatus L K pipe PhaseRunning cn (instanceName cn k) si h cond (Some sa) d)
      (\<lambda>out tr'. \<exists>evs. tr' = tr @ evs \<and> last_read L cn k pipe evs) tr'"
    by (intro always_writeClusterStatus; simp)
      (intro last_read_intros says_running_settled [OF _ sa(2)] says_running_written [OF assms sa], assumption?)+
qed

lemma always_need_deploy_quiet:
  "always (need_deploy S pipe u h) (\<lambda>_ tr'. \<exists>evs. tr' = tr @ evs \<and> (\<forall>e\<in>set evs. \<not> is_ensure e)) tr"
  unfolding need_deploy_def by (intro always_intros) (auto simp: is_ensure_def)

lemma last_read_quiet: "last_read L cn k pipe evs \<Longrightarrow> StreamEnsured u i b r \<notin> set evs"
  by (auto simp: last_read_def)

text \<open>The end of a run whose upsert failed.\<close>

definition after_failure :: "lib \<Rightarrow> 'w KubeClient \<Rightarrow> Pipeline \<Rightarrow> error \<Rightarrow> ('w traced, outcome) state" where
  "after_failure L K pipe e =
     (case err_kind e of
        ConfigRejectedError _ _ rejected_body \<Rightarrow> markClusterFailed L K pipe ''StreamConfigInvalid'' rejected_body 0
      | _ \<Rightarrow> State_Monad.return (ok, Some (wrap ''ensure stream: '' e)))"

lemma always_after_failure:
  "(\<And>out evs. (\<forall>e\<in>set evs. \<not> is_ensure e) \<Longrightarrow> Q out (tr @ evs)) \<Longrightarrow> always (after_failure L K pipe e) Q tr"
  unfolding after_failure_def markClusterFailed_def
  by (intro always_case_kind always_writeClusterStatus always_return)
    (metis append_Nil2 empty_iff list.set(1), simp add: is_ensure_def, metis append_Nil2 empty_iff list.set(1))

lemma always_ensureStreamPresent:
  "always (ensureStreamPresent S u n body)
     (\<lambda>err tr'. \<exists>evs. tr' = tr @ evs \<and>
        ((\<exists>e. err = Some e \<and> evs = [StreamEnsured u n body (Some e)]) \<or>
         (\<exists>rd. err = None \<and> \<not> is_stream_missing rd \<and> evs = [StreamEnsured u n body None, StreamRead u n rd]) \<or>
         (\<exists>rd d. is_stream_missing rd \<and>
            evs = [StreamEnsured u n body None, StreamRead u n rd, StreamDeleted u n d, StreamEnsured u n body err]))) tr"
  unfolding ensureStreamPresent_def by (intro always_intros) auto

lemma is_stream_missing_iff: "is_stream_missing rd \<longleftrightarrow> (\<exists>e. rd = Inl e \<and> err_kind e = ErrStreamNotFound)"
  by (simp add: is_stream_missing_def split: sum.split)

lemma drop_quiet:
  "\<forall>e\<in>set tr. \<not> is_ensure e \<Longrightarrow> dropWhile (\<lambda>e. \<not> is_ensure e) (tr @ StreamEnsured u i b r # evs) = StreamEnsured u i b r # evs"
  by (simp add: dropWhile_append is_ensure_def)

lemma quiet_no_ensure: "\<forall>e\<in>set evs. \<not> is_ensure e \<Longrightarrow> StreamEnsured u i b r \<notin> set evs"
  by (auto simp: is_ensure_def)

lemma always_deploy_on_confirmed:
  assumes laws: "condition_laws L"
  shows "always (deploy_on L K S pipe cn k body) (\<lambda>out tr.
     StreamEnsured (clusterPodURL cn (p_Namespace pipe) k) (p_Name pipe) body None \<in> set tr \<longrightarrow>
       confirmed L cn k body pipe out (dropWhile (\<lambda>e. \<not> is_ensure e) tr)) []"
    (is "always _ ?Q []")
proof -
  let ?u = "clusterPodURL cn (p_Namespace pipe) k" and ?n = "p_Name pipe"
  define tail where "tail err = (case err of Some e \<Rightarrow> after_failure L K pipe e | None \<Rightarrow> do {
      sa \<leftarrow> streamActiveCondition S ?u ?n;
      writeClusterStatus L K pipe PhaseRunning cn (instanceName cn k) ?n (streamConfigHash L (instanceName cn k) body)
        (placement_condition pipe cn (instanceName cn k)) (Some sa) resyncInterval })" for err
  have tail: "always (tail err) ?Q tr" if "\<And>out evs. err = None \<Longrightarrow> last_read L cn k pipe evs \<Longrightarrow> ?Q out (tr @ evs)"
      and "\<And>e out evs. err = Some e \<Longrightarrow> \<forall>e\<in>set evs. \<not> is_ensure e \<Longrightarrow> ?Q out (tr @ evs)" for err tr
  proof (cases err)
    case (Some e)
    with that(2) show ?thesis by (simp add: tail_def always_after_failure)
  next
    case None
    have "c_Type (placement_condition pipe cn (instanceName cn k)) = ''Ready''"
      by (simp add: placement_condition_def mkCondition_def Let_def)
    from always_read_and_write [OF laws this] show ?thesis
      unfolding tail_def None option.case by (rule always_mono) (use that(1) [OF None] in blast)
  qed
  show ?thesis
    unfolding deploy_on_def Let_def after_failure_def [symmetric] tail_def [symmetric]
  proof (rule always_bind, rule always_mono [OF always_need_deploy_quiet], elim exE conjE, rule always_bind, rule always_if)
    fix nd tr and pre :: "event list"
    assume "tr = [] @ pre" and "\<forall>e\<in>set pre. \<not> is_ensure e"
    then have q: "\<forall>e\<in>set tr. \<not> is_ensure e" by simp
    note no = quiet_no_ensure [OF q] quiet_no_ensure
    show "always (State_Monad.return None) (\<lambda>err. always (tail err) ?Q) tr"
      by (intro always_return tail) (auto simp: no last_read_quiet)
    show "always (ensureStreamPresent S ?u ?n body) (\<lambda>err. always (tail err) ?Q) tr"
    proof (rule always_mono [OF always_ensureStreamPresent], elim exE conjE, hypsubst, rule tail)
      fix err evs out evs2
      assume "(\<exists>e. err = Some e \<and> evs = [StreamEnsured ?u ?n body (Some e)]) \<or>
         (\<exists>rd. err = None \<and> \<not> is_stream_missing rd \<and> evs = [StreamEnsured ?u ?n body None, StreamRead ?u ?n rd]) \<or>
         (\<exists>rd d. is_stream_missing rd \<and>
            evs = [StreamEnsured ?u ?n body None, StreamRead ?u ?n rd, StreamDeleted ?u ?n d, StreamEnsured ?u ?n body err])"
      note cases = this
      show "?Q out ((tr @ evs) @ evs2)" if "err = None" "last_read L cn k pipe evs2"
        using cases that by (elim disjE exE conjE) (simp_all add: drop_quiet [OF q] confirmed_def is_stream_missing_iff Let_def, blast?)
      show "?Q out ((tr @ evs) @ evs2)" if "err = Some e" "\<forall>e\<in>set evs2. \<not> is_ensure e" for e
        using cases that no
        by (elim disjE exE conjE) (simp_all add: drop_quiet [OF q] confirmed_def is_stream_missing_iff Let_def)
    qed
  qed
qed

section \<open>The contract of the streams API at work\<close>

context streams_client
begin

lemma ensureStreamPresent_holds:
  assumes run: "run_state (ensureStreamPresent C u i body) (w, tr) = (None, (w', tr'))" and "readable w"
  shows "holds w' u i"
proof -
  obtain e w1 where e: "run_state (EnsureStream C u i body) w = (e, w1)" by fastforce
  with run have "e = None" by (cases e) (auto simp: ensureStreamPresent_def run_call)
  with e have w1: "run_state (EnsureStream C u i body) w = (None, w1)" by simp
  from ensure_flags [OF w1] assms(2) have r1: "readable w1" by simp
  obtain s w2 where s: "run_state (GetStreamStatus C u i) w1 = (s, w2)" by fastforce
  from status_pure [OF s] have w2: "w2 = w1" .
  show ?thesis
  proof (cases "is_stream_missing s")
    case False
    with run w1 s w2 have "w' = w1" by (simp add: ensureStreamPresent_def run_call)
    moreover have "\<exists>st. s = Inr st"
      using status_sound [OF s r1] False by (cases s) (auto simp: is_stream_missing_def)
    ultimately show ?thesis using status_sound [OF s r1] by simp
  next
    case True
    obtain d w3 where d: "run_state (DeleteStream C u i) w1 = (d, w3)" by fastforce
    obtain e' w4 where e': "run_state (EnsureStream C u i body) w3 = (e', w4)" by fastforce
    have "e' = None" "w' = w4"
      using run w1 s w2 d e' True by (simp_all add: ensureStreamPresent_def run_call)
    moreover have "\<not> dropping w3" using delete_flags [OF d] ensure_flags [OF w1] by blast
    ultimately show ?thesis using ensure_loads e' by blast
  qed
qed

lemma deleteAssignedStream_gone:
  assumes run: "run_state (deleteAssignedStream C pipe) (w, tr) = (None, (w', tr'))"
    and "placement pipe = Some (c, k)"
  shows "\<not> holds w' (clusterPodURL c (p_Namespace pipe) k) (p_Name pipe)"
proof -
  let ?u = "clusterPodURL c (p_Namespace pipe) k"
  obtain d w1 where d: "run_state (DeleteStream C ?u (p_Name pipe)) w = (d, w1)" by fastforce
  have "d = None" "w' = w1"
    using assms d by (auto simp: deleteAssignedStream_def placement_def Let_def run_call
        split: if_splits option.splits)
  with d show ?thesis using delete_gone by blast
qed

end

section \<open>A cluster for evaluating the model\<close>

text \<open>
  A pipeline on cluster \<open>etl\<close>, and an API server that has it, the cluster with the given
  pods, and accepts every write.
\<close>

definition demo_pipe :: "string \<Rightarrow> bool \<Rightarrow> Pipeline" where
  "demo_pipe inst deleting = (sample_pipeline ''a'' ''etl'' inst)
     \<lparr>p_Spec := (raw_spec ''raw'')\<lparr>ps_ClusterRef := ''etl''\<rparr>,
      p_Meta := (sample_meta ''a'')\<lparr>om_Finalizers := [finalizerName], om_Deleting := deleting\<rparr>\<rparr>"

definition demo_pod :: "string \<Rightarrow> bool \<Rightarrow> Pod" where
  "demo_pod n ready = \<lparr>pod_Meta = sample_meta n, pod_Spec = buildPodSpec ''c'' '''' [], pod_Phase = PodRunning,
     pod_Conditions = [(''Ready'', if ready then ConditionTrue else ConditionFalse)], pod_WaitingReasons = []\<rparr>"

definition demo_kube :: "Pipeline \<Rightarrow> Pod list \<Rightarrow> 'w KubeClient" where
  "demo_kube pipe pods = failing_kube
     \<lparr>Get_Pipeline := (\<lambda>_ _. State_Monad.return (Inr pipe)),
      Get_PipelineCluster := (\<lambda>_ _. State_Monad.return (Inr (sample_cluster ''etl'' 2))),
      List_Pods := (\<lambda>_ _. State_Monad.return (Inr pods)),
      List_Pipelines := (\<lambda>_. State_Monad.return (Inr [pipe])),
      Delete_Pod := (\<lambda>_ _. State_Monad.return None),
      Delete_ConfigMap := (\<lambda>_ _. State_Monad.return None),
      Delete_PodMonitor := (\<lambda>_ _. State_Monad.return None),
      Update_Pipeline := (\<lambda>_. State_Monad.return None),
      StatusUpdate_Pipeline := (\<lambda>_. State_Monad.return None)\<rparr>"

abbreviation fc :: "FakeClient StreamsClient" where
  "fc \<equiv> fake_client (\<lambda>_ _. [])"

lemma demo_kube_simps [simp]:
  "Get_Pipeline (demo_kube pipe pods) n ns = State_Monad.return (Inr pipe)"
  "Get_PipelineCluster (demo_kube pipe pods) n ns = State_Monad.return (Inr (sample_cluster ''etl'' 2))"
  "List_Pods (demo_kube pipe pods) ns l = State_Monad.return (Inr pods)"
  "List_Pipelines (demo_kube pipe pods) ns = State_Monad.return (Inr [pipe])"
  "Delete_Pod (demo_kube pipe pods) n ns = State_Monad.return None"
  "Delete_ConfigMap (demo_kube pipe pods) n ns = State_Monad.return None"
  "Delete_PodMonitor (demo_kube pipe pods) n ns = State_Monad.return None"
  "Update_Pipeline (demo_kube pipe pods) p = State_Monad.return None"
  "StatusUpdate_Pipeline (demo_kube pipe pods) p = State_Monad.return None"
  by (simp_all add: demo_kube_def)

lemma demo_pipe_simps [simp]:
  "p_Name (demo_pipe inst d) = ''a''" "p_Namespace (demo_pipe inst d) = ''ns''"
  "om_Deleting (p_Meta (demo_pipe inst d)) = d" "om_Finalizers (p_Meta (demo_pipe inst d)) = [finalizerName]"
  "pst_AssignedCluster (p_Status (demo_pipe inst d)) = ''etl''"
  "pst_AssignedInstance (p_Status (demo_pipe inst d)) = inst"
  "p_Spec (demo_pipe inst d) = (raw_spec ''raw'')\<lparr>ps_ClusterRef := ''etl''\<rparr>"
  "pst_StreamConfigHash (p_Status (demo_pipe inst d)) = ''''"
  "pst_Conditions (p_Status (demo_pipe inst d)) = []"
  by (simp_all add: demo_pipe_def sample_pipeline_def sample_meta_def)

lemma demo_finalizers [simp]:
  "ContainsFinalizer (table_lib t) fs f = (f \<in> set fs)"
  "AddFinalizer (table_lib t) fs f = (if f \<in> set fs then (fs, False) else (fs @ [f], True))"
  "FindStatusCondition (table_lib t) [] c = None"
  by (simp_all add: table_lib_def list_lib_def)

lemma ordinal_etl [simp]: "ordinalFromPodName ''etl-0'' ''etl'' = Some 0" "ordinalFromPodName ''etl-1'' ''etl'' = Some 1"
  by (simp_all add: ordinalFromPodName_def HasPrefix_def Atoi_def parse_digits_def is_digit_def
      digit_val_def in_int64_def)

lemma placement_demo [simp]: "placement (demo_pipe ''etl-0'' d) = Some (''etl'', 0)"
  by (simp add: placement_def)

lemma demo_cluster_name [simp]: "om_Name (pc_Meta (sample_cluster n r)) = n"
  by (simp add: sample_cluster_def sample_meta_def)

lemma fake_run_simps [simp]:
  "run_state (DeleteStream fc u i) w = (None, w\<lparr>f_streams := (f_streams w)((u, i) := None)\<rparr>)"
  "f_EnsureErr w = None \<Longrightarrow> \<not> f_DropNextEnsure w \<Longrightarrow> run_state (EnsureStream fc u i b) w =
     (None, w\<lparr>f_EnsureCount := f_EnsureCount w + 1, f_streams := (f_streams w)((u, i) \<mapsto> b)\<rparr>)"
  by (simp_all add: fake_defs Let_def)

text \<open>The deletion of the demo pipeline, event by event.\<close>

definition released :: "Pipeline \<Rightarrow> Pipeline" where
  "released pipe = pipe\<lparr>p_Meta := (p_Meta pipe)\<lparr>om_Finalizers := []\<rparr>\<rparr>"

lemma demo_deletion_run:
  "run_state (Reconcile (table_lib sample_tbl) (demo_kube (demo_pipe ''etl-0'' True) []) fc ''a'' ''ns'') (w, []) =
     ((ok, None),
      (w\<lparr>f_streams := (f_streams w)((clusterPodURL ''etl'' ''ns'' 0, ''a'') := None)\<rparr>,
       [GetPipeline ''a'' ''ns'' (Inr (demo_pipe ''etl-0'' True)),
        StreamDeleted (clusterPodURL ''etl'' ''ns'' 0) ''a'' None,
        UpdatePipeline (released (demo_pipe ''etl-0'' True)) None]))"
  by (simp add: Reconcile_def reconcile_deletion_def deleteAssignedStream_def run_call Let_def released_def
      table_lib_def list_lib_def)

text \<open>A deployment on \<open>etl-1\<close> while \<open>etl-0\<close>, where the stream runs, is not ready.\<close>

definition reschedule_run :: "FakeClient \<Rightarrow> outcome \<times> FakeClient \<times> event list" where
  "reschedule_run w = run_state (Reconcile (table_lib sample_tbl)
     (demo_kube (demo_pipe ''etl-0'' False) [demo_pod ''etl-0'' False, demo_pod ''etl-1'' True]) fc ''a'' ''ns'') (w, [])"

lemma demo_ready: "readyOrdinals_of ''etl'' [demo_pod ''etl-0'' False, demo_pod ''etl-1'' True] = [1]"
  by (simp add: demo_pod_def sample_meta_def isPodReady_def)

lemma demo_body: "RenderStreamConfig (table_lib sample_tbl) ((raw_spec ''raw'')\<lparr>ps_ClusterRef := ''etl''\<rparr>) = Inr ''raw''"
  by (simp add: RenderStreamConfig_def RenderPipelineYAML_def raw_spec_def injectHTTPConfig_def
      stripHTTPBlock_def sample_tbl_simps)

lemma url_etl [simp]: "clusterPodURL ''etl'' ''ns'' 0 \<noteq> clusterPodURL ''etl'' ''ns'' 1"
  by (simp add: clusterPodURL_def itoa_def utoa.simps digit_char_def)

lemma demo_new_hash: "streamConfigHash (table_lib t) i b \<noteq> ''''"
  by (simp add: streamConfigHash_def table_lib_def list_lib_def)

lemma demo_migrate: "migrateFromOldCluster S (demo_pipe inst d) ''etl'' = State_Monad.return None"
  by (simp add: migrateFromOldCluster_def Let_def)

lemma demo_changed: "cluster_status_changed (table_lib t) ph ac ai si h c sa (demo_pipe inst d)"
  by (simp add: cluster_status_changed_def Let_def cond_differs_def)

lemma demo_pick: "pickInstance ''etl-0'' ''etl'' [1] load = Some 1"
  by (simp add: pickInstance_def leastLoadedInstance_def)

lemma demo_ensure:
  assumes "f_EnsureErr w = None" and "\<not> f_DropNextEnsure w" and "f_GetErr w = None"
  shows "run_state (ensureStreamPresent fc u i b) (w, tr) =
     (None, (w\<lparr>f_EnsureCount := f_EnsureCount w + 1, f_streams := (f_streams w)((u, i) \<mapsto> b)\<rparr>,
        tr @ [StreamEnsured u i b None, StreamRead u i (Inr (held_status (\<not> f_inactive w i)))]))"
  using assms by (simp add: ensureStreamPresent_def run_call is_stream_missing_def
      fake_client_def fake_EnsureStream_def fake_GetStreamStatus_def Let_def)

lemma reschedule_run_eq:
  assumes "f_EnsureErr w = None" and "\<not> f_DropNextEnsure w" and "f_GetErr w = None"
  shows "\<exists>out p evs. reschedule_run w =
     (out, (w\<lparr>f_EnsureCount := f_EnsureCount w + 1,
              f_streams := (f_streams w)((clusterPodURL ''etl'' ''ns'' 1, ''a'') \<mapsto> ''raw'')\<rparr>,
       GetPipeline ''a'' ''ns'' (Inr (demo_pipe ''etl-0'' False)) # evs @
       [StreamEnsured (clusterPodURL ''etl'' ''ns'' 1) ''a'' ''raw'' None,
        StreamRead (clusterPodURL ''etl'' ''ns'' 1) ''a'' (Inr (held_status (\<not> f_inactive w ''a''))),
        StreamRead (clusterPodURL ''etl'' ''ns'' 1) ''a'' (Inr (held_status (\<not> f_inactive w ''a''))),
        UpdateStatus p None])) \<and>
     pst_Phase (p_Status p) = PhaseRunning \<and> pst_AssignedInstance (p_Status p) = instanceName ''etl'' 1"
proof -
  have placed: "pst_AssignedInstance (p_Status (set_cluster_status (table_lib sample_tbl) ph ac ai si h c sa pipe)) = ai"
    for ph ac ai si h c sa pipe by (simp add: set_cluster_status_def Let_def)
  have status: "run_state (GetStreamStatus fc u i) w' = (Inr (held_status (\<not> f_inactive w' i)), w')"
    if "f_GetErr w' = None" "f_streams w' (u, i) \<noteq> None" for w' u i
    using that by (auto simp: fake_client_def fake_GetStreamStatus_def)
  show ?thesis
    using assms
    by (simp add: reschedule_run_def Reconcile_def run_call reconcile_live_def Let_def raw_spec_def
        handleClusterAssigned_def deletePodModeChildren_def IgnoreNotFound_def demo_migrate schedule_and_deploy_def
        readyClusterOrdinals_def loadByOrdinal_def demo_ready deploy_ready_def demo_pick stream_body_def
        demo_body [unfolded raw_spec_def, simplified] deploy_on_def need_deploy_def
        demo_new_hash [symmetric] demo_ensure streamActiveCondition_def status writeClusterStatus_def demo_changed
        placed del: readyOrdinals_of.simps load_of.simps)
qed

section \<open>Properties\<close>

text \<open>
  C5: A pipeline under deletion that has a stream on a cluster instance keeps its finalizer
  until the stream was deleted successfully: whatever the environment answers, the only write
  of the object in the run comes right after an accepted \<open>DeleteStream\<close> on the instance of its
  placement.
\<close>

theorem finalizer_after_teardown:
  assumes "run_state (Reconcile L K S n ns) (w, []) = (out, (w', tr))"
    and "GetPipeline n ns (Inr pipe) \<in> set tr" and "om_Deleting (p_Meta pipe)"
    and "placement pipe = Some (c, k)" and "UpdatePipeline p e \<in> set tr"
  shows "tr = [GetPipeline n ns (Inr pipe),
     StreamDeleted (clusterPodURL c (p_Namespace pipe) k) (p_Name pipe) None, UpdatePipeline p e]"
proof -
  obtain w1 where "run_state (reconcile_deletion L K S pipe) (w1, [GetPipeline n ns (Inr pipe)]) = (out, (w', tr))"
    using Reconcile_run [OF assms(1,2)] assms(3) by auto
  from always_run [OF always_reconcile_deletion this] assms(4,5) show ?thesis by auto
qed

lemma run_parts: "run_state m s = (fst (run_state m s), (fst (snd (run_state m s)), snd (snd (run_state m s))))"
  by simp

theorem finalizer_after_teardown_witness:
  "snd (snd (run_state (Reconcile (table_lib sample_tbl) (demo_kube (demo_pipe ''etl-0'' True) []) fc ''a'' ''ns'') (NewFakeClient, []))) =
   [GetPipeline ''a'' ''ns'' (Inr (demo_pipe ''etl-0'' True)),
    StreamDeleted (clusterPodURL ''etl'' (p_Namespace (demo_pipe ''etl-0'' True)) 0) (p_Name (demo_pipe ''etl-0'' True)) None,
    UpdatePipeline (released (demo_pipe ''etl-0'' True)) None]"
  by (rule finalizer_after_teardown [OF run_parts]) (simp_all add: demo_deletion_run)

text \<open>
  The reconciler never changes what the user wrote: every status write carries the spec and
  the metadata that were read, and every write of the object carries the spec and the status
  that were read.
\<close>

lemma reconcile_keeps_spec:
  assumes "run_state (Reconcile L K S n ns) (w, []) = (out, (w', tr))"
    and "GetPipeline n ns (Inr pipe) \<in> set tr"
  shows "list_all (keeps_spec pipe) tr"
proof -
  have "emits (keeps_spec pipe) (if om_Deleting (p_Meta pipe) then reconcile_deletion L K S pipe
      else reconcile_live L K S pipe)"
    by (intro emits_if emits_keeps_spec_live emits_mono [OF emits_reconcile_deletion] mode_keeps_spec)
  moreover obtain w1 where "run_state (if om_Deleting (p_Meta pipe) then reconcile_deletion L K S pipe
      else reconcile_live L K S pipe) (w1, [GetPipeline n ns (Inr pipe)]) = (out, (w', tr))"
    using Reconcile_run [OF assms] by blast
  ultimately have "\<exists>evs. tr = [GetPipeline n ns (Inr pipe)] @ evs \<and> list_all (keeps_spec pipe) evs"
    by (rule emits_run)
  then show ?thesis by (auto simp: keeps_spec_def)
qed

lemma reconcile_keeps_spec_witness:
  "list_all (keeps_spec (demo_pipe ''etl-0'' True)) (snd (snd (run_state (Reconcile (table_lib sample_tbl) (demo_kube (demo_pipe ''etl-0'' True) []) fc ''a'' ''ns'') (NewFakeClient, []))))"
  by (rule reconcile_keeps_spec [OF run_parts]) (simp add: demo_deletion_run)

text \<open>
  C17: Pod mode and stream mode exclude each other: a run deploys a stream only for a pipeline
  with a cluster or project reference and applies pod-mode objects only for one with neither,
  and a stopped or deleted pipeline gets neither.
\<close>

theorem modes_exclusive:
  assumes "run_state (Reconcile L K S n ns) (w, []) = (out, (w', tr))"
    and "GetPipeline n ns (Inr pipe) \<in> set tr"
  shows "list_all (mode_ok pipe) tr"
proof -
  obtain w1 where "run_state (if om_Deleting (p_Meta pipe) then reconcile_deletion L K S pipe
      else reconcile_live L K S pipe) (w1, [GetPipeline n ns (Inr pipe)]) = (out, (w', tr))"
    using Reconcile_run [OF assms] by blast
  with emits_mode_ok have "\<exists>evs. tr = [GetPipeline n ns (Inr pipe)] @ evs \<and> list_all (mode_ok pipe) evs"
    by (rule emits_run)
  then show ?thesis by (auto simp: mode_ok_def deploys_stream_def deploys_pod_def)
qed

theorem modes_exclusive_witness:
  "list_all (mode_ok (demo_pipe ''etl-0'' True)) (snd (snd (run_state (Reconcile (table_lib sample_tbl) (demo_kube (demo_pipe ''etl-0'' True) []) fc ''a'' ''ns'') (NewFakeClient, []))))"
  by (rule modes_exclusive [OF run_parts]) (simp add: demo_deletion_run)

text \<open>
  C2: In stream mode a stream is only ever deployed to, and a pipeline only ever reported
  Running on, an instance whose pod the API listed as Ready in the same run; the instance
  recorded in the status is the one of that pod.
\<close>

theorem running_only_on_ready:
  assumes "run_state (Reconcile L K S n ns) (w, []) = (out, (w', tr))"
    and "GetPipeline n ns (Inr pipe) \<in> set tr" and "stream_mode pipe"
  shows "deploys_ok pipe tr"
proof -
  let ?m = "if om_Deleting (p_Meta pipe) then reconcile_deletion L K S pipe else reconcile_live L K S pipe"
  have start: "deploys_ok pipe [GetPipeline n ns (Inr pipe)]" by (simp add: deploys_ok_def deploy_ok_def)
  have q: "emits quiet_event (reconcile_deletion L K S pipe)" "emits quiet_event (handleStopped L K S pipe)"
    unfolding reconcile_deletion_def handleStopped_def
    by (intro emits_intros; simp add: quiet_event_def set_stopped_status_def Let_def)+
  have live: "always (reconcile_live L K S pipe) (\<lambda>_ tr'. deploys_ok pipe tr') [GetPipeline n ns (Inr pipe)]"
  proof -
    obtain fs added where fs: "AddFinalizer L (om_Finalizers (p_Meta pipe)) finalizerName = (fs, added)" by fastforce
    have up: "deploys_ok pipe [GetPipeline n ns (Inr pipe), UpdatePipeline p r]" for p r
      using deploys_ok_quiet_call [OF start, of "UpdatePipeline p r"] by simp
    show ?thesis
      using assms(3) up start unfolding reconcile_live_def
      by (auto simp: Let_def fs stream_mode_def split: option.split
          intro!: always_bind always_call always_return always_quiet [OF q(2) start]
            always_handleProjectAssigned always_handleClusterAssigned)
  qed
  have "always ?m (\<lambda>_ tr'. deploys_ok pipe tr') [GetPipeline n ns (Inr pipe)]"
    by (intro always_if live always_quiet [OF q(1) start])
  with Reconcile_run [OF assms(1,2)] show ?thesis by (metis always_run)
qed

theorem running_only_on_ready_witness:
  "\<exists>out w' tr p. reschedule_run NewFakeClient = (out, (w', tr)) \<and> UpdateStatus p None \<in> set tr \<and>
     pst_Phase (p_Status p) = PhaseRunning \<and> deploys_ok (demo_pipe ''etl-0'' False) tr"
proof -
  obtain out p w' evs where r: "reschedule_run NewFakeClient = (out, (w', GetPipeline ''a'' ''ns'' (Inr (demo_pipe ''etl-0'' False)) # evs @
       [StreamEnsured (clusterPodURL ''etl'' ''ns'' 1) ''a'' ''raw'' None,
        StreamRead (clusterPodURL ''etl'' ''ns'' 1) ''a'' (Inr (held_status True)),
        StreamRead (clusterPodURL ''etl'' ''ns'' 1) ''a'' (Inr (held_status True)),
        UpdateStatus p None]))" and p: "pst_Phase (p_Status p) = PhaseRunning"
    using reschedule_run_eq [of NewFakeClient] by (auto simp: NewFakeClient_def)
  have "deploys_ok (demo_pipe ''etl-0'' False) (GetPipeline ''a'' ''ns'' (Inr (demo_pipe ''etl-0'' False)) # evs @
       [StreamEnsured (clusterPodURL ''etl'' ''ns'' 1) ''a'' ''raw'' None,
        StreamRead (clusterPodURL ''etl'' ''ns'' 1) ''a'' (Inr (held_status True)),
        StreamRead (clusterPodURL ''etl'' ''ns'' 1) ''a'' (Inr (held_status True)),
        UpdateStatus p None])"
    by (rule running_only_on_ready [OF r [unfolded reschedule_run_def]]) (simp_all add: stream_mode_def)
  with r p show ?thesis by auto
qed

text \<open>
  C16: A stream is deployed in a run exactly when it has to be: when the hash of placement and
  configuration differs from the one recorded, or when the instance reports the stream missing
  or not active. A healthy, unchanged stream is left alone on every resync, and a failure to
  read its status is not a reason to redeploy.
\<close>

theorem redeploy_gate:
  assumes "run_state (deploy_on L K S pipe cn k body) (w, []) = (out, (w', tr))"
  shows "(\<exists>e\<in>set tr. is_ensure e) \<longleftrightarrow>
    (pst_StreamConfigHash (p_Status pipe) \<noteq> streamConfigHash L (instanceName cn k) body \<or>
     (\<exists>r. tr \<noteq> [] \<and> hd tr = StreamRead (clusterPodURL cn (p_Namespace pipe) k) (p_Name pipe) r \<and> wants_redeploy r))"
  by (rule always_run [OF always_deploy_on_gate assms])

definition healthy_pipe :: Pipeline where
  "healthy_pipe = (sample_pipeline ''a'' ''etl'' ''etl-0'')\<lparr>p_Status :=
     (p_Status (sample_pipeline ''a'' ''etl'' ''etl-0''))
       \<lparr>pst_StreamConfigHash := streamConfigHash (table_lib []) (instanceName ''etl'' 0) ''cfg''\<rparr>\<rparr>"

theorem redeploy_gate_witness:
  "\<not> list_ex is_ensure (snd (snd (run_state (deploy_on (table_lib []) (demo_kube healthy_pipe []) fc healthy_pipe ''etl'' 0 ''cfg'')
     (NewFakeClient\<lparr>f_streams := [(clusterPodURL ''etl'' ''ns'' 0, ''a'') \<mapsto> ''cfg'']\<rparr>, []))))"
proof -
  let ?w = "NewFakeClient\<lparr>f_streams := [(clusterPodURL ''etl'' ''ns'' 0, ''a'') \<mapsto> ''cfg'']\<rparr>"
  have st: "run_state (GetStreamStatus fc (clusterPodURL ''etl'' ''ns'' 0) ''a'') ?w = (Inr (held_status True), ?w)"
    by (simp add: fake_client_def fake_GetStreamStatus_def NewFakeClient_def)
  have hp: "p_Name healthy_pipe = ''a''" "p_Namespace healthy_pipe = ''ns''"
    "pst_StreamConfigHash (p_Status healthy_pipe) = streamConfigHash (table_lib []) (instanceName ''etl'' 0) ''cfg''"
    by (simp_all add: healthy_pipe_def sample_pipeline_def sample_meta_def)
  have "\<exists>out tr. run_state (deploy_on (table_lib []) (demo_kube healthy_pipe []) fc healthy_pipe ''etl'' 0 ''cfg'') (?w, []) =
      (out, (?w, StreamRead (clusterPodURL ''etl'' ''ns'' 0) ''a'' (Inr (held_status True)) # tr))"
    by (simp add: deploy_on_def need_deploy_def streamActiveCondition_def writeClusterStatus_def Let_def hp run_call st)
  then obtain out tr where r: "run_state (deploy_on (table_lib []) (demo_kube healthy_pipe []) fc healthy_pipe ''etl'' 0 ''cfg'') (?w, []) =
      (out, (?w, StreamRead (clusterPodURL ''etl'' ''ns'' 0) ''a'' (Inr (held_status True)) # tr))" by blast
  from redeploy_gate [OF r] show ?thesis by (simp add: r hp wants_redeploy_def list_ex_iff)
qed



text \<open>
  C33: An accepted upsert is not trusted. Whatever the instance does, after it accepts a stream
  it is asked for it; a stream it says it does not have is deleted and sent once more, and this
  second upsert is not confirmed again. But unless the second upsert fails, the run then ends by
  asking once more and leaving a status, the one there was or one written last, that says of the
  stream what this last answer said: active, not active, missing (even right after the recreate)
  or unknown. So a stream that is dropped again is never reported as active.
\<close>

theorem accepted_upsert_confirmed:
  assumes "condition_laws L" and "run_state (deploy_on L K S pipe cn k body) (w, []) = (out, (w', tr))"
    and "StreamEnsured (clusterPodURL cn (p_Namespace pipe) k) (p_Name pipe) body None \<in> set tr"
  shows "\<exists>rd rest. dropWhile (\<lambda>e. \<not> is_ensure e) tr =
      StreamEnsured (clusterPodURL cn (p_Namespace pipe) k) (p_Name pipe) body None #
      StreamRead (clusterPodURL cn (p_Namespace pipe) k) (p_Name pipe) rd # rest \<and>
    (if \<exists>e. rd = Inl e \<and> err_kind e = ErrStreamNotFound
     then \<exists>d res rest2. rest = StreamDeleted (clusterPodURL cn (p_Namespace pipe) k) (p_Name pipe) d #
            StreamEnsured (clusterPodURL cn (p_Namespace pipe) k) (p_Name pipe) body res # rest2 \<and>
            (res = None \<longrightarrow> last_read L cn k pipe rest2)
     else last_read L cn k pipe rest)"
  using always_run [OF always_deploy_on_confirmed [OF assms(1)] assms(2)] assms(3)
  unfolding confirmed_def Let_def by blast

theorem accepted_upsert_confirmed_witness:
  "\<exists>out w' tr rest. run_state (deploy_on (table_lib []) (demo_kube (demo_pipe '''' False) []) fc (demo_pipe '''' False) ''etl'' 0 ''cfg'')
       (NewFakeClient\<lparr>f_DropNextEnsure := True\<rparr>, []) = (out, (w', tr)) \<and>
     dropWhile (\<lambda>e. \<not> is_ensure e) tr =
       StreamEnsured (clusterPodURL ''etl'' ''ns'' 0) ''a'' ''cfg'' None #
       StreamRead (clusterPodURL ''etl'' ''ns'' 0) ''a'' (Inl (Err ErrStreamNotFound ''stream not found'')) #
       StreamDeleted (clusterPodURL ''etl'' ''ns'' 0) ''a'' None #
       StreamEnsured (clusterPodURL ''etl'' ''ns'' 0) ''a'' ''cfg'' None # rest \<and>
     last_read (table_lib []) ''etl'' 0 (demo_pipe '''' False) rest"
proof -
  let ?u = "clusterPodURL ''etl'' ''ns'' 0" and ?w = "NewFakeClient\<lparr>f_DropNextEnsure := True\<rparr>"
  obtain out w' evs where r: "run_state (deploy_on (table_lib []) (demo_kube (demo_pipe '''' False) []) fc (demo_pipe '''' False) ''etl'' 0 ''cfg'')
       (?w, []) = (out, (w', [StreamEnsured ?u ''a'' ''cfg'' None,
         StreamRead ?u ''a'' (Inl (Err ErrStreamNotFound ''stream not found'')), StreamDeleted ?u ''a'' None,
         StreamEnsured ?u ''a'' ''cfg'' None] @ evs))"
    by (simp add: deploy_on_def need_deploy_def demo_new_hash [symmetric] ensureStreamPresent_def Let_def run_call fake_defs
        NewFakeClient_def is_stream_missing_def streamActiveCondition_def writeClusterStatus_def demo_changed)
  have laws: "condition_laws (table_lib [])" by (simp add: table_lib_def condition_laws_list_lib)
  have "last_read (table_lib []) ''etl'' 0 (demo_pipe '''' False) evs"
    using accepted_upsert_confirmed [OF laws r] by (simp add: is_ensure_def)
  with r show ?thesis by (auto simp: is_ensure_def)
qed



text \<open>
  Status writes settle: once the status of a clustered pipeline was written, computing it
  again from the same facts finds nothing to change, so a resync without news writes nothing.
\<close>

lemma cluster_status_fixpoint:
  assumes "condition_laws L" and "c_Type cond = ''Ready''" and "pred_option (\<lambda>a. c_Type a = condStreamActive) sa"
  shows "\<not> cluster_status_changed L ph ac ai si h cond sa (set_cluster_status L ph ac ai si h cond sa pipe)"
  using assms(3) by (intro cluster_status_settles assms(1,2)) simp

lemma cluster_status_fixpoint_witness:
  "\<not> cluster_status_changed sample_lib PhaseFailed '''' '''' '''' '''' (mkCondition ''Ready'' ConditionFalse ''r'' ''m'') None
     (set_cluster_status sample_lib PhaseFailed '''' '''' '''' '''' (mkCondition ''Ready'' ConditionFalse ''r'' ''m'') None
        (sample_pipeline ''a'' ''etl'' ''etl-0''))"
  by (rule cluster_status_fixpoint) (simp_all add: sample_lib_def condition_laws_list_lib mkCondition_def)

text \<open>
  Stopping releases the placement in the right order: a stopped pipeline's status is only
  written after the delete of its stream was accepted, and what is written is Stopped, without
  pod and without placement.
\<close>

lemma stop_releases_placement:
  assumes "run_state (handleStopped L K S pipe) (w, []) = (out, (w', tr))" and "UpdateStatus p r \<in> set tr"
  shows "unplaced p \<and> pst_Phase (p_Status p) = PhaseStopped \<and> pst_PodName (p_Status p) = '''' \<and>
     (\<forall>c k. placement pipe = Some (c, k) \<longrightarrow>
        (\<exists>evs. tr = StreamDeleted (clusterPodURL c (p_Namespace pipe) k) (p_Name pipe) None # evs))"
proof -
  have "always (handleStopped L K S pipe) (\<lambda>out tr. \<forall>p r. UpdateStatus p r \<in> set tr \<longrightarrow>
      unplaced p \<and> pst_Phase (p_Status p) = PhaseStopped \<and> pst_PodName (p_Status p) = '''' \<and>
     (\<forall>c k. placement pipe = Some (c, k) \<longrightarrow>
        (\<exists>evs. tr = StreamDeleted (clusterPodURL c (p_Namespace pipe) k) (p_Name pipe) None # evs))) []"
    unfolding handleStopped_def
    by (intro always_intros; auto simp: set_stopped_status_def unplaced_def Let_def)
  from always_run [OF this assms(1)] assms(2) show ?thesis by blast
qed

lemma stop_releases_placement_witness:
  "\<exists>p evs. run_state (handleStopped (table_lib []) (demo_kube (demo_pipe ''etl-0'' False) []) fc (demo_pipe ''etl-0'' False))
       (NewFakeClient, []) = ((ok, None), (NewFakeClient, StreamDeleted (clusterPodURL ''etl'' ''ns'' 0) ''a'' None # evs)) \<and>
     UpdateStatus p None \<in> set evs \<and> unplaced p"
proof -
  obtain p evs where r: "run_state (handleStopped (table_lib []) (demo_kube (demo_pipe ''etl-0'' False) []) fc (demo_pipe ''etl-0'' False))
       (NewFakeClient, []) = ((ok, None), (NewFakeClient, evs))" and p: "UpdateStatus p None \<in> set evs"
    by (simp add: handleStopped_def deleteAssignedStream_def Let_def run_call IgnoreNotFound_def stopped_changed_def
        after_status_update_def NewFakeClient_def)
  from stop_releases_placement [OF r p] r p show ?thesis by auto
qed

text \<open>
  When the cluster has no ready instance, the placement is forgotten without the stream
  being deleted: the run makes no call on the instances, writes a status without placement, and
  a later deletion of that pipeline finds nothing to tear down.
\<close>

lemma pending_forgets_running_stream:
  "\<exists>p evs. run_state (Reconcile (table_lib []) (demo_kube (demo_pipe ''etl-0'' False) []) S ''a'' ''ns'') (w, []) =
      ((requeue_after resyncInterval, None), (w, evs @ [UpdateStatus p None])) \<and>
     (\<forall>u i r. StreamDeleted u i r \<notin> set evs) \<and> unplaced p \<and> placement p = None \<and>
     deleteAssignedStream S p = State_Monad.return None"
proof -
  let ?pipe = "demo_pipe ''etl-0'' False"
  have pick: "pickInstance cur cn [] load = None" for cur cn load by (simp add: pickInstance_None)
  obtain p evs where r: "run_state (Reconcile (table_lib []) (demo_kube ?pipe []) S ''a'' ''ns'') (w, []) =
      ((requeue_after resyncInterval, None), (w, evs @ [UpdateStatus p None]))"
    and "\<forall>u i r. StreamDeleted u i r \<notin> set evs" and p: "unplaced p"
    by (simp add: Reconcile_def run_call reconcile_live_def Let_def raw_spec_def handleClusterAssigned_def
        deletePodModeChildren_def IgnoreNotFound_def demo_migrate schedule_and_deploy_def readyClusterOrdinals_def
        loadByOrdinal_def deploy_ready_def pick markClusterPending_def writeClusterStatus_def
        demo_changed after_status_update_def del: load_of.simps)
  moreover from p have "placement p = None" "deleteAssignedStream S p = State_Monad.return None"
    by (simp_all add: placement_def unplaced_def deleteAssignedStream_def)
  ultimately show ?thesis by blast
qed

text \<open>
  When the instance of a running stream becomes unready, the stream is deployed to another
  instance and never deleted on the old one: after the run both instances hold it.
\<close>

lemma reschedule_duplicates_stream:
  "\<exists>out w' tr. reschedule_run (NewFakeClient\<lparr>f_streams := [(clusterPodURL ''etl'' ''ns'' 0, ''a'') \<mapsto> ''raw'']\<rparr>) =
      (out, (w', tr)) \<and>
     Has w' (clusterPodURL ''etl'' ''ns'' 0) ''a'' \<and> Has w' (clusterPodURL ''etl'' ''ns'' 1) ''a''"
proof -
  let ?w = "NewFakeClient\<lparr>f_streams := [(clusterPodURL ''etl'' ''ns'' 0, ''a'') \<mapsto> ''raw'']\<rparr>"
  have "f_EnsureErr ?w = None" "\<not> f_DropNextEnsure ?w" "f_GetErr ?w = None" by (simp_all add: NewFakeClient_def)
  from reschedule_run_eq [OF this] show ?thesis by (auto simp: Has_def)
qed

end
