(* ===== verification/Rpc_Project_Props.thy ===== *)
theory Rpc_Project_Props
  imports Rpc_Project Rpc_Pipeline_Props
begin

text \<open>
  Properties of the project reconciler: the validation gate in front of the JetStream streams,
  the status that is written, convergence of the streams under the contract of a stream
  manager, distribution of the cache resources, deletion, retention, and how the objects of a
  project fit together.
\<close>

section \<open>Which calls the parts make\<close>

text \<open>A stream that is ensured belongs to a route, and one that is deleted to none.\<close>

definition route_event :: "PipelineProject \<Rightarrow> event \<Rightarrow> bool" where
  "route_event project e = (case e of
      JSStreamEnsured u s subj ret r \<Rightarrow>
        u = NATSURL (pj_Name project) (pj_Namespace project) \<and>
        (\<exists>route\<in>set (pjs_Routes (pj_Spec project)).
           s = StreamName (pj_Name project) (r_Name route) \<and> subj = Subject (pj_Name project) (r_Name route) \<and>
           ret = routeRetention (projectDefaultRetention project) route)
    | JSStreamDeleted u s r \<Rightarrow>
        u = NATSURL (pj_Name project) (pj_Namespace project) \<and>
        (\<forall>route\<in>set (pjs_Routes (pj_Spec project)). s \<noteq> StreamName (pj_Name project) (r_Name route)) \<and>
        (\<exists>old\<in>set (slice (pjt_Routes (pj_Status project))). s = rs_Stream old)
    | ClockRead t \<Rightarrow> True
    | _ \<Rightarrow> False)"

definition cache_event :: "PipelineProject \<Rightarrow> event \<Rightarrow> bool" where
  "cache_event project e = (case e of
      ListPods ns l r \<Rightarrow> ns = pj_Namespace project \<and> l = (clusterLabelKey, projectChildClusterName (pj_Name project))
    | KVEnsured u b c r \<Rightarrow> True
    | KVDeleted u b r \<Rightarrow> True
    | CachePushed u l b r \<Rightarrow> True
    | CacheDeleted u l r \<Rightarrow> True
    | ClockRead t \<Rightarrow> True
    | _ \<Rightarrow> False)"

lemma emits_ensure_route:
  assumes "route \<in> set (pjs_Routes (pj_Spec project))"
  shows "emits (route_event project) (ensure_route R M (pj_Name project)
    (NATSURL (pj_Name project) (pj_Namespace project)) (projectDefaultRetention project) route)"
  unfolding ensure_route_def by (intro emits_intros; use assms in \<open>auto simp: route_event_def\<close>)

lemma emits_ensure_routes:
  assumes "set routes \<subseteq> set (pjs_Routes (pj_Spec project))"
  shows "emits (route_event project) (ensure_routes R M (pj_Name project)
    (NATSURL (pj_Name project) (pj_Namespace project)) (projectDefaultRetention project) routes)"
  using assms by (induction routes) (auto intro!: emits_intros emits_ensure_route)

lemma emits_delete_stale_streams:
  assumes "set olds \<subseteq> set (slice (pjt_Routes (pj_Status project)))"
  shows "emits (route_event project) (delete_stale_streams M (NATSURL (pj_Name project) (pj_Namespace project))
    (map (\<lambda>r. StreamName (pj_Name project) (r_Name r)) (pjs_Routes (pj_Spec project))) olds)"
  using assms by (induction olds) (auto simp: route_event_def intro!: emits_intros)

lemma emits_reconcileRouteStreams: "emits (route_event project) (reconcileRouteStreams R project)"
  unfolding reconcileRouteStreams_def Let_def
  by (intro emits_intros emits_ensure_routes emits_delete_stale_streams subset_refl)

lemma emits_pushCacheToInstances [emits_intros]:
  "(\<And>u r. P (CachePushed u label body r)) \<Longrightarrow> emits P (pushCacheToInstances I urls label body)"
  by (induction urls) (auto intro!: emits_intros)

lemma emits_failedCacheStatus [emits_intros]: "(\<And>t. P (ClockRead t)) \<Longrightarrow> emits P (failedCacheStatus R st reason err)"
  unfolding failedCacheStatus_def by (intro emits_intros)

lemma emits_reconcile_cache: "emits (cache_event project) (reconcile_cache L R I pj natsURL urls cr)"
  unfolding reconcile_cache_def push_cache_def ensureKVBucket_def
  by (intro emits_intros; simp add: cache_event_def)

lemma emits_reconcile_caches: "emits (cache_event project) (reconcile_caches L R I pj natsURL urls crs)"
  by (induction crs) (auto intro!: emits_intros emits_reconcile_cache)

lemma emits_delete_cache_entries: "emits (cache_event project) (delete_cache_entries I urls label)"
  by (induction urls) (auto simp: cache_event_def intro!: emits_intros)

lemma emits_delete_bucket: "emits (cache_event project) (delete_bucket R natsURL bucket)"
  unfolding delete_bucket_def by (intro emits_intros; simp add: cache_event_def)

lemma emits_teardown_caches: "emits (cache_event project) (teardown_caches R I natsURL urls desired olds)"
  by (induction olds) (auto intro!: emits_intros emits_delete_cache_entries emits_delete_bucket)

lemma emits_reconcileCacheResources: "emits (cache_event project) (reconcileCacheResources L R project)"
  unfolding reconcileCacheResources_def readyClusterInstanceURLs_def
  by (intro emits_intros emits_reconcile_caches emits_teardown_caches; simp add: cache_event_def)

section \<open>The validation gate\<close>

lemma uniqueness_message: "e \<in> set (uniqueness_errs seen routes) \<Longrightarrow> pe_Message e \<noteq> []"
  by (induction seen routes rule: uniqueness_errs.induct) (auto split: if_splits)

lemma target_messages: "list_all (\<lambda>e. pe_Message e \<noteq> []) (target_errs L inp route j ts)"
  by (induction ts arbitrary: j) (simp_all split: option.split)

lemma target_message: "e \<in> set (target_errs L inp route j ts) \<Longrightarrow> pe_Message e \<noteq> []"
  using target_messages [of L inp route j ts] by (simp add: list_all_iff)

lemma conflict_message: "e \<in> set (conflict_errs pj routes ps) \<Longrightarrow> pe_Message e \<noteq> []"
  by (induction pj routes ps rule: conflict_errs.induct)
    (auto simp: output_conflict_def input_conflict_def split: if_splits)

lemma cache_message: "e \<in> set (cache_errs crs) \<Longrightarrow> pe_Message e \<noteq> []"
  by (induction crs rule: cache_errs.induct) (auto split: if_splits)

lemma route_messages_nonempty: "e \<in> set (route_errs L inp routes) \<Longrightarrow> pe_Message e \<noteq> ''''"
  by (induction L inp routes rule: route_errs.induct)
    (auto split: if_splits dest: target_message)

lemma ValidateProject_message: "e \<in> set (ValidateProject L project pipelines) \<Longrightarrow> pe_Message e \<noteq> ''''"
  by (auto simp: ValidateProject_def Let_def cycle_errs_def split: if_splits
      dest: uniqueness_message conflict_message cache_message route_messages_nonempty)

text \<open>What \<open>validateProjectRoutes\<close> returns for the pipelines of the namespace.\<close>

definition route_error :: "lib \<Rightarrow> PipelineProject \<Rightarrow> Pipeline list \<Rightarrow> string" where
  "route_error L project pipes =
     (case ValidateProject L project (views_of L pipes []) of [] \<Rightarrow> '''' | e # _ \<Rightarrow> pe_Message e)"

lemma route_error_empty: "route_error L project pipes = '''' \<longleftrightarrow> project_ok L project (views_of L pipes [])"
proof -
  have "route_error L project pipes = '''' \<longleftrightarrow> ValidateProject L project (views_of L pipes []) = []"
    using ValidateProject_message [of _ L project "views_of L pipes []"]
    by (cases "ValidateProject L project (views_of L pipes [])") (auto simp: route_error_def)
  then show ?thesis by (simp only: ValidateProject_Nil)
qed

lemma always_validateProjectRoutes [always_intros]:
  assumes "\<And>e. Q (Inl e) (tr @ [ListPipelines (pj_Namespace project) (Inl e)])"
    and "\<And>pipes. Q (Inr (route_error L project pipes)) (tr @ [ListPipelines (pj_Namespace project) (Inr pipes)])"
  shows "always (validateProjectRoutes L R project) Q tr"
  unfolding validateProjectRoutes_def
proof (intro always_bind always_call always_return)
  fix r
  have v: "(case ValidateProject L project (views_of L pipes []) of [] \<Rightarrow> Inr [] | e # _ \<Rightarrow> Inr (pe_Message e)) =
      (Inr (route_error L project pipes) :: error + string)" for pipes
    by (simp add: route_error_def split: list.split)
  show "Q (case r of Inl err \<Rightarrow> Inl err | Inr pipes \<Rightarrow>
         (case ValidateProject L project (views_of L pipes []) of [] \<Rightarrow> Inr [] | e # _ \<Rightarrow> Inr (pe_Message e)))
       (tr @ [ListPipelines (pj_Namespace project) r])"
    using assms by (cases r) (simp_all add: v)
qed

text \<open>The calls made after validation returned \<open>routeErr\<close>.\<close>

definition validated_event ::
  "lib \<Rightarrow> PipelineProject \<Rightarrow> ProjectChildStatus \<Rightarrow> ProjectChildStatus \<Rightarrow> string \<Rightarrow> event \<Rightarrow> bool" where
  "validated_event L project c n routeErr e = (case e of
      JSStreamEnsured u s subj ret r \<Rightarrow> routeErr = '''' \<and> route_event project e
    | JSStreamDeleted u s r \<Rightarrow> routeErr = '''' \<and> route_event project e
    | UpdateProjectStatus p r \<Rightarrow>
        (\<exists>rs cs. p = setProjectStatus L project c n routeErr rs cs \<and> (routeErr \<noteq> '''' \<longrightarrow> rs = None))
    | ListPods ns l r \<Rightarrow> True | KVEnsured u b cfg r \<Rightarrow> True | KVDeleted u b r \<Rightarrow> True
    | CachePushed u l b r \<Rightarrow> True | CacheDeleted u l r \<Rightarrow> True | ClockRead t \<Rightarrow> True
    | RecordEvent x y \<Rightarrow> True
    | _ \<Rightarrow> False)"

lemma emits_reconcile_routes_and_status:
  "emits (validated_event L project c n routeErr) (reconcile_routes_and_status L R project c n routeErr)"
proof -
  have caches: "emits (validated_event L project c n routeErr) (reconcileCacheResources L R project)"
    by (rule emits_mono [OF emits_reconcileCacheResources])
      (auto simp: cache_event_def validated_event_def split: event.splits)
  have routes: "emits (validated_event L project c n routeErr) (reconcileRouteStreams R project)" if "routeErr = ''''"
    by (rule emits_mono [OF emits_reconcileRouteStreams])
      (use that in \<open>auto simp: route_event_def validated_event_def split: event.splits\<close>)
  show ?thesis
  proof (cases "routeErr = ''''")
    case True
    show ?thesis
      unfolding reconcile_routes_and_status_def write_project_status_def
      by (intro emits_intros caches routes; use True in \<open>auto simp: validated_event_def\<close>)
  next
    case False
    show ?thesis
      unfolding reconcile_routes_and_status_def write_project_status_def
      using False by (simp, intro emits_intros caches; auto simp: validated_event_def)
  qed
qed

text \<open>
  The invariant of a run: streams are touched only for a valid route table, and a status that
  is written is the one computed from the validation of the listed pipelines.
\<close>

definition valid_in :: "lib \<Rightarrow> PipelineProject \<Rightarrow> event set \<Rightarrow> bool" where
  "valid_in L project E \<longleftrightarrow>
     (\<exists>pipes. ListPipelines (pj_Namespace project) (Inr pipes) \<in> E \<and> project_ok L project (views_of L pipes []))"

definition status_in ::
  "lib \<Rightarrow> PipelineProject \<Rightarrow> ProjectChildStatus \<Rightarrow> ProjectChildStatus \<Rightarrow> event set \<Rightarrow> PipelineProject \<Rightarrow> bool" where
  "status_in L project c n E p \<longleftrightarrow>
     (\<exists>pipes rs cs. ListPipelines (pj_Namespace project) (Inr pipes) \<in> E \<and>
        p = setProjectStatus L project c n (route_error L project pipes) rs cs \<and>
        (route_error L project pipes \<noteq> [] \<longrightarrow> rs = None))"

definition gate_ok ::
  "lib \<Rightarrow> PipelineProject \<Rightarrow> ProjectChildStatus \<Rightarrow> ProjectChildStatus \<Rightarrow> event set \<Rightarrow> event \<Rightarrow> bool" where
  "gate_ok L project c n E e = (case e of
      JSStreamEnsured u s subj ret r \<Rightarrow> route_event project e \<and> valid_in L project E
    | JSStreamDeleted u s r \<Rightarrow> route_event project e \<and> valid_in L project E
    | UpdateProjectStatus p r \<Rightarrow> status_in L project c n E p
    | _ \<Rightarrow> True)"

definition gated :: "lib \<Rightarrow> PipelineProject \<Rightarrow> ProjectChildStatus \<Rightarrow> ProjectChildStatus \<Rightarrow> event list \<Rightarrow> bool" where
  "gated L project c n tr \<longleftrightarrow> list_all (gate_ok L project c n (set tr)) tr"

definition before_gate :: "event \<Rightarrow> bool" where
  "before_gate e = (case e of JSStreamEnsured u s subj ret r \<Rightarrow> False | JSStreamDeleted u s r \<Rightarrow> False
     | UpdateProjectStatus p r \<Rightarrow> False | _ \<Rightarrow> True)"

lemma before_gate_ok: "before_gate e \<Longrightarrow> gate_ok L project c n E e"
  by (cases e) (simp_all add: before_gate_def gate_ok_def)

lemma validated_gate_ok:
  assumes "ListPipelines (pj_Namespace project) (Inr pipes) \<in> E"
    and "validated_event L project c n (route_error L project pipes) e"
  shows "gate_ok L project c n E e"
proof -
  have "valid_in L project E" if "route_error L project pipes = []"
    using assms(1) that unfolding valid_in_def by (auto simp: route_error_empty)
  moreover have "status_in L project c n E p" if "e = UpdateProjectStatus p r" for p r
    using assms that unfolding status_in_def validated_event_def by auto
  ultimately show ?thesis
    using assms(2) by (cases e) (simp_all add: validated_event_def gate_ok_def)
qed

lemma gated_append:
  assumes "list_all before_gate tr" and "ListPipelines (pj_Namespace project) (Inr pipes) \<in> set tr"
    and "list_all (validated_event L project c n (route_error L project pipes)) evs"
  shows "gated L project c n (tr @ evs)"
  using assms(1,3) validated_gate_ok [of project pipes "set tr \<union> set evs"] assms(2)
  by (auto simp: gated_def list_all_iff before_gate_ok)

lemma gated_start: "list_all before_gate tr \<Longrightarrow> gated L project c n tr"
  by (auto simp: gated_def list_all_iff before_gate_ok)

lemma always_reconcile_validated:
  assumes "list_all before_gate tr"
  shows "always (reconcile_validated L R project c n) (\<lambda>_. gated L project c n) tr"
proof -
  have start: "list_all before_gate (tr @ [ListPipelines ns r])" for ns r
    using assms by (simp add: before_gate_def)
  have "always ((if b then emit (RecordEvent x y) else State_Monad.return ()) \<bind>
      (\<lambda>_. reconcile_routes_and_status L R project c n (route_error L project pipes)))
      (\<lambda>_. gated L project c n) (tr @ [ListPipelines (pj_Namespace project) (Inr pipes)])" for pipes b x y
  proof (rule always_emits)
    show "emits (validated_event L project c n (route_error L project pipes))
        ((if b then emit (RecordEvent x y) else State_Monad.return ()) \<bind>
         (\<lambda>_. reconcile_routes_and_status L R project c n (route_error L project pipes)))"
      by (intro emits_intros emits_reconcile_routes_and_status; simp add: validated_event_def)
  qed (rule gated_append [OF start], simp_all)
  note rest = this
  show ?thesis
    unfolding reconcile_validated_def
  proof (rule always_bind, rule always_validateProjectRoutes)
    fix e
    show "always (case Inl e of Inl err \<Rightarrow> State_Monad.return (ok, Some (wrap ''validate routes: '' err))
        | Inr routeErr \<Rightarrow> (if routeErr \<noteq> [] \<and> r_Recorder R then emit (RecordEvent ''InvalidRoutes'' routeErr)
            else State_Monad.return ()) \<bind> (\<lambda>_. reconcile_routes_and_status L R project c n routeErr))
        (\<lambda>_. gated L project c n) (tr @ [ListPipelines (pj_Namespace project) (Inl e)])"
      by (simp only: sum.case) (intro always_return gated_start start)
  qed (simp only: sum.case, rule rest)
qed

lemma always_conj:
  "always m P tr \<Longrightarrow> always m Q tr \<Longrightarrow> always m (\<lambda>a tr'. P a tr' \<and> Q a tr') tr"
  by (auto simp: always_def wp_def split: prod.splits)

lemma emits_reconcile_validated: "emits (\<lambda>_. True) (reconcile_validated L R project c n)"
  unfolding reconcile_validated_def validateProjectRoutes_def
  by (intro emits_intros emits_mono [OF emits_reconcile_routes_and_status]) simp_all

definition cluster_child :: "PipelineCluster \<Rightarrow> ProjectChildStatus" where
  "cluster_child cluster = \<lparr>ch_Name = om_Name (pc_Meta cluster), ch_Ready = pct_ReadyReplicas (pc_Status cluster),
     ch_Total = pcs_Replicas (pc_Spec cluster)\<rparr>"

definition nats_child :: "PipelineProject \<Rightarrow> StatefulSet \<Rightarrow> ProjectChildStatus" where
  "nats_child project ss = \<lparr>ch_Name = om_Name (ss_Meta ss), ch_Ready = ss_ReadyReplicas ss,
     ch_Total = projectNATSReplicas project\<rparr>"

definition run_gated :: "lib \<Rightarrow> PipelineProject \<Rightarrow> event list \<Rightarrow> bool" where
  "run_gated L project tr \<longleftrightarrow> list_all before_gate tr \<or>
     (\<exists>cluster ss.
        ApplyPipelineCluster (projectChildClusterName (pj_Name project)) (pj_Namespace project) (Inr cluster) \<in> set tr \<and>
        ApplyStatefulSet (projectChildNATSName (pj_Name project)) (pj_Namespace project) (Inr ss) \<in> set tr \<and>
        gated L project (cluster_child cluster) (nats_child project ss) tr)"

lemma always_reconcile_project_children:
  assumes "list_all before_gate tr"
  shows "always (reconcile_project_children L R project) (\<lambda>_. run_gated L project) tr"
proof -
  let ?cn = "projectChildClusterName (pj_Name project)" and ?nn = "projectChildNATSName (pj_Name project)"
  let ?ns = "pj_Namespace project"
  have last: "always (reconcile_validated L R project
        \<lparr>ch_Name = om_Name (pc_Meta cluster), ch_Ready = pct_ReadyReplicas (pc_Status cluster),
         ch_Total = pcs_Replicas (pc_Spec cluster)\<rparr>
        \<lparr>ch_Name = om_Name (ss_Meta ss), ch_Ready = ss_ReadyReplicas ss, ch_Total = projectNATSReplicas project\<rparr>)
      (\<lambda>_. run_gated L project) tr'"
    if "list_all before_gate tr'" "ApplyPipelineCluster ?cn ?ns (Inr cluster) \<in> set tr'"
      "ApplyStatefulSet ?nn ?ns (Inr ss) \<in> set tr'" for tr' cluster ss
  proof (rule always_mono [OF always_conj [OF always_reconcile_validated [OF that(1)] always_emits [OF emits_reconcile_validated]]])
    show "\<And>a evs. list_all (\<lambda>_. True) evs \<Longrightarrow> set tr' \<subseteq> set (tr' @ evs)" by simp
  qed (use that(2,3) in \<open>auto simp: run_gated_def cluster_child_def nats_child_def\<close>)
  have pre: "run_gated L project tr'" if "list_all before_gate tr'" for tr'
    using that by (simp add: run_gated_def)
  show ?thesis
    unfolding reconcile_project_children_def Let_def
    by (intro always_bind always_call always_case_sum always_return last pre;
        use assms in \<open>simp add: before_gate_def\<close>)
qed

lemma emits_reconcile_project_deletion: "emits (\<lambda>e. before_gate e \<and> (\<forall>n ns r. e \<noteq> GetPipelineProject n ns r)) (reconcile_project_deletion L K project)"
proof -
  have "emits (\<lambda>e. before_gate e \<and> (\<forall>n ns r. e \<noteq> GetPipelineProject n ns r)) (delete_pvcs K pvcs)" for pvcs
    by (induction pvcs) (auto intro!: emits_intros simp: before_gate_def)
  then show ?thesis
    unfolding reconcile_project_deletion_def cleanupForDelete_def
    by (intro emits_intros; simp add: before_gate_def)
qed

lemma emits_reconcile_project_live: "emits (\<lambda>e. \<forall>n ns r. e \<noteq> GetPipelineProject n ns r) (reconcile_project_live L R project)"
  unfolding reconcile_project_live_def reconcile_project_children_def reconcile_validated_def validateProjectRoutes_def
  by (intro emits_intros emits_mono [OF emits_reconcile_routes_and_status]; auto simp: validated_event_def)

lemma ReconcileProject_run:
  assumes "run_state (ReconcileProject L R n ns) (w, []) = (out, (w', tr))"
  shows "list_all before_gate tr \<or> (\<exists>project. GetPipelineProject n ns (Inr project) \<in> set tr \<and> run_gated L project tr)"
proof -
  have "always (if om_Deleting (pj_Meta project) then reconcile_project_deletion L (r_Client R) project
      else reconcile_project_live L R project) (\<lambda>_ tr'. GetPipelineProject n ns (Inr project) \<in> set tr' \<and> run_gated L project tr')
      [GetPipelineProject n ns (Inr project)]" for project
  proof (rule always_conj)
    have start: "list_all before_gate [GetPipelineProject n ns (Inr project)]" by (simp add: before_gate_def)
    have del: "always (reconcile_project_deletion L (r_Client R) project) (\<lambda>_. run_gated L project) [GetPipelineProject n ns (Inr project)]"
      by (rule always_emits [OF emits_reconcile_project_deletion]) (auto simp: run_gated_def before_gate_def list_all_iff)
    have live: "always (reconcile_project_live L R project) (\<lambda>_. run_gated L project) [GetPipelineProject n ns (Inr project)]"
      unfolding reconcile_project_live_def Let_def
      by (intro always_if always_bind always_call always_return always_reconcile_project_children start)
        (simp add: run_gated_def before_gate_def)
    from del live show "always (if om_Deleting (pj_Meta project) then reconcile_project_deletion L (r_Client R) project
      else reconcile_project_live L R project) (\<lambda>_. run_gated L project) [GetPipelineProject n ns (Inr project)]" by simp
    show "always (if om_Deleting (pj_Meta project) then reconcile_project_deletion L (r_Client R) project
      else reconcile_project_live L R project) (\<lambda>_ tr'. GetPipelineProject n ns (Inr project) \<in> set tr') [GetPipelineProject n ns (Inr project)]"
      by (intro always_if) (rule always_emits [OF emits_reconcile_project_deletion], simp,
          rule always_emits [OF emits_reconcile_project_live], simp)
  qed
  then have weak: "always (if om_Deleting (pj_Meta project) then reconcile_project_deletion L (r_Client R) project
      else reconcile_project_live L R project) (\<lambda>_ tr'. list_all before_gate tr' \<or>
      (\<exists>project. GetPipelineProject n ns (Inr project) \<in> set tr' \<and> run_gated L project tr'))
      [GetPipelineProject n ns (Inr project)]" for project
    by (rule always_mono) blast
  have "always (ReconcileProject L R n ns) (\<lambda>_ tr'. list_all before_gate tr' \<or>
      (\<exists>project. GetPipelineProject n ns (Inr project) \<in> set tr' \<and> run_gated L project tr')) []"
    unfolding ReconcileProject_def
    by (intro always_bind always_call always_case_sum always_return)
      (simp add: before_gate_def, simp only: append_Nil weak)
  from always_run [OF this assms] show ?thesis .
qed

section \<open>A small project\<close>

definition member :: "string \<Rightarrow> Pipeline" where
  "member n = (sample_pipeline n '''' '''')\<lparr>p_Spec := (p_Spec (sample_pipeline n '''' ''''))\<lparr>ps_ProjectRef := Some \<lparr>pr_Name = ''p''\<rparr>\<rparr>\<rparr>"

definition edge :: "string \<Rightarrow> string \<Rightarrow> string \<Rightarrow> ProjectRoute" where
  "edge n a b = \<lparr>r_Name = n, r_From = a, r_To = [\<lparr>rt_Pipeline = b, rt_When = ''''\<rparr>], r_Retention = None\<rparr>"

definition demo_project :: "ProjectRoute list \<Rightarrow> PipelineProject" where
  "demo_project routes = (sample_project ''p'' routes)\<lparr>pj_Meta := (sample_meta ''p'')\<lparr>om_Finalizers := [projectFinalizer]\<rparr>\<rparr>"

definition project_kube :: "PipelineProject \<Rightarrow> FakeManager KubeClient" where
  "project_kube project = failing_kube
     \<lparr>Get_PipelineProject := (\<lambda>_ _. State_Monad.return (Inr project)),
      List_Pipelines := (\<lambda>_. State_Monad.return (Inr [member ''a'', member ''b''])),
      CreateOrUpdate_PipelineCluster := (\<lambda>n _ f. State_Monad.return (f (sample_cluster n 1))),
      CreateOrUpdate_ConfigMap := (\<lambda>n _ f. State_Monad.return (f (bare_config_map n))),
      CreateOrUpdate_Service := (\<lambda>n _ f. State_Monad.return (f (bare_service n))),
      CreateOrUpdate_StatefulSet := (\<lambda>n _ f. State_Monad.return (f ((bare_statefulset n)\<lparr>ss_ReadyReplicas := 1\<rparr>))),
      StatusUpdate_PipelineProject := (\<lambda>_. State_Monad.return None)\<rparr>"

definition project_reconciler :: "PipelineProject \<Rightarrow> FakeManager ProjectReconciler" where
  "project_reconciler project =
     \<lparr>r_Client = project_kube project, r_NATSImage = '''', r_Streams = Some fake_manager, r_Instances = None,
      r_Recorder = True, r_Now = State_Monad.return 7\<rparr>"

lemma demo_valid: "route_error sample_lib (demo_project [edge ''r1'' ''a'' ''b'']) [member ''a'', member ''b''] = ''''"
  by code_simp

lemma demo_invalid:
  "route_error sample_lib (demo_project [edge ''r1'' ''a'' ''b'', edge ''r2'' ''b'' ''a'']) [member ''a'', member ''b''] =
     ''route graph contains a cycle: '' @ ''a'' @ arrow_sep @ ''b'' @ arrow_sep @ ''a''"
  by code_simp

lemma demo_project_simps [simp]:
  "pj_Name (demo_project routes) = ''p''" "pj_Namespace (demo_project routes) = ''ns''"
  "om_Deleting (pj_Meta (demo_project routes)) = False"
  "om_Finalizers (pj_Meta (demo_project routes)) = [projectFinalizer]"
  "pjs_Routes (pj_Spec (demo_project routes)) = routes" "pjs_NATS (pj_Spec (demo_project routes)) = None"
  "pjt_Routes (pj_Status (demo_project routes)) = None" "pjt_CacheResources (pj_Status (demo_project routes)) = None"
  by (simp_all add: demo_project_def sample_project_def sample_meta_def)

lemma project_reconciler_simps [simp]:
  "r_Client (project_reconciler project) = project_kube project"
  "r_Streams (project_reconciler project) = Some fake_manager" "r_Instances (project_reconciler project) = None"
  "r_Recorder (project_reconciler project)" "r_NATSImage (project_reconciler project) = ''''"
  by (simp_all add: project_reconciler_def)

lemma project_kube_simps [simp]:
  "Get_PipelineProject (project_kube project) n ns = State_Monad.return (Inr project)"
  "List_Pipelines (project_kube project) ns = State_Monad.return (Inr [member ''a'', member ''b''])"
  "CreateOrUpdate_PipelineCluster (project_kube project) n ns f = State_Monad.return (f (sample_cluster n 1))"
  "CreateOrUpdate_ConfigMap (project_kube project) n ns g = State_Monad.return (g (bare_config_map n))"
  "CreateOrUpdate_Service (project_kube project) n ns h = State_Monad.return (h (bare_service n))"
  "CreateOrUpdate_StatefulSet (project_kube project) n ns k = State_Monad.return (k ((bare_statefulset n)\<lparr>ss_ReadyReplicas := 1\<rparr>))"
  "StatusUpdate_PipelineProject (project_kube project) p = State_Monad.return None"
  by (simp_all add: project_kube_def)

lemma own_project_kube [simp]: "own (project_kube project) o' m f = Inr (f m)"
  by (simp add: own_def project_kube_def failing_kube_def)

lemma run_validate:
  "run_state (validateProjectRoutes L (project_reconciler project) q) (w, tr) =
     (Inr (route_error L q [member ''a'', member ''b'']),
      (w, tr @ [ListPipelines (pj_Namespace q) (Inr [member ''a'', member ''b''])]))"
  by (simp add: validateProjectRoutes_def run_call route_error_def split: list.split)

lemma finalizer_present [simp]: "ContainsFinalizer sample_lib [f] f"
  by (simp add: sample_lib_def list_lib_def)

text \<open>The run of a project with the given routes: the calls up to validation, then the rest.\<close>

lemma demo_project_run:
  "\<exists>cluster cm svc ss. cluster_child cluster = \<lparr>ch_Name = ''p-cluster'', ch_Ready = 1, ch_Total = 1\<rparr> \<and>
   nats_child (demo_project routes) ss = \<lparr>ch_Name = ''p-nats'', ch_Ready = 1, ch_Total = 1\<rparr> \<and>
   run_state (ReconcileProject sample_lib (project_reconciler (demo_project routes)) ''p'' ''ns'') (w, []) =
   run_state (reconcile_validated sample_lib (project_reconciler (demo_project routes)) (demo_project routes)
     (cluster_child cluster) (nats_child (demo_project routes) ss))
     (w, [GetPipelineProject ''p'' ''ns'' (Inr (demo_project routes)), ApplyPipelineCluster ''p-cluster'' ''ns'' (Inr cluster),
          ApplyConfigMap ''p-nats'' ''ns'' (Inr cm), ApplyService ''p-nats'' ''ns'' (Inr svc),
          ApplyStatefulSet ''p-nats'' ''ns'' (Inr ss)])"
proof -
  let ?p = "demo_project routes"
  let ?K = "project_kube ?p"
  obtain cluster where cl: "mutate_project_cluster ?K ?p (sample_cluster ''p-cluster'' 1) = Inr cluster"
      and child: "cluster_child cluster = \<lparr>ch_Name = ''p-cluster'', ch_Ready = 1, ch_Total = 1\<rparr>"
    by (simp add: mutate_project_cluster_def Let_def cluster_child_def sample_cluster_def sample_meta_def
        buildProjectCluster_def demo_project_def sample_project_def)
  obtain cm where cm: "mutate_nats_config_map ?K ?p (bare_config_map ''p-nats'') = Inr cm"
    by (simp add: mutate_nats_config_map_def Let_def)
  obtain svc where svc: "mutate_nats_service ?K ?p (bare_service ''p-nats'') = Inr svc"
    by (simp add: mutate_nats_service_def Let_def)
  obtain ss where ss: "mutate_nats_statefulset ?K '''' ?p ((bare_statefulset ''p-nats'')\<lparr>ss_ReadyReplicas := 1\<rparr>) = Inr ss"
      and nats: "nats_child ?p ss = \<lparr>ch_Name = ''p-nats'', ch_Ready = 1, ch_Total = 1\<rparr>"
    by (simp add: mutate_nats_statefulset_def Let_def nats_child_def bare_statefulset_def object_key_def projectNATSReplicas_def)
  have names: "projectChildClusterName ''p'' = ''p-cluster''" "projectChildNATSName ''p'' = ''p-nats''"
    by (simp_all add: projectChildClusterName_def projectChildNATSName_def)
  show ?thesis
    by (intro exI [of _ cluster] exI [of _ cm] exI [of _ svc] exI [of _ ss])
      (simp add: child nats ReconcileProject_def run_call reconcile_project_live_def reconcile_project_children_def
        Let_def names cl cm svc ss cluster_child_def [symmetric] nats_child_def [symmetric])
qed

lemma demo_status_changed:
  "projectStatusChanged sample_lib (demo_project routes) c n routeErr rs cs"
  by (simp add: projectStatusChanged_def Let_def demo_project_def sample_project_def sample_lib_def list_lib_def cond_differs_def)

definition demo_run :: "ProjectRoute list \<Rightarrow> FakeManager \<Rightarrow> outcome \<times> FakeManager \<times> event list" where
  "demo_run routes w =
     run_state (ReconcileProject sample_lib (project_reconciler (demo_project routes)) ''p'' ''ns'') (w, [])"

lemma demo_run_valid:
  "\<exists>p pre. demo_run [edge ''r1'' ''a'' ''b''] NewFakeManager =
     ((ok, None), (NewFakeManager\<lparr>fm_Streams := [fm_key (NATSURL ''p'' ''ns'') (StreamName ''p'' ''r1'') \<mapsto> Subject ''p'' ''r1'']\<rparr>,
       pre @ [JSStreamEnsured (NATSURL ''p'' ''ns'') (StreamName ''p'' ''r1'') (Subject ''p'' ''r1'')
                (projectDefaultRetention (demo_project [edge ''r1'' ''a'' ''b''])) None,
              UpdateProjectStatus p None])) \<and> pjt_Phase (pj_Status p) = ProjectPhaseReady"
proof -
  let ?p = "demo_project [edge ''r1'' ''a'' ''b'']"
  obtain cluster cm svc ss where
    c: "cluster_child cluster = \<lparr>ch_Name = ''p-cluster'', ch_Ready = 1, ch_Total = 1\<rparr>" and
    n: "nats_child ?p ss = \<lparr>ch_Name = ''p-nats'', ch_Ready = 1, ch_Total = 1\<rparr>" and
    run: "demo_run [edge ''r1'' ''a'' ''b''] NewFakeManager =
      run_state (reconcile_validated sample_lib (project_reconciler ?p) ?p (cluster_child cluster) (nats_child ?p ss))
       (NewFakeManager, [GetPipelineProject ''p'' ''ns'' (Inr ?p), ApplyPipelineCluster ''p-cluster'' ''ns'' (Inr cluster),
          ApplyConfigMap ''p-nats'' ''ns'' (Inr cm), ApplyService ''p-nats'' ''ns'' (Inr svc),
          ApplyStatefulSet ''p-nats'' ''ns'' (Inr ss)])"
    unfolding demo_run_def using demo_project_run [of "[edge ''r1'' ''a'' ''b'']" NewFakeManager] by blast
  have ensure: "run_state (JSEnsureStream fake_manager u s subj ret) NewFakeManager =
      (None, NewFakeManager\<lparr>fm_Streams := [fm_key u s \<mapsto> subj]\<rparr>)" for u s subj ret
    by (simp add: fake_manager_def fm_EnsureStream_def NewFakeManager_def)
  show ?thesis
    unfolding run c n
    by (simp add: reconcile_validated_def run_validate demo_valid reconcile_routes_and_status_def reconcileRouteStreams_def
        reconcileCacheResources_def ensure_route_def run_call Let_def ensure routeRetention_def
        write_project_status_def demo_status_changed after_status_update_def setProjectStatus_def projectPhase_def
        deriveProjectPhase_def) (simp add: edge_def)
qed

text \<open>Where a status that is written comes from, and its condition on the routes.\<close>

lemma status_write_run:
  assumes "run_state (ReconcileProject L R n ns) (w, []) = (out, (w', tr))" and "UpdateProjectStatus p r \<in> set tr"
  shows "\<exists>project pipes cluster ss rs cs. GetPipelineProject n ns (Inr project) \<in> set tr \<and>
    ListPipelines (pj_Namespace project) (Inr pipes) \<in> set tr \<and>
    ApplyPipelineCluster (projectChildClusterName (pj_Name project)) (pj_Namespace project) (Inr cluster) \<in> set tr \<and>
    ApplyStatefulSet (projectChildNATSName (pj_Name project)) (pj_Namespace project) (Inr ss) \<in> set tr \<and>
    p = setProjectStatus L project (cluster_child cluster) (nats_child project ss) (route_error L project pipes) rs cs"
proof -
  have "\<not> before_gate (UpdateProjectStatus p r)" by (simp add: before_gate_def)
  with assms(2) have "\<not> list_all before_gate tr" by (auto simp: list_all_iff)
  with ReconcileProject_run [OF assms(1)] obtain project cluster ss where
    get: "GetPipelineProject n ns (Inr project) \<in> set tr"
      "ApplyPipelineCluster (projectChildClusterName (pj_Name project)) (pj_Namespace project) (Inr cluster) \<in> set tr"
      "ApplyStatefulSet (projectChildNATSName (pj_Name project)) (pj_Namespace project) (Inr ss) \<in> set tr"
    and g: "gated L project (cluster_child cluster) (nats_child project ss) tr"
    by (auto simp: run_gated_def)
  from g assms(2) have "status_in L project (cluster_child cluster) (nats_child project ss) (set tr) p"
    by (auto simp: gated_def list_all_iff gate_ok_def)
  with get show ?thesis unfolding status_in_def by blast
qed

lemma routes_condition_written:
  assumes "condition_laws L"
  shows "\<exists>cond. FindStatusCondition L (pjt_Conditions (pj_Status
      (setProjectStatus L project c n (route_error L project pipes) rs cs))) ''RoutesValid'' = Some cond \<and>
    (if project_ok L project (views_of L pipes []) then c_Status cond = ConditionTrue
     else c_Status cond = ConditionFalse \<and> c_Message cond = pe_Message (hd (ValidateProject L project (views_of L pipes []))))"
proof -
  let ?err = "route_error L project pipes"
  have type: "c_Type (routesCondition ?err) = ''RoutesValid''" by (simp add: routesCondition_def mkCondition_def)
  obtain cond where find: "FindStatusCondition L (pjt_Conditions (pj_Status
      (setProjectStatus L project c n ?err rs cs))) ''RoutesValid'' = Some cond"
    and same: "same_condition cond (routesCondition ?err)"
    using assms unfolding condition_laws_def setProjectStatus_def Let_def by (auto, metis type)
  have err: "?err = pe_Message (hd (ValidateProject L project (views_of L pipes [])))"
    if "\<not> project_ok L project (views_of L pipes [])"
    using that unfolding ValidateProject_Nil [symmetric] route_error_def by (auto split: list.splits)
  from same err route_error_empty [of L project pipes] find show ?thesis
    by (auto simp: same_condition_def routesCondition_def mkCondition_def split: if_splits)
qed

section \<open>Streams under the contract of a manager\<close>

context stream_manager
begin

lemma ensure_route_run:
  assumes "run_state (ensure_route R M pj u d route) (w, tr) = (st, (w', tr'))"
    and "\<And>w. holds (snd (run_state (r_Now R) w)) = holds w"
  shows "rs_Name st = r_Name route \<and> rs_Stream st = StreamName pj (r_Name route) \<and>
    (rs_Phase st = projectRoutePhaseReady \<longrightarrow> holds w' u (rs_Stream st)) \<and>
    (\<forall>s. holds w u s \<longrightarrow> holds w' u s) \<and> (\<forall>s. s \<noteq> rs_Stream st \<longrightarrow> holds w' u s = holds w u s)"
proof -
  let ?s = "StreamName pj (r_Name route)"
  obtain e w1 where e: "run_state (JSEnsureStream M u ?s (Subject pj (r_Name route)) (routeRetention d route)) w = (e, w1)"
    by fastforce
  have keep: "holds w u s \<Longrightarrow> holds w1 u s" "s \<noteq> ?s \<Longrightarrow> holds w1 u s = holds w u s" for s
    using ensure_keeps [OF e] ensure_others [OF e, of s] by (cases "s = ?s"; blast)+
  show ?thesis
  proof (cases e)
    case None
    with assms(1) e keep ensured [of u ?s] show ?thesis
      by (auto simp: ensure_route_def Let_def run_call)
  next
    case (Some err)
    obtain t w2 where t: "run_state (r_Now R) w1 = (t, w2)" by fastforce
    have "holds w2 = holds w1" using assms(2) [of w1] t by simp
    with assms(1) e keep Some t show ?thesis
      by (auto simp: ensure_route_def Let_def run_call projectRoutePhaseReady_def projectRoutePhaseFailed_def)
  qed
qed

lemma ensure_routes_run:
  assumes "run_state (ensure_routes R M pj u d routes) (w, tr) = (sts, (w', tr'))"
    and "\<And>w. holds (snd (run_state (r_Now R) w)) = holds w"
  shows "map rs_Name sts = map r_Name routes \<and> map rs_Stream sts = map (\<lambda>r. StreamName pj (r_Name r)) routes \<and>
    list_all (\<lambda>st. rs_Phase st = projectRoutePhaseReady \<longrightarrow> holds w' u (rs_Stream st)) sts \<and>
    (\<forall>s. holds w u s \<longrightarrow> holds w' u s) \<and>
    (\<forall>s. s \<notin> set (map (\<lambda>r. StreamName pj (r_Name r)) routes) \<longrightarrow> holds w' u s = holds w u s)"
  using assms(1)
proof (induction routes arbitrary: w tr sts)
  case (Cons route routes)
  obtain st w1 tr1 where st: "run_state (ensure_route R M pj u d route) (w, tr) = (st, (w1, tr1))"
    by (metis surj_pair)
  obtain sts' where sts': "run_state (ensure_routes R M pj u d routes) (w1, tr1) = (sts', (w', tr'))" and sts: "sts = st # sts'"
    using Cons.prems st by (auto split: prod.splits)
  from ensure_route_run [OF st assms(2)] Cons.IH [OF sts'] show ?case by (auto simp: sts)
qed auto

lemma delete_stale_run:
  assumes "run_state (delete_stale_streams M u desired olds) (w, tr) = (None, (w', tr'))"
  shows "list_all (\<lambda>old. rs_Stream old \<notin> set desired \<longrightarrow> rs_Stream old \<noteq> [] \<longrightarrow> \<not> holds w' u (rs_Stream old)) olds \<and>
    (\<forall>s. \<not> holds w u s \<longrightarrow> \<not> holds w' u s) \<and>
    (\<forall>s. s \<in> set desired \<or> s \<notin> set (map rs_Stream olds) \<longrightarrow> holds w' u s = holds w u s)"
  using assms
proof (induction olds arbitrary: w tr)
  case (Cons old olds)
  show ?case
  proof (cases "rs_Stream old \<notin> set desired \<and> rs_Stream old \<noteq> []")
    case True
    obtain e w1 where e: "run_state (JSDeleteStream M u (rs_Stream old)) w = (e, w1)" by fastforce
    have none: "e = None" using Cons.prems True e by (cases e) (auto simp: run_call)
    then have rest: "run_state (delete_stale_streams M u desired olds)
        (w1, tr @ [JSStreamDeleted u (rs_Stream old) None]) = (None, (w', tr'))"
      using Cons.prems True e by (simp add: run_call)
    have gone: "\<not> holds w1 u (rs_Stream old)" using deleted e none by blast
    have others: "s \<noteq> rs_Stream old \<Longrightarrow> holds w1 u s = holds w u s" for s using delete_others [OF e] by blast
    from Cons.IH [OF rest] gone others True show ?thesis by (auto simp: list_all_iff) metis+
  next
    case False
    then have "run_state (delete_stale_streams M u desired olds) (w, tr) = (None, (w', tr'))"
      using Cons.prems by auto
    from Cons.IH [OF this] False show ?thesis by auto
  qed
qed auto

end

section \<open>Cache resources\<close>

text \<open>
  What the status of a cache resource says of the calls made for it. Ready: its bucket, if it has
  one, was ensured, and then its configuration was accepted by every instance of the list.
  Failed: the bucket was refused, or the configuration does not render, or an instance rejected
  it, and the condition says which and with what error.
\<close>

definition bucket_name :: "string \<Rightarrow> ProjectCacheResource \<Rightarrow> string" where
  "bucket_name pj cr = (case cr_NatsKV cr of None \<Rightarrow> '''' | Some _ \<Rightarrow> CacheBucket pj (cr_Name cr))"

definition bucket_events :: "string \<Rightarrow> string \<Rightarrow> ProjectCacheResource \<Rightarrow> error option \<Rightarrow> event list" where
  "bucket_events pj natsURL cr res =
     (case cr_NatsKV cr of None \<Rightarrow> [] | Some kv \<Rightarrow> [KVEnsured natsURL (CacheBucket pj (cr_Name cr)) (kv_config kv) res])"

definition accepted :: "ProjectCacheResource \<Rightarrow> string \<Rightarrow> string list \<Rightarrow> event list" where
  "accepted cr body urls = map (\<lambda>u. CachePushed u (cr_Name cr) body None) urls"

definition cache_ready ::
  "lib \<Rightarrow> string \<Rightarrow> string \<Rightarrow> string list \<Rightarrow> ProjectCacheResource \<Rightarrow> ProjectCacheResourceStatus \<Rightarrow> event list \<Rightarrow> bool" where
  "cache_ready L pj natsURL urls cr st evs \<longleftrightarrow>
     st = \<lparr>crs_Name = cr_Name cr, crs_Bucket = bucket_name pj cr, crs_Phase = ''Ready'', crs_Conditions = []\<rparr> \<and>
     (\<exists>body. BuildCacheResourceConfig L cr natsURL (bucket_name pj cr) = Inr body \<and>
        evs = bucket_events pj natsURL cr None @ accepted cr body urls)"

definition cache_failed ::
  "lib \<Rightarrow> string \<Rightarrow> string \<Rightarrow> string list \<Rightarrow> ProjectCacheResource \<Rightarrow> ProjectCacheResourceStatus \<Rightarrow> event list \<Rightarrow> bool" where
  "cache_failed L pj natsURL urls cr st evs \<longleftrightarrow>
     (\<exists>reason err now calls.
        st = \<lparr>crs_Name = cr_Name cr, crs_Bucket = bucket_name pj cr, crs_Phase = ''Failed'',
              crs_Conditions = [(mkCondition ''Ready'' ConditionFalse reason (err_msg err))\<lparr>c_LastTransitionTime := now\<rparr>]\<rparr> \<and>
        evs = calls @ [ClockRead now] \<and>
        (reason = ''BucketFailed'' \<and> cr_NatsKV cr \<noteq> None \<and> calls = bucket_events pj natsURL cr (Some err) \<or>
         reason = ''RenderFailed'' \<and> calls = bucket_events pj natsURL cr None \<and>
           BuildCacheResourceConfig L cr natsURL (bucket_name pj cr) = Inl (err_msg err) \<or>
         reason = ''PushFailed'' \<and> (\<exists>a b c. err_kind err = ConfigRejectedError a b c) \<and>
           (\<exists>body us u us2. BuildCacheResourceConfig L cr natsURL (bucket_name pj cr) = Inr body \<and> urls = us @ u # us2 \<and>
              calls = bucket_events pj natsURL cr None @ accepted cr body us @ [CachePushed u (cr_Name cr) body (Some err)])))"

definition cache_ok ::
  "lib \<Rightarrow> string \<Rightarrow> string \<Rightarrow> string list \<Rightarrow> ProjectCacheResource \<times> event list \<Rightarrow> ProjectCacheResourceStatus \<Rightarrow> bool" where
  "cache_ok L pj natsURL urls cre st \<longleftrightarrow>
     cache_ready L pj natsURL urls (fst cre) st (snd cre) \<or> cache_failed L pj natsURL urls (fst cre) st (snd cre)"

lemma always_push:
  "always (pushCacheToInstances I urls (cr_Name cr) body)
     (\<lambda>e tr'. case e of
        None \<Rightarrow> tr' = tr @ accepted cr body urls
      | Some err \<Rightarrow> \<exists>us u us2. urls = us @ u # us2 \<and> tr' = tr @ accepted cr body us @ [CachePushed u (cr_Name cr) body (Some err)]) tr"
proof (induction urls arbitrary: tr)
  case Nil
  show ?case by (auto intro!: always_return simp: accepted_def)
next
  case (Cons url urls)
  show ?case
    unfolding pushCacheToInstances.simps
  proof (intro always_bind always_call always_case_option always_return)
    fix r :: "error option" and err
    assume "r = Some err"
    then show "case Some err of
        None \<Rightarrow> tr @ [CachePushed url (cr_Name cr) body r] = tr @ accepted cr body (url # urls)
      | Some err \<Rightarrow> \<exists>us u us2. url # urls = us @ u # us2 \<and>
          tr @ [CachePushed url (cr_Name cr) body r] = tr @ accepted cr body us @ [CachePushed u (cr_Name cr) body (Some err)]"
      by (auto simp: accepted_def intro!: exI [of _ "[]"])
  next
    fix r :: "error option"
    assume "r = None"
    have first: "accepted cr body (url # us) = CachePushed url (cr_Name cr) body None # accepted cr body us" for us
      by (simp add: accepted_def)
    have step: "\<exists>us' u us2. url # urls = us' @ u # us2 \<and> tr' = tr @ accepted cr body us' @ [CachePushed u (cr_Name cr) body (Some err)]"
      if "\<exists>us u us2. urls = us @ u # us2 \<and>
        tr' = (tr @ [CachePushed url (cr_Name cr) body None]) @ accepted cr body us @ [CachePushed u (cr_Name cr) body (Some err)]" for err tr'
    proof -
      from that obtain us u us2 where "urls = us @ u # us2"
        "tr' = (tr @ [CachePushed url (cr_Name cr) body None]) @ accepted cr body us @ [CachePushed u (cr_Name cr) body (Some err)]"
        by blast
      then show ?thesis by (intro exI [of _ "url # us"] exI [of _ u] exI [of _ us2]) (simp add: first)
    qed
    show "always (pushCacheToInstances I urls (cr_Name cr) body)
       (\<lambda>e tr'. case e of
          None \<Rightarrow> tr' = tr @ accepted cr body (url # urls)
        | Some err \<Rightarrow> \<exists>us u us2. url # urls = us @ u # us2 \<and> tr' = tr @ accepted cr body us @ [CachePushed u (cr_Name cr) body (Some err)])
       (tr @ [CachePushed url (cr_Name cr) body r])"
      unfolding \<open>r = None\<close>
    proof (rule always_mono [OF Cons.IH [of "tr @ [CachePushed url (cr_Name cr) body None]"]])
      fix e :: "error option" and tr'
      assume "case e of None \<Rightarrow> tr' = (tr @ [CachePushed url (cr_Name cr) body None]) @ accepted cr body urls
        | Some err \<Rightarrow> \<exists>us u us2. urls = us @ u # us2 \<and>
            tr' = (tr @ [CachePushed url (cr_Name cr) body None]) @ accepted cr body us @ [CachePushed u (cr_Name cr) body (Some err)]"
      then show "case e of None \<Rightarrow> tr' = tr @ accepted cr body (url # urls)
        | Some err \<Rightarrow> \<exists>us u us2. url # urls = us @ u # us2 \<and> tr' = tr @ accepted cr body us @ [CachePushed u (cr_Name cr) body (Some err)]"
      proof (cases e)
        case None
        with \<open>case e of None \<Rightarrow> _ | Some err \<Rightarrow> _\<close> show ?thesis by (simp add: first)
      next
        case (Some err)
        with \<open>case e of None \<Rightarrow> _ | Some err \<Rightarrow> _\<close> show ?thesis unfolding Some option.case by (intro step) simp
      qed
    qed
  qed
qed

lemma always_failedCacheStatus [always_intros]:
  "(\<And>now. Q (st\<lparr>crs_Phase := ''Failed'', crs_Conditions := [failure_condition reason err now]\<rparr>) (tr @ [ClockRead now])) \<Longrightarrow>
     always (failedCacheStatus R st reason err) Q tr"
  unfolding failedCacheStatus_def by (intro always_intros)

abbreviation fresh_status :: "string \<Rightarrow> ProjectCacheResource \<Rightarrow> ProjectCacheResourceStatus" where
  "fresh_status pj cr \<equiv> \<lparr>crs_Name = cr_Name cr, crs_Bucket = bucket_name pj cr, crs_Phase = ''Ready'', crs_Conditions = []\<rparr>"

lemma always_push_cache:
  "always (push_cache L R I natsURL urls cr (bucket_name pj cr) (fresh_status pj cr))
    (\<lambda>r tr'. \<forall>s. r = Inr s \<longrightarrow> (\<exists>evs. tr' = tr @ evs \<and> cache_ok L pj natsURL urls (cr, bucket_events pj natsURL cr None @ evs) s)) tr"
proof (cases "BuildCacheResourceConfig L cr natsURL (bucket_name pj cr)")
  case (Inl err)
  then have "cache_failed L pj natsURL urls cr
      ((fresh_status pj cr)\<lparr>crs_Phase := ''Failed'', crs_Conditions := [failure_condition ''RenderFailed'' (Errorf err) now]\<rparr>)
      (bucket_events pj natsURL cr None @ [ClockRead now])" for now
    unfolding cache_failed_def
    by (intro exI [of _ "''RenderFailed''"] exI [of _ "Errorf err"] exI [of _ now]) (simp add: failure_condition_def Errorf_def)
  with Inl show ?thesis
    unfolding push_cache_def by (simp, intro always_intros) (auto simp: cache_ok_def)
next
  case (Inr body)
  let ?Q = "\<lambda>r tr'. \<forall>s. r = Inr s \<longrightarrow> (\<exists>evs. tr' = tr @ evs \<and> cache_ok L pj natsURL urls (cr, bucket_events pj natsURL cr None @ evs) s)"
  have "always (case e of None \<Rightarrow> State_Monad.return (Inr (fresh_status pj cr))
      | Some err \<Rightarrow> (case err_kind err of
          ConfigRejectedError _ _ _ \<Rightarrow> failedCacheStatus R (fresh_status pj cr) ''PushFailed'' err \<bind> (\<lambda>s. State_Monad.return (Inr s))
        | _ \<Rightarrow> State_Monad.return (Inl (wrap (''push cache resource '' @ cr_Name cr @ '': '') err)))) ?Q tr'"
    if e: "case e of None \<Rightarrow> tr' = tr @ accepted cr body urls
      | Some err \<Rightarrow> \<exists>us u us2. urls = us @ u # us2 \<and> tr' = tr @ accepted cr body us @ [CachePushed u (cr_Name cr) body (Some err)]" for e tr'
  proof (intro always_intros)
    assume "e = None"
    with e Inr show "?Q (Inr (fresh_status pj cr)) tr'" by (simp add: cache_ok_def cache_ready_def)
  next
    fix err a b c now
    assume err: "e = Some err" and kind: "err_kind err = ConfigRejectedError a b c"
    with e obtain us u us2 where u: "urls = us @ u # us2" "tr' = tr @ accepted cr body us @ [CachePushed u (cr_Name cr) body (Some err)]"
      by auto
    have "cache_failed L pj natsURL urls cr
        ((fresh_status pj cr)\<lparr>crs_Phase := ''Failed'', crs_Conditions := [failure_condition ''PushFailed'' err now]\<rparr>)
        (bucket_events pj natsURL cr None @ accepted cr body us @ [CachePushed u (cr_Name cr) body (Some err), ClockRead now])"
      using kind u(1) Inr unfolding cache_failed_def
      by (intro exI [of _ "''PushFailed''"] exI [of _ err] exI [of _ now]) (auto simp: failure_condition_def)
    with u(2) show "?Q (Inr ((fresh_status pj cr)\<lparr>crs_Phase := ''Failed'', crs_Conditions := [failure_condition ''PushFailed'' err now]\<rparr>))
        (tr' @ [ClockRead now])"
      by (simp add: cache_ok_def)
  qed simp
  with always_push [of I urls cr body tr] show ?thesis
    unfolding push_cache_def Inr by (simp, intro always_bind) (erule always_mono, blast)
qed

lemma always_reconcile_cache:
  "always (reconcile_cache L R I pj natsURL urls cr)
    (\<lambda>r tr'. \<forall>s. r = Inr s \<longrightarrow> (\<exists>evs. tr' = tr @ evs \<and> cache_ok L pj natsURL urls (cr, evs) s)) tr"
proof (cases "cr_NatsKV cr")
  case None
  then have b: "bucket_name pj cr = ''''" "bucket_events pj natsURL cr None = []"
    by (simp_all add: bucket_name_def bucket_events_def)
  from always_push_cache [of L R I natsURL urls cr pj tr] show ?thesis
    unfolding reconcile_cache_def Let_def None option.case b by simp
next
  case (Some kv)
  then have b: "CacheBucket pj (cr_Name cr) = bucket_name pj cr"
    "bucket_events pj natsURL cr e = [KVEnsured natsURL (bucket_name pj cr) (kv_config kv) e]" for e
    by (simp_all add: bucket_name_def bucket_events_def)
  have push: "always (push_cache L R I natsURL urls cr (bucket_name pj cr) (fresh_status pj cr))
      (\<lambda>r tr'. \<forall>s. r = Inr s \<longrightarrow> (\<exists>evs. tr' = tr @ evs \<and> cache_ok L pj natsURL urls (cr, evs) s))
      (tr @ [KVEnsured natsURL (bucket_name pj cr) (kv_config kv) None])"
    by (rule always_mono [OF always_push_cache]) (auto simp: b(2))
  have failed: "cache_ok L pj natsURL urls (cr, [KVEnsured natsURL (bucket_name pj cr) (kv_config kv) (Some err), ClockRead now])
      \<lparr>crs_Name = cr_Name cr, crs_Bucket = bucket_name pj cr, crs_Phase = ''Failed'',
       crs_Conditions = [failure_condition ''BucketFailed'' err now]\<rparr>" for err now
    using Some unfolding cache_ok_def cache_failed_def
    by (intro disjI2 exI [of _ "''BucketFailed''"] exI [of _ err] exI [of _ now]) (simp add: b failure_condition_def)
  show ?thesis
    unfolding reconcile_cache_def Let_def ensureKVBucket_def Some option.case b(1)
    by (intro always_intros) (auto simp: push failed)
qed

lemma always_reconcile_caches:
  "always (reconcile_caches L R I pj natsURL urls crs)
    (\<lambda>p tr'. snd p = None \<longrightarrow> (\<exists>parts. tr' = tr @ concat parts \<and> length parts = length crs \<and>
       list_all2 (cache_ok L pj natsURL urls) (zip crs parts) (fst p))) tr"
proof (induction crs arbitrary: tr)
  case Nil
  show ?case by (auto intro!: always_return)
next
  case (Cons cr crs)
  show ?case
    unfolding reconcile_caches.simps
  proof (rule always_bind, rule always_mono [OF always_reconcile_cache], rule always_case_sum)
    fix r :: "error + ProjectCacheResourceStatus" and tr' st
    assume "\<forall>s. r = Inr s \<longrightarrow> (\<exists>evs. tr' = tr @ evs \<and> cache_ok L pj natsURL urls (cr, evs) s)" and "r = Inr st"
    then obtain evs where evs: "tr' = tr @ evs" "cache_ok L pj natsURL urls (cr, evs) st" by blast
    have "\<exists>parts'. tr'' = tr @ concat parts' \<and> length parts' = length (cr # crs) \<and>
        list_all2 (cache_ok L pj natsURL urls) (zip (cr # crs) parts') (st # sts)"
      if "tr'' = tr' @ concat parts" "length parts = length crs" "list_all2 (cache_ok L pj natsURL urls) (zip crs parts) sts" for tr'' parts sts
      using that evs by (intro exI [of _ "evs # parts"]) simp
    then show "always (reconcile_caches L R I pj natsURL urls crs \<bind> (\<lambda>p. State_Monad.return (st # fst p, snd p)))
        (\<lambda>p tr'. snd p = None \<longrightarrow> (\<exists>parts. tr' = tr @ concat parts \<and> length parts = length (cr # crs) \<and>
           list_all2 (cache_ok L pj natsURL urls) (zip (cr # crs) parts) (fst p))) tr'"
      by (intro always_bind always_return always_mono [OF Cons.IH]) auto
  qed (simp add: always_return)
qed

definition caches_ok ::
  "lib \<Rightarrow> PipelineProject \<Rightarrow> event list \<Rightarrow> ProjectCacheResourceStatus list \<Rightarrow> bool" where
  "caches_ok L project tr sts \<longleftrightarrow>
     (let cn = projectChildClusterName (pj_Name project); ns = pj_Namespace project in
      \<exists>pods parts rest. tr = ListPods ns (clusterLabelKey, cn) (Inr pods) # concat parts @ rest \<and>
        length parts = length (pjs_CacheResources (pj_Spec project)) \<and>
        list_all2 (cache_ok L (pj_Name project) (NATSURL (pj_Name project) ns)
            (map (clusterPodURL cn ns) (readyOrdinals_of cn pods)))
          (zip (pjs_CacheResources (pj_Spec project)) parts) sts)"

lemma always_caches_and_teardown:
  assumes "tr = [ListPods (pj_Namespace project) (clusterLabelKey, projectChildClusterName (pj_Name project)) (Inr pods)]"
    and "urls = map (clusterPodURL (projectChildClusterName (pj_Name project)) (pj_Namespace project))
      (readyOrdinals_of (projectChildClusterName (pj_Name project)) pods)"
    and "natsURL = NATSURL (pj_Name project) (pj_Namespace project)"
  shows "always (do {
       p \<leftarrow> reconcile_caches L R I (pj_Name project) natsURL urls (pjs_CacheResources (pj_Spec project));
       case snd p of
         Some err \<Rightarrow> State_Monad.return (Some (fst p), Some err)
       | None \<Rightarrow> do {
           e \<leftarrow> teardown_caches R I natsURL urls desired olds;
           State_Monad.return (Some (fst p), e)
         }
     }) (\<lambda>p tr'. snd p = None \<longrightarrow> caches_ok L project tr' (slice (fst p))) tr"
proof (intro always_bind always_mono [OF always_reconcile_caches] always_case_option always_return)
  fix p :: "ProjectCacheResourceStatus list \<times> error option" and tr' err
  assume "snd p = Some err"
  show "snd (Some (fst p), Some err) = None \<longrightarrow> caches_ok L project tr' (slice (fst (Some (fst p), Some err)))" by simp
next
  fix p :: "ProjectCacheResourceStatus list \<times> error option" and tr'
  assume "snd p = None \<longrightarrow> (\<exists>parts. tr' = tr @ concat parts \<and> length parts = length (pjs_CacheResources (pj_Spec project)) \<and>
      list_all2 (cache_ok L (pj_Name project) natsURL urls) (zip (pjs_CacheResources (pj_Spec project)) parts) (fst p))" and "snd p = None"
  then obtain parts where "tr' = tr @ concat parts" "length parts = length (pjs_CacheResources (pj_Spec project))"
      "list_all2 (cache_ok L (pj_Name project) natsURL urls) (zip (pjs_CacheResources (pj_Spec project)) parts) (fst p)" by blast
  then have "caches_ok L project (tr' @ rest) (fst p)" for rest
    unfolding caches_ok_def Let_def assms by (intro exI [of _ pods] exI [of _ parts] exI [of _ rest]) simp
  then show "always (teardown_caches R I natsURL urls desired olds) (\<lambda>e. always (State_Monad.return (Some (fst p), e))
      (\<lambda>p tr'. snd p = None \<longrightarrow> caches_ok L project tr' (slice (fst p)))) tr'"
    by (intro always_emits [OF emits_teardown_caches]) (auto intro!: always_return)
qed

lemma always_reconcileCacheResources:
  assumes "r_Instances R = Some I"
  shows "always (reconcileCacheResources L R project)
    (\<lambda>p tr'. snd p = None \<longrightarrow> caches_ok L project tr' (slice (fst p))) []"
proof -
  have "always (case (case r of Inl err \<Rightarrow> Inl err | Inr pods \<Rightarrow>
            Inr (map (clusterPodURL (projectChildClusterName (pj_Name project)) (pj_Namespace project))
              (readyOrdinals_of (projectChildClusterName (pj_Name project)) pods))) of
        Inl err \<Rightarrow> State_Monad.return (None, Some (wrap ''list cluster instances: '' err))
      | Inr urls \<Rightarrow> do {
          p \<leftarrow> reconcile_caches L R I (pj_Name project) (NATSURL (pj_Name project) (pj_Namespace project)) urls
                 (pjs_CacheResources (pj_Spec project));
          case snd p of
            Some err \<Rightarrow> State_Monad.return (Some (fst p), Some err)
          | None \<Rightarrow> do {
              e \<leftarrow> teardown_caches R I (NATSURL (pj_Name project) (pj_Namespace project)) urls
                     (map cr_Name (pjs_CacheResources (pj_Spec project))) (slice (pjt_CacheResources (pj_Status project)));
              State_Monad.return (Some (fst p), e)
            }
        })
      (\<lambda>p tr'. snd p = None \<longrightarrow> caches_ok L project tr' (slice (fst p)))
      [ListPods (pj_Namespace project) (clusterLabelKey, projectChildClusterName (pj_Name project)) r]" for r :: "error + Pod list"
  proof (cases r)
    case (Inr pods)
    show ?thesis unfolding Inr sum.case by (rule always_caches_and_teardown) simp_all
  qed (simp add: always_return)
  then show ?thesis
    unfolding reconcileCacheResources_def readyClusterInstanceURLs_def Let_def assms option.case
    by (intro always_bind always_call always_return) (simp only: append_Nil)
qed

section \<open>Deletion\<close>

definition pvc_released :: "event set \<Rightarrow> PersistentVolumeClaim \<Rightarrow> bool" where
  "pvc_released E c \<longleftrightarrow>
     (\<exists>r. DeletePVC (om_Name (pvc_Meta c)) (om_Namespace (pvc_Meta c)) r \<in> E \<and> IgnoreNotFound r = None)"

lemma always_delete_pvcs:
  assumes "\<And>p e. UpdatePipelineProject p e \<notin> set tr"
  shows "always (delete_pvcs K pvcs) (\<lambda>e tr'. set tr \<subseteq> set tr' \<and> (e = None \<longrightarrow> list_all (pvc_released (set tr')) pvcs) \<and>
    (\<forall>p e. UpdatePipelineProject p e \<notin> set tr')) tr"
  using assms
proof (induction pvcs arbitrary: tr)
  case Nil
  then show ?case by (auto intro!: always_return)
next
  case (Cons pvc pvcs)
  show ?case
    unfolding delete_pvcs.simps
  proof (intro always_bind always_call always_case_option always_return)
    fix r
    assume r: "IgnoreNotFound r = None"
    let ?tr = "tr @ [DeletePVC (om_Name (pvc_Meta pvc)) (om_Namespace (pvc_Meta pvc)) r]"
    have "always (delete_pvcs K pvcs) (\<lambda>e tr'. set ?tr \<subseteq> set tr' \<and> (e = None \<longrightarrow> list_all (pvc_released (set tr')) pvcs) \<and>
        (\<forall>p e. UpdatePipelineProject p e \<notin> set tr')) ?tr"
      by (rule Cons.IH) (use Cons.prems in auto)
    then show "always (delete_pvcs K pvcs) (\<lambda>e tr'. set tr \<subseteq> set tr' \<and> (e = None \<longrightarrow> list_all (pvc_released (set tr')) (pvc # pvcs)) \<and>
        (\<forall>p e. UpdatePipelineProject p e \<notin> set tr')) ?tr"
      by (rule always_mono) (use r in \<open>auto simp: pvc_released_def\<close>)
  qed (use Cons.prems in auto)
qed

text \<open>Every volume claim of a project that was listed in the run has been released in it.\<close>

definition storage_released :: "PipelineProject \<Rightarrow> event set \<Rightarrow> bool" where
  "storage_released project E \<longleftrightarrow>
     (\<exists>pvcs. ListPVCs (pj_Namespace project) (projectLabelKey, pj_Name project) (Inr pvcs) \<in> E \<and>
        list_all (pvc_released E) pvcs)"

lemma storage_released_mono: "storage_released project E \<Longrightarrow> E \<subseteq> E' \<Longrightarrow> storage_released project E'"
  unfolding storage_released_def pvc_released_def list_all_iff by blast

lemma always_cleanupForDelete:
  "always (cleanupForDelete K project) (\<lambda>e tr. (\<forall>p e. UpdatePipelineProject p e \<notin> set tr) \<and>
     (if reclaimPolicy project = ''Delete'' then e = None \<longrightarrow> storage_released project (set tr) else tr = [])) []"
proof (cases "reclaimPolicy project = ''Delete''")
  case True
  let ?l = "(projectLabelKey, pj_Name project)"
  have "always (delete_pvcs K pvcs) (\<lambda>e tr. (\<forall>p e. UpdatePipelineProject p e \<notin> set tr) \<and>
      (e = None \<longrightarrow> storage_released project (set tr))) [ListPVCs (pj_Namespace project) ?l (Inr pvcs)]" for pvcs
    by (rule always_mono [OF always_delete_pvcs]) (auto simp: storage_released_def)
  then have "always (case r of Inl err \<Rightarrow> State_Monad.return (Some (wrap ''list pvcs: '' err)) | Inr pvcs \<Rightarrow> delete_pvcs K pvcs)
      (\<lambda>e tr. (\<forall>p e. UpdatePipelineProject p e \<notin> set tr) \<and> (e = None \<longrightarrow> storage_released project (set tr)))
      [ListPVCs (pj_Namespace project) ?l r]" for r :: "error + PersistentVolumeClaim list"
    by (cases r) (auto intro!: always_return)
  then show ?thesis
    unfolding cleanupForDelete_def using True by (simp, intro always_bind always_call) simp
qed (simp add: cleanupForDelete_def always_return)

lemma always_reconcile_project_deletion:
  "always (reconcile_project_deletion L K project) (\<lambda>_ tr.
    (reclaimPolicy project \<noteq> ''Delete'' \<longrightarrow> (\<forall>n ns r. DeletePVC n ns r \<notin> set tr)) \<and>
    (\<forall>p e. UpdatePipelineProject p e \<in> set tr \<longrightarrow> pj_Spec p = pj_Spec project \<and> pj_Status p = pj_Status project \<and>
       (reclaimPolicy project = ''Delete'' \<longrightarrow> storage_released project (set tr)))) []"
  unfolding reconcile_project_deletion_def Let_def
  by (intro always_if always_bind always_mono [OF always_cleanupForDelete] always_case_option always_call always_return)
    (auto split: if_splits elim!: storage_released_mono)

section \<open>Properties\<close>

text \<open>
  C19: Validation gates the message bus: in every run, whatever the environment answers, a
  JetStream stream is created, updated or deleted only if the project that was read is valid
  for the pipelines that were listed in that run; a stream that is ensured is the one of a
  route, with the route's subject and retention, and one that is deleted belongs to no route.
\<close>

theorem streams_only_for_valid_graph:
  assumes "run_state (ReconcileProject L R n ns) (w, []) = (out, (w', tr))"
    and "e \<in> set tr" and "\<exists>u s subj ret r. e = JSStreamEnsured u s subj ret r \<or> e = JSStreamDeleted u s r"
  shows "\<exists>project pipes. GetPipelineProject n ns (Inr project) \<in> set tr \<and>
    ListPipelines (pj_Namespace project) (Inr pipes) \<in> set tr \<and>
    project_ok L project (views_of L pipes []) \<and> route_event project e"
proof -
  from assms(3) have "\<not> before_gate e" by (auto simp: before_gate_def)
  with assms(2) have "\<not> list_all before_gate tr" by (auto simp: list_all_iff)
  with ReconcileProject_run [OF assms(1)] obtain project c m where
    get: "GetPipelineProject n ns (Inr project) \<in> set tr" and g: "gated L project c m tr"
    by (auto simp: run_gated_def)
  from g assms(2) have "gate_ok L project c m (set tr) e" by (simp add: gated_def list_all_iff)
  with assms(3) have "route_event project e" "valid_in L project (set tr)" by (auto simp: gate_ok_def)
  with get show ?thesis by (auto simp: valid_in_def)
qed

theorem streams_only_for_valid_graph_witness:
  "\<exists>out w' tr e project pipes. demo_run [edge ''r1'' ''a'' ''b''] NewFakeManager = (out, (w', tr)) \<and> e \<in> set tr \<and>
     (\<exists>u s subj ret r. e = JSStreamEnsured u s subj ret r) \<and> project_ok sample_lib project (views_of sample_lib pipes []) \<and>
     route_event project e"
proof -
  obtain out w' tr e where run: "demo_run [edge ''r1'' ''a'' ''b''] NewFakeManager = (out, (w', tr))"
      and e: "e \<in> set tr" and ens: "\<exists>u s subj ret r. e = JSStreamEnsured u s subj ret r"
    using demo_run_valid by fastforce
  from ens have "\<exists>u s subj ret r. e = JSStreamEnsured u s subj ret r \<or> e = JSStreamDeleted u s r" by blast
  from streams_only_for_valid_graph [OF run [unfolded demo_run_def] e this] run e ens show ?thesis by blast
qed

text \<open>
  C35: The status of a project is truthful: what a run writes keeps the spec and the metadata
  that were read and counts the children that were just applied; the phase is Degraded exactly
  when the project is not valid for the listed pipelines, and then \<open>RoutesValid\<close> is false with
  the first validation error as its message; it is Ready exactly when the project is valid and
  the cluster and NATS both have all of at least one replica ready.
\<close>

theorem project_status_truthful:
  assumes "condition_laws L" and "run_state (ReconcileProject L R n ns) (w, []) = (out, (w', tr))"
    and "UpdateProjectStatus p r \<in> set tr"
  shows "\<exists>project pipes cluster ss. GetPipelineProject n ns (Inr project) \<in> set tr \<and>
    ListPipelines (pj_Namespace project) (Inr pipes) \<in> set tr \<and>
    ApplyPipelineCluster (projectChildClusterName (pj_Name project)) (pj_Namespace project) (Inr cluster) \<in> set tr \<and>
    ApplyStatefulSet (projectChildNATSName (pj_Name project)) (pj_Namespace project) (Inr ss) \<in> set tr \<and>
    pj_Spec p = pj_Spec project \<and> pj_Meta p = pj_Meta project \<and>
    pjt_Cluster (pj_Status p) = cluster_child cluster \<and> pjt_NATS (pj_Status p) = nats_child project ss \<and>
    (pjt_Phase (pj_Status p) = ProjectPhaseDegraded \<longleftrightarrow> \<not> project_ok L project (views_of L pipes [])) \<and>
    (pjt_Phase (pj_Status p) = ProjectPhaseReady \<longleftrightarrow> project_ok L project (views_of L pipes []) \<and>
       0 < pcs_Replicas (pc_Spec cluster) \<and> pcs_Replicas (pc_Spec cluster) \<le> pct_ReadyReplicas (pc_Status cluster) \<and>
       0 < projectNATSReplicas project \<and> projectNATSReplicas project \<le> ss_ReadyReplicas ss) \<and>
    (\<exists>c. FindStatusCondition L (pjt_Conditions (pj_Status p)) ''RoutesValid'' = Some c \<and>
       (if project_ok L project (views_of L pipes []) then c_Status c = ConditionTrue
        else c_Status c = ConditionFalse \<and>
          c_Message c = pe_Message (hd (ValidateProject L project (views_of L pipes [])))))"
proof -
  obtain project pipes cluster ss rs cs where
    get: "GetPipelineProject n ns (Inr project) \<in> set tr" "ListPipelines (pj_Namespace project) (Inr pipes) \<in> set tr"
      "ApplyPipelineCluster (projectChildClusterName (pj_Name project)) (pj_Namespace project) (Inr cluster) \<in> set tr"
      "ApplyStatefulSet (projectChildNATSName (pj_Name project)) (pj_Namespace project) (Inr ss) \<in> set tr"
    and p: "p = setProjectStatus L project (cluster_child cluster) (nats_child project ss) (route_error L project pipes) rs cs"
    using status_write_run [OF assms(2,3)] by blast
  let ?ok = "project_ok L project (views_of L pipes [])"
  have phase: "pjt_Phase (pj_Status p) =
      projectPhase (cluster_child cluster) (nats_child project ss) (route_error L project pipes)"
    by (simp add: p setProjectStatus_def Let_def)
  have "pjt_Phase (pj_Status p) = ProjectPhaseDegraded \<longleftrightarrow> \<not> ?ok"
    unfolding phase projectPhase_def deriveProjectPhase_def by (auto simp: route_error_empty)
  moreover have "pjt_Phase (pj_Status p) = ProjectPhaseReady \<longleftrightarrow> ?ok \<and>
       0 < pcs_Replicas (pc_Spec cluster) \<and> pcs_Replicas (pc_Spec cluster) \<le> pct_ReadyReplicas (pc_Status cluster) \<and>
       0 < projectNATSReplicas project \<and> projectNATSReplicas project \<le> ss_ReadyReplicas ss"
    unfolding phase projectPhase_def deriveProjectPhase_def by (auto simp: route_error_empty cluster_child_def nats_child_def)
  moreover have "pj_Spec p = pj_Spec project" "pj_Meta p = pj_Meta project"
    "pjt_Cluster (pj_Status p) = cluster_child cluster" "pjt_NATS (pj_Status p) = nats_child project ss"
    by (simp_all add: p setProjectStatus_def Let_def)
  ultimately show ?thesis
    using get routes_condition_written [OF assms(1), of project "cluster_child cluster" "nats_child project ss" pipes rs cs]
    unfolding p [symmetric] by blast
qed

theorem project_status_truthful_witness:
  "\<exists>out w' tr p project pipes. demo_run [edge ''r1'' ''a'' ''b''] NewFakeManager = (out, (w', tr)) \<and>
     UpdateProjectStatus p None \<in> set tr \<and> pjt_Phase (pj_Status p) = ProjectPhaseReady \<and>
     project_ok sample_lib project (views_of sample_lib pipes [])"
proof -
  obtain out w' tr p where run: "demo_run [edge ''r1'' ''a'' ''b''] NewFakeManager = (out, (w', tr))"
      and p: "UpdateProjectStatus p None \<in> set tr" "pjt_Phase (pj_Status p) = ProjectPhaseReady"
    using demo_run_valid by fastforce
  have "condition_laws sample_lib" unfolding sample_lib_def by (rule condition_laws_list_lib)
  from project_status_truthful [OF this run [unfolded demo_run_def] p(1)] run p show ?thesis by auto
qed

text \<open>
  C34: The streams converge to the routes: for every stream manager that keeps its contract, when
  reconciling the routes succeeds there is one status per route, in the order of the routes;
  every route reported Ready has its stream on the server; every stream of the last status that
  belongs to no route any more is gone; and streams that neither belong to a route nor occur in
  the last status are left alone.
\<close>

theorem route_streams_converge:
  assumes "stream_manager M holds holds_kv" and "r_Streams R = Some M"
    and "\<And>w. holds (snd (run_state (r_Now R) w)) = holds w"
    and "run_state (reconcileRouteStreams R project) (w, tr) = ((sts, None), (w', tr'))"
  shows "map rs_Name sts = map r_Name (pjs_Routes (pj_Spec project)) \<and>
    list_all (\<lambda>st. rs_Phase st = projectRoutePhaseReady \<longrightarrow>
      holds w' (NATSURL (pj_Name project) (pj_Namespace project)) (rs_Stream st)) sts \<and>
    list_all (\<lambda>old. rs_Stream old \<notin> rs_Stream ` set sts \<longrightarrow> rs_Stream old \<noteq> [] \<longrightarrow>
      \<not> holds w' (NATSURL (pj_Name project) (pj_Namespace project)) (rs_Stream old)) (slice (pjt_Routes (pj_Status project))) \<and>
    (\<forall>s. s \<notin> rs_Stream ` set sts \<longrightarrow> s \<notin> rs_Stream ` set (slice (pjt_Routes (pj_Status project))) \<longrightarrow>
      holds w' (NATSURL (pj_Name project) (pj_Namespace project)) s = holds w (NATSURL (pj_Name project) (pj_Namespace project)) s)"
proof -
  let ?u = "NATSURL (pj_Name project) (pj_Namespace project)" and ?routes = "pjs_Routes (pj_Spec project)"
  let ?desired = "map (\<lambda>r. StreamName (pj_Name project) (r_Name r)) ?routes"
  let ?olds = "slice (pjt_Routes (pj_Status project))"
  obtain w1 tr1 where
    ens: "run_state (ensure_routes R M (pj_Name project) ?u (projectDefaultRetention project) ?routes) (w, tr) = (sts, (w1, tr1))"
    and del: "run_state (delete_stale_streams M ?u ?desired ?olds) (w1, tr1) = (None, (w', tr'))"
    using assms(2,4) by (auto simp: reconcileRouteStreams_def Let_def split: prod.splits)
  note e = stream_manager.ensure_routes_run [OF assms(1) ens assms(3)]
  note d = stream_manager.delete_stale_run [OF assms(1) del]
  from e have desired: "set ?desired = rs_Stream ` set sts" by (metis list.set_map)
  have "list_all (\<lambda>st. rs_Phase st = projectRoutePhaseReady \<longrightarrow> holds w' ?u (rs_Stream st)) sts"
    using e d desired by (auto simp: list_all_iff)
  with e d desired show ?thesis by (auto simp: list_all_iff)
qed

definition old_route :: ProjectRouteStatus where
  "old_route = \<lparr>rs_Name = ''r0'', rs_Subject = ''s'', rs_Stream = ''OLD'', rs_Phase = ''Ready'', rs_Conditions = []\<rparr>"

definition shrunk_project :: PipelineProject where
  "shrunk_project = (demo_project [edge ''r1'' ''a'' ''b''])
     \<lparr>pj_Status := (pj_Status (demo_project []))\<lparr>pjt_Routes := Some [old_route]\<rparr>\<rparr>"

theorem route_streams_converge_witness:
  "\<exists>sts w' tr'. run_state (reconcileRouteStreams (project_reconciler shrunk_project) shrunk_project)
      (NewFakeManager\<lparr>fm_Streams := [fm_key (NATSURL ''p'' ''ns'') ''OLD'' \<mapsto> ''s'']\<rparr>, []) = ((sts, None), (w', tr')) \<and>
     list_all (\<lambda>st. rs_Phase st = projectRoutePhaseReady \<longrightarrow> fm_Has w' (NATSURL ''p'' ''ns'') (rs_Stream st)) sts \<and>
     \<not> fm_Has w' (NATSURL ''p'' ''ns'') ''OLD''"
proof -
  let ?w = "NewFakeManager\<lparr>fm_Streams := [fm_key (NATSURL ''p'' ''ns'') ''OLD'' \<mapsto> ''s'']\<rparr>"
  have p: "pj_Name shrunk_project = ''p''" "pj_Namespace shrunk_project = ''ns''"
    "slice (pjt_Routes (pj_Status shrunk_project)) = [old_route]"
    "pjs_Routes (pj_Spec shrunk_project) = [edge ''r1'' ''a'' ''b'']"
    by (simp_all add: shrunk_project_def demo_project_def sample_project_def sample_meta_def)
  have old: "rs_Stream old_route = ''OLD''" "StreamName ''p'' ''r1'' \<noteq> ''OLD''" "''OLD'' \<noteq> StreamName ''p'' ''r1''"
    by (simp_all add: old_route_def StreamName_def)
  obtain sts w' tr' where run: "run_state (reconcileRouteStreams (project_reconciler shrunk_project) shrunk_project) (?w, []) =
      ((sts, None), (w', tr'))" and st: "map rs_Stream sts = [StreamName ''p'' ''r1'']"
    by (simp add: reconcileRouteStreams_def Let_def p old ensure_route_def run_call fake_manager_def fm_EnsureStream_def
        fm_DeleteStream_def NewFakeManager_def edge_def)
  have now: "fm_Has (snd (run_state (r_Now (project_reconciler shrunk_project)) w)) = fm_Has w" for w
    by (simp add: project_reconciler_def)
  have "set (map rs_Stream sts) = {StreamName ''p'' ''r1''}" by (simp only: st list.set)
  then have notin: "''OLD'' \<notin> rs_Stream ` set sts" by (simp add: old)
  from route_streams_converge [OF fm.stream_manager_axioms project_reconciler_simps(2) now run] notin
  have "list_all (\<lambda>st. rs_Phase st = projectRoutePhaseReady \<longrightarrow> fm_Has w' (NATSURL ''p'' ''ns'') (rs_Stream st)) sts"
    "\<not> fm_Has w' (NATSURL ''p'' ''ns'') ''OLD''"
    by (simp_all add: p old)
  with run show ?thesis by blast
qed

text \<open>
  An invalid graph makes the project forget its streams: the status written then has no
  routes, and reconciling a project whose status has none, whatever its new spec, deletes no
  stream, so streams of routes removed in the meantime stay on the server.
\<close>

lemma invalid_graph_forgets_streams:
  "emits (\<lambda>e. case e of JSStreamDeleted u s r \<Rightarrow> False | _ \<Rightarrow> True)
     (reconcileRouteStreams R ((setProjectStatus L project c n (x # xs) None cs)\<lparr>pj_Spec := spec\<rparr>))"
  by (rule emits_mono [OF emits_reconcileRouteStreams])
    (auto simp: route_event_def setProjectStatus_def Let_def split: event.splits)

text \<open>
  C36: A cache resource is reported Ready only when it is usable everywhere. When reconciling the
  cache resources succeeds, there is one status per resource, in order, and the calls of the run
  are the list of the pods of the project's cluster, then the calls for one resource after the
  other, then the teardown. The calls for a Ready resource are exactly: its bucket, if it has one,
  is ensured with the sizes of the spec, and after that its configuration, built for that
  bucket, is accepted by every ready instance. Any other resource is Failed, with a single Ready
  condition that is False and carries the reason and the text of the error: BucketFailed when
  ensuring the bucket failed and nothing was pushed, RenderFailed when the configuration cannot
  be built, PushFailed when an instance rejected it, the ones before having accepted it.
\<close>

theorem cache_ready_means_pushed:
  assumes "r_Instances R = Some I"
    and "run_state (reconcileCacheResources L R project) (w, []) = ((sts, None), (w', tr))"
  shows "\<exists>pods parts rest.
    tr = ListPods (pj_Namespace project) (clusterLabelKey, projectChildClusterName (pj_Name project)) (Inr pods) # concat parts @ rest \<and>
    length parts = length (pjs_CacheResources (pj_Spec project)) \<and>
    list_all2 (\<lambda>(cr, evs) st.
        (let natsURL = NATSURL (pj_Name project) (pj_Namespace project);
             urls = map (clusterPodURL (projectChildClusterName (pj_Name project)) (pj_Namespace project))
               (readyOrdinals_of (projectChildClusterName (pj_Name project)) pods)
         in cache_ready L (pj_Name project) natsURL urls cr st evs \<or> cache_failed L (pj_Name project) natsURL urls cr st evs))
      (zip (pjs_CacheResources (pj_Spec project)) parts) (slice sts)"
  using always_run [OF always_reconcileCacheResources [OF assms(1)] assms(2)]
  by (simp add: caches_ok_def cache_ok_def [abs_def] Let_def case_prod_unfold)

definition cache_lib :: lib where
  "cache_lib = list_lib (\<lambda>_. Inl ''syntax'') (\<lambda>_. Inr ''body'') (\<lambda>_. Inr (AObj [])) (\<lambda>_. None) (\<lambda>s. s)"

definition dedup_cache :: ProjectCacheResource where
  "dedup_cache = \<lparr>cr_Name = ''dedup'', cr_NatsKV = Some \<lparr>kv_TTL = Some 60, kv_History = None, kv_MaxBytes = Some 1024\<rparr>, cr_Config = ''{}''\<rparr>"

definition cache_project :: PipelineProject where
  "cache_project = (demo_project [])\<lparr>pj_Spec := (pj_Spec (demo_project []))\<lparr>pjs_CacheResources := [dedup_cache]\<rparr>\<rparr>"

definition accepting_manager :: "FakeClient StreamManager" where
  "accepting_manager =
     \<lparr>JSEnsureStream = (\<lambda>_ _ _ _. State_Monad.return None), JSDeleteStream = (\<lambda>_ _. State_Monad.return None),
      JSEnsureKV = (\<lambda>_ _ _. State_Monad.return None), JSDeleteKV = (\<lambda>_ _. State_Monad.return None)\<rparr>"

definition cache_reconciler :: "FakeClient ProjectReconciler" where
  "cache_reconciler =
     \<lparr>r_Client = failing_kube\<lparr>List_Pods := (\<lambda>_ _. State_Monad.return (Inr [demo_pod ''p-cluster-0'' True]))\<rparr>,
      r_NATSImage = '''', r_Streams = Some accepting_manager, r_Instances = Some fc, r_Recorder = True, r_Now = State_Monad.return 7\<rparr>"

lemma ordinal_p_cluster [simp]: "ordinalFromPodName ''p-cluster-0'' ''p-cluster'' = Some 0"
  by (simp add: ordinalFromPodName_def HasPrefix_def Atoi_def parse_digits_def is_digit_def
      digit_val_def in_int64_def)

theorem cache_ready_means_pushed_witness:
  "\<exists>st w' tr. run_state (reconcileCacheResources cache_lib cache_reconciler cache_project) (NewFakeClient, []) =
      ((Some [st], None), (w', tr)) \<and> crs_Phase st = ''Ready'' \<and>
     tr = [ListPods ''ns'' (clusterLabelKey, ''p-cluster'') (Inr [demo_pod ''p-cluster-0'' True]),
       KVEnsured (NATSURL ''p'' ''ns'') (CacheBucket ''p'' ''dedup'') \<lparr>kvc_TTL = 60, kvc_History = 0, kvc_MaxBytes = 1024\<rparr> None,
       CachePushed (clusterPodURL ''p-cluster'' ''ns'' 0) ''dedup'' ''body'' None] \<and>
     (\<exists>evs rest. cache_ready cache_lib ''p'' (NATSURL ''p'' ''ns'') [clusterPodURL ''p-cluster'' ''ns'' 0] dedup_cache st evs \<and> tl tr = evs @ rest)"
proof -
  let ?st = "\<lparr>crs_Name = ''dedup'', crs_Bucket = CacheBucket ''p'' ''dedup'', crs_Phase = ''Ready'', crs_Conditions = []\<rparr>"
  let ?tr = "[ListPods ''ns'' (clusterLabelKey, ''p-cluster'') (Inr [demo_pod ''p-cluster-0'' True]),
       KVEnsured (NATSURL ''p'' ''ns'') (CacheBucket ''p'' ''dedup'') \<lparr>kvc_TTL = 60, kvc_History = 0, kvc_MaxBytes = 1024\<rparr> None,
       CachePushed (clusterPodURL ''p-cluster'' ''ns'' 0) ''dedup'' ''body'' None]"
  have p: "pj_Name cache_project = ''p''" "pj_Namespace cache_project = ''ns''"
    "pjs_CacheResources (pj_Spec cache_project) = [dedup_cache]"
    "pjt_CacheResources (pj_Status cache_project) = None" "projectChildClusterName ''p'' = ''p-cluster''"
    by (simp_all add: cache_project_def demo_project_def sample_project_def sample_meta_def projectChildClusterName_def)
  have c: "cr_Name dedup_cache = ''dedup''" "cr_NatsKV dedup_cache = Some \<lparr>kv_TTL = Some 60, kv_History = None, kv_MaxBytes = Some 1024\<rparr>"
    by (simp_all add: dedup_cache_def)
  have ready: "readyOrdinals_of ''p-cluster'' [demo_pod ''p-cluster-0'' True] = [0]"
    by (simp add: demo_pod_def sample_meta_def isPodReady_def)
  have body: "BuildCacheResourceConfig cache_lib dedup_cache u b = Inr ''body''" for u b
    by (simp add: BuildCacheResourceConfig_def cache_lib_def list_lib_def dedup_cache_def)
  have push: "\<exists>w'. run_state (EnsureCacheResource fc u l b) NewFakeClient = (None, w')" for u l b
    by (simp add: fake_client_def fake_EnsureCacheResource_def NewFakeClient_def)
  obtain w' where run: "run_state (reconcileCacheResources cache_lib cache_reconciler cache_project) (NewFakeClient, []) =
      ((Some [?st], None), (w', ?tr))"
    using push [of "clusterPodURL ''p-cluster'' ''ns'' 0" "''dedup''" "''body''"]
    by (auto simp: reconcileCacheResources_def cache_reconciler_def accepting_manager_def readyClusterInstanceURLs_def run_call p c ready
        reconcile_cache_def ensureKVBucket_def kv_config_def push_cache_def body Let_def simp del: readyOrdinals_of.simps)
  have "r_Instances cache_reconciler = Some fc" by (simp add: cache_reconciler_def)
  from cache_ready_means_pushed [OF this run] obtain evs rest where "tl ?tr = evs @ rest" and
    "cache_ready cache_lib ''p'' (NATSURL ''p'' ''ns'') [clusterPodURL ''p-cluster'' ''ns'' 0] dedup_cache ?st evs"
    by (auto simp: p ready Let_def length_Suc_conv cache_failed_def simp del: readyOrdinals_of.simps)
  with run show ?thesis by (intro exI [of _ ?st] exI [of _ w'] exI [of _ ?tr]) auto
qed

text \<open>
  C37: Deleting a project honours the reclaim policy before it lets go: the finalizer is removed
  only after, under the policy Delete, the volume claims of the project were listed and every
  listed one was deleted or already gone; under any other policy no volume claim is touched.
\<close>

theorem project_deletion_order:
  assumes "run_state (reconcile_project_deletion L K project) (w, []) = (out, (w', tr))"
  shows "(reclaimPolicy project \<noteq> ''Delete'' \<longrightarrow> (\<forall>n ns r. DeletePVC n ns r \<notin> set tr)) \<and>
    (\<forall>p e. UpdatePipelineProject p e \<in> set tr \<longrightarrow> pj_Spec p = pj_Spec project \<and> pj_Status p = pj_Status project \<and>
       (reclaimPolicy project = ''Delete'' \<longrightarrow> storage_released project (set tr)))"
  by (rule always_run [OF always_reconcile_project_deletion assms])

definition doomed_project :: PipelineProject where
  "doomed_project = (demo_project [])\<lparr>pj_Spec := (pj_Spec (demo_project []))\<lparr>pjs_NATS :=
     Some \<lparr>pjn_Replicas = None, pjn_Storage = None,
       pjn_Retention = \<lparr>ret_MaxAge = None, ret_MaxBytes = None, ret_MaxMsgs = None\<rparr>,
       pjn_StorageReclaimPolicy = ''Delete''\<rparr>\<rparr>\<rparr>"

definition doomed_kube :: "unit KubeClient" where
  "doomed_kube = failing_kube
     \<lparr>List_PVCs := (\<lambda>_ _. State_Monad.return (Inr [\<lparr>pvc_Meta = sample_meta ''data-p-nats-0''\<rparr>])),
      Delete_PVC := (\<lambda>_ _. State_Monad.return None),
      Update_PipelineProject := (\<lambda>_. State_Monad.return None)\<rparr>"

theorem project_deletion_order_witness:
  "\<exists>out w' tr p. run_state (reconcile_project_deletion sample_lib doomed_kube doomed_project) ((), []) = (out, (w', tr)) \<and>
     UpdatePipelineProject p None \<in> set tr \<and> reclaimPolicy doomed_project = ''Delete'' \<and>
     storage_released doomed_project (set tr)"
proof -
  have p: "reclaimPolicy doomed_project = ''Delete''" "om_Finalizers (pj_Meta doomed_project) = [projectFinalizer]"
    by (simp_all add: doomed_project_def reclaimPolicy_def)
  obtain out w' tr q where run: "run_state (reconcile_project_deletion sample_lib doomed_kube doomed_project) ((), []) = (out, (w', tr))"
    and q: "UpdatePipelineProject q None \<in> set tr"
    by (simp add: reconcile_project_deletion_def cleanupForDelete_def p run_call doomed_kube_def IgnoreNotFound_def Let_def)
  from project_deletion_order [OF run] q p run show ?thesis by blast
qed

text \<open>
  The limits of a stream are found field by field: the value of the route if it sets one,
  else the value of the project, else the default of one day and one gibibyte, with no limit on
  messages; so age and size of a stream are always limited.
\<close>

lemma route_retention_fieldwise:
  "let ret = routeRetention (projectDefaultRetention project) route;
       first = (\<lambda>a b (d :: int). if a \<noteq> 0 then a else if b \<noteq> 0 then b else d);
       r = retentionFrom (r_Retention route);
       p = retentionFrom (map_option pjn_Retention (pjs_NATS (pj_Spec project)))
   in re_MaxAge ret = first (re_MaxAge r) (re_MaxAge p) dayNanos \<and> re_MaxAge ret \<noteq> 0 \<and>
      re_MaxBytes ret = first (re_MaxBytes r) (re_MaxBytes p) (2 ^ 30) \<and> re_MaxBytes ret \<noteq> 0 \<and>
      re_MaxMsgs ret = first (re_MaxMsgs r) (re_MaxMsgs p) 0"
proof (cases "pjs_NATS (pj_Spec project)")
  case None
  then show ?thesis
    by (cases "r_Retention route")
      (simp_all add: routeRetention_def projectDefaultRetention_def mergeRetention_def retentionFrom_def dayNanos_def Let_def)
next
  case (Some n)
  then show ?thesis
    by (cases "r_Retention route")
      (auto simp: routeRetention_def projectDefaultRetention_def mergeRetention_def retentionFrom_def dayNanos_def Let_def)
qed

lemma itoa_natsClientPort: "itoa natsClientPort = ''4222''"
  by (simp add: natsClientPort_def itoa_def utoa.simps digit_char_def) (simp add: char_of_def bit_0)

text \<open>
  The objects of a project fit together: the NATS Service and the StatefulSet select the
  pods of the template; the address that routes and caches use is the Service's name and the
  port it maps to the client port of the container; the volume claims carry the label by which
  deletion lists them; and a pod of the project's cluster, with the labels its cluster
  reconciler gives it, is mapped back to the project when it changes.
\<close>

lemma project_children_match:
  assumes "mutate_nats_service K project svc = Inr svc'"
    and "mutate_nats_statefulset K img project ss = Inr ss'" and "\<not> om_Created (ss_Meta ss)"
    and "mutate_project_cluster K project cluster = Inr cluster'"
    and "pc_Name cluster' = projectChildClusterName (pj_Name project)"
    and "mutate_cluster_statefulset K cluster' css = Inr css'" and "om_Labels (pod_Meta pod) = ss_TemplateLabels css'"
  shows "svc_Selector svc' = ss_TemplateLabels ss' \<and> ss_Selector ss' = ss_TemplateLabels ss' \<and>
    ss_ServiceName ss' = projectChildNATSName (pj_Name project) \<and>
    NATSURL (pj_Name project) ns =
      ''nats://'' @ ss_ServiceName ss' @ ''.'' @ ns @ ''.svc:'' @ itoa (sp_Port (hd (svc_Ports svc'))) \<and>
    (\<exists>c p. pds_Containers (ss_TemplateSpec ss') = [c] \<and> p \<in> set (ct_Ports c) \<and>
       cp_Name p = sp_TargetPort (hd (svc_Ports svc')) \<and> cp_Port p = natsClientPort) \<and>
    list_all (\<lambda>v. aget (vct_Labels v) projectLabelKey = Some (pj_Name project)) (ss_VolumeClaimTemplates ss') \<and>
    ss_VolumeClaimTemplates ss' \<noteq> [] \<and>
    projectsForClusterPod pod = [(pj_Name project, om_Namespace (pod_Meta pod))]"
proof -
  from assms(1) have svc: "svc_Selector svc' = natsLabels (pj_Name project)"
    "svc_Ports svc' = svc_Ports (buildProjectNATSService (pj_Name project))"
    by (auto simp: mutate_nats_service_def Let_def own_Inr buildProjectNATSService_def)
  from assms(2,3) obtain i s where ss: "ss_TemplateLabels ss' = natsLabels (pj_Name project)"
    "ss_Selector ss' = natsLabels (pj_Name project)" "ss_ServiceName ss' = projectChildNATSName (pj_Name project)"
    "ss_TemplateSpec ss' = natsPodTemplate (pj_Name project) i"
    "ss_VolumeClaimTemplates ss' = [\<lparr>vct_Name = ''data'', vct_Labels = natsLabels (pj_Name project),
       vct_AccessModes = [''ReadWriteOnce''], vct_Storage = s\<rparr>]"
    by (auto simp: mutate_nats_statefulset_def Let_def own_Inr buildProjectNATSStatefulSet_def)
  have labels: "om_Labels (pod_Meta pod) = [(clusterLabelKey, pj_Name project @ ''-cluster'')]"
    using mutate_cluster_statefulset_Inr [OF assms(6)] assms(5,7) by (simp add: projectChildClusterName_def)
  then have "projectsForClusterPod pod = [(pj_Name project, om_Namespace (pod_Meta pod))]"
    by (simp add: projectsForClusterPod_def HasSuffix_iff)
  moreover have "NATSURL (pj_Name project) ns =
      ''nats://'' @ projectChildNATSName (pj_Name project) @ ''.'' @ ns @ ''.svc:'' @ itoa natsClientPort"
    by (simp add: NATSURL_def projectChildNATSName_def itoa_natsClientPort)
  ultimately show ?thesis
    by (simp add: svc ss natsLabels_def buildProjectNATSService_def natsPodTemplate_def
        conj_disj_distribR ex_disj_distrib)
qed

definition member_pod :: Pod where
  "member_pod = (demo_pod ''p-cluster-0'' True)\<lparr>pod_Meta := (sample_meta ''p-cluster-0'')\<lparr>
     om_Labels := [(clusterLabelKey, ''p-cluster'')]\<rparr>\<rparr>"

lemma project_children_match_witness:
  "\<exists>svc' ss'.
    mutate_nats_service (failing_kube :: unit KubeClient) (demo_project []) (bare_service ''p-nats'') = Inr svc' \<and>
    mutate_nats_statefulset (failing_kube :: unit KubeClient) '''' (demo_project []) (bare_statefulset ''p-nats'') = Inr ss' \<and>
    svc_Selector svc' = ss_TemplateLabels ss' \<and>
    projectsForClusterPod member_pod = [(''p'', ''ns'')]"
proof -
  let ?K = "failing_kube :: unit KubeClient"
  have p: "pj_Name (demo_project []) = ''p''" by (simp add: demo_project_def sample_meta_def)
  obtain svc' where svc: "mutate_nats_service ?K (demo_project []) (bare_service ''p-nats'') = Inr svc'"
    by (simp add: mutate_nats_service_def own_def failing_kube_def Let_def)
  obtain ss' where ss: "mutate_nats_statefulset ?K '''' (demo_project []) (bare_statefulset ''p-nats'') = Inr ss'"
    by (simp add: mutate_nats_statefulset_def own_def failing_kube_def Let_def)
  obtain cl where cl: "mutate_project_cluster ?K (demo_project []) (sample_cluster ''p-cluster'' 1) = Inr cl"
    and name: "pc_Name cl = projectChildClusterName (pj_Name (demo_project []))"
    by (simp add: mutate_project_cluster_def own_def failing_kube_def Let_def sample_cluster_def sample_meta_def
        projectChildClusterName_def p)
  obtain css where css: "mutate_cluster_statefulset ?K cl (bare_statefulset ''p-cluster'') = Inr css"
    by (simp add: mutate_cluster_statefulset_def own_def failing_kube_def Let_def)
  have fresh: "\<not> om_Created (ss_Meta (bare_statefulset ''p-nats''))"
    by (simp add: bare_statefulset_def object_key_def)
  have labels: "om_Labels (pod_Meta member_pod) = ss_TemplateLabels css"
    using mutate_cluster_statefulset_Inr [OF css] name by (simp add: member_pod_def projectChildClusterName_def p)
  from project_children_match [OF svc ss fresh cl name css labels]
  have "svc_Selector svc' = ss_TemplateLabels ss'" "projectsForClusterPod member_pod = [(''p'', ''ns'')]"
    by (simp_all add: p member_pod_def sample_meta_def)
  with svc ss show ?thesis by blast
qed

end
