(* ===== verification/Rpc_Server.thy ===== *)
theory Rpc_Server
  imports Rpc_Observe Rpc_Oidc Rpc_Project_Props
begin

text \<open>
  The route table of the API server, \<open>registerRoutes\<close> of \<^verbatim>\<open>internal/api/server.go\<close>, and what
  holds of every route: under whose identity it calls the Kubernetes API, in which namespaces,
  who may write, and what may be written. The OIDC routes, which make no such calls, are in
  \<open>Rpc_Oidc\<close>. A route is its pattern with its wrapped handler; matching a request against the
  patterns, by the ServeMux of the Go standard library, is in \<open>Rpc_Mux\<close>.
\<close>

section \<open>Routes\<close>

definition registerRoutes :: "'w ApiEnv \<Rightarrow> Server \<Rightarrow> (string \<times> 'w handler) list" where
  "registerRoutes E S =
     [(''GET /api/v1/auth/whoami'', authOrAnonymous S (handleWhoami E S)),
      (''GET /api/v1/auth/config'', handleAuthConfig S),
      (''GET /api/v1/namespaces'', authOrAnonymous S (handleListNamespaces S)),
      (''GET /api/v1/pipelines'', authOrAnonymous S (handleListAll E S)),
      (''GET /api/v1/namespaces/{namespace}/pipelines'', authOrAnonymous S (allowlist S (handleListNamespaced E S))),
      (''GET /api/v1/namespaces/{namespace}/pipelines/{name}'', authOrAnonymous S (allowlist S (handleGet E S))),
      (''POST /api/v1/namespaces/{namespace}/pipelines'', authIfEnabled S (allowlist S (handleCreate E S))),
      (''PUT /api/v1/namespaces/{namespace}/pipelines/{name}'', authIfEnabled S (allowlist S (handleUpdate E S))),
      (''DELETE /api/v1/namespaces/{namespace}/pipelines/{name}'', authIfEnabled S (allowlist S (handleDelete E S))),
      (''POST /api/v1/namespaces/{namespace}/pipelines/{name}/stop'', authIfEnabled S (allowlist S (handleStop E S))),
      (''POST /api/v1/namespaces/{namespace}/pipelines/{name}/run'', authIfEnabled S (allowlist S (handleRun E S))),
      (''GET /api/v1/pipelineclusters'', authOrAnonymous S (handleListAllClusters E S)),
      (''GET /api/v1/namespaces/{namespace}/pipelineclusters'', authOrAnonymous S (allowlist S (handleListNamespacedClusters E S))),
      (''GET /api/v1/namespaces/{namespace}/pipelineclusters/{name}'', authOrAnonymous S (allowlist S (handleGetCluster E S))),
      (''POST /api/v1/namespaces/{namespace}/pipelineclusters'', authIfEnabled S (allowlist S (handleCreateCluster E S))),
      (''PUT /api/v1/namespaces/{namespace}/pipelineclusters/{name}'', authIfEnabled S (allowlist S (handleUpdateCluster E S))),
      (''DELETE /api/v1/namespaces/{namespace}/pipelineclusters/{name}'', authIfEnabled S (allowlist S (handleDeleteCluster E S))),
      (''GET /api/v1/namespaces/{namespace}/pipelineclusters/{name}/instances'',
         authOrAnonymous S (allowlist S (handleClusterInstances E S))),
      (''GET /api/v1/namespaces/{namespace}/pipelineclusters/{name}/metrics'',
         authOrAnonymous S (allowlist S (handleClusterMetrics E S))),
      (''GET /api/v1/pipelineprojects'', authOrAnonymous S (handleListAllProjects E S)),
      (''GET /api/v1/namespaces/{namespace}/pipelineprojects'', authOrAnonymous S (allowlist S (handleListNamespacedProjects E S))),
      (''GET /api/v1/namespaces/{namespace}/pipelineprojects/{name}'', authOrAnonymous S (allowlist S (handleGetProject E S))),
      (''POST /api/v1/namespaces/{namespace}/pipelineprojects'', authIfEnabled S (allowlist S (handleCreateProject E S))),
      (''PUT /api/v1/namespaces/{namespace}/pipelineprojects/{name}'', authIfEnabled S (allowlist S (handleUpdateProject E S))),
      (''DELETE /api/v1/namespaces/{namespace}/pipelineprojects/{name}'', authIfEnabled S (allowlist S (handleDeleteProject E S))),
      (''POST /api/v1/pipelines/validate'', handleValidate E S),
      (''POST /api/v1/pipelines/render'', handleRender E S),
      (''GET /api/v1/catalog'', authOrAnonymous S (handleCatalogList S)),
      (''GET /api/v1/catalog/{category}/{name}'', authOrAnonymous S (handleCatalogGet S)),
      (''GET /api/v1/namespaces/{namespace}/pipelines/{name}/logs'', allowlist S (handleLogStream E S)),
      (''GET /api/v1/namespaces/{namespace}/pipelines/connections'',
         authOrAnonymous S (allowlist S (handleNamespaceConnections E S))),
      (''GET /api/v1/namespaces/{namespace}/pipelines/{name}/connections'',
         authOrAnonymous S (allowlist S (handleConnections E S))),
      (''GET /api/v1/namespaces/{namespace}/pipelines/{name}/metrics'',
         authOrAnonymous S (allowlist S (handleMetrics E S)))]"

definition spaCacheControl :: "string \<Rightarrow> string" where
  "spaCacheControl path =
     (if HasPrefix path ''/assets/'' then ''public, max-age=31536000, immutable'' else ''no-cache'')"

section \<open>What a call may be\<close>

fun ev_client :: "api_event \<Rightarrow> api_client option" where
  "ev_client (AGet c k ns n) = Some c"
| "ev_client (AList c k ns) = Some c"
| "ev_client (ACreate c ob) = Some c"
| "ev_client (AUpdate c ob) = Some c"
| "ev_client (ADelete c ob) = Some c"
| "ev_client (APatch c p b) = Some c"
| "ev_client (APods c ns) = Some c"
| "ev_client (AReview c) = Some c"
| "ev_client (ALogs c ns n f res) = Some c"
| "ev_client _ = None"

fun is_write :: "api_event \<Rightarrow> bool" where
  "is_write (ACreate c ob) = True"
| "is_write (AUpdate c ob) = True"
| "is_write (ADelete c ob) = True"
| "is_write (APatch c p b) = True"
| "is_write _ = False"

fun obj_namespace :: "obj \<Rightarrow> string" where
  "obj_namespace (PipelineObj p) = p_Namespace p"
| "obj_namespace (ClusterObj c) = om_Namespace (pc_Meta c)"
| "obj_namespace (ProjectObj p) = pj_Namespace p"

fun obj_name :: "obj \<Rightarrow> string" where
  "obj_name (PipelineObj p) = p_Name p"
| "obj_name (ClusterObj c) = om_Name (pc_Meta c)"
| "obj_name (ProjectObj p) = pj_Name p"

text \<open>
  The namespace a call of the Kubernetes API addresses, \<open>Some None\<close> for all, and the name of the
  resource that it reads by name or changes; a client takes the address of a write from the
  object. Only the review of a token addresses no namespace.
\<close>

fun ev_scope :: "api_event \<Rightarrow> string option option" where
  "ev_scope (AGet c k ns n) = Some (Some ns)"
| "ev_scope (AList c k ns) = Some ns"
| "ev_scope (ACreate c ob) = Some (Some (obj_namespace ob))"
| "ev_scope (AUpdate c ob) = Some (Some (obj_namespace ob))"
| "ev_scope (ADelete c ob) = Some (Some (obj_namespace ob))"
| "ev_scope (APatch c p b) = Some (Some (p_Namespace p))"
| "ev_scope (APods c ns) = Some (Some ns)"
| "ev_scope (ALogs c ns n f res) = Some (Some ns)"
| "ev_scope _ = None"

fun ev_name :: "api_event \<Rightarrow> string option" where
  "ev_name (AGet c k ns n) = Some n"
| "ev_name (AUpdate c ob) = Some (obj_name ob)"
| "ev_name (ADelete c ob) = Some (obj_name ob)"
| "ev_name (APatch c p b) = Some (p_Name p)"
| "ev_name _ = None"

text \<open>
  What is relied on of the Kubernetes API: reading an object by namespace and name returns an
  object with that namespace and that name.
\<close>

definition get_law :: "('w, 'o) Resource \<Rightarrow> ('o \<Rightarrow> obj) \<Rightarrow> bool" where
  "get_law R mk \<longleftrightarrow> (\<forall>c ns n w p w'. run_state (res_Get R c ns n) w = (Inr p, w') \<longrightarrow>
     obj_namespace (mk p) = ns \<and> obj_name (mk p) = n)"

definition api_law :: "'w ApiEnv \<Rightarrow> bool" where
  "api_law E \<longleftrightarrow> get_law (e_Pipelines E) PipelineObj \<and> get_law (e_Clusters E) ClusterObj \<and> get_law (e_Projects E) ProjectObj"

text \<open>
  A call stays at an address: it is of the namespace, and the resource it reads by name or
  changes is the named one.
\<close>

definition stays_at :: "string \<Rightarrow> string \<Rightarrow> api_event \<Rightarrow> bool" where
  "stays_at ns name e \<longleftrightarrow>
     ev_client e = None \<or> ev_scope e = Some (Some ns) \<and> (ev_name e = None \<or> ev_name e = Some name)"

text \<open>What is written as the spec of a pipeline has passed validation.\<close>

fun write_valid :: "'w ApiEnv \<Rightarrow> Server \<Rightarrow> api_event \<Rightarrow> bool" where
  "write_valid E S (ACreate c (PipelineObj p)) = (pipeline_errs E S p = [])"
| "write_valid E S (AUpdate c (PipelineObj p)) = (pipeline_errs E S p = [])"
| "write_valid E S _ = True"

definition may_call :: "'w ApiEnv \<Rightarrow> Server \<Rightarrow> Request \<Rightarrow> api_client \<Rightarrow> bool" where
  "may_call E S r c \<longleftrightarrow> clientForRequest E S r = Inr c \<or> clientsetForRequest E S r = Inr (Some c)"

definition allowed :: "'w ApiEnv \<Rightarrow> Server \<Rightarrow> Request \<Rightarrow> bool \<Rightarrow> bool \<Rightarrow> api_event \<Rightarrow> bool" where
  "allowed E S r confined wr e \<longleftrightarrow>
     (case ev_client e of None \<Rightarrow> True | Some c \<Rightarrow> may_call E S r c) \<and>
     (is_write e \<longrightarrow> wr) \<and>
     (confined \<and> api_law E \<longrightarrow> stays_at (PathValue r ''namespace'') (PathValue r ''name'') e) \<and>
     write_valid E S e"

lemma emits_with_client [emits_intros]:
  "(\<And>c. clientForRequest E S r = Inr c \<Longrightarrow> emits P (k c)) \<Longrightarrow> emits P (with_client E S r k)"
  by (auto simp: with_client_def intro!: emits_intros split: sum.split)

lemma emits_on_ok [emits_intros]: "(\<And>x. res = Inr x \<Longrightarrow> emits P (k x)) \<Longrightarrow> emits P (on_ok res k)"
  by (auto simp: on_ok_def intro!: emits_intros split: sum.split)

text \<open>Validation looks at the spec only.\<close>

lemma pipeline_errs_spec [simp]:
  "pipeline_errs E S (p\<lparr>p_Meta := m\<rparr>) = pipeline_errs E S p"
  "pipeline_errs E S (q\<lparr>p_Spec := p_Spec p\<rparr>) = pipeline_errs E S p"
  by (simp_all add: pipeline_errs_def ValidatePipeline_def)

lemmas allowed_simps = allowed_def may_call_def stays_at_def

lemma get_law_spec:
  "get_law (e_Pipelines E) PipelineObj \<Longrightarrow> run_state (res_Get (e_Pipelines E) c ns n) w = (Inr p, w') \<Longrightarrow> p_Namespace p = ns \<and> p_Name p = n"
  "get_law (e_Clusters E) ClusterObj \<Longrightarrow> run_state (res_Get (e_Clusters E) c ns n) w = (Inr k, w') \<Longrightarrow>
     om_Namespace (pc_Meta k) = ns \<and> om_Name (pc_Meta k) = n"
  "get_law (e_Projects E) ProjectObj \<Longrightarrow> run_state (res_Get (e_Projects E) c ns n) w = (Inr j, w') \<Longrightarrow> pj_Namespace j = ns \<and> pj_Name j = n"
  by (fastforce simp: get_law_def)+

text \<open>Reading an object and going on with what the read can return.\<close>

lemma emits_read:
  assumes "P (AGet c kind ns n)"
    and "\<And>w x w'. run_state (res_Get R c ns n) w = (Inr x, w') \<Longrightarrow> emits P (k x)"
  shows "emits P (call (res_Get R c ns n) (\<lambda>_. AGet c kind ns n) \<bind> (\<lambda>res. on_ok res k))"
  using assms by (auto intro!: emits_bind_call emits_on_ok)

lemma emits_list:
  "cf \<Longrightarrow> ns = Some (PathValue r ''namespace'') \<Longrightarrow> emits (allowed E S r cf wr) (list_handler E S R k out ns r)"
  unfolding list_handler_def by (intro emits_intros) (simp add: allowed_simps)

lemma emits_list_any: "emits (allowed E S r False wr) (list_handler E S R k out ns r)"
  unfolding list_handler_def by (intro emits_intros) (simp add: allowed_simps)

lemma emits_get: "emits (allowed E S r True wr) (get_handler E S R k out r)"
  unfolding get_handler_def Let_def by (intro emits_intros) (simp add: allowed_simps)

lemma emits_delete:
  assumes "api_law E \<Longrightarrow> get_law R mk"
  shows "emits (allowed E S r True True) (delete_handler E S R k mk r)"
  unfolding delete_handler_def Let_def
proof (intro emits_with_client emits_read)
  fix c w x w'
  assume c: "clientForRequest E S r = Inr c"
    and "run_state (res_Get R c (PathValue r ''namespace'') (PathValue r ''name'')) w = (Inr x, w')"
  with assms have "api_law E \<Longrightarrow> obj_namespace (mk x) = PathValue r ''namespace'' \<and> obj_name (mk x) = PathValue r ''name''"
    unfolding get_law_def by blast
  with c show "emits (allowed E S r True True) (call (res_Delete R c x) (\<lambda>_. ADelete c (mk x)) \<bind>
      (\<lambda>e. case e of None \<Rightarrow> State_Monad.return (writeJSON 200 (DeletedBody (PathValue r ''name'')))
           | Some err \<Rightarrow> State_Monad.return (writeK8sError err)))"
    by (intro emits_intros) (auto simp: allowed_simps)
qed (simp add: allowed_simps)

lemma emits_create [emits_intros]:
  "clientForRequest E S r = Inr c \<Longrightarrow> obj_namespace (mk p) = PathValue r ''namespace'' \<Longrightarrow> write_valid E S (ACreate c (mk p)) \<Longrightarrow>
   emits (allowed E S r True True) (create_object R mk out c p)"
  unfolding create_object_def by (intro emits_intros) (auto simp: allowed_simps)

lemma emits_update:
  "clientForRequest E S r = Inr c \<Longrightarrow> write_valid E S (AUpdate c (mk p)) \<Longrightarrow>
   (api_law E \<Longrightarrow> obj_namespace (mk p) = PathValue r ''namespace'' \<and> obj_name (mk p) = PathValue r ''name'') \<Longrightarrow>
   emits (allowed E S r True True) (update_object R mk out c p)"
  unfolding update_object_def by (intro emits_intros) (auto simp: allowed_simps split: option.split)

lemma emits_patch: "emits (allowed E S r True True) (patchStopped E S b r)"
  unfolding patchStopped_def Let_def
  by (intro emits_with_client emits_read emits_bind emits_call emits_on_ok emits_return)
    (auto simp: allowed_simps api_law_def dest: get_law_spec)

section \<open>The calls of each handler\<close>

lemma emits_handleDelete: "emits (allowed E S r True True) (handleDelete E S r)"
  "emits (allowed E S r True True) (handleDeleteCluster E S r)" "emits (allowed E S r True True) (handleDeleteProject E S r)"
  unfolding handleDelete_def handleDeleteCluster_def handleDeleteProject_def by (rule emits_delete, simp add: api_law_def)+

lemma emits_handleCreate: "emits (allowed E S r True True) (handleCreate E S r)"
  unfolding handleCreate_def Let_def by (intro emits_intros) (auto intro!: emits_intros)

lemma emits_handleUpdate: "emits (allowed E S r True True) (handleUpdate E S r)"
  unfolding handleUpdate_def Let_def
  by (intro emits_case_sum emits_if emits_return emits_with_client emits_read emits_update)
    (auto simp: allowed_simps api_law_def dest: get_law_spec)

lemma emits_handleCreateCluster: "emits (allowed E S r True True) (handleCreateCluster E S r)"
  unfolding handleCreateCluster_def Let_def by (intro emits_intros) auto

lemma emits_handleUpdateCluster: "emits (allowed E S r True True) (handleUpdateCluster E S r)"
  unfolding handleUpdateCluster_def Let_def
  by (intro emits_case_sum emits_if emits_return emits_with_client emits_read emits_update)
    (auto simp: allowed_simps api_law_def dest: get_law_spec)

lemma emits_validateProjectGraph:
  "clientForRequest E S r = Inr c \<Longrightarrow> ns = PathValue r ''namespace'' \<Longrightarrow>
   emits (allowed E S r cf wr) (validateProjectGraph E c ns p)"
  unfolding validateProjectGraph_def by (intro emits_intros) (simp add: allowed_simps)

lemma emits_handleCreateProject: "emits (allowed E S r True True) (handleCreateProject E S r)"
  unfolding handleCreateProject_def Let_def by (intro emits_intros emits_validateProjectGraph) auto

lemma emits_handleUpdateProject: "emits (allowed E S r True True) (handleUpdateProject E S r)"
  unfolding handleUpdateProject_def Let_def
  by (intro emits_case_sum emits_if emits_return emits_with_client emits_read emits_bind emits_validateProjectGraph emits_update)
    (auto simp: allowed_simps api_law_def dest: get_law_spec)

lemma emits_handleClusterInstances: "emits (allowed E S r True False) (handleClusterInstances E S r)"
  unfolding handleClusterInstances_def Let_def by (intro emits_intros) (auto simp: allowed_simps)

text \<open>The routes that everybody may call make calls of the Kubernetes API only, or none at all.\<close>

lemma emits_handleRender: "emits (\<lambda>e. allowed E S r False False e \<and> ev_client e \<noteq> None) (handleRender E S r)"
  unfolding handleRender_def by (intro emits_intros) (auto simp: allowed_simps)

lemma emits_handleValidate: "emits P (handleValidate E S r)"
  unfolding handleValidate_def Let_def by (intro emits_intros)

lemma emits_handleWhoami: "emits (allowed E S r False False) (handleWhoami E S r)"
  unfolding handleWhoami_def Let_def by (intro emits_intros) (auto simp: allowed_simps)

lemma emits_prometheus_get [emits_intros]: "emits (allowed E S r cf wr) (prometheus_get E S path what params)"
  unfolding prometheus_get_def by (intro emits_intros) (simp add: allowed_simps)

lemma emits_queryPrometheusInstant [emits_intros]: "emits (allowed E S r cf wr) (queryPrometheusInstant E S q)"
  unfolding queryPrometheusInstant_def by (intro emits_intros)

lemma emits_queryPrometheus [emits_intros]: "emits (allowed E S r cf wr) (queryPrometheus E S q a b c)"
  unfolding queryPrometheus_def by (intro emits_intros)

lemma emits_metrics_response [emits_intros]: "emits (allowed E S r cf wr) (metrics_response E S n u q a b c)"
  unfolding metrics_response_def by (intro emits_intros)

lemma emits_handleConnections: "emits (allowed E S r True False) (handleConnections E S r)"
  unfolding handleConnections_def Let_def by (intro emits_intros) (auto simp: allowed_simps)

lemma emits_handleNamespaceConnections: "emits (allowed E S r True False) (handleNamespaceConnections E S r)"
  unfolding handleNamespaceConnections_def Let_def by (intro emits_intros) (auto simp: allowed_simps)

lemma emits_with_query [emits_intros]:
  "(\<And>n m u a b c. emits (allowed E S r cf wr) (k n m u a b c)) \<Longrightarrow> emits (allowed E S r cf wr) (with_query E r k)"
  unfolding with_query_def Let_def by (intro emits_intros) (auto simp: allowed_simps)

lemma emits_handleMetrics: "emits (allowed E S r True False) (handleMetrics E S r)"
  unfolding handleMetrics_def Let_def by (intro emits_intros) (auto simp: allowed_simps)

lemma emits_handleClusterMetrics: "emits (allowed E S r True False) (handleClusterMetrics E S r)"
  unfolding handleClusterMetrics_def Let_def by (intro emits_intros) (auto simp: allowed_simps)

lemma emits_ws_send [emits_intros]:
  "(\<And>l. l \<in> set ls \<Longrightarrow> P (WSWrite l)) \<Longrightarrow> emits P (ws_send E ls)"
  by (induction ls) (auto intro!: emits_intros)

lemma emits_ws_error [emits_intros]:
  "P (WSWrite (''error: '' @ err_msg err)) \<Longrightarrow> P (WSClose False ''stream open failed'') \<Longrightarrow> emits P (ws_error E err)"
  unfolding ws_error_def by (intro emits_intros)

lemma emits_ws_finish [emits_intros]: "P (WSClose True '''') \<Longrightarrow> emits P (ws_finish sent)"
  unfolding ws_finish_def by (intro emits_intros)

lemma emits_log_stream: "emits (allowed E S r True False) (log_stream E S r)"
  unfolding log_stream_def pod_logs_def stream_logs_def Let_def
  by (intro emits_intros) (auto simp: allowed_simps)

section \<open>Lines of the log route\<close>

text \<open>
  A line that may be shown of a pipeline: the report of an error that opening the log of its pod
  returned, or a line that the log delivered, which for a pipeline on a shared instance is a
  JSON object with its name in the stream field.
\<close>

definition own_line :: "'w ApiEnv \<Rightarrow> string \<Rightarrow> string \<Rightarrow> bool" where
  "own_line E name l \<longleftrightarrow>
     (\<exists>m raw. json_fields (e_VLib E) l = Some m \<and> aget m ''stream'' = Some raw \<and> e_JsonString E raw = Some name)"

definition log_pod :: "Pipeline \<Rightarrow> string" where
  "log_pod pipe =
     (if pst_AssignedInstance (p_Status pipe) \<noteq> '''' then pst_AssignedInstance (p_Status pipe) else pst_PodName (p_Status pipe))"

fun shown_by :: "'w ApiEnv \<Rightarrow> api_client \<Rightarrow> string \<Rightarrow> Pipeline \<Rightarrow> string \<Rightarrow> api_event \<Rightarrow> bool" where
  "shown_by E c ns pipe l (ALogs c' ns' pod fl res) \<longleftrightarrow>
     c' = c \<and> ns' = ns \<and> pod = log_pod pipe \<and>
     (case res of
        Inl err \<Rightarrow> l = ''error: '' @ err_msg err
      | Inr ls \<Rightarrow> l \<in> set ls \<and> (pst_AssignedInstance (p_Status pipe) \<noteq> '''' \<longrightarrow> own_line E (p_Name pipe) l))"
| "shown_by E c ns pipe l _ = False"

abbreviation line_shown :: "'w ApiEnv \<Rightarrow> api_client \<Rightarrow> string \<Rightarrow> Pipeline \<Rightarrow> api_event list \<Rightarrow> string \<Rightarrow> bool" where
  "line_shown E c ns pipe tr l \<equiv> \<exists>e\<in>set tr. shown_by E c ns pipe l e"

definition lines_ok :: "'w ApiEnv \<Rightarrow> api_client \<Rightarrow> string \<Rightarrow> Pipeline \<Rightarrow> api_event list \<Rightarrow> bool" where
  "lines_ok E c ns pipe tr \<longleftrightarrow> (\<forall>l. WSWrite l \<in> set tr \<longrightarrow> line_shown E c ns pipe tr l)"

lemma streamLogMatch_own: "streamLogMatch E l name \<Longrightarrow> own_line E name l"
  by (auto simp: streamLogMatch_def own_line_def split: if_splits option.splits)

lemma scan_lines_subset: "l \<in> set (scan_lines n ls) \<Longrightarrow> l \<in> set ls"
  by (auto simp: scan_lines_def dest: set_takeWhileD)

lemma filterBacklog_own: "l \<in> set (filterBacklog E ls streamID n) \<Longrightarrow> l \<in> set ls \<and> own_line E streamID l"
  by (auto simp: filterBacklog_def Let_def split: if_splits
      dest!: in_set_dropD intro: streamLogMatch_own scan_lines_subset)

lemma always_ws_send:
  assumes "lines_ok E c ns pipe tr" and "\<forall>l\<in>set ls. line_shown E c ns pipe tr l"
    and "\<And>a evs. lines_ok E c ns pipe (tr @ evs) \<Longrightarrow> Q a (tr @ evs)"
  shows "always (ws_send E ls) Q tr"
proof (rule always_emits)
  show "emits (\<lambda>e. \<exists>l\<in>set ls. e = WSWrite l) (ws_send E ls)" by (rule emits_ws_send) blast
  show "Q a (tr @ evs)" if evs: "list_all (\<lambda>e. \<exists>l\<in>set ls. e = WSWrite l) evs" for a evs
  proof (rule assms(3))
    have "l \<in> set ls" if "WSWrite l \<in> set evs" for l
      using evs that by (auto simp: list_all_iff dest!: bspec)
    with assms(1,2) show "lines_ok E c ns pipe (tr @ evs)" by (auto simp: lines_ok_def)
  qed
qed

lemma always_ws_end:
  "lines_ok E c ns pipe tr \<Longrightarrow> always (ws_finish sent) (\<lambda>_. lines_ok E c ns pipe) tr"
  "lines_ok E c ns pipe tr \<Longrightarrow> line_shown E c ns pipe tr (''error: '' @ err_msg err) \<Longrightarrow>
     always (ws_error E err) (\<lambda>_. lines_ok E c ns pipe) tr"
  unfolding ws_finish_def ws_error_def by (intro always_intros; auto simp: lines_ok_def)+

lemma lines_opened:
  "lines_ok E c ns pipe tr \<Longrightarrow> lines_ok E c ns pipe (tr @ [ALogs c' ns' pod fl res])"
  "lines_ok E c ns pipe tr \<Longrightarrow> lines_ok E c ns pipe (tr @ [ReadClock t])"
  by (auto simp: lines_ok_def)

lemma always_pod_logs:
  assumes "lines_ok E c ns pipe tr" and "pst_AssignedInstance (p_Status pipe) = ''''"
  shows "always (pod_logs E c ns (log_pod pipe)) (\<lambda>_. lines_ok E c ns pipe) tr"
  unfolding pod_logs_def
  by (intro always_bind always_call always_case_sum always_ws_end always_ws_send lines_opened assms(1);
      use assms in \<open>auto dest: scan_lines_subset\<close>)

lemma always_stream_logs:
  assumes "lines_ok E c ns pipe tr"
  shows "always (stream_logs E c ns (log_pod pipe) (p_Name pipe)) (\<lambda>_. lines_ok E c ns pipe) tr"
  unfolding stream_logs_def
  by (intro always_bind always_call always_case_sum always_if always_return always_ws_end always_ws_send lines_opened)
    (auto simp: assms dest: filterBacklog_own streamLogMatch_own scan_lines_subset)

lemma clientset_same: "clientForRequest E S r = Inr c \<Longrightarrow> clientsetForRequest E S r = Inr (Some cs) \<Longrightarrow> cs = c"
  by (auto simp: clientForRequest_def clientsetForRequest_def Let_def split: if_splits option.splits)

text \<open>After the read of the pipeline, with its name not empty.\<close>

lemma log_stream_after_get:
  assumes "run_state (log_stream E S r) (w, []) = (rsp, (w', tr))" and "WSWrite l \<in> set tr"
    and "api_law E" and "PathValue r ''name'' \<noteq> ''''"
  shows "\<exists>c pipe v. hd tr = AGet c KPipeline (PathValue r ''namespace'') (PathValue r ''name'') \<and>
    run_state (res_Get (e_Pipelines E) c (PathValue r ''namespace'') (PathValue r ''name'')) w = (Inr pipe, v) \<and>
    line_shown E c (PathValue r ''namespace'') pipe tr l"
proof -
  let ?ns = "PathValue r ''namespace''" and ?name = "PathValue r ''name''"
  obtain c where c: "clientForRequest E S r = Inr c"
    using assms(1,2) by (auto simp: log_stream_def with_client_def split: sum.splits)
  let ?get = "AGet c KPipeline ?ns ?name"
  obtain res v where get: "run_state (res_Get (e_Pipelines E) c ?ns ?name) w = (res, v)" by fastforce
  with assms(1,2) c obtain pipe where res: "res = Inr pipe"
    by (cases res) (auto simp: log_stream_def with_client_def Let_def run_call on_ok_def)
  let ?rest = "if log_pod pipe = '''' then State_Monad.return (writeJSONError 409 ''no pod'' ''pipeline has no running pod'')
    else case clientsetForRequest E S r of
         Inl err \<Rightarrow> State_Monad.return (internal_error err)
       | Inr None \<Rightarrow> State_Monad.return (writeJSONError 503 ''not available'' ''log streaming not configured'')
       | Inr (Some cs) \<Rightarrow> do {
           accepted \<leftarrow> call (e_WSAccept E r) (\<lambda>_. WSAccept);
           if \<not> accepted then State_Monad.return (writeJSON 400 NoBody)
           else if snd (pod_and_stream pipe) = '''' then pod_logs E cs ?ns (log_pod pipe)
           else stream_logs E cs ?ns (log_pod pipe) (snd (pod_and_stream pipe))
         }"
  have name: "p_Name pipe \<noteq> ''''" using assms(3,4) get res by (auto simp: api_law_def dest: get_law_spec)
  have pod: "fst (pod_and_stream pipe) = log_pod pipe" by (simp add: pod_and_stream_def log_pod_def)
  have "run_state ?rest (v, [?get]) = (rsp, (w', tr))"
    using assms(1) c get unfolding log_stream_def with_client_def Let_def pod [symmetric]
    by (simp add: run_call on_ok_def res)
  moreover have "always ?rest (\<lambda>_ tr. lines_ok E c ?ns pipe tr) [?get]"
  proof (intro always_intros)
    fix x cs accepted
    assume "clientsetForRequest E S r = Inr x" and "x = Some cs"
    with c have cs: "cs = c" by (auto dest: clientset_same)
    have start: "lines_ok E c ?ns pipe ([?get] @ [WSAccept])" by (simp add: lines_ok_def)
    show "always (pod_logs E cs ?ns (log_pod pipe)) (\<lambda>_. lines_ok E c ?ns pipe) ([?get] @ [WSAccept])"
      if "snd (pod_and_stream pipe) = ''''"
      unfolding cs using that name start by (intro always_pod_logs) (auto simp: pod_and_stream_def split: if_splits)
    show "always (stream_logs E cs ?ns (log_pod pipe) (snd (pod_and_stream pipe))) (\<lambda>_. lines_ok E c ?ns pipe) ([?get] @ [WSAccept])"
      if "snd (pod_and_stream pipe) \<noteq> ''''"
      using that start always_stream_logs [of E c ?ns pipe] by (auto simp: cs pod_and_stream_def split: if_splits)
  qed (simp_all add: lines_ok_def)
  ultimately have "lines_ok E c ?ns pipe tr" by (rule always_run [rotated])
  moreover have "emits (\<lambda>_. True) ?rest"
    by (intro emits_intros) (auto simp: pod_logs_def stream_logs_def intro!: emits_intros)
  ultimately show ?thesis using assms(2) get res emits_run [of "\<lambda>_. True" ?rest v "[?get]" rsp w' tr] \<open>run_state ?rest (v, [?get]) = (rsp, (w', tr))\<close>
    by (auto simp: lines_ok_def)
qed

section \<open>The calls of each route\<close>

definition caller :: "Server \<Rightarrow> Request \<Rightarrow> api_client \<Rightarrow> bool" where
  "caller S r c \<longleftrightarrow>
     (if \<not> s_AuthEnabled S then c = OperatorClient
      else if tokenFromRequest r \<noteq> ''''
      then \<exists>rest. s_RestConfig S = Some rest \<and> c = TokenClient (token_config rest (tokenFromRequest r))
      else c = OperatorClient)"

text \<open>The route that a server has opened to requests without a token: the log route by its own switch.\<close>

definition opened :: "Server \<Rightarrow> string \<Rightarrow> bool" where
  "opened S p \<longleftrightarrow> (if HasSuffix p ''/logs'' then s_AnonymousLogs S else s_AnonymousRead S)"

text \<open>Objects are written only through routes of a namespace, and never by a GET.\<close>

definition writing :: "string \<Rightarrow> bool" where
  "writing p \<longleftrightarrow> \<not> HasPrefix p ''GET '' \<and> Contains p ''{namespace}''"

definition route_allowed :: "'w ApiEnv \<Rightarrow> Server \<Rightarrow> Request \<Rightarrow> string \<Rightarrow> api_event \<Rightarrow> bool" where
  "route_allowed E S r p e \<longleftrightarrow>
     (case ev_client e of None \<Rightarrow> True | Some c \<Rightarrow> caller S r c) \<and>
     (s_AuthEnabled S \<and> tokenFromRequest r = '''' \<longrightarrow> opened S p \<and> \<not> is_write e) \<and>
     (is_write e \<longrightarrow> writing p) \<and>
     (Contains p ''{namespace}'' \<longrightarrow>
        (api_law E \<longrightarrow> stays_at (PathValue r ''namespace'') (PathValue r ''name'') e) \<and>
        (s_WatchNamespaces S = [] \<or> PathValue r ''namespace'' \<in> set (s_WatchNamespaces S))) \<and>
     write_valid E S e"

definition fresh :: "Request \<Rightarrow> bool" where
  "fresh r \<longleftrightarrow> rq_Token r = None \<and> \<not> rq_Anonymous r"

lemma may_call_plain: "fresh r \<Longrightarrow> may_call E S r c \<Longrightarrow> \<not> s_AuthEnabled S \<and> c = OperatorClient"
  by (auto simp: fresh_def may_call_def clientForRequest_def clientsetForRequest_def context_token_def split: if_splits)

lemma may_call_token:
  "fresh r \<Longrightarrow> s_AuthEnabled S \<Longrightarrow> t \<noteq> '''' \<Longrightarrow> may_call E S (r\<lparr>rq_Token := Some t\<rparr>) c \<Longrightarrow>
     \<exists>rest. s_RestConfig S = Some rest \<and> c = TokenClient (token_config rest t)"
  by (auto simp: fresh_def may_call_def clientForRequest_def clientsetForRequest_def context_token_def Let_def
      split: if_splits option.splits)

lemma may_call_anonymous: "may_call E S (r\<lparr>rq_Anonymous := True\<rparr>) c \<Longrightarrow> c = OperatorClient"
  by (auto simp: may_call_def clientForRequest_def clientsetForRequest_def split: if_splits)

lemma PathValue_context [simp]:
  "PathValue (r\<lparr>rq_Token := t\<rparr>) k = PathValue r k" "PathValue (r\<lparr>rq_Anonymous := b\<rparr>) k = PathValue r k"
  by (simp_all add: PathValue_def)

text \<open>From what a handler may do in the context it sees to what its route may do.\<close>

abbreviation confinement :: "Server \<Rightarrow> Request \<Rightarrow> string \<Rightarrow> bool \<Rightarrow> bool" where
  "confinement S r p cf \<equiv> Contains p ''{namespace}'' \<longrightarrow>
     cf \<and> (s_WatchNamespaces S = [] \<or> PathValue r ''namespace'' \<in> set (s_WatchNamespaces S))"

lemma allowed_plain:
  "allowed E S r cf wr e \<Longrightarrow> fresh r \<Longrightarrow> (wr \<Longrightarrow> writing p) \<Longrightarrow> confinement S r p cf \<Longrightarrow> \<not> s_AuthEnabled S \<or> ev_client e \<noteq> None \<Longrightarrow>
   route_allowed E S r p e"
  using may_call_plain [of r E S] by (auto simp: allowed_def route_allowed_def caller_def split: option.splits)

lemma allowed_token:
  "allowed E S (r\<lparr>rq_Token := Some (tokenFromRequest r)\<rparr>) cf wr e \<Longrightarrow> fresh r \<Longrightarrow> s_AuthEnabled S \<Longrightarrow> tokenFromRequest r \<noteq> '''' \<Longrightarrow>
   (wr \<Longrightarrow> writing p) \<Longrightarrow> confinement S r p cf \<Longrightarrow> route_allowed E S r p e"
  using may_call_token [of r S "tokenFromRequest r" E] by (auto simp: allowed_def route_allowed_def caller_def split: option.splits)

lemma allowed_anonymous:
  "allowed E S (r\<lparr>rq_Anonymous := True\<rparr>) cf False e \<Longrightarrow> s_AuthEnabled S \<Longrightarrow> tokenFromRequest r = '''' \<Longrightarrow> opened S p \<Longrightarrow>
   confinement S r p cf \<Longrightarrow> route_allowed E S r p e"
  using may_call_anonymous [of E S r] by (auto simp: allowed_def route_allowed_def caller_def split: option.splits)

lemma emits_allowlist:
  "(s_WatchNamespaces S = [] \<or> PathValue r ''namespace'' \<in> set (s_WatchNamespaces S) \<Longrightarrow> emits P (h r)) \<Longrightarrow> emits P (allowlist S h r)"
  unfolding allowlist_def Let_def by (intro emits_intros) auto

lemma emits_plain:
  "emits (allowed E S r cf wr) m \<Longrightarrow> fresh r \<Longrightarrow> (wr \<Longrightarrow> writing p) \<Longrightarrow> confinement S r p cf \<Longrightarrow> \<not> s_AuthEnabled S \<Longrightarrow>
   emits (route_allowed E S r p) m"
  by (erule emits_mono) (erule allowed_plain; simp)

lemma emits_token:
  "emits (allowed E S (r\<lparr>rq_Token := Some (tokenFromRequest r)\<rparr>) cf wr) m \<Longrightarrow> fresh r \<Longrightarrow> s_AuthEnabled S \<Longrightarrow>
   tokenFromRequest r \<noteq> '''' \<Longrightarrow> (wr \<Longrightarrow> writing p) \<Longrightarrow> confinement S r p cf \<Longrightarrow> emits (route_allowed E S r p) m"
  by (erule emits_mono) (erule allowed_token; simp)

lemma emits_anonymous:
  "emits (allowed E S (r\<lparr>rq_Anonymous := True\<rparr>) cf False) m \<Longrightarrow> s_AuthEnabled S \<Longrightarrow> tokenFromRequest r = '''' \<Longrightarrow> opened S p \<Longrightarrow>
   confinement S r p cf \<Longrightarrow> emits (route_allowed E S r p) m"
  by (erule emits_mono) (erule allowed_anonymous; simp)

lemma emits_route_read:
  assumes "fresh r" and "\<not> HasSuffix p ''/logs''" and h: "\<And>r'. emits (allowed E S r' True False) (h r')"
  shows "emits (route_allowed E S r p) (authOrAnonymous S (allowlist S h) r)"
  using assms(1,2) unfolding authOrAnonymous_def Let_def
  by (auto simp: opened_def intro!: emits_intros emits_allowlist emits_plain [OF h] emits_token [OF h] emits_anonymous [OF h])

lemma emits_route_write:
  assumes "fresh r" and "writing p" and h: "\<And>r'. emits (allowed E S r' True True) (h r')"
  shows "emits (route_allowed E S r p) (authIfEnabled S (allowlist S h) r)"
  using assms(1,2) unfolding authIfEnabled_def authMiddleware_def Let_def
  by (auto intro!: emits_intros emits_allowlist emits_plain [OF h] emits_token [OF h])

lemma emits_route_global:
  assumes "fresh r" and "\<not> Contains p ''{namespace}''" and "\<not> HasSuffix p ''/logs''"
    and h: "\<And>r'. emits (allowed E S r' False False) (h r')"
  shows "emits (route_allowed E S r p) (authOrAnonymous S h r)"
  using assms(1-3) unfolding authOrAnonymous_def Let_def
  by (auto simp: opened_def intro!: emits_intros emits_plain [OF h] emits_token [OF h] emits_anonymous [OF h])

lemma emits_route_public:
  assumes "fresh r" and "\<not> Contains p ''{namespace}''" and h: "emits (\<lambda>e. allowed E S r False False e \<and> ev_client e \<noteq> None) (h r)"
  shows "emits (route_allowed E S r p) (h r)"
  by (rule emits_mono [OF h]) (use assms(1,2) in \<open>auto intro: allowed_plain\<close>)

lemma emits_route_logs:
  assumes "fresh r" and "HasSuffix p ''/logs''"
  shows "emits (route_allowed E S r p) (allowlist S (handleLogStream E S) r)"
  using assms unfolding handleLogStream_def Let_def
  by (auto simp: opened_def intro!: emits_intros emits_allowlist emits_plain [OF emits_log_stream] emits_token [OF emits_log_stream]
      emits_anonymous [OF emits_log_stream])

lemma emits_no_call: "emits P (State_Monad.return x)"
  by (rule emits_return)

lemmas read_handlers =
  emits_handleClusterInstances emits_handleConnections emits_handleNamespaceConnections emits_handleMetrics
  emits_handleClusterMetrics emits_list [OF TrueI refl] emits_get

lemmas write_handlers =
  emits_handleCreate emits_handleUpdate emits_handleCreateCluster emits_handleUpdateCluster emits_handleCreateProject
  emits_handleUpdateProject emits_handleDelete emits_patch

lemmas global_handlers =
  emits_handleWhoami emits_handleRender emits_handleValidate emits_list_any emits_no_call

lemmas handler_defs =
  handleListAll_def handleListNamespaced_def handleGet_def handleStop_def handleRun_def
  handleListAllClusters_def handleListNamespacedClusters_def handleGetCluster_def
  handleListAllProjects_def handleListNamespacedProjects_def handleGetProject_def
  handleListNamespaces_def handleCatalogList_def handleCatalogGet_def handleAuthConfig_def Let_def

lemma routes_ok:
  assumes "fresh r"
  shows "list_all (\<lambda>(p, h). emits (route_allowed E S r p) (h r)) (registerRoutes E S)"
  unfolding registerRoutes_def list.pred_inject prod.case
  by (intro conjI TrueI;
      ((rule emits_route_read [OF assms], simp add: HasSuffix_def, (simp only: handler_defs)?, rule read_handlers) |
      (rule emits_route_write [OF assms], simp add: writing_def HasPrefix_def, (simp only: handler_defs)?, rule write_handlers) |
      (rule emits_route_global [OF assms], simp add: HasPrefix_def, simp add: HasSuffix_def, (simp only: handler_defs)?, rule global_handlers) |
      (rule emits_route_logs [OF assms], simp add: HasSuffix_def) |
      (rule emits_route_public [OF assms], simp add: HasPrefix_def, (simp only: handler_defs)?, rule global_handlers) | simp))

lemma route_calls:
  assumes "(p, h) \<in> set (registerRoutes E S)" and "fresh r" and "run_state (h r) (w, []) = (rsp, (w', tr))"
    and "e \<in> set tr"
  shows "route_allowed E S r p e"
proof -
  from routes_ok [OF assms(2), of E S] assms(1) have "emits (route_allowed E S r p) (h r)"
    by (auto simp: list_all_iff)
  from emits_run [OF this assms(3)] assms(4) show ?thesis by (auto simp: list_all_iff)
qed

lemma handleLogStream_line:
  assumes "run_state (handleLogStream E S r) (w, []) = (rsp, (w', tr))" and "WSWrite l \<in> set tr"
    and "api_law E" and "PathValue r ''name'' \<noteq> ''''"
  shows "\<exists>c pipe v. hd tr = AGet c KPipeline (PathValue r ''namespace'') (PathValue r ''name'') \<and>
    run_state (res_Get (e_Pipelines E) c (PathValue r ''namespace'') (PathValue r ''name'')) w = (Inr pipe, v) \<and>
    line_shown E c (PathValue r ''namespace'') pipe tr l"
proof -
  have "run_state (log_stream E S r') (w, []) = (rsp, (w', tr)) \<Longrightarrow> PathValue r' = PathValue r \<Longrightarrow> ?thesis" for r'
    using log_stream_after_get [of E S r' w rsp w' tr l] assms(2-4) by simp
  moreover have "PathValue (r\<lparr>rq_Token := t\<rparr>) = PathValue r" "PathValue (r\<lparr>rq_Anonymous := b\<rparr>) = PathValue r" for t b
    by (simp_all add: fun_eq_iff)
  ultimately show ?thesis using assms(1,2) by (auto simp: handleLogStream_def Let_def split: if_splits)
qed

section \<open>An environment for evaluating the model\<close>

definition no_resource :: "(unit, 'o) Resource" where
  "no_resource =
     \<lparr>res_Get = (\<lambda>_ _ _. State_Monad.return (Inl (Err NotFound ''''))), res_List = (\<lambda>_ _. State_Monad.return (Inr [])),
      res_Create = (\<lambda>_ x. State_Monad.return (Inr x)), res_Update = (\<lambda>_ x. State_Monad.return (Inr x)),
      res_Delete = (\<lambda>_ _. State_Monad.return None)\<rparr>"

definition stored_pipeline :: Pipeline where
  "stored_pipeline = (sample_pipeline ''a'' '''' '''')\<lparr>p_Spec := (p_Spec (sample_pipeline ''a'' '''' ''''))\<lparr>
     ps_ProjectRef := Some \<lparr>pr_Name = ''p''\<rparr>\<rparr>\<rparr>"

definition only_pipeline :: "Pipeline \<Rightarrow> (unit, Pipeline) Resource" where
  "only_pipeline p = no_resource\<lparr>res_Get := (\<lambda>_ ns n. State_Monad.return
     (if ns = p_Namespace p \<and> n = p_Name p then Inr p else Inl (Err NotFound '''')))\<rparr>"

lemma get_law_only: "get_law (only_pipeline p) PipelineObj"
  by (auto simp: get_law_def only_pipeline_def split: if_splits)

lemma get_law_none: "get_law no_resource mk"
  by (simp add: get_law_def no_resource_def)

definition sample_env :: "unit ApiEnv" where
  "sample_env =
     \<lparr>e_Lib = sample_lib, e_VLib = sample_vlib,
      e_Pipelines = only_pipeline stored_pipeline,
      e_Clusters = no_resource, e_Projects = no_resource,
      e_PatchStopped = (\<lambda>_ p _. State_Monad.return (Inr p)), e_ListPods = (\<lambda>_ _ _. State_Monad.return (Inr [])),
      e_SelfSubjectReview = (\<lambda>_. State_Monad.return (Inl (Errorf ''''))), e_NewClient = (\<lambda>_. None), e_NewClientset = (\<lambda>_. None),
      e_Now = State_Monad.return 0, e_ParseURL = (\<lambda>_. None), e_HTTPGet = (\<lambda>_ _. State_Monad.return (Inl (Errorf ''''))),
      e_DecodeInstant = (\<lambda>_. Inl ''''), e_DecodeRange = (\<lambda>_. Inl ''''), e_JsonString = (\<lambda>_. None), e_JsonSeconds = (\<lambda>_. None),
      e_ParseFloat = (\<lambda>_. None), e_FloatAdd = (\<lambda>x _. x), e_WSAccept = (\<lambda>_. State_Monad.return True),
      e_WSWrite = (\<lambda>_. State_Monad.return True), e_PodLogs = (\<lambda>_ _ _ _. State_Monad.return (Inr [''{stream a}''])),
      e_DecodePipeline = (\<lambda>_. Inr stored_pipeline), e_DecodeCluster = (\<lambda>_. Inl ''''), e_DecodeProject = (\<lambda>_. Inl '''')\<rparr>"

lemma stored_address: "p_Namespace stored_pipeline = ''ns''" "p_Name stored_pipeline = ''a''"
  by (simp_all add: stored_pipeline_def sample_pipeline_def sample_meta_def)

lemma api_law_sample: "api_law sample_env"
  by (simp add: api_law_def sample_env_def get_law_only get_law_none)

definition token_request :: Request where
  "token_request = bare_request\<lparr>rq_Query := [(''token'', ''abc'')], rq_PathValues := [(''namespace'', ''ns''), (''name'', ''a'')]\<rparr>"

definition user_config :: RestConfig where
  "user_config = \<lparr>rc_Host = ''h'', rc_BearerToken = ''abc'', rc_BearerTokenFile = '''', rc_Username = '''', rc_Password = '''',
       rc_TLSClientConfig = no_certificate, rc_Impersonate = no_impersonation, rc_AuthProvider = None, rc_ExecProvider = None\<rparr>"

lemma fresh_token_request: "fresh token_request" by (simp add: fresh_def token_request_def bare_request_def)

lemma token_of_request: "tokenFromRequest token_request = ''abc''"
  by (simp add: tokenFromRequest_def token_request_def bare_request_def query_Get_def)

lemma client_of_request:
  "clientForRequest sample_env sample_server (token_request\<lparr>rq_Token := Some ''abc''\<rparr>) = Inr (TokenClient user_config)"
  by (simp add: clientForRequest_def sample_server_def token_request_def bare_request_def context_token_def token_config_def
      user_config_def sample_env_def)

lemma path_of_request: "PathValue token_request ''namespace'' = ''ns''" "PathValue token_request ''name'' = ''a''"
  by (simp_all add: PathValue_def token_request_def)

lemma sample_update_run:
  "\<exists>rsp. run_state (authIfEnabled sample_server (allowlist sample_server (handleUpdate sample_env sample_server)) token_request) ((), []) =
     (rsp, ((), [AGet (TokenClient user_config) KPipeline ''ns'' ''a'', AUpdate (TokenClient user_config) (PipelineObj stored_pipeline)]))"
proof -
  have "pipeline_ok sample_lib sample_vlib sample_catalog (p_Spec stored_pipeline)"
    by (simp add: stored_pipeline_def pipeline_ok_def sample_pipeline_def refs_ok_def processors_ok_def)
  with validation_meaning [OF raw_law_sample, of sample_lib sample_catalog stored_pipeline]
  have errs: "pipeline_errs sample_env sample_server stored_pipeline = []"
    by (auto simp: pipeline_errs_def sample_env_def sample_server_def)
  have env: "e_DecodePipeline sample_env b = Inr stored_pipeline"
    "run_state (res_Get (e_Pipelines sample_env) c ''ns'' ''a'') () = (Inr stored_pipeline, ())"
    "run_state (res_Update (e_Pipelines sample_env) c stored_pipeline) () = (Inr stored_pipeline, ())" for b c
    by (simp_all add: sample_env_def only_pipeline_def no_resource_def stored_address)
  have "s_AuthEnabled sample_server" "s_WatchNamespaces sample_server = []" by (simp_all add: sample_server_def)
  then show ?thesis
    by (simp add: authIfEnabled_def authMiddleware_def allowlist_def handleUpdate_def Let_def token_of_request env errs
        with_client_def client_of_request on_ok_def update_object_def run_call path_of_request)
qed

lemma sample_route:
  obtains h rsp where
    "(''PUT /api/v1/namespaces/{namespace}/pipelines/{name}'', h) \<in> set (registerRoutes sample_env sample_server)"
    "run_state (h token_request) ((), []) =
     (rsp, ((), [AGet (TokenClient user_config) KPipeline ''ns'' ''a'', AUpdate (TokenClient user_config) (PipelineObj stored_pipeline)]))"
proof -
  let ?h = "authIfEnabled sample_server (allowlist sample_server (handleUpdate sample_env sample_server))"
  have "(''PUT /api/v1/namespaces/{namespace}/pipelines/{name}'', ?h) \<in> set (registerRoutes sample_env sample_server)"
    by (simp add: registerRoutes_def)
  with sample_update_run that show thesis by blast
qed

definition placed_pipeline :: Pipeline where
  "placed_pipeline = stored_pipeline\<lparr>p_Status := (p_Status stored_pipeline)\<lparr>pst_AssignedInstance := ''c-0''\<rparr>\<rparr>"

definition log_env :: "unit ApiEnv" where
  "log_env = sample_env\<lparr>e_Pipelines := only_pipeline placed_pipeline,
     e_VLib := sample_vlib\<lparr>json_fields := (\<lambda>_. Some [(''stream'', ''a'')])\<rparr>, e_JsonString := Some\<rparr>"

lemma placed_address: "p_Namespace placed_pipeline = ''ns''" "p_Name placed_pipeline = ''a''"
  by (simp_all add: placed_pipeline_def stored_address)

lemma placed_instance: "pst_AssignedInstance (p_Status placed_pipeline) = ''c-0''"
  by (simp add: placed_pipeline_def)

lemma log_env_get: "run_state (res_Get (e_Pipelines log_env) c ''ns'' ''a'') w = (Inr placed_pipeline, w)"
  by (simp add: log_env_def only_pipeline_def placed_address)

lemma api_law_log: "api_law log_env"
  by (simp add: api_law_def log_env_def sample_env_def get_law_only get_law_none)

lemma sample_log_run:
  "\<exists>rsp tr. run_state (handleLogStream log_env sample_server token_request) ((), []) = (rsp, ((), tr)) \<and>
     WSWrite ''{stream a}'' \<in> set tr \<and> hd tr = AGet (TokenClient user_config) KPipeline ''ns'' ''a''"
proof -
  have server: "s_AuthEnabled sample_server" "s_Scheme sample_server" "s_RestConfig sample_server \<noteq> None"
    by (simp_all add: sample_server_def)
  have client: "clientForRequest log_env sample_server (token_request\<lparr>rq_Token := Some ''abc''\<rparr>) = Inr (TokenClient user_config)"
    by (simp add: clientForRequest_def sample_server_def token_request_def bare_request_def context_token_def token_config_def
        user_config_def log_env_def sample_env_def)
  have clientset: "clientsetForRequest log_env sample_server (token_request\<lparr>rq_Token := Some ''abc''\<rparr>) = Inr (Some (TokenClient user_config))"
    by (simp add: clientsetForRequest_def sample_server_def token_request_def bare_request_def context_token_def token_config_def
        user_config_def log_env_def sample_env_def)
  have env: "e_WSAccept log_env r = State_Monad.return True" "e_WSWrite log_env l = State_Monad.return True"
    "e_PodLogs log_env c ns n opts = State_Monad.return (Inr [''{stream a}''])" "e_Now log_env = State_Monad.return 0" for r l c ns n opts
    by (simp_all add: log_env_def sample_env_def)
  have pod: "pod_and_stream placed_pipeline = (''c-0'', ''a'')"
    by (simp add: pod_and_stream_def placed_pipeline_def stored_pipeline_def sample_pipeline_def sample_meta_def)
  have "TrimSpace ''{stream a}'' = ''{stream a}''" by code_simp
  then have line: "streamLogMatch log_env ''{stream a}'' ''a''"
    by (simp add: streamLogMatch_def log_env_def HasPrefix_def)
  show ?thesis
    by (simp add: handleLogStream_def Let_def server token_of_request log_stream_def with_client_def client run_call log_env_get path_of_request
        on_ok_def pod clientset env line stream_logs_def scan_lines_def filterBacklog_def ws_finish_def clusterLogBacklogLines_def emit_def)
qed

section \<open>Properties\<close>



text \<open>
  A route with a namespace in its pattern makes calls of the Kubernetes API for that namespace
  only, reads by name and changes the named resource only, and makes no call at all for a
  namespace outside the allowlist of the operator, whether or not the caller is authenticated;
  and reading routes never write.
\<close>

lemma namespace_confined:
  assumes "(p, h) \<in> set (registerRoutes E S)" and "fresh r" and "run_state (h r) (w, []) = (rsp, (w', tr))"
    and "e \<in> set tr"
  shows "(Contains p ''{namespace}'' \<longrightarrow>
      (s_WatchNamespaces S = [] \<or> PathValue r ''namespace'' \<in> set (s_WatchNamespaces S)) \<and>
      (api_law E \<longrightarrow> stays_at (PathValue r ''namespace'') (PathValue r ''name'') e)) \<and>
    (HasPrefix p ''GET '' \<longrightarrow> \<not> is_write e)"
  using route_calls [OF assms] by (auto simp: route_allowed_def writing_def)

text \<open>
  C22: Whatever route a pipeline is written through, the spec that reaches the API server is
  acceptable: it passed the validation, with its meaning as in the catalog and the schemas.
\<close>

theorem written_pipelines_valid:
  assumes "(p, h) \<in> set (registerRoutes E S)" and "fresh r" and "run_state (h r) (w, []) = (rsp, (w', tr))"
    and "ACreate c (PipelineObj q) \<in> set tr \<or> AUpdate c (PipelineObj q) \<in> set tr" and "raw_law (e_VLib E)"
  shows "pipeline_ok (e_Lib E) (e_VLib E) (s_Catalog S) (p_Spec q)"
proof -
  from assms(4) have "write_valid E S (ACreate c (PipelineObj q)) \<or> write_valid E S (AUpdate c (PipelineObj q))"
    using route_calls [OF assms(1-3)] unfolding route_allowed_def by blast
  then have "pipeline_errs E S q = []" by simp
  with validation_meaning [OF assms(5), of "e_Lib E" "s_Catalog S" q] show ?thesis
    by (auto simp: pipeline_errs_def)
qed

theorem written_pipelines_valid_witness:
  "\<exists>h rsp. (''PUT /api/v1/namespaces/{namespace}/pipelines/{name}'', h) \<in> set (registerRoutes sample_env sample_server) \<and>
     run_state (h token_request) ((), []) = (rsp, ((), [AGet (TokenClient user_config) KPipeline ''ns'' ''a'',
       AUpdate (TokenClient user_config) (PipelineObj stored_pipeline)])) \<and>
     pipeline_ok sample_lib sample_vlib sample_catalog (p_Spec stored_pipeline)"
proof -
  obtain h rsp where route: "(''PUT /api/v1/namespaces/{namespace}/pipelines/{name}'', h) \<in> set (registerRoutes sample_env sample_server)"
    and run: "run_state (h token_request) ((), []) = (rsp, ((), [AGet (TokenClient user_config) KPipeline ''ns'' ''a'',
      AUpdate (TokenClient user_config) (PipelineObj stored_pipeline)]))"
    by (rule sample_route)
  have "pipeline_ok (e_Lib sample_env) (e_VLib sample_env) (s_Catalog sample_server) (p_Spec stored_pipeline)"
    using written_pipelines_valid [OF route fresh_token_request run, of "TokenClient user_config" stored_pipeline] raw_law_sample
    by (simp add: sample_env_def)
  with route run show ?thesis by (auto simp: sample_env_def sample_server_def)
qed

text \<open>
  C27: The log route shows a pipeline its own log only. Whatever is written to the socket, the
  first call of the request was to read the pipeline of the namespace and the name in the path,
  and it returned one; and what is written comes from opening the log of the pod of that
  pipeline, the shared instance it is placed on or else the pod of its own, with the client that
  read the pipeline: either it reports the error of opening the log, or it is a line that the
  log delivered, and then, for a pipeline on a shared instance, a JSON object whose stream field
  is the name in the path (a pipeline with a pod of its own is shown the whole log).
\<close>

theorem logs_isolated:
  assumes "run_state (handleLogStream E S r) (w, []) = (rsp, (w', tr))" and "WSWrite l \<in> set tr"
    and "api_law E" and "PathValue r ''name'' \<noteq> ''''"
  shows "\<exists>c pipe v fl res. hd tr = AGet c KPipeline (PathValue r ''namespace'') (PathValue r ''name'') \<and>
     run_state (res_Get (e_Pipelines E) c (PathValue r ''namespace'') (PathValue r ''name'')) w = (Inr pipe, v) \<and>
     ALogs c (PathValue r ''namespace'') (if pst_AssignedInstance (p_Status pipe) \<noteq> '''' then pst_AssignedInstance (p_Status pipe)
        else pst_PodName (p_Status pipe)) fl res \<in> set tr \<and>
     (case res of
        Inl err \<Rightarrow> l = ''error: '' @ err_msg err
      | Inr ls \<Rightarrow> l \<in> set ls \<and> (pst_AssignedInstance (p_Status pipe) \<noteq> '''' \<longrightarrow>
          (\<exists>m raw. json_fields (e_VLib E) l = Some m \<and> aget m ''stream'' = Some raw \<and>
             e_JsonString E raw = Some (PathValue r ''name''))))"
proof -
  let ?ns = "PathValue r ''namespace''" and ?name = "PathValue r ''name''"
  obtain c pipe v e where hd: "hd tr = AGet c KPipeline ?ns ?name"
    and get: "run_state (res_Get (e_Pipelines E) c ?ns ?name) w = (Inr pipe, v)"
    and e: "e \<in> set tr" "shown_by E c ?ns pipe l e"
    using handleLogStream_line [OF assms] by blast
  have name: "p_Name pipe = ?name" using assms(3) get by (auto simp: api_law_def dest: get_law_spec)
  obtain fl res where "ALogs c ?ns (log_pod pipe) fl res \<in> set tr" and "case res of Inl err \<Rightarrow> l = ''error: '' @ err_msg err
      | Inr ls \<Rightarrow> l \<in> set ls \<and> (pst_AssignedInstance (p_Status pipe) \<noteq> '''' \<longrightarrow> own_line E (p_Name pipe) l)"
    using e by (cases e rule: api_event.exhaust) auto
  then show ?thesis using hd get unfolding log_pod_def own_line_def name by (intro exI conjI)
qed

theorem logs_isolated_witness:
  "\<exists>rsp tr. run_state (handleLogStream log_env sample_server token_request) ((), []) = (rsp, ((), tr)) \<and>
     WSWrite ''{stream a}'' \<in> set tr \<and>
     (\<exists>fl ls. ALogs (TokenClient user_config) ''ns'' ''c-0'' fl (Inr ls) \<in> set tr \<and> ''{stream a}'' \<in> set ls)"
proof -
  obtain rsp tr where run: "run_state (handleLogStream log_env sample_server token_request) ((), []) = (rsp, ((), tr))"
    and line: "WSWrite ''{stream a}'' \<in> set tr" and hd: "hd tr = AGet (TokenClient user_config) KPipeline ''ns'' ''a''"
    using sample_log_run by blast
  have "\<exists>fl res. ALogs (TokenClient user_config) ''ns'' ''c-0'' fl res \<in> set tr \<and>
      (case res of Inl err \<Rightarrow> ''{stream a}'' = ''error: '' @ err_msg err | Inr ls \<Rightarrow> ''{stream a}'' \<in> set ls)"
    using logs_isolated [OF run line api_law_log] hd
    by (auto simp: path_of_request log_env_get placed_instance split: sum.splits)
  then obtain fl res where "ALogs (TokenClient user_config) ''ns'' ''c-0'' fl res \<in> set tr" and
      "case res of Inl err \<Rightarrow> ''{stream a}'' = ''error: '' @ err_msg err | Inr ls \<Rightarrow> ''{stream a}'' \<in> set ls" by blast
  with run line show ?thesis by (cases res) auto
qed

end
