(* ===== verification/Rpc_Main.thy ===== *)
theory Rpc_Main
  imports Rpc_Server
begin

text \<open>
  Starting the operator: \<open>main\<close>, \<open>parseCSV\<close> and \<open>parseWatchNamespaces\<close> of \<^verbatim>\<open>cmd/main.go\<close>, and
  \<open>New\<close> of \<^verbatim>\<open>internal/api/server.go\<close>, which it calls. The flags are a record with one field per
  flag, in the order of their registration; parsing the command line is the \<open>flag\<close> package's.
  The controller-runtime manager is a parameter, and \<open>os.Exit(1)\<close> ends the computation with the
  exit code.
\<close>

section \<open>Lists in flags\<close>

text \<open>\<open>strings.Split\<close> for a separator of one byte.\<close>

fun Split :: "char \<Rightarrow> string \<Rightarrow> string list" where
  "Split sep [] = [[]]"
| "Split sep (c # cs) =
     (if c = sep then [] # Split sep cs
      else case Split sep cs of [] \<Rightarrow> [[c]] | p # ps \<Rightarrow> (c # p) # ps)"

fun kept_parts :: "string list \<Rightarrow> string list" where
  "kept_parts [] = []"
| "kept_parts (p # ps) = (let p = TrimSpace p in if p \<noteq> '''' then p # kept_parts ps else kept_parts ps)"

definition parseCSV :: "string \<Rightarrow> string list" where
  "parseCSV raw = (if raw = '''' then [] else kept_parts (Split CHR '','' raw))"

definition parseWatchNamespaces :: "string \<Rightarrow> string list" where
  "parseWatchNamespaces raw = (if raw = '''' then [] else kept_parts (Split CHR '','' raw))"

section \<open>Flags and options\<close>

record Flags =
  metricsAddr :: string
  probeAddr :: string
  enableLeaderElection :: bool
  secureMetrics :: bool
  webhookCertPath :: string
  webhookCertName :: string
  webhookCertKey :: string
  metricsCertPath :: string
  metricsCertName :: string
  metricsCertKey :: string
  apiAddr :: string
  prometheusURL :: string
  natsImage :: string
  watchNamespacesRaw :: string
  authEnabled :: bool
  anonymousRead :: bool
  anonymousLogs :: bool
  visualEditorEnabled :: bool
  oidcIssuer :: string
  oidcClientID :: string
  oidcScopesRaw :: string
  oidcRedirectURL :: string
  oidcUIRedirectURL :: string
  enableHTTP2 :: bool

definition default_flags :: Flags where
  "default_flags =
     \<lparr>metricsAddr = ''0'', probeAddr = '':8081'', enableLeaderElection = False, secureMetrics = True,
      webhookCertPath = '''', webhookCertName = ''tls.crt'', webhookCertKey = ''tls.key'',
      metricsCertPath = '''', metricsCertName = ''tls.crt'', metricsCertKey = ''tls.key'',
      apiAddr = '':8082'', prometheusURL = '''', natsImage = '''', watchNamespacesRaw = '''',
      authEnabled = True, anonymousRead = False, anonymousLogs = False, visualEditorEnabled = False,
      oidcIssuer = '''', oidcClientID = '''', oidcScopesRaw = ''openid,email,offline_access'',
      oidcRedirectURL = '''', oidcUIRedirectURL = '''', enableHTTP2 = False\<rparr>"

text \<open>
  The options of the webhook and metrics servers and of the manager, with the fields \<open>main\<close>
  sets. Of the TLS options only the restriction to HTTP/1.1 exists; a certificate is directory,
  file and key.
\<close>

record WebhookOptions =
  wo_HTTP1Only :: bool
  wo_Cert :: "(string \<times> string \<times> string) option"

record MetricsOptions =
  mo_BindAddress :: string
  mo_SecureServing :: bool
  mo_HTTP1Only :: bool
  mo_FilterProvider :: bool
  mo_Cert :: "(string \<times> string \<times> string) option"

record ManagerOptions =
  mg_Metrics :: MetricsOptions
  mg_Webhook :: WebhookOptions
  mg_HealthProbeBindAddress :: string
  mg_LeaderElection :: bool
  mg_LeaderElectionID :: string
  mg_DefaultNamespaces :: "string list option"

definition certificate :: "string \<Rightarrow> string \<Rightarrow> string \<Rightarrow> (string \<times> string \<times> string) option" where
  "certificate dir name key = (if dir \<noteq> '''' then Some (dir, name, key) else None)"

definition webhook_options :: "Flags \<Rightarrow> WebhookOptions" where
  "webhook_options f =
     \<lparr>wo_HTTP1Only = (\<not> enableHTTP2 f), wo_Cert = certificate (webhookCertPath f) (webhookCertName f) (webhookCertKey f)\<rparr>"

definition metrics_options :: "Flags \<Rightarrow> MetricsOptions" where
  "metrics_options f =
     \<lparr>mo_BindAddress = metricsAddr f, mo_SecureServing = secureMetrics f, mo_HTTP1Only = (\<not> enableHTTP2 f),
      mo_FilterProvider = secureMetrics f,
      mo_Cert = certificate (metricsCertPath f) (metricsCertName f) (metricsCertKey f)\<rparr>"

definition manager_options :: "Flags \<Rightarrow> string list \<Rightarrow> ManagerOptions" where
  "manager_options f watchNamespaces =
     \<lparr>mg_Metrics = metrics_options f, mg_Webhook = webhook_options f, mg_HealthProbeBindAddress = probeAddr f,
      mg_LeaderElection = enableLeaderElection f, mg_LeaderElectionID = ''3aedf8a9.operator.io'',
      mg_DefaultNamespaces = (if watchNamespaces \<noteq> [] then Some (remdups watchNamespaces) else None)\<rparr>"

text \<open>The OIDC configuration; \<open>None\<close> when the combination of flags is refused.\<close>

definition oidc_config :: "Flags \<Rightarrow> OIDCConfig option option" where
  "oidc_config f =
     (if oidcIssuer f \<noteq> '''' then
        if \<not> authEnabled f then None
        else Some (Some \<lparr>oc_Issuer = oidcIssuer f, oc_ClientID = oidcClientID f, oc_Scopes = parseCSV (oidcScopesRaw f),
               oc_RedirectURL = oidcRedirectURL f, oc_UIRedirectURL = oidcUIRedirectURL f\<rparr>)
      else Some None)"

section \<open>The manager\<close>

datatype Controller = PipelineController | ClusterController | ProjectController string

record 'w Boot =
  bt_NewManager :: "ManagerOptions \<Rightarrow> ('w, error option) state"
  bt_Setup :: "Controller \<Rightarrow> ('w, error option) state"
  bt_RestConfig :: RestConfig
  bt_Catalog :: "string + Catalog"
  bt_NewForConfig :: "RestConfig \<Rightarrow> error option"
  bt_Add :: "Server \<Rightarrow> ('w, error option) state"
  bt_AddCheck :: "string \<Rightarrow> ('w, error option) state"
  bt_Start :: "('w, error option) state"

datatype (plugins only: code) boot_event =
    NewManager ManagerOptions "error option"
  | SetupWithManager Controller "error option"
  | AddServer Server "error option"
  | AddCheck string "error option"
  | StartManager "error option"

definition New ::
  "'w Boot \<Rightarrow> string \<Rightarrow> string list \<Rightarrow> bool \<Rightarrow> bool \<Rightarrow> bool \<Rightarrow> bool \<Rightarrow> OIDCConfig option \<Rightarrow> error + Server" where
  "New B promURL watchNamespaces auth anonRead anonLogs visual oidcCfg =
     (case bt_Catalog B of
        Inl err \<Rightarrow> Inl (Errorf err)
      | Inr cat \<Rightarrow>
          (case bt_NewForConfig B (bt_RestConfig B) of
             Some err \<Rightarrow> Inl (wrap ''build clientset: '' err)
           | None \<Rightarrow> Inr
               \<lparr>s_Clientset = True, s_Catalog = cat, s_PrometheusURL = promURL, s_WatchNamespaces = watchNamespaces,
                s_AuthEnabled = auth, s_AnonymousRead = anonRead, s_AnonymousLogs = anonLogs, s_Scheme = True,
                s_RestConfig = Some (bt_RestConfig B), s_OIDC = oidcCfg, s_VisualEditorEnabled = visual\<rparr>))"

type_synonym 'w booting = "('w \<times> boot_event list, int) state"

text \<open>One step of \<open>main\<close>: an error is logged and the process exits with 1.\<close>

definition or_exit :: "('w \<times> boot_event list, error option) state \<Rightarrow> 'w booting \<Rightarrow> 'w booting" where
  "or_exit m k = do { e \<leftarrow> m; case e of Some _ \<Rightarrow> State_Monad.return 1 | None \<Rightarrow> k }"

definition run_manager :: "'w Boot \<Rightarrow> 'w booting" where
  "run_manager B =
     or_exit (call (bt_AddCheck B ''healthz'') (AddCheck ''healthz''))
    (or_exit (call (bt_AddCheck B ''readyz'') (AddCheck ''readyz''))
    (or_exit (call (bt_Start B) StartManager)
    (State_Monad.return 0)))"

definition add_api :: "'w Boot \<Rightarrow> Flags \<Rightarrow> string list \<Rightarrow> OIDCConfig option \<Rightarrow> 'w booting \<Rightarrow> 'w booting" where
  "add_api B f watchNamespaces oidcCfg k =
     (if apiAddr f \<noteq> '''' then
        (case New B (prometheusURL f) watchNamespaces (authEnabled f) (anonymousRead f) (anonymousLogs f)
                (visualEditorEnabled f) oidcCfg of
           Inl _ \<Rightarrow> State_Monad.return 1
         | Inr srv \<Rightarrow> or_exit (call (bt_Add B srv) (AddServer srv)) k)
      else k)"

definition main :: "'w Boot \<Rightarrow> Flags \<Rightarrow> 'w booting" where
  "main B f =
     (let watchNamespaces = parseWatchNamespaces (watchNamespacesRaw f); opts = manager_options f watchNamespaces in
      case oidc_config f of
        None \<Rightarrow> State_Monad.return 1
      | Some oidcCfg \<Rightarrow>
          or_exit (call (bt_NewManager B opts) (NewManager opts))
         (or_exit (call (bt_Setup B PipelineController) (SetupWithManager PipelineController))
         (or_exit (call (bt_Setup B ClusterController) (SetupWithManager ClusterController))
         (or_exit (call (bt_Setup B (ProjectController (natsImage f))) (SetupWithManager (ProjectController (natsImage f))))
         (add_api B f watchNamespaces oidcCfg (run_manager B))))))"

section \<open>Splitting and joining\<close>

fun join_with :: "char \<Rightarrow> string list \<Rightarrow> string" where
  "join_with sep [] = []"
| "join_with sep [p] = p"
| "join_with sep (p # ps) = p @ sep # join_with sep ps"

lemma Split_nonempty [simp]: "Split sep s \<noteq> []"
  by (induction s) (auto split: list.split)

lemma Split_append: "sep \<notin> set p \<Longrightarrow> Split sep (p @ s) = (p @ hd (Split sep s)) # tl (Split sep s)"
  by (induction p) (auto simp: Split_nonempty split: list.split)

lemma Split_join:
  "ps \<noteq> [] \<Longrightarrow> list_all (\<lambda>p. sep \<notin> set p) ps \<Longrightarrow> Split sep (join_with sep ps) = ps"
proof (induction sep ps rule: join_with.induct)
  case (2 sep p)
  then show ?case using Split_append [of sep p "[]"] by simp
qed (simp_all add: Split_append)

lemma kept_parts_filter: "kept_parts ps = filter (\<lambda>p. p \<noteq> '''') (map TrimSpace ps)"
  by (induction ps) (simp_all add: Let_def)

text \<open>
  A list of clean namespaces is read back as written. A flag of separators and blanks only is
  read like an empty one.
\<close>

lemma parseWatchNamespaces_join:
  assumes "ps \<noteq> []" and "list_all (\<lambda>p. p \<noteq> '''' \<and> CHR '','' \<notin> set p \<and> TrimSpace p = p) ps"
  shows "parseWatchNamespaces (join_with CHR '','' ps) = ps"
proof -
  have "join_with CHR '','' ps \<noteq> ''''"
    using assms by (cases ps rule: remdups_adj.cases) auto
  moreover have "kept_parts ps = ps"
    using assms(2) by (induction ps) (auto simp: Let_def)
  moreover have "Split CHR '','' (join_with CHR '','' ps) = ps"
    using assms by (intro Split_join) (auto simp: list_all_iff)
  ultimately show ?thesis by (simp add: parseWatchNamespaces_def)
qed

lemma separators_open_all: "parseWatchNamespaces '' , '' = []"
  by code_simp

section \<open>Startup\<close>

lemma always_or_exit:
  assumes "always m (\<lambda>e tr'. case e of Some _ \<Rightarrow> Q 1 tr' | None \<Rightarrow> always k Q tr') tr"
  shows "always (or_exit m k) Q tr"
  unfolding or_exit_def
  by (rule always_bind, rule always_mono [OF assms]) (auto intro: always_return split: option.splits)

lemma always_step:
  assumes "\<And>err. Q 1 (tr @ [ev (Some err)])" and "always k Q (tr @ [ev None])"
  shows "always (or_exit (call m ev) k) Q tr"
  using assms by (intro always_or_exit always_call) (simp split: option.split)

lemma New_server:
  "New B u ns a ar al v oc = Inr srv \<Longrightarrow> s_WatchNamespaces srv = ns \<and> s_AuthEnabled srv = a \<and> s_AnonymousRead srv = ar \<and>
     s_AnonymousLogs srv = al \<and> s_OIDC srv = oc \<and> s_RestConfig srv = Some (bt_RestConfig B) \<and> s_Clientset srv \<and> s_Scheme srv"
  by (auto simp: New_def split: sum.splits option.splits)

text \<open>What the trace of a start says, for every exit.\<close>

definition boot_ok :: "'w Boot \<Rightarrow> Flags \<Rightarrow> int \<Rightarrow> boot_event list \<Rightarrow> bool" where
  "boot_ok B f code tr \<longleftrightarrow>
     (code = 0 \<longleftrightarrow> StartManager None \<in> set tr) \<and> (code = 0 \<or> code = 1) \<and>
     (\<forall>opts e. NewManager opts e \<in> set tr \<longrightarrow> opts = manager_options f (parseWatchNamespaces (watchNamespacesRaw f))) \<and>
     (\<forall>e. StartManager e \<in> set tr \<longrightarrow>
        (\<forall>c\<in>{PipelineController, ClusterController, ProjectController (natsImage f)}. SetupWithManager c None \<in> set tr) \<and>
        AddCheck ''healthz'' None \<in> set tr \<and> AddCheck ''readyz'' None \<in> set tr \<and>
        (apiAddr f \<noteq> '''' \<longrightarrow> (\<exists>srv. AddServer srv None \<in> set tr))) \<and>
     (\<forall>srv e. AddServer srv e \<in> set tr \<longrightarrow> apiAddr f \<noteq> '''' \<and>
        NewManager (manager_options f (parseWatchNamespaces (watchNamespacesRaw f))) None \<in> set tr \<and>
        s_WatchNamespaces srv = parseWatchNamespaces (watchNamespacesRaw f) \<and> s_AuthEnabled srv = authEnabled f \<and>
        s_AnonymousRead srv = anonymousRead f \<and> s_AnonymousLogs srv = anonymousLogs f \<and>
        (s_OIDC srv \<noteq> None \<longrightarrow> s_AuthEnabled srv))"

lemma always_main: "always (main B f) (boot_ok B f) []"
proof (cases "oidc_config f")
  case None
  then show ?thesis by (simp add: main_def Let_def) (intro always_return, simp add: boot_ok_def)
next
  case (Some oidcCfg)
  then have oidc: "oidcCfg \<noteq> None \<Longrightarrow> authEnabled f" by (auto simp: oidc_config_def split: if_splits)
  show ?thesis
    unfolding main_def Let_def Some option.case add_api_def run_manager_def
    by (intro always_step always_if always_case_sum always_return)
      (use oidc in \<open>auto simp: boot_ok_def dest: New_server\<close>)
qed

section \<open>From the flags to the calls\<close>


definition sample_boot :: "unit Boot" where
  "sample_boot =
     \<lparr>bt_NewManager = (\<lambda>_. State_Monad.return None), bt_Setup = (\<lambda>_. State_Monad.return None),
      bt_RestConfig = \<lparr>rc_Host = ''h'', rc_BearerToken = ''sa'', rc_BearerTokenFile = ''f'', rc_Username = '''', rc_Password = '''',
       rc_TLSClientConfig = no_certificate, rc_Impersonate = no_impersonation, rc_AuthProvider = None, rc_ExecProvider = None\<rparr>,
      bt_Catalog = Inr sample_catalog, bt_NewForConfig = (\<lambda>_. None), bt_Add = (\<lambda>_. State_Monad.return None),
      bt_AddCheck = (\<lambda>_. State_Monad.return None), bt_Start = State_Monad.return None\<rparr>"

definition sample_flags :: Flags where
  "sample_flags = default_flags\<lparr>watchNamespacesRaw := ''ns, other'', oidcIssuer := ''https://idp'', oidcClientID := ''c'',
     oidcScopesRaw := ''''\<rparr>"

definition started_server :: Server where
  "started_server = sample_server\<lparr>s_WatchNamespaces := [''ns'', ''other'']\<rparr>"

lemma sample_namespaces: "parseWatchNamespaces (watchNamespacesRaw sample_flags) = [''ns'', ''other'']"
  by code_simp

lemma sample_boot_run:
  "\<exists>tr. run_state (main sample_boot sample_flags) ((), []) = (0, ((), tr)) \<and> AddServer started_server None \<in> set tr"
proof -
  have "oidc_config sample_flags = Some (s_OIDC started_server)"
    by (simp add: oidc_config_def sample_flags_def default_flags_def started_server_def sample_server_def parseCSV_def)
  moreover have "New sample_boot (prometheusURL sample_flags) [''ns'', ''other''] (authEnabled sample_flags) (anonymousRead sample_flags)
      (anonymousLogs sample_flags) (visualEditorEnabled sample_flags) (s_OIDC started_server) = Inr started_server"
    by (simp add: New_def sample_boot_def sample_flags_def default_flags_def started_server_def sample_server_def)
  moreover have "apiAddr sample_flags \<noteq> ''''" by (simp add: sample_flags_def default_flags_def)
  moreover have "bt_NewManager sample_boot o' = State_Monad.return None" "bt_Setup sample_boot c = State_Monad.return None"
    "bt_Add sample_boot s = State_Monad.return None" "bt_AddCheck sample_boot n = State_Monad.return None"
    "bt_Start sample_boot = State_Monad.return None" for o' c s n
    by (simp_all add: sample_boot_def)
  ultimately show ?thesis
    by (simp add: main_def Let_def sample_namespaces add_api_def run_manager_def or_exit_def run_call)
qed

lemma started_list_run:
  "\<exists>rsp. run_state (authOrAnonymous started_server (allowlist started_server (handleListNamespaced sample_env started_server)) token_request)
     ((), []) = (rsp, ((), [AList (TokenClient user_config) KPipeline (Some ''ns'')]))"
proof -
  have "clientForRequest sample_env started_server (token_request\<lparr>rq_Token := Some ''abc''\<rparr>) = Inr (TokenClient user_config)"
    by (simp add: clientForRequest_def started_server_def sample_server_def token_request_def bare_request_def context_token_def
        token_config_def user_config_def sample_env_def)
  moreover have "s_AuthEnabled started_server" "s_WatchNamespaces started_server = [''ns'', ''other'']"
    by (simp_all add: started_server_def sample_server_def)
  moreover have "run_state (res_List (e_Pipelines sample_env) c n) w = (Inr [], w)" for c n w
    by (simp add: sample_env_def only_pipeline_def no_resource_def)
  ultimately show ?thesis
    by (simp add: authOrAnonymous_def allowlist_def handleListNamespaced_def list_handler_def with_client_def Let_def
        token_of_request path_of_request on_ok_def run_call)
qed


end
