(* ===== verification/Rpc_Docs.thy ===== *)
theory Rpc_Docs
  imports Rpc_Main
begin

text \<open>
  The check that the reference documentation names every field of the custom resources,
  \<^verbatim>\<open>hack/docs-check-reference.go\<close>, which the build runs. Reading files and parsing Go source
  are parameters; of a syntax tree the declarations, their struct types and the tags of their
  fields matter.
\<close>

section \<open>Syntax trees\<close>

record GoField =
  gf_Names :: "string list"
  gf_Tag :: "string option"

datatype type_expr = StructType "GoField list" | OtherType

datatype Decl = TypeDecl "(string \<times> type_expr) list" | OtherDecl

text \<open>\<open>strings.Index\<close>: the first position of a substring.\<close>

fun Index :: "string \<Rightarrow> string \<Rightarrow> nat option" where
  "Index [] sub = (if sub = [] then Some 0 else None)"
| "Index (c # cs) sub = (if HasPrefix (c # cs) sub then Some 0 else map_option Suc (Index cs sub))"

definition json_mark :: string where
  "json_mark = ''json:\"''"

definition extractJSONTag :: "GoField \<Rightarrow> string" where
  "extractJSONTag field =
     (case gf_Tag field of
        None \<Rightarrow> ''''
      | Some tag \<Rightarrow>
          (case Index tag json_mark of
             None \<Rightarrow> ''''
           | Some i \<Rightarrow>
               (let rest = drop (i + 6) tag in
                case Index rest ''\"'' of
                  None \<Rightarrow> ''''
                | Some stop \<Rightarrow> if take stop rest = ''-'' then '''' else take stop rest)))"

text \<open>\<open>strings.SplitN(s, sep, 2)[0]\<close> with a comma as \<open>sep\<close> is the text before the first comma.\<close>

definition field_names :: "GoField \<Rightarrow> string list" where
  "field_names field =
     (let jsonTag = extractJSONTag field; name = takeWhile (\<lambda>c. c \<noteq> CHR '','') jsonTag in
      if jsonTag \<noteq> '''' \<and> name \<noteq> '''' \<and> name \<noteq> ''-'' then map (\<lambda>_. name) (gf_Names field) else [])"

fun spec_fields :: "string \<Rightarrow> (string \<times> type_expr) list \<Rightarrow> string list" where
  "spec_fields typeName [] = []"
| "spec_fields typeName ((n, StructType fs) # specs) =
     (if n = typeName then concat (map field_names fs) else []) @ spec_fields typeName specs"
| "spec_fields typeName ((n, OtherType) # specs) = spec_fields typeName specs"

fun decl_fields :: "string \<Rightarrow> Decl list \<Rightarrow> string list" where
  "decl_fields typeName [] = []"
| "decl_fields typeName (TypeDecl specs # ds) = spec_fields typeName specs @ decl_fields typeName ds"
| "decl_fields typeName (OtherDecl # ds) = decl_fields typeName ds"

definition collectGoFieldsFromSource :: "(string \<Rightarrow> Decl list option) \<Rightarrow> string \<Rightarrow> string \<Rightarrow> string list option" where
  "collectGoFieldsFromSource parse path typeName =
     (case parse path of None \<Rightarrow> None | Some decls \<Rightarrow> Some (sort (decl_fields typeName decls)))"

section \<open>Headings\<close>

definition sep_rune :: "char \<Rightarrow> bool" where
  "sep_rune c \<longleftrightarrow> c = CHR '' '' \<or> c = CHR ''(''"

text \<open>The first of the parts of \<open>strings.FieldsFunc\<close>, if there is one.\<close>

definition first_field :: "string \<Rightarrow> string option" where
  "first_field s =
     (case dropWhile sep_rune s of [] \<Rightarrow> None | rest \<Rightarrow> Some (takeWhile (\<lambda>c. \<not> sep_rune c) rest))"

fun headings_of :: "bool \<Rightarrow> string list \<Rightarrow> string list" where
  "headings_of inFieldSection [] = []"
| "headings_of inFieldSection (line # lines) =
     (if HasPrefix line ''## Spec'' \<or> HasPrefix line ''## Status'' then headings_of True lines
      else if HasPrefix line ''##'' \<and> \<not> HasPrefix line ''### '' then headings_of False lines
      else if inFieldSection \<and> HasPrefix line ''### '' then
        (case first_field (TrimSpace (drop 4 line)) of
           None \<Rightarrow> headings_of inFieldSection lines
         | Some h \<Rightarrow> h # headings_of inFieldSection lines)
      else headings_of inFieldSection lines)"

definition collectDocHeadings :: "(string \<Rightarrow> string option) \<Rightarrow> string \<Rightarrow> string list option" where
  "collectDocHeadings read path =
     (case read path of None \<Rightarrow> None | Some content \<Rightarrow> Some (sort (headings_of False (Split CHR ''\<newline>'' content))))"

section \<open>Comparison\<close>

definition newline :: string where
  "newline = ''\<newline>''"

definition bullet :: "string \<Rightarrow> string" where
  "bullet f = ''    - '' @ f @ newline"

definition report :: "string \<Rightarrow> string list \<Rightarrow> string" where
  "report title fs = (if fs \<noteq> [] then title @ newline @ concat (map bullet fs) else '''')"

definition diff :: "string list \<Rightarrow> string list \<Rightarrow> string \<Rightarrow> string" where
  "diff goFields docHeadings crdName =
     (let missing = filter (\<lambda>f. f \<notin> set docHeadings) goFields; extra = filter (\<lambda>h. h \<notin> set goFields) docHeadings in
      if missing = [] \<and> extra = [] then ''''
      else ''ERROR: '' @ crdName @ '' CRD reference drift detected:'' @ newline @
           report ''  Missing in docs:'' missing @ report ''  Extra in docs (not in code):'' extra)"

text \<open>The program: its exit code. A file that cannot be read or parsed is fatal.\<close>

definition docs_check :: "bool \<Rightarrow> (string \<Rightarrow> Decl list option) \<Rightarrow> (string \<Rightarrow> string option) \<Rightarrow> int" where
  "docs_check enabled parse read =
     (if \<not> enabled then 0
      else
        case (collectGoFieldsFromSource parse ''api/v1alpha1/pipeline_types.go'' ''PipelineSpec'',
              collectGoFieldsFromSource parse ''api/v1alpha1/pipeline_types.go'' ''PipelineStatus'',
              collectGoFieldsFromSource parse ''api/v1alpha1/pipelinecluster_types.go'' ''PipelineClusterSpec'',
              collectGoFieldsFromSource parse ''api/v1alpha1/pipelinecluster_types.go'' ''PipelineClusterStatus'',
              collectDocHeadings read ''docs/user/reference/pipeline-crd.md'',
              collectDocHeadings read ''docs/user/reference/pipelinecluster-crd.md'') of
          (Some ps, Some pst, Some cs, Some cst, Some pdoc, Some cdoc) \<Rightarrow>
            if diff (sort (ps @ pst)) pdoc ''Pipeline'' \<noteq> '''' \<or> diff (sort (cs @ cst)) cdoc ''PipelineCluster'' \<noteq> ''''
            then 1 else 0
        | _ \<Rightarrow> 1)"

section \<open>What the check decides\<close>

lemma diff_empty_iff: "diff goFields docHeadings crdName = '''' \<longleftrightarrow> set goFields = set docHeadings"
  by (auto simp: diff_def Let_def filter_empty_conv)

text \<open>
  An enabled check succeeds exactly when the documents name the fields of the sources, no more
  and no less, in any order.
\<close>

lemma docs_check_iff:
  assumes "parse ''api/v1alpha1/pipeline_types.go'' = Some pd" and "parse ''api/v1alpha1/pipelinecluster_types.go'' = Some cd"
    and "read ''docs/user/reference/pipeline-crd.md'' = Some p" and "read ''docs/user/reference/pipelinecluster-crd.md'' = Some c"
  shows "docs_check True parse read = 0 \<longleftrightarrow>
     set (decl_fields ''PipelineSpec'' pd) \<union> set (decl_fields ''PipelineStatus'' pd) = set (headings_of False (Split CHR ''\<newline>'' p)) \<and>
     set (decl_fields ''PipelineClusterSpec'' cd) \<union> set (decl_fields ''PipelineClusterStatus'' cd) =
       set (headings_of False (Split CHR ''\<newline>'' c))"
  using assms by (simp add: docs_check_def collectGoFieldsFromSource_def collectDocHeadings_def diff_empty_iff)

text \<open>A heading of the fourth level ends the section, so the fields after it are not seen.\<close>

lemma deep_heading_ends_section:
  "headings_of False [''## Spec'', ''### input'', ''#### Example'', ''### output''] = [''input'']"
  by code_simp

end
