(* ===== verification/Rpc_Balance.thy ===== *)
theory Rpc_Balance
  imports Rpc_Pipeline_Props
begin

text \<open>
  What the choice of one instance amounts to over many reconciliations: a bound on the load of
  the instances of a cluster. The scheduler (\<^verbatim>\<open>cluster_scheduler.go\<close>) decides for one
  pipeline at a time, from the pods and the pipelines it lists in that run
  (\<^verbatim>\<open>schedule_and_deploy\<close>); the relation below chains such runs through the statuses they write.
\<close>

section \<open>The load of an instance\<close>

definition assigned_to :: "string \<Rightarrow> int \<Rightarrow> Pipeline \<Rightarrow> bool" where
  "assigned_to cn k p \<longleftrightarrow> pst_AssignedCluster (p_Status p) = cn \<and>
     pst_AssignedInstance (p_Status p) \<noteq> '''' \<and>
     ordinalFromPodName (pst_AssignedInstance (p_Status p)) cn = Some k"

definition load_on :: "string \<Rightarrow> Pipeline list \<Rightarrow> int \<Rightarrow> int" where
  "load_on cn ps k = int (length (filter (assigned_to cn k) ps))"

text \<open>What the API server holds after a status was written: the object of that name is replaced.\<close>

definition store_status :: "Pipeline \<Rightarrow> Pipeline list \<Rightarrow> Pipeline list" where
  "store_status p ps = map (\<lambda>q. if p_Name q = p_Name p then p else q) ps"

lemma names_store_status [simp]: "map p_Name (store_status p ps) = map p_Name ps"
  by (auto simp: store_status_def)

lemma counted_iff: "counted cn ex p = Some k \<longleftrightarrow> p_Name p \<noteq> ex \<and> assigned_to cn k p"
  by (auto simp: counted_def assigned_to_def)

text \<open>The load the scheduler sees, without the pipeline it schedules, and the load before and after.\<close>

definition others_load :: "string \<Rightarrow> string \<Rightarrow> Pipeline list \<Rightarrow> int \<Rightarrow> int" where
  "others_load cn n ps k = load_of cn n ps (\<lambda>_. 0) k"

lemma others_load_Cons:
  "others_load cn n (q # ps) k =
     (if p_Name q \<noteq> n \<and> assigned_to cn k q then 1 else 0) + others_load cn n ps k"
  by (simp add: others_load_def load_of_count counted_iff del: load_of.simps)

lemma load_on_Cons: "load_on cn (q # ps) k = (if assigned_to cn k q then 1 else 0) + load_on cn ps k"
  by (simp add: load_on_def)

lemma load_on_foreign:
  "n \<notin> p_Name ` set ps \<Longrightarrow> load_on cn ps k = others_load cn n ps k"
  "n \<notin> p_Name ` set ps \<Longrightarrow> p_Name p = n \<Longrightarrow> load_on cn (store_status p ps) k = others_load cn n ps k"
  by (induction ps)
    (auto simp: load_on_Cons others_load_Cons store_status_def, simp_all add: load_on_def others_load_def)

lemma load_on_member:
  assumes "distinct (map p_Name ps)" and "q \<in> set ps" and "p_Name p = p_Name q"
  shows "load_on cn ps k = others_load cn (p_Name q) ps k + (if assigned_to cn k q then 1 else 0)"
    and "load_on cn (store_status p ps) k =
           others_load cn (p_Name q) ps k + (if assigned_to cn k p then 1 else 0)"
proof -
  from assms(2) obtain xs ys where ps: "ps = xs @ q # ys" by (meson split_list)
  have app: "load_on cn (us @ vs) k = load_on cn us k + load_on cn vs k"
    "others_load cn n (us @ vs) k = others_load cn n us k + others_load cn n vs k"
    "store_status p (us @ vs) = store_status p us @ store_status p vs" for us vs n
    by (simp_all add: load_on_def others_load_def load_of_count store_status_def)
  from assms(1) ps have "p_Name q \<notin> p_Name ` set xs" "p_Name q \<notin> p_Name ` set ys" by auto
  note foreign = load_on_foreign [OF this(1)] load_on_foreign [OF this(2)]
  show "load_on cn ps k = others_load cn (p_Name q) ps k + (if assigned_to cn k q then 1 else 0)"
    by (simp add: ps app load_on_Cons others_load_Cons foreign(1,3))
  have "store_status p (q # ys) = p # store_status p ys" using assms(3) by (simp add: store_status_def)
  then show "load_on cn (store_status p ps) k =
      others_load cn (p_Name q) ps k + (if assigned_to cn k p then 1 else 0)"
    using assms(3) by (simp add: ps app load_on_Cons others_load_Cons foreign(2,4))
qed

section \<open>One scheduling run\<close>

definition current_instance :: "Pipeline \<Rightarrow> string \<Rightarrow> string" where
  "current_instance pipe cn =
     (if pst_AssignedCluster (p_Status pipe) = cn then pst_AssignedInstance (p_Status pipe) else '''')"

text \<open>What the part of a run after the two listings may add: no listing, and a Running status only for \<open>pick\<close>.\<close>

definition placing_event :: "Pipeline \<Rightarrow> string \<Rightarrow> int option \<Rightarrow> event \<Rightarrow> bool" where
  "placing_event pipe cn pick e = (case e of
      ListPods ns l r \<Rightarrow> False
    | ListPipelines ns r \<Rightarrow> False
    | UpdateStatus p r \<Rightarrow> pst_Phase (p_Status p) = PhaseRunning \<longrightarrow>
        p_Name p = p_Name pipe \<and> pst_AssignedCluster (p_Status p) = cn \<and>
        (\<exists>k. pick = Some k \<and> pst_AssignedInstance (p_Status p) = instanceName cn k)
    | _ \<Rightarrow> True)"

lemma emits_placing_parts [emits_intros]:
  "emits (placing_event pipe cn pick) (stream_body L K pipe ioPlan)"
  "emits (placing_event pipe cn pick) (markClusterFailed L K pipe reason msg d)"
  "emits (placing_event pipe cn pick) (markClusterPending L K pipe reason msg)"
  unfolding stream_body_def markClusterFailed_def markClusterPending_def
  by (intro emits_intros; simp add: placing_event_def)+

lemma emits_deploy_on_places:
  "emits (placing_event pipe cn (Some k)) (deploy_on L K S pipe cn k body)"
  unfolding deploy_on_def need_deploy_def ensureStreamPresent_def streamActiveCondition_def
  by (intro emits_intros; simp add: placing_event_def set_cluster_status_def Let_def)

lemma emits_deploy_ready_places:
  "emits (placing_event pipe cn (pickInstance (current_instance pipe cn) cn ready load))
     (deploy_ready L K S pipe cn ioPlan ready load)"
  unfolding deploy_ready_def current_instance_def Let_def
  by (intro emits_intros; simp add: emits_deploy_on_places)

text \<open>A Running status that a scheduling run writes names the instance picked from what it listed.\<close>

definition schedule_placed :: "Pipeline \<Rightarrow> string \<Rightarrow> event list \<Rightarrow> bool" where
  "schedule_placed pipe cn tr \<longleftrightarrow>
     (\<forall>pods ps p r. ListPods (p_Namespace pipe) (clusterLabelKey, cn) (Inr pods) \<in> set tr \<longrightarrow>
       ListPipelines (p_Namespace pipe) (Inr ps) \<in> set tr \<longrightarrow> UpdateStatus p r \<in> set tr \<longrightarrow>
       placing_event pipe cn (pickInstance (current_instance pipe cn) cn (readyOrdinals_of cn pods)
         (others_load cn (p_Name pipe) ps)) (UpdateStatus p r))"

lemma always_schedule_placed:
  "always (schedule_and_deploy L K S pipe cn ioPlan) (\<lambda>_. schedule_placed pipe cn) []"
proof -
  have rest: "always (deploy_ready L K S pipe cn ioPlan (readyOrdinals_of cn pods)
        (load_of cn (p_Name pipe) ps (\<lambda>_. 0))) (\<lambda>_. schedule_placed pipe cn)
      [ListPods (p_Namespace pipe) (clusterLabelKey, cn) (Inr pods), ListPipelines (p_Namespace pipe) (Inr ps)]"
    for pods ps
  proof (rule always_emits [OF emits_deploy_ready_places])
    fix evs
    assume evs: "list_all (placing_event pipe cn (pickInstance (current_instance pipe cn) cn
        (readyOrdinals_of cn pods) (load_of cn (p_Name pipe) ps (\<lambda>_. 0)))) evs"
    have "ListPods ns l r \<notin> set evs" "ListPipelines ns r' \<notin> set evs" for ns l r r'
      using evs by (auto simp: list_all_iff placing_event_def)
    with evs show "schedule_placed pipe cn ([ListPods (p_Namespace pipe) (clusterLabelKey, cn) (Inr pods),
        ListPipelines (p_Namespace pipe) (Inr ps)] @ evs)"
      by (auto simp: schedule_placed_def list_all_iff others_load_def [abs_def])
  qed
  show ?thesis unfolding schedule_and_deploy_def
    by (intro always_intros) (auto simp: rest, simp_all add: schedule_placed_def)
qed

section \<open>Chains of scheduling runs\<close>

text \<open>
  The pipelines of a namespace before and after a run that placed one of them: the run listed
  these pods and exactly these pipelines, and its write of a Running status was accepted.
\<close>

inductive placement_step ::
  "lib \<Rightarrow> 'w KubeClient \<Rightarrow> 'w StreamsClient \<Rightarrow> string \<Rightarrow> Pod list \<Rightarrow> Pipeline list \<Rightarrow> Pipeline list \<Rightarrow> bool"
  for L K S cn pods where
  placed: "run_state (schedule_and_deploy L K S pipe cn ioPlan) (w, []) = (out, (w', tr)) \<Longrightarrow>
     pipe \<in> set ps \<Longrightarrow>
     ListPods (p_Namespace pipe) (clusterLabelKey, cn) (Inr pods) \<in> set tr \<Longrightarrow>
     ListPipelines (p_Namespace pipe) (Inr ps) \<in> set tr \<Longrightarrow>
     UpdateStatus p None \<in> set tr \<Longrightarrow> pst_Phase (p_Status p) = PhaseRunning \<Longrightarrow>
     placement_step L K S cn pods ps (store_status p ps)"
| created: "p_Name p \<notin> p_Name ` set ps \<Longrightarrow> pst_AssignedInstance (p_Status p) = '''' \<Longrightarrow>
     placement_step L K S cn pods ps (p # ps)"

text \<open>
  How the load of the ready instances moves in one step: it is unchanged on all of them, or it
  grows by one on the least loaded one.
\<close>

definition load_moves :: "int list \<Rightarrow> (int \<Rightarrow> int) \<Rightarrow> (int \<Rightarrow> int) \<Rightarrow> bool" where
  "load_moves ready l l' \<longleftrightarrow>
     (\<forall>x\<in>set ready. l' x = l x) \<or>
     (\<exists>b\<in>set ready. \<forall>x\<in>set ready. l b \<le> l x \<and> l' x = (if x = b then l x + 1 else l x))"

lemma assigned_current:
  "assigned_to cn k pipe \<longleftrightarrow> ordinalFromPodName (current_instance pipe cn) cn = Some k"
  by (auto simp: assigned_to_def current_instance_def ordinalFromPodName_iff)

lemma assigned_instanceName:
  assumes "pst_AssignedCluster (p_Status p) = cn" and "pst_AssignedInstance (p_Status p) = instanceName cn k"
    and "0 \<le> k" and "k < 2 ^ 31"
  shows "assigned_to cn x p \<longleftrightarrow> x = k"
  using assms by (auto simp: assigned_current current_instance_def ordinal_instanceName)

lemma placed_load:
  assumes run: "run_state (schedule_and_deploy L K S pipe cn ioPlan) (w, []) = (out, (w', tr))"
    and ps: "pipe \<in> set ps" "distinct (map p_Name ps)"
    and listed: "ListPods (p_Namespace pipe) (clusterLabelKey, cn) (Inr pods) \<in> set tr"
      "ListPipelines (p_Namespace pipe) (Inr ps) \<in> set tr"
    and up: "UpdateStatus p None \<in> set tr" "pst_Phase (p_Status p) = PhaseRunning"
    and range: "list_all (\<lambda>k. 0 \<le> k \<and> k < 2 ^ 31) (readyOrdinals_of cn pods)"
  shows "load_moves (readyOrdinals_of cn pods) (load_on cn ps) (load_on cn (store_status p ps))"
proof -
  let ?ready = "readyOrdinals_of cn pods" and ?others = "others_load cn (p_Name pipe) ps"
  have "placing_event pipe cn (pickInstance (current_instance pipe cn) cn ?ready ?others) (UpdateStatus p None)"
    using always_run [OF always_schedule_placed run] listed up unfolding schedule_placed_def by blast
  with up obtain k where name: "p_Name p = p_Name pipe"
      and pick: "pickInstance (current_instance pipe cn) cn ?ready ?others = Some k"
      and inst: "pst_AssignedCluster (p_Status p) = cn" "pst_AssignedInstance (p_Status p) = instanceName cn k"
    unfolding placing_event_def by auto
  from pick have k: "k \<in> set ?ready" by (rule pickInstance_in_ready)
  with range have "assigned_to cn x p \<longleftrightarrow> x = k" for x
    by (intro assigned_instanceName [OF inst]) (auto simp: list_all_iff)
  with load_on_member [OF ps(2,1) name]
  have before: "load_on cn ps x = ?others x + (if assigned_to cn x pipe then 1 else 0)"
    and after: "load_on cn (store_status p ps) x = ?others x + (if x = k then 1 else 0)" for x
    by simp_all
  show ?thesis
  proof (cases "\<exists>c\<in>set ?ready. assigned_to cn c pipe")
    case True
    then obtain c where "c \<in> set ?ready" and c: "ordinalFromPodName (current_instance pipe cn) cn = Some c"
      by (auto simp: assigned_current)
    with pick have "c = k" by (simp add: pickInstance_def)
    with c show ?thesis by (auto simp: load_moves_def before after assigned_current)
  next
    case False
    then have moved: "leastLoadedInstance ?ready ?others = Some k"
      using pick by (auto simp: pickInstance_def assigned_current split: option.splits if_splits)
    have "load_on cn ps k \<le> load_on cn ps x" if "x \<in> set ?ready" for x
      using leastLoadedInstance_Some(2) [OF moved that] False k that by (auto simp: before better_def)
    with False k show ?thesis by (auto simp: load_moves_def before after intro!: bexI [of _ k])
  qed
qed

lemma step_load:
  assumes "placement_step L K S cn pods ps ps'" and "distinct (map p_Name ps)"
    and "list_all (\<lambda>k. 0 \<le> k \<and> k < 2 ^ 31) (readyOrdinals_of cn pods)"
  shows "distinct (map p_Name ps') \<and> load_moves (readyOrdinals_of cn pods) (load_on cn ps) (load_on cn ps')"
  using assms(1)
proof cases
  case (created p)
  with assms(2) show ?thesis by (simp add: load_moves_def load_on_Cons assigned_to_def)
next
  case (placed pipe ioPlan w out w' tr p)
  with assms(2) show ?thesis using placed_load [OF placed(2,3) assms(2) placed(4-7) assms(3)] by simp
qed

text \<open>The bound that every step keeps.\<close>

definition load_bound :: "int list \<Rightarrow> (int \<Rightarrow> int) \<Rightarrow> (int \<Rightarrow> int) \<Rightarrow> bool" where
  "load_bound ready l l' \<longleftrightarrow> (\<forall>x\<in>set ready. \<forall>y\<in>set ready. l x \<le> l' x \<and> l' x \<le> max (l x) (l' y + 1))"

lemma load_bound_refl: "load_bound ready l l"
  by (simp add: load_bound_def)

lemma load_bound_step:
  assumes "load_bound ready l l'" and "load_moves ready l' l''"
  shows "load_bound ready l l''"
  unfolding load_bound_def
proof (intro ballI conjI)
  fix x y assume xy: "x \<in> set ready" "y \<in> set ready"
  from assms(1) xy have old: "l x \<le> l' x" "l' x \<le> max (l x) (l' y + 1)" by (auto simp: load_bound_def)
  from assms(2) xy show "l x \<le> l'' x" using old by (auto simp: load_moves_def)
  from assms(2) consider "l'' x = l' x" "l'' y = l' y"
    | b where "l' b \<le> l' y" "l'' x = (if x = b then l' x + 1 else l' x)" "l'' y = (if y = b then l' y + 1 else l' y)"
    unfolding load_moves_def using xy by blast
  then show "l'' x \<le> max (l x) (l'' y + 1)"
    using old by cases (auto split: if_splits)
qed

lemma steps_load_bound:
  assumes "(placement_step L K S cn pods)\<^sup>*\<^sup>* ps ps'" and "distinct (map p_Name ps)"
    and "list_all (\<lambda>k. 0 \<le> k \<and> k < 2 ^ 31) (readyOrdinals_of cn pods)"
  shows "distinct (map p_Name ps') \<and> load_bound (readyOrdinals_of cn pods) (load_on cn ps) (load_on cn ps')"
  using assms(1)
proof induction
  case base
  show ?case using assms(2) by (simp add: load_bound_refl)
next
  case (step qs qs')
  then show ?case using step_load [OF _ _ assms(3)] load_bound_step by blast
qed


section \<open>A run for evaluating the relation\<close>

text \<open>Pipeline \<open>b\<close> runs on \<open>etl-0\<close>; pipeline \<open>a\<close> is new; both instances are ready.\<close>

definition two_pods :: "Pod list" where
  "two_pods = [demo_pod ''etl-0'' True, demo_pod ''etl-1'' True]"

definition two_pipes :: "Pipeline list" where
  "two_pipes = [demo_pipe '''' False, sample_pipeline ''b'' ''etl'' ''etl-0'']"

definition two_kube :: "'w KubeClient" where
  "two_kube = (demo_kube (demo_pipe '''' False) two_pods)
     \<lparr>List_Pipelines := (\<lambda>_. State_Monad.return (Inr two_pipes))\<rparr>"

lemma two_ready: "readyOrdinals_of ''etl'' two_pods = [0, 1]"
  by (simp add: two_pods_def demo_pod_def sample_meta_def isPodReady_def)

lemma two_assigned:
  "assigned_to ''etl'' k (demo_pipe '''' False) = False"
  "assigned_to ''etl'' k (sample_pipeline ''b'' ''etl'' ''etl-0'') = (k = 0)"
  by (auto simp: assigned_to_def sample_pipeline_def)

lemma two_load: "load_of ''etl'' ''a'' two_pipes (\<lambda>_. 0) = (\<lambda>_. 0)(0 := 1)"
proof -
  have "p_Name (sample_pipeline ''b'' ''etl'' ''etl-0'') = ''b''" by (simp add: sample_pipeline_def sample_meta_def)
  then show ?thesis
    by (auto simp: fun_eq_iff load_of_count counted_iff two_pipes_def two_assigned simp del: load_of.simps)
qed

lemma two_pick: "pickInstance '''' ''etl'' [0, 1] ((\<lambda>_. 0)(0 := 1)) = Some 1"
  by (simp add: pickInstance_def leastLoadedInstance_def ordinalFromPodName_def HasPrefix_def)

lemma two_run:
  "\<exists>out w' tr p. run_state (schedule_and_deploy (table_lib sample_tbl) two_kube fc (demo_pipe '''' False) ''etl'' None)
       (NewFakeClient, []) = (out, (w', tr)) \<and>
     ListPods ''ns'' (clusterLabelKey, ''etl'') (Inr two_pods) \<in> set tr \<and>
     ListPipelines ''ns'' (Inr two_pipes) \<in> set tr \<and> UpdateStatus p None \<in> set tr \<and>
     pst_Phase (p_Status p) = PhaseRunning"
proof -
  have status: "run_state (GetStreamStatus fc u i) w' = (Inr (held_status (\<not> f_inactive w' i)), w')"
    if "f_GetErr w' = None" "f_streams w' (u, i) \<noteq> None" for w' u i
    using that by (auto simp: fake_client_def fake_GetStreamStatus_def)
  have w: "f_EnsureErr NewFakeClient = None" "\<not> f_DropNextEnsure NewFakeClient" "f_GetErr NewFakeClient = None"
    by (simp_all add: NewFakeClient_def)
  show ?thesis
    by (simp add: schedule_and_deploy_def readyClusterOrdinals_def loadByOrdinal_def run_call two_kube_def
        two_ready two_load deploy_ready_def two_pick stream_body_def raw_spec_def
        demo_body [unfolded raw_spec_def, simplified] deploy_on_def need_deploy_def Let_def
        demo_new_hash [symmetric] demo_ensure w streamActiveCondition_def status writeClusterStatus_def demo_changed
        del: readyOrdinals_of.simps load_of.simps)
qed

section \<open>Properties\<close>

text \<open>
  C8: Scheduling keeps a cluster balanced. Along any chain of runs that each place one pipeline
  (new, moved or kept) and of pipelines being created, over the same ready instances, no
  instance loses load, and an instance either has no more pipelines than before or at most one
  more than any other ready instance. So from an empty cluster the loads never differ by more
  than one.
\<close>

theorem scheduling_balanced:
  assumes "(placement_step L K S cn pods)\<^sup>*\<^sup>* ps ps'" and "distinct (map p_Name ps)"
    and "list_all (\<lambda>k. 0 \<le> k \<and> k < 2 ^ 31) (readyOrdinals_of cn pods)"
    and "x \<in> set (readyOrdinals_of cn pods)" and "y \<in> set (readyOrdinals_of cn pods)"
  shows "load_on cn ps x \<le> load_on cn ps' x \<and>
         load_on cn ps' x \<le> max (load_on cn ps x) (load_on cn ps' y + 1)"
  using steps_load_bound [OF assms(1-3)] assms(4,5) by (auto simp: load_bound_def)

theorem scheduling_balanced_witness:
  "\<exists>p. (placement_step (table_lib sample_tbl) two_kube fc ''etl'' two_pods)\<^sup>*\<^sup>*
       [sample_pipeline ''b'' ''etl'' ''etl-0''] (store_status p two_pipes) \<and>
     load_on ''etl'' (store_status p two_pipes) 0 \<le> max 1 (load_on ''etl'' (store_status p two_pipes) 1 + 1)"
proof -
  let ?b = "sample_pipeline ''b'' ''etl'' ''etl-0''" and ?step = "placement_step (table_lib sample_tbl) two_kube fc ''etl'' two_pods"
  have "?step [?b] two_pipes"
    unfolding two_pipes_def by (rule placement_step.created) (simp_all add: sample_pipeline_def sample_meta_def)
  moreover obtain out w' tr p where
    run: "run_state (schedule_and_deploy (table_lib sample_tbl) two_kube fc (demo_pipe '''' False) ''etl'' None)
       (NewFakeClient, []) = (out, (w', tr))"
    and "ListPods ''ns'' (clusterLabelKey, ''etl'') (Inr two_pods) \<in> set tr"
      "ListPipelines ''ns'' (Inr two_pipes) \<in> set tr" "UpdateStatus p None \<in> set tr"
      "pst_Phase (p_Status p) = PhaseRunning"
    using two_run by blast
  then have "?step two_pipes (store_status p two_pipes)"
    by (intro placement_step.placed [OF run]) (simp_all add: two_pipes_def)
  ultimately have steps: "?step\<^sup>*\<^sup>* [?b] (store_status p two_pipes)" by auto
  have "load_on ''etl'' [?b] 0 = 1" by (simp add: load_on_def two_assigned)
  with scheduling_balanced [OF steps, of 0 1] steps show ?thesis by (auto simp: two_ready)
qed

end
