(* ===== verification/Rpc_Converge.thy ===== *)
theory Rpc_Converge
  imports Rpc_Balance
begin

text \<open>
  The Pipeline reconciler as a control loop: what repeated reconciliation of one pipeline
  reaches when its surroundings hold still. Everything else about the reconciler is stated for
  an arbitrary environment; here the environment is the one the operator is deployed for: the
  API server stores what it is given, the instances keep the streams they accept, and at least
  one of them is ready.
\<close>

section \<open>A calm environment\<close>

text \<open>
  \<open>stored w\<close> is the pipeline the API server holds, \<open>held w u\<close> whether the instance at
  \<open>u\<close> runs its stream. The documented behaviour of the two servers: reads return what is
  stored and change nothing; a write of an object is stored; deletes find nothing or succeed; an
  upsert is accepted and kept; a status request reports an active stream or that there is none.
\<close>

definition keeps :: "('w \<Rightarrow> Pipeline) \<Rightarrow> ('w \<Rightarrow> string \<Rightarrow> bool) \<Rightarrow> 'w \<Rightarrow> 'w \<Rightarrow> bool" where
  "keeps stored held w w' \<longleftrightarrow> stored w' = stored w \<and> held w' = held w"

definition calm_reads ::
  "'w KubeClient \<Rightarrow> ('w \<Rightarrow> Pipeline) \<Rightarrow> string \<Rightarrow> string \<Rightarrow> string \<Rightarrow> Pod list \<Rightarrow> Pipeline list \<Rightarrow> bool" where
  "calm_reads K stored n ns cn pods others \<longleftrightarrow> (\<forall>w.
     wp (Get_Pipeline K n ns) (\<lambda>r w'. r = Inr (stored w) \<and> w' = w) w \<and>
     wp (Get_PipelineCluster K cn ns) (\<lambda>r w'. (\<exists>cl. r = Inr cl \<and> om_Name (pc_Meta cl) = cn) \<and> w' = w) w \<and>
     wp (List_Pods K ns (clusterLabelKey, cn)) (\<lambda>r w'. r = Inr pods \<and> w' = w) w \<and>
     wp (List_Pipelines K ns) (\<lambda>r w'. r = Inr (stored w # others) \<and> w' = w) w)"

definition calm_writes ::
  "'w KubeClient \<Rightarrow> ('w \<Rightarrow> Pipeline) \<Rightarrow> ('w \<Rightarrow> string \<Rightarrow> bool) \<Rightarrow> string \<Rightarrow> string \<Rightarrow> bool" where
  "calm_writes K stored held n ns \<longleftrightarrow> (\<forall>w.
     wp (Delete_Pod K n ns) (\<lambda>r w'. IgnoreNotFound r = None \<and> keeps stored held w w') w \<and>
     wp (Delete_ConfigMap K (n @ ''-config'') ns) (\<lambda>r w'. IgnoreNotFound r = None \<and> keeps stored held w w') w \<and>
     wp (Delete_PodMonitor K n ns) (\<lambda>r w'.
       pred_option (\<lambda>e. err_kind e = NoMatch \<or> err_kind e = NotRegistered) (IgnoreNotFound r) \<and>
       keeps stored held w w') w \<and>
     (\<forall>p. wp (StatusUpdate_Pipeline K p) (\<lambda>r w'. r = None \<and> stored w' = p \<and> held w' = held w) w) \<and>
     (\<forall>p. wp (Update_Pipeline K p) (\<lambda>r w'. r = None \<and> stored w' = p \<and> held w' = held w) w))"

definition calm_streams ::
  "'w StreamsClient \<Rightarrow> ('w \<Rightarrow> Pipeline) \<Rightarrow> ('w \<Rightarrow> string \<Rightarrow> bool) \<Rightarrow> string \<Rightarrow> bool" where
  "calm_streams S stored held n \<longleftrightarrow> (\<forall>w u.
     (\<forall>b. wp (EnsureStream S u n b) (\<lambda>r w'. r = None \<and> held w' u \<and> stored w' = stored w) w) \<and>
     wp (DeleteStream S u n) (\<lambda>r w'. r = None \<and> stored w' = stored w) w \<and>
     wp (GetStreamStatus S u n) (\<lambda>r w'. w' = w \<and>
       (if held w u then \<exists>st. r = Inr st \<and> Active st
        else \<exists>e. r = Inl e \<and> err_kind e = ErrStreamNotFound)) w)"

lemma wp_callI:
  assumes "wp m P w" and "\<And>r w'. P r w' \<Longrightarrow> Q r (w', tr @ [ev r])"
  shows "wp (call m ev) Q (w, tr)"
  using assms by (auto simp: wp_def wp_call run_call split: prod.splits)

lemma keeps_refl [simp]: "keeps stored held w w"
  by (simp add: keeps_def)

section \<open>One pass\<close>

text \<open>A call that changes nothing about the pipeline or its stream.\<close>

definition idle :: "event \<Rightarrow> bool" where
  "idle e = (case e of
      StreamEnsured u i b r \<Rightarrow> False | StreamDeleted u i r \<Rightarrow> False
    | UpdateStatus p r \<Rightarrow> False | UpdatePipeline p r \<Rightarrow> False | _ \<Rightarrow> True)"

definition active_condition :: Condition where
  "active_condition = mkCondition condStreamActive ConditionTrue ''Running'' ''stream active''"

text \<open>What a pass that finds the instance \<open>k\<close> chosen leaves in the API server.\<close>

definition placed_changed :: "lib \<Rightarrow> string \<Rightarrow> string \<Rightarrow> int \<Rightarrow> Pipeline \<Rightarrow> bool" where
  "placed_changed L body cn k p =
     cluster_status_changed L PhaseRunning cn (instanceName cn k) (p_Name p)
       (streamConfigHash L (instanceName cn k) body) (placement_condition p cn (instanceName cn k))
       (Some active_condition) p"

definition placed_status :: "lib \<Rightarrow> string \<Rightarrow> string \<Rightarrow> int \<Rightarrow> Pipeline \<Rightarrow> Pipeline" where
  "placed_status L body cn k p =
     (if placed_changed L body cn k p
      then set_cluster_status L PhaseRunning cn (instanceName cn k) (p_Name p)
             (streamConfigHash L (instanceName cn k) body) (placement_condition p cn (instanceName cn k))
             (Some active_condition) p
      else p)"

text \<open>Nothing is left to do for instance \<open>k\<close>: status and stream are as a pass would make them.\<close>

definition done_on :: "lib \<Rightarrow> string \<Rightarrow> string \<Rightarrow> int \<Rightarrow> Pipeline \<Rightarrow> bool \<Rightarrow> bool" where
  "done_on L body cn k p h \<longleftrightarrow> h \<and> \<not> placed_changed L body cn k p \<and>
     pst_StreamConfigHash (p_Status p) = streamConfigHash L (instanceName cn k) body"

definition pass_post ::
  "lib \<Rightarrow> ('w \<Rightarrow> Pipeline) \<Rightarrow> ('w \<Rightarrow> string \<Rightarrow> bool) \<Rightarrow> string \<Rightarrow> string \<Rightarrow> int \<Rightarrow> Pipeline \<Rightarrow> bool \<Rightarrow>
   event list \<Rightarrow> 'w \<times> event list \<Rightarrow> bool" where
  "pass_post L stored held body cn k p h tr s \<longleftrightarrow>
     stored (fst s) = placed_status L body cn k p \<and>
     held (fst s) (clusterPodURL cn (p_Namespace p) k) \<and>
     (\<exists>evs. snd s = tr @ evs \<and> (done_on L body cn k p h \<longrightarrow> list_all idle evs))"

lemma wp_deploy_on:
  assumes S: "calm_streams S stored held n" and K: "calm_writes K stored held n ns"
    and p: "p_Name p = n" "p_Namespace p = ns" "stored w = p"
  shows "wp (deploy_on L K S p cn k body)
    (\<lambda>out. pass_post L stored held body cn k p (held w (clusterPodURL cn ns k)) tr) (w, tr)"
proof -
  let ?u = "clusterPodURL cn ns k" and ?hash = "streamConfigHash L (instanceName cn k) body"
  have ensure: "wp (EnsureStream S ?u n body) (\<lambda>r w'. r = None \<and> held w' ?u \<and> stored w' = stored w) w" for w
    using S by (simp add: calm_streams_def)
  have status: "wp (GetStreamStatus S ?u n) (\<lambda>r w'. w' = w \<and>
      (if held w ?u then \<exists>st. r = Inr st \<and> Active st else \<exists>e. r = Inl e \<and> err_kind e = ErrStreamNotFound)) w" for w
    using S by (simp add: calm_streams_def)
  have upd: "wp (StatusUpdate_Pipeline K q) (\<lambda>r w'. r = None \<and> stored w' = q \<and> held w' = held w) w" for q w
    using K by (simp add: calm_writes_def)
  have tail: "wp (streamActiveCondition S ?u n \<bind> (\<lambda>sa. writeClusterStatus L K p PhaseRunning cn
        (instanceName cn k) n ?hash (placement_condition p cn (instanceName cn k)) (Some sa) resyncInterval))
      (\<lambda>out s. stored (fst s) = placed_status L body cn k p \<and> held (fst s) ?u \<and>
         (\<exists>evs. snd s = tr' @ evs \<and> (\<not> placed_changed L body cn k p \<longrightarrow> list_all idle evs))) (w', tr')"
    if held: "stored w' = p" "held w' ?u" for w' tr'
    unfolding streamActiveCondition_def wp_bind
  proof (rule wp_callI [OF status], goal_cases)
    case (1 r w'')
    then obtain st where "r = Inr st" "Active st" and w'': "w'' = w'" using held by (auto split: if_splits)
    then show ?case using held p
      by (auto simp: writeClusterStatus_def placed_status_def placed_changed_def active_condition_def wp_if
          idle_def Let_def intro!: wp_callI [OF upd])
  qed
  have need: "wp (need_deploy S p ?u ?hash) (\<lambda>b s. fst s = w \<and>
      (\<exists>evs. snd s = tr @ evs \<and> list_all idle evs) \<and> (\<not> b \<longrightarrow> held w ?u) \<and>
      (held w ?u \<and> pst_StreamConfigHash (p_Status p) = ?hash \<longrightarrow> \<not> b)) (w, tr)"
    unfolding need_deploy_def wp_if wp_bind p(1)
    by (auto simp: idle_def intro!: wp_callI [OF status] split: if_splits)
  have deploy: "wp (ensureStreamPresent S ?u n body) (\<lambda>r s. r = None \<and> stored (fst s) = p \<and> held (fst s) ?u \<and>
      (\<exists>evs. snd s = tr' @ evs)) (w, tr')" for tr'
    unfolding ensureStreamPresent_def wp_bind
  proof (rule wp_callI [OF ensure], goal_cases)
    case (1 r w')
    then show ?case using p(3)
      by (auto simp: is_stream_missing_def intro!: wp_callI [OF status])
  qed
  have finish: "wp (streamActiveCondition S ?u n \<bind> (\<lambda>sa. writeClusterStatus L K p PhaseRunning cn
        (instanceName cn k) n ?hash (placement_condition p cn (instanceName cn k)) (Some sa) resyncInterval))
      (\<lambda>out. pass_post L stored held body cn k p (held w ?u) tr) (w', tr @ evs)"
    if "stored w' = p" "held w' ?u" "done_on L body cn k p (held w ?u) \<longrightarrow> list_all idle evs" for w' evs
    using that(3) by (intro wp_mono [OF tail [OF that(1,2)]]) (auto simp: pass_post_def p done_on_def)
  show ?thesis
    unfolding deploy_on_def Let_def wp_bind p(1,2)
  proof (rule wp_mono [OF need], goal_cases)
    case (1 b s)
    then obtain evs where s: "s = (w, tr @ evs)" and idle: "list_all idle evs" by (cases s) auto
    show ?case
    proof (cases b)
      case False
      with 1 idle show ?thesis using finish [OF p(3), of evs] by (simp add: s)
    next
      case True
      with 1 have todo: "\<not> done_on L body cn k p (held w ?u)" by (auto simp: done_on_def)
      have "wp (ensureStreamPresent S ?u n body) (\<lambda>err. wp (case err of
            Some e \<Rightarrow> (case err_kind e of
                ConfigRejectedError _ _ rb \<Rightarrow> markClusterFailed L K p ''StreamConfigInvalid'' rb 0
              | _ \<Rightarrow> State_Monad.return (ok, Some (wrap ''ensure stream: '' e)))
          | None \<Rightarrow> streamActiveCondition S ?u n \<bind> (\<lambda>sa. writeClusterStatus L K p PhaseRunning cn
              (instanceName cn k) n ?hash (placement_condition p cn (instanceName cn k)) (Some sa) resyncInterval))
          (\<lambda>out. pass_post L stored held body cn k p (held w ?u) tr)) (w, tr @ evs)"
      proof (rule wp_mono [OF deploy], goal_cases)
        case (1 r s')
        then obtain w1 evs' where "s' = (w1, tr @ (evs @ evs'))" and "r = None" by (cases s') auto
        with 1 todo finish [of w1 "evs @ evs'"] show ?case by simp
      qed
      with True show ?thesis by (simp add: s)
    qed
  qed
qed


text \<open>A pipeline that wants to run \<open>body\<close> on cluster \<open>cn\<close>, and has its finalizer.\<close>

definition wants_cluster :: "lib \<Rightarrow> string \<Rightarrow> string \<Rightarrow> Pipeline \<Rightarrow> bool" where
  "wants_cluster L cn body p \<longleftrightarrow>
     \<not> om_Deleting (p_Meta p) \<and> \<not> ps_Stopped (p_Spec p) \<and> ps_ProjectRef (p_Spec p) = None \<and>
     ps_ClusterRef (p_Spec p) = cn \<and> cn \<noteq> '''' \<and> ps_SecretRefs (p_Spec p) = [] \<and>
     RenderStreamConfig L (p_Spec p) = Inr body"

definition has_finalizer :: "lib \<Rightarrow> Pipeline \<Rightarrow> bool" where
  "has_finalizer L p \<longleftrightarrow> \<not> snd (AddFinalizer L (om_Finalizers (p_Meta p)) finalizerName)"

definition chosen :: "string \<Rightarrow> Pod list \<Rightarrow> Pipeline list \<Rightarrow> Pipeline \<Rightarrow> int option" where
  "chosen cn pods others p =
     pickInstance (current_instance p cn) cn (readyOrdinals_of cn pods) (others_load cn (p_Name p) others)"

lemma wp_schedule:
  assumes R: "calm_reads K stored n ns cn pods others"
    and S: "calm_streams S stored held n" and K: "calm_writes K stored held n ns"
    and p: "p_Name p = n" "p_Namespace p = ns" "stored w = p" and wants: "wants_cluster L cn body p"
    and k: "chosen cn pods others p = Some k"
  shows "wp (schedule_and_deploy L K S p cn None)
    (\<lambda>out. pass_post L stored held body cn k p (held w (clusterPodURL cn ns k))
      (tr @ [ListPods ns (clusterLabelKey, cn) (Inr pods), ListPipelines ns (Inr (p # others))])) (w, tr)"
proof -
  have pods: "wp (List_Pods K ns (clusterLabelKey, cn)) (\<lambda>r w'. r = Inr pods \<and> w' = w) w"
    and pipes: "wp (List_Pipelines K ns) (\<lambda>r w'. r = Inr (p # others) \<and> w' = w) w"
    using R p(3) by (auto simp: calm_reads_def)
  have load: "load_of cn n (p # others) (\<lambda>_. 0) = others_load cn n others"
    using p(1) by (simp add: fun_eq_iff others_load_def load_of_count counted_iff del: load_of.simps)
  from k have pick: "pickInstance (if pst_AssignedCluster (p_Status p) = cn then pst_AssignedInstance (p_Status p)
      else '''') cn (readyOrdinals_of cn pods) (others_load cn n others) = Some k"
    by (simp add: chosen_def current_instance_def p(1))
  have deploy: "wp (deploy_ready L K S p cn None (readyOrdinals_of cn pods) (others_load cn n others))
      (\<lambda>out. pass_post L stored held body cn k p (held w (clusterPodURL cn ns k)) tr') (w, tr')" for tr'
    using wants wp_deploy_on [OF S K p, of L cn k body tr']
    by (simp add: deploy_ready_def pick wants_cluster_def stream_body_def)
  show ?thesis
    unfolding schedule_and_deploy_def readyClusterOrdinals_def loadByOrdinal_def wp_bind p(1,2)
    using deploy by (auto simp: load simp del: load_of.simps intro!: wp_callI [OF pods] wp_callI [OF pipes])
qed

text \<open>A whole pass over a pipeline that has its finalizer.\<close>

lemma wp_children:
  assumes K: "calm_writes K stored held (p_Name p) (p_Namespace p)"
  shows "wp (deletePodModeChildren K p) (\<lambda>r s. r = None \<and> keeps stored held w (fst s) \<and>
    (\<exists>evs. snd s = tr @ evs \<and> list_all idle evs)) (w, tr)"
proof -
  have d: "wp (Delete_Pod K (p_Name p) (p_Namespace p)) (\<lambda>r w'. IgnoreNotFound r = None \<and>
      stored w' = stored w \<and> held w' = held w) w"
    "wp (Delete_ConfigMap K (p_Name p @ ''-config'') (p_Namespace p)) (\<lambda>r w'. IgnoreNotFound r = None \<and>
      stored w' = stored w \<and> held w' = held w) w"
    "wp (Delete_PodMonitor K (p_Name p) (p_Namespace p)) (\<lambda>r w'.
       pred_option (\<lambda>e. err_kind e = NoMatch \<or> err_kind e = NotRegistered) (IgnoreNotFound r) \<and>
       stored w' = stored w \<and> held w' = held w) w" for w
    using K by (simp_all add: calm_writes_def keeps_def)
  show ?thesis
    unfolding deletePodModeChildren_def Let_def wp_bind
    by (auto simp: keeps_def idle_def split: option.splits
        intro!: wp_callI [OF d(1)] wp_callI [OF d(2)] wp_callI [OF d(3)])
qed

definition settled_pass ::
  "lib \<Rightarrow> ('w \<Rightarrow> Pipeline) \<Rightarrow> ('w \<Rightarrow> string \<Rightarrow> bool) \<Rightarrow> string \<Rightarrow> string \<Rightarrow> int \<Rightarrow> 'w \<Rightarrow> 'w \<times> event list \<Rightarrow> bool" where
  "settled_pass L stored held body cn k w s \<longleftrightarrow>
     stored (fst s) = placed_status L body cn k (stored w) \<and>
     held (fst s) (clusterPodURL cn (p_Namespace (stored w)) k) \<and>
     (done_on L body cn k (stored w) (held w (clusterPodURL cn (p_Namespace (stored w)) k)) \<longrightarrow>
        list_all idle (snd s))"

lemma done_on_cluster:
  assumes "done_on L body cn k p h"
  shows "pst_AssignedCluster (p_Status p) = cn"
  using assms by (simp add: done_on_def placed_changed_def cluster_status_changed_def Let_def)

lemma wp_assigned:
  assumes R: "calm_reads K stored n ns cn pods others"
    and S: "calm_streams S stored held n" and K: "calm_writes K stored held n ns"
    and p: "p_Name p = n" "p_Namespace p = ns" "stored w = p" and wants: "wants_cluster L cn body p"
    and k: "chosen cn pods others p = Some k" and tr: "list_all idle tr"
  shows "wp (handleClusterAssigned L K S p cn None) (\<lambda>_. settled_pass L stored held body cn k w) (w, tr)"
proof -
  let ?u = "clusterPodURL cn ns k"
  have get: "wp (Get_PipelineCluster K cn ns) (\<lambda>r w'. (\<exists>cl. r = Inr cl \<and> om_Name (pc_Meta cl) = cn) \<and> w' = w) w"
    using R by (simp add: calm_reads_def)
  have del: "wp (DeleteStream S u n) (\<lambda>r w'. r = None \<and> stored w' = stored w) w" for u w
    using S by (simp add: calm_streams_def)
  have migrate: "wp (migrateFromOldCluster S p cn) (\<lambda>r s. r = None \<and> stored (fst s) = p \<and>
      (\<exists>evs. snd s = tr1 @ evs \<and> (pst_AssignedCluster (p_Status p) = cn \<longrightarrow> fst s = w1 \<and> evs = []))) (w1, tr1)"
    if "stored w1 = p" for w1 tr1
    using that unfolding migrateFromOldCluster_def Let_def p(1)
    by (auto simp: wp_if split: option.split intro!: wp_callI [OF del])
  have place: "wp (schedule_and_deploy L K S p cn None) (\<lambda>_. settled_pass L stored held body cn k w) (w2, tr2)"
    if "stored w2 = p" "pst_AssignedCluster (p_Status p) = cn \<longrightarrow> held w2 = held w \<and> list_all idle tr2" for w2 tr2
    by (rule wp_mono [OF wp_schedule [OF R S K p(1,2) that(1) wants k]])
      (use that(2) p in \<open>auto simp: settled_pass_def pass_post_def idle_def dest: done_on_cluster\<close>)
  show ?thesis
    unfolding handleClusterAssigned_def p(2) wp_bind
  proof (rule wp_callI [OF get], goal_cases)
    case (1 r w')
    then obtain cl where cl: "r = Inr cl" "om_Name (pc_Meta cl) = cn" "w' = w" by auto
    have "wp (deletePodModeChildren K p) (\<lambda>e1. wp (case e1 of Some e \<Rightarrow> State_Monad.return (ok, Some e)
        | None \<Rightarrow> migrateFromOldCluster S p cn \<bind> (\<lambda>e2. case e2 of
            Some e \<Rightarrow> State_Monad.return (ok, Some e)
          | None \<Rightarrow> schedule_and_deploy L K S p cn None)) (\<lambda>_. settled_pass L stored held body cn k w))
       (w, tr @ [GetPipelineCluster cn ns (Inr cl)])"
    proof (rule wp_mono [OF wp_children [where stored = stored and held = held]], use K p in simp, goal_cases)
      case (1 r1 s1)
      then obtain w1 evs where s1: "s1 = (w1, tr @ GetPipelineCluster cn ns (Inr cl) # evs)" "list_all idle evs"
          and w1: "stored w1 = p" "held w1 = held w" and "r1 = None"
        by (cases s1) (auto simp: keeps_def p(3))
      have "wp (migrateFromOldCluster S p cn) (\<lambda>e2. wp (case e2 of
            Some e \<Rightarrow> State_Monad.return (ok, Some e)
          | None \<Rightarrow> schedule_and_deploy L K S p cn None) (\<lambda>_. settled_pass L stored held body cn k w)) s1"
        unfolding s1
      proof (rule wp_mono [OF migrate [OF w1(1)]], goal_cases)
        case (1 r2 s2)
        then obtain w2 evs2 where "s2 = (w2, (tr @ GetPipelineCluster cn ns (Inr cl) # evs) @ evs2)" "r2 = None"
            "stored w2 = p" "pst_AssignedCluster (p_Status p) = cn \<longrightarrow> w2 = w1 \<and> evs2 = []"
          by (cases s2) auto
        with place [of w2 "(tr @ GetPipelineCluster cn ns (Inr cl) # evs) @ evs2"] w1 s1(2) tr
        show ?case by (auto simp: idle_def)
      qed
      with \<open>r1 = None\<close> show ?case by simp
    qed
    with cl show ?case by simp
  qed
qed


section \<open>The status settles\<close>

definition placed_on :: "string \<Rightarrow> int \<Rightarrow> Pipeline \<Rightarrow> bool" where
  "placed_on cn k p \<longleftrightarrow> pst_Phase (p_Status p) = PhaseRunning \<and>
     pst_AssignedCluster (p_Status p) = cn \<and> pst_AssignedInstance (p_Status p) = instanceName cn k"

lemma meta_set_cluster_status [simp]: "p_Meta (set_cluster_status L ph ac ai si h c sa pipe) = p_Meta pipe"
  by (simp add: set_cluster_status_def Let_def)

lemma placed_status_object [simp]:
  "p_Meta (placed_status L body cn k p) = p_Meta p" "p_Spec (placed_status L body cn k p) = p_Spec p"
  by (simp_all add: placed_status_def set_cluster_status_def Let_def)

lemma placed_status_fields:
  "placed_on cn k (placed_status L body cn k p)"
  "pst_StreamConfigHash (p_Status (placed_status L body cn k p)) = streamConfigHash L (instanceName cn k) body"
  by (auto simp: placed_status_def placed_on_def set_cluster_status_def placed_changed_def
      cluster_status_changed_def Let_def)

lemma placement_condition_placed:
  "placed_on cn k p \<Longrightarrow> placement_condition p cn (instanceName cn k) =
     mkCondition ''Ready'' ConditionTrue ''Assigned'' (''stream running on '' @ instanceName cn k)"
  by (simp add: placement_condition_def placed_on_def Let_def)

text \<open>The first status may still say \<open>Rescheduling\<close>; the second one is final.\<close>

lemma second_status_final:
  assumes laws: "condition_laws L" and "placed_on cn k p"
  shows "done_on L body cn k (placed_status L body cn k p) True"
proof (cases "placed_changed L body cn k p")
  case False
  then show ?thesis using placed_status_fields(2) [of L body cn k p] by (simp add: done_on_def placed_status_def)
next
  case True
  let ?q = "placed_status L body cn k p" and ?i = "instanceName cn k"
  have cond: "placement_condition ?q cn ?i = placement_condition p cn ?i"
    using placement_condition_placed [OF assms(2)] placement_condition_placed [OF placed_status_fields(1)] by simp
  have "\<not> cluster_status_changed L PhaseRunning cn ?i (p_Name p) (streamConfigHash L ?i body)
      (placement_condition p cn ?i) (Some active_condition)
      (set_cluster_status L PhaseRunning cn ?i (p_Name p) (streamConfigHash L ?i body)
        (placement_condition p cn ?i) (Some active_condition) p)"
    by (rule cluster_status_settles [OF laws])
      (auto simp: placement_condition_def active_condition_def mkCondition_def Let_def)
  with True have "\<not> placed_changed L body cn k ?q"
    unfolding placed_changed_def cond by (simp add: placed_status_def placed_changed_def)
  then show ?thesis using placed_status_fields(2) [of L body cn k p] by (simp add: done_on_def)
qed

lemma chosen_sticky:
  assumes "placed_on cn k p" and "k \<in> set (readyOrdinals_of cn pods)" and "0 \<le> k" and "k < 2 ^ 31"
  shows "chosen cn pods others p = Some k"
  using assms by (simp add: chosen_def current_instance_def placed_on_def pickInstance_def ordinal_instanceName)

section \<open>Repeated passes\<close>

definition pass :: "lib \<Rightarrow> 'w KubeClient \<Rightarrow> 'w StreamsClient \<Rightarrow> string \<Rightarrow> string \<Rightarrow> 'w \<Rightarrow> 'w" where
  "pass L K S n ns w = fst (snd (run_state (Reconcile L K S n ns) (w, [])))"

definition pass_events :: "lib \<Rightarrow> 'w KubeClient \<Rightarrow> 'w StreamsClient \<Rightarrow> string \<Rightarrow> string \<Rightarrow> 'w \<Rightarrow> event list" where
  "pass_events L K S n ns w = snd (snd (run_state (Reconcile L K S n ns) (w, [])))"

definition on_track :: "lib \<Rightarrow> string \<Rightarrow> string \<Rightarrow> string \<Rightarrow> string \<Rightarrow> Pipeline \<Rightarrow> bool" where
  "on_track L n ns cn body p \<longleftrightarrow> p_Name p = n \<and> p_Namespace p = ns \<and> wants_cluster L cn body p"

lemma on_track_placed [simp]:
  "on_track L n ns cn body (placed_status L b c k p) = on_track L n ns cn body p"
  "has_finalizer L (placed_status L b c k p) = has_finalizer L p"
  by (simp_all add: on_track_def wants_cluster_def has_finalizer_def)

lemma wp_pass: "wp (Reconcile L K S n ns) (\<lambda>_. Q) (w, []) \<Longrightarrow> Q (pass L K S n ns w, pass_events L K S n ns w)"
  by (simp add: wp_def pass_def pass_events_def split: prod.splits)

text \<open>A pass over a pipeline without its finalizer adds it; any other pass deploys.\<close>

lemma pass_finalizer:
  assumes R: "calm_reads K stored n ns cn pods others" and K: "calm_writes K stored held n ns"
    and t: "on_track L n ns cn body (stored w)" and "\<not> has_finalizer L (stored w)"
    and law: "\<And>fs. \<not> snd (AddFinalizer L (fst (AddFinalizer L fs finalizerName)) finalizerName)"
  shows "on_track L n ns cn body (stored (pass L K S n ns w)) \<and> has_finalizer L (stored (pass L K S n ns w))"
proof -
  obtain fs where fs: "AddFinalizer L (om_Finalizers (p_Meta (stored w))) finalizerName = (fs, True)"
    using assms(4) by (cases "AddFinalizer L (om_Finalizers (p_Meta (stored w))) finalizerName") (simp add: has_finalizer_def)
  let ?q = "(stored w)\<lparr>p_Meta := (p_Meta (stored w))\<lparr>om_Finalizers := fs\<rparr>\<rparr>"
  have get: "wp (Get_Pipeline K n ns) (\<lambda>r w'. r = Inr (stored w) \<and> w' = w) w" using R by (simp add: calm_reads_def)
  have up: "wp (Update_Pipeline K q) (\<lambda>r w'. r = None \<and> stored w' = q \<and> held w' = held w) w" for q w
    using K by (simp add: calm_writes_def)
  have "wp (Reconcile L K S n ns) (\<lambda>_ s. stored (fst s) = ?q) (w, [])"
    unfolding Reconcile_def wp_bind
    using t by (auto simp: on_track_def wants_cluster_def reconcile_live_def fs Let_def
        intro!: wp_callI [OF get] wp_callI [OF up])
  from wp_pass [OF this] have q: "stored (pass L K S n ns w) = ?q" by simp
  have "fst (AddFinalizer L (om_Finalizers (p_Meta (stored w))) finalizerName) = fs" by (simp add: fs)
  with law have "\<not> snd (AddFinalizer L fs finalizerName)" by metis
  with t q show ?thesis by (simp add: on_track_def wants_cluster_def has_finalizer_def)
qed

lemma pass_deploys:
  assumes R: "calm_reads K stored n ns cn pods others" and S: "calm_streams S stored held n"
    and K: "calm_writes K stored held n ns" and t: "on_track L n ns cn body (stored w)"
    and f: "has_finalizer L (stored w)" and k: "chosen cn pods others (stored w) = Some k"
  shows "settled_pass L stored held body cn k w (pass L K S n ns w, pass_events L K S n ns w)"
proof (rule wp_pass)
  obtain fs where fs: "AddFinalizer L (om_Finalizers (p_Meta (stored w))) finalizerName = (fs, False)"
    using f by (cases "AddFinalizer L (om_Finalizers (p_Meta (stored w))) finalizerName") (simp add: has_finalizer_def)
  have get: "wp (Get_Pipeline K n ns) (\<lambda>r w'. r = Inr (stored w) \<and> w' = w) w" using R by (simp add: calm_reads_def)
  from t have p: "p_Name (stored w) = n" "p_Namespace (stored w) = ns" and wants: "wants_cluster L cn body (stored w)"
    by (simp_all add: on_track_def)
  have "wp (handleClusterAssigned L K S (stored w) cn None) (\<lambda>_. settled_pass L stored held body cn k w)
      (w, [GetPipeline n ns (Inr (stored w))])"
    by (rule wp_assigned [OF R S K p refl wants k]) (simp add: idle_def)
  then show "wp (Reconcile L K S n ns) (\<lambda>_. settled_pass L stored held body cn k w) (w, [])"
    unfolding Reconcile_def wp_bind
    using wants by (auto simp: wants_cluster_def reconcile_live_def fs Let_def intro!: wp_callI [OF get])
qed


text \<open>Once settled on instance \<open>k\<close> with status \<open>p\<close>, a pass changes nothing.\<close>

definition settled ::
  "lib \<Rightarrow> ('w \<Rightarrow> Pipeline) \<Rightarrow> ('w \<Rightarrow> string \<Rightarrow> bool) \<Rightarrow> string \<Rightarrow> string \<Rightarrow> string \<Rightarrow> string \<Rightarrow> int \<Rightarrow>
   Pipeline \<Rightarrow> 'w \<Rightarrow> bool" where
  "settled L stored held n ns cn body k p w \<longleftrightarrow>
     stored w = p \<and> held w (clusterPodURL cn ns k) \<and> on_track L n ns cn body p \<and> has_finalizer L p \<and>
     placed_on cn k p \<and> done_on L body cn k p True"

lemma settled_step:
  assumes R: "calm_reads K stored n ns cn pods others" and S: "calm_streams S stored held n"
    and K: "calm_writes K stored held n ns"
    and k: "k \<in> set (readyOrdinals_of cn pods)" "0 \<le> k" "k < 2 ^ 31"
    and s: "settled L stored held n ns cn body k p w"
  shows "settled L stored held n ns cn body k p (pass L K S n ns w)"
    and "list_all idle (pass_events L K S n ns w)"
proof -
  from s have w: "stored w = p" "on_track L n ns cn body (stored w)" "has_finalizer L (stored w)"
      "placed_on cn k (stored w)" and d: "done_on L body cn k p True" "held w (clusterPodURL cn ns k)"
    by (auto simp: settled_def)
  have "settled_pass L stored held body cn k w (pass L K S n ns w, pass_events L K S n ns w)"
    by (rule pass_deploys [OF R S K w(2,3) chosen_sticky [OF w(4) k]])
  moreover have "p_Namespace p = ns" using w(1,2) by (simp add: on_track_def)
  moreover have "placed_status L body cn k p = p" using d(1) by (simp add: placed_status_def done_on_def)
  ultimately show "settled L stored held n ns cn body k p (pass L K S n ns w)"
    "list_all idle (pass_events L K S n ns w)"
    using s d w(1) by (auto simp: settled_def settled_pass_def)
qed

text \<open>Two deploying passes settle.\<close>

lemma two_passes_settle:
  assumes R: "calm_reads K stored n ns cn pods others" and S: "calm_streams S stored held n"
    and K: "calm_writes K stored held n ns" and laws: "condition_laws L"
    and ready: "readyOrdinals_of cn pods \<noteq> []" "list_all (\<lambda>k. 0 \<le> k \<and> k < 2 ^ 31) (readyOrdinals_of cn pods)"
    and t: "on_track L n ns cn body (stored w)" and f: "has_finalizer L (stored w)"
  shows "\<exists>k p. k \<in> set (readyOrdinals_of cn pods) \<and>
    settled L stored held n ns cn body k p (pass L K S n ns (pass L K S n ns w))"
proof -
  let ?w1 = "pass L K S n ns w" and ?w2 = "pass L K S n ns (pass L K S n ns w)"
  from ready(1) obtain k where k: "chosen cn pods others (stored w) = Some k"
    by (cases "chosen cn pods others (stored w)") (auto simp: chosen_def pickInstance_None)
  then have kr: "k \<in> set (readyOrdinals_of cn pods)" unfolding chosen_def by (rule pickInstance_in_ready)
  with ready(2) have "0 \<le> k" "k < 2 ^ 31" by (auto simp: list_all_iff)
  note sticky = chosen_sticky [OF _ kr this]
  from pass_deploys [OF R S K t f k] have w1: "stored ?w1 = placed_status L body cn k (stored w)"
    by (simp add: settled_pass_def)
  then have t1: "on_track L n ns cn body (stored ?w1)" "has_finalizer L (stored ?w1)" "placed_on cn k (stored ?w1)"
    using t f by (simp_all add: placed_status_fields)
  from pass_deploys [OF R S K t1(1,2) sticky [OF t1(3)]] t1(1)
  have "stored ?w2 = placed_status L body cn k (stored ?w1)" "held ?w2 (clusterPodURL cn ns k)"
    by (simp_all add: settled_pass_def on_track_def)
  then have "settled L stored held n ns cn body k (stored ?w2) ?w2"
    using t1 by (simp add: settled_def placed_status_fields second_status_final [OF laws t1(3)])
  with kr show ?thesis by blast
qed

lemma settled_forever:
  assumes R: "calm_reads K stored n ns cn pods others" and S: "calm_streams S stored held n"
    and K: "calm_writes K stored held n ns"
    and k: "k \<in> set (readyOrdinals_of cn pods)" "0 \<le> k" "k < 2 ^ 31"
    and s: "settled L stored held n ns cn body k p w"
  shows "settled L stored held n ns cn body k p ((pass L K S n ns ^^ m) w)"
  by (induction m) (auto simp: s intro: settled_step(1) [OF R S K k])



text \<open>A calm environment with one pipeline: the stored object and the instances that run its stream.\<close>

type_synonym calm_world = "Pipeline \<times> (string \<Rightarrow> bool)"

definition calm_kube :: "Pod list \<Rightarrow> calm_world KubeClient" where
  "calm_kube pods = (demo_kube (demo_pipe '''' False) pods)
     \<lparr>Get_Pipeline := (\<lambda>_ _. State (\<lambda>w. (Inr (fst w), w))),
      List_Pipelines := (\<lambda>_. State (\<lambda>w. (Inr [fst w], w))),
      Update_Pipeline := (\<lambda>p. State (\<lambda>w. (None, (p, snd w)))),
      StatusUpdate_Pipeline := (\<lambda>p. State (\<lambda>w. (None, (p, snd w))))\<rparr>"

definition calm_instances :: "calm_world StreamsClient" where
  "calm_instances =
     \<lparr>EnsureStream = (\<lambda>u i b. State (\<lambda>w. (None, (fst w, (snd w)(u := True))))),
      DeleteStream = (\<lambda>u i. State (\<lambda>w. (None, (fst w, (snd w)(u := False))))),
      ListStreams = (\<lambda>u. State_Monad.return (Inr [])),
      GetStreamStatus = (\<lambda>u i. State (\<lambda>w. (if snd w u then Inr (held_status True)
        else Inl (Err ErrStreamNotFound ''stream not found''), w))),
      EnsureCacheResource = (\<lambda>_ _ _. State_Monad.return None),
      DeleteCacheResource = (\<lambda>_ _. State_Monad.return None)\<rparr>"

lemma calm_demo:
  "calm_reads (calm_kube pods) fst n ns ''etl'' pods []"
  "calm_writes (calm_kube pods) fst snd n ns"
  "calm_streams calm_instances fst snd n"
  by (simp_all add: calm_reads_def calm_writes_def calm_streams_def calm_kube_def calm_instances_def
      wp_def keeps_def IgnoreNotFound_def)

text \<open>A new pipeline on cluster \<open>etl\<close>, of which only instance 1 is ready.\<close>

definition calm_start :: calm_world where
  "calm_start = ((demo_pipe ''etl-0'' False)\<lparr>p_Meta := sample_meta ''a''\<rparr>, \<lambda>_. False)"


end
