(* ===== verification/Rpc_Watch.thy ===== *)
theory Rpc_Watch
  imports Rpc_Converge Rpc_Project_Props
begin

text \<open>
  What wakes the reconcilers: \<open>SetupWithManager\<close> of the three controllers
  (\<^verbatim>\<open>pipeline_controller.go\<close>, \<^verbatim>\<open>pipelinecluster_controller.go\<close>,
  \<^verbatim>\<open>pipelineproject_controller.go\<close>), and the mapping functions and predicates they register.
  The builder of controller-runtime is not in the repository: it is handed a value that lists
  what a controller is for, what it owns and what it watches, and how it turns an event of the
  API server into requests is a parameter with its documented behaviour as a hypothesis.
\<close>

section \<open>Objects and events\<close>

datatype (plugins only: code) kubeobj =
    OPipeline Pipeline
  | OPipelineCluster PipelineCluster
  | OPipelineProject PipelineProject
  | OPod Pod
  | OSecret Secret
  | OConfigMap ConfigMap
  | OService Service
  | OStatefulSet StatefulSet
  | OPodMonitor PodMonitor

datatype kind = KPipeline | KPipelineCluster | KPipelineProject | KPod | KSecret | KConfigMap
  | KService | KStatefulSet | KPodMonitor

fun obj_Kind :: "kubeobj \<Rightarrow> kind" where
  "obj_Kind (OPipeline _) = KPipeline"
| "obj_Kind (OPipelineCluster _) = KPipelineCluster"
| "obj_Kind (OPipelineProject _) = KPipelineProject"
| "obj_Kind (OPod _) = KPod"
| "obj_Kind (OSecret _) = KSecret"
| "obj_Kind (OConfigMap _) = KConfigMap"
| "obj_Kind (OService _) = KService"
| "obj_Kind (OStatefulSet _) = KStatefulSet"
| "obj_Kind (OPodMonitor _) = KPodMonitor"

fun obj_Meta :: "kubeobj \<Rightarrow> ObjectMeta" where
  "obj_Meta (OPipeline p) = p_Meta p"
| "obj_Meta (OPipelineCluster c) = pc_Meta c"
| "obj_Meta (OPipelineProject p) = pj_Meta p"
| "obj_Meta (OPod p) = pod_Meta p"
| "obj_Meta (OSecret s) = sec_Meta s"
| "obj_Meta (OConfigMap c) = cm_Meta c"
| "obj_Meta (OService s) = svc_Meta s"
| "obj_Meta (OStatefulSet s) = ss_Meta s"
| "obj_Meta (OPodMonitor m) = pm_Meta m"

datatype (plugins only: code) obj_event =
    CreateEvent kubeobj
  | UpdateEvent kubeobj kubeobj
  | DeleteEvent kubeobj
  | GenericEvent kubeobj

text \<open>A request is a name and a namespace.\<close>

type_synonym request = "string \<times> string"

definition request_of :: "kubeobj \<Rightarrow> request" where
  "request_of ob = (om_Name (obj_Meta ob), om_Namespace (obj_Meta ob))"

section \<open>What the controllers register\<close>

record Predicates =
  CreateFunc :: "kubeobj \<Rightarrow> bool"
  DeleteFunc :: "kubeobj \<Rightarrow> bool"
  GenericFunc :: "kubeobj \<Rightarrow> bool"
  UpdateFunc :: "kubeobj \<Rightarrow> kubeobj \<Rightarrow> bool"

definition any_event :: Predicates where
  "any_event = \<lparr>CreateFunc = \<lambda>_. True, DeleteFunc = \<lambda>_. True, GenericFunc = \<lambda>_. True, UpdateFunc = \<lambda>_ _. True\<rparr>"

record 'w Watch =
  wa_Kind :: kind
  wa_Map :: "kubeobj \<Rightarrow> ('w, request list) state"
  wa_Pred :: Predicates

record 'w Setup =
  su_Name :: string
  su_For :: kind
  su_Owns :: "kind list"
  su_Watches :: "'w Watch list"

text \<open>The manager: the field indexer and the builder's \<open>Complete\<close>.\<close>

record 'w Manager =
  mgr_IndexField :: "kind \<Rightarrow> string \<Rightarrow> (kubeobj \<Rightarrow> string list) \<Rightarrow> ('w, error option) state"
  mgr_Complete :: "'w Setup \<Rightarrow> ('w, error option) state"

text \<open>
  The mapping functions as the builder takes them: on any object, with the type assertions of
  the code.
\<close>

definition swapped :: "('w, (string \<times> string) list) state \<Rightarrow> ('w, request list) state" where
  "swapped m = do { rs \<leftarrow> m; State_Monad.return (map prod.swap rs) }"

definition map_secret :: "'w KubeClient \<Rightarrow> kubeobj \<Rightarrow> ('w, request list) state" where
  "map_secret K ob = swapped (pipelinesForSecret K (om_Name (obj_Meta ob)) (om_Namespace (obj_Meta ob)))"

definition map_project :: "'w KubeClient \<Rightarrow> kubeobj \<Rightarrow> ('w, request list) state" where
  "map_project K ob = (case ob of
      OPipelineProject project \<Rightarrow> swapped (pipelinesForProject K project)
    | _ \<Rightarrow> State_Monad.return [])"

definition map_pipeline :: "'w KubeClient \<Rightarrow> kubeobj \<Rightarrow> ('w, request list) state" where
  "map_pipeline K ob = (case ob of
      OPipeline p \<Rightarrow> projectsForPipeline K p
    | _ \<Rightarrow> State_Monad.return [])"

definition map_cluster_pod :: "kubeobj \<Rightarrow> ('w, request list) state" where
  "map_cluster_pod ob = State_Monad.return (case ob of OPod pod \<Rightarrow> projectsForClusterPod pod | _ \<Rightarrow> [])"

definition project_predicates :: Predicates where
  "project_predicates =
     \<lparr>CreateFunc = (\<lambda>_. True),
      DeleteFunc = (\<lambda>_. False),
      GenericFunc = (\<lambda>_. False),
      UpdateFunc = (\<lambda>old new. case (old, new) of
          (OPipelineProject oldP, OPipelineProject newP) \<Rightarrow> projectChangeRedeploysMembers oldP newP
        | _ \<Rightarrow> False)\<rparr>"

definition pipeline_setup :: "'w KubeClient \<Rightarrow> 'w Setup" where
  "pipeline_setup K =
     \<lparr>su_Name = ''pipeline'', su_For = KPipeline, su_Owns = [KConfigMap, KPod, KPodMonitor],
      su_Watches =
        [\<lparr>wa_Kind = KSecret, wa_Map = map_secret K, wa_Pred = any_event\<rparr>,
         \<lparr>wa_Kind = KPipelineProject, wa_Map = map_project K, wa_Pred = project_predicates\<rparr>]\<rparr>"

definition secretNameIndexKey :: string where
  "secretNameIndexKey = ''spec.secretRefs.secretName''"

definition index_pipeline :: "kubeobj \<Rightarrow> string list" where
  "index_pipeline ob = (case ob of OPipeline pipe \<Rightarrow> secretNameIndex pipe | _ \<Rightarrow> [])"

definition SetupWithManager_Pipeline :: "'w KubeClient \<Rightarrow> 'w Manager \<Rightarrow> ('w, error option) state" where
  "SetupWithManager_Pipeline K mgr = do {
     err \<leftarrow> mgr_IndexField mgr KPipeline secretNameIndexKey index_pipeline;
     case err of
       Some e \<Rightarrow> State_Monad.return (Some e)
     | None \<Rightarrow> mgr_Complete mgr (pipeline_setup K)
   }"

definition cluster_setup :: "'w Setup" where
  "cluster_setup =
     \<lparr>su_Name = ''pipelinecluster'', su_For = KPipelineCluster,
      su_Owns = [KConfigMap, KService, KStatefulSet, KPodMonitor], su_Watches = []\<rparr>"

definition SetupWithManager_Cluster :: "'w Manager \<Rightarrow> ('w, error option) state" where
  "SetupWithManager_Cluster mgr = mgr_Complete mgr cluster_setup"

definition project_setup :: "'w KubeClient \<Rightarrow> 'w Setup" where
  "project_setup K =
     \<lparr>su_Name = ''pipelineproject'', su_For = KPipelineProject,
      su_Owns = [KPipelineCluster, KConfigMap, KService, KStatefulSet],
      su_Watches =
        [\<lparr>wa_Kind = KPipeline, wa_Map = map_pipeline K, wa_Pred = any_event\<rparr>,
         \<lparr>wa_Kind = KPod, wa_Map = map_cluster_pod, wa_Pred = any_event\<rparr>]\<rparr>"

definition SetupWithManager_Project :: "'w KubeClient \<Rightarrow> 'w Manager \<Rightarrow> ('w, error option) state" where
  "SetupWithManager_Project K mgr = mgr_Complete mgr (project_setup K)"

section \<open>The documented behaviour of controller-runtime\<close>

text \<open>
  A controller is asked to reconcile the object of its own kind that an event is about, the
  controlling owner of an object of an owned kind, and what the mapping function of a watch
  returns for an event its predicates let through; for an update this holds of the old and the
  new object alike. \<open>controller_of\<close> is \<open>metav1.GetControllerOf\<close>: kind and name.
\<close>

fun event_objects :: "obj_event \<Rightarrow> kubeobj list" where
  "event_objects (CreateEvent ob) = [ob]"
| "event_objects (UpdateEvent old new) = [old, new]"
| "event_objects (DeleteEvent ob) = [ob]"
| "event_objects (GenericEvent ob) = [ob]"

fun passes :: "Predicates \<Rightarrow> obj_event \<Rightarrow> bool" where
  "passes P (CreateEvent ob) = CreateFunc P ob"
| "passes P (UpdateEvent old new) = UpdateFunc P old new"
| "passes P (DeleteEvent ob) = DeleteFunc P ob"
| "passes P (GenericEvent ob) = GenericFunc P ob"

definition asks ::
  "(ObjectMeta \<Rightarrow> (kind \<times> string) option) \<Rightarrow> 'w Setup \<Rightarrow> obj_event \<Rightarrow> 'w \<Rightarrow> kubeobj \<Rightarrow> request \<Rightarrow> bool" where
  "asks controller_of c e w ob r \<longleftrightarrow>
     obj_Kind ob = su_For c \<and> r = request_of ob \<or>
     obj_Kind ob \<in> set (su_Owns c) \<and>
       (\<exists>owner. controller_of (obj_Meta ob) = Some (su_For c, owner) \<and> r = (owner, om_Namespace (obj_Meta ob))) \<or>
     (\<exists>wt\<in>set (su_Watches c). wa_Kind wt = obj_Kind ob \<and> passes (wa_Pred wt) e \<and>
       r \<in> set (fst (run_state (wa_Map wt ob) w)))"

definition delivers ::
  "(ObjectMeta \<Rightarrow> (kind \<times> string) option) \<Rightarrow> ('w Setup \<Rightarrow> obj_event \<Rightarrow> 'w \<Rightarrow> request set) \<Rightarrow> bool" where
  "delivers controller_of enq \<longleftrightarrow>
     (\<forall>c e w r. r \<in> enq c e w \<longleftrightarrow> (\<exists>ob\<in>set (event_objects e). asks controller_of c e w ob r))"

lemma delivers_iff:
  "delivers controller_of enq \<Longrightarrow> r \<in> enq c e w \<longleftrightarrow> (\<exists>ob\<in>set (event_objects e). asks controller_of c e w ob r)"
  unfolding delivers_def by blast


section \<open>Whom an event wakes\<close>

definition member_of :: "string \<Rightarrow> Pipeline \<Rightarrow> bool" where
  "member_of project p \<longleftrightarrow> (\<exists>ref. ps_ProjectRef (p_Spec p) = Some ref \<and> pr_Name ref = project)"

definition key_of :: "Pipeline \<Rightarrow> request" where
  "key_of p = (p_Name p, p_Namespace p)"

lemma run_swapped: "fst (run_state (swapped m) w) = map prod.swap (fst (run_state m w))"
  by (simp add: swapped_def split: prod.split)

lemma map_secret_requests:
  assumes "run_state (List_PipelinesBySecret K (om_Namespace (obj_Meta ob)) (om_Name (obj_Meta ob))) w = (Inr ps, w1)"
  shows "set (fst (run_state (map_secret K ob) w)) = key_of ` set ps"
  by (auto simp: map_secret_def run_swapped pipelinesForSecret_def assms key_of_def)

lemma map_project_requests:
  assumes "run_state (List_Pipelines K (pj_Namespace project)) w = (Inr ps, w1)"
  shows "set (fst (run_state (map_project K (OPipelineProject project)) w)) =
    key_of ` {p \<in> set ps. member_of (pj_Name project) p}"
  by (auto simp: map_project_def run_swapped pipelinesForProject_def assms key_of_def member_of_def
      split: option.splits)

lemma asks_pipeline_setup:
  "asks controller_of (pipeline_setup K) e w (OSecret s) r \<longleftrightarrow> r \<in> set (fst (run_state (map_secret K (OSecret s)) w))"
  "asks controller_of (pipeline_setup K) e w (OPipelineProject pj) r \<longleftrightarrow>
     passes project_predicates e \<and> r \<in> set (fst (run_state (map_project K (OPipelineProject pj)) w))"
  by (cases e; simp add: asks_def pipeline_setup_def any_event_def)+

text \<open>The documented behaviour of the field index: it lists the pipelines under each of their keys.\<close>

definition index_lists :: "'w KubeClient \<Rightarrow> 'w \<Rightarrow> string \<Rightarrow> Pipeline list \<Rightarrow> bool" where
  "index_lists K w ns ps \<longleftrightarrow>
     fst (run_state (List_Pipelines K ns) w) = Inr ps \<and>
     (\<forall>s. fst (run_state (List_PipelinesBySecret K ns s) w) =
        Inr (filter (\<lambda>p. s \<in> set (index_pipeline (OPipeline p))) ps))"

text \<open>An event is about a secret when the objects it carries are versions of that secret.\<close>

definition secret_event :: "string \<Rightarrow> string \<Rightarrow> obj_event \<Rightarrow> bool" where
  "secret_event sn ns e \<longleftrightarrow>
     list_all (\<lambda>ob. \<exists>s. ob = OSecret s \<and> om_Name (sec_Meta s) = sn \<and> om_Namespace (sec_Meta s) = ns) (event_objects e)"

definition refers_to :: "string \<Rightarrow> Pipeline \<Rightarrow> bool" where
  "refers_to sn p \<longleftrightarrow> sn \<in> sr_SecretName ` set (ps_SecretRefs (p_Spec p))"

lemma event_objects_nonempty: "event_objects e \<noteq> []"
  by (cases e) auto

lemma secret_wakes:
  assumes d: "delivers controller_of enq" and l: "index_lists K w ns ps" and e: "secret_event sn ns e"
  shows "enq (pipeline_setup K) e w = key_of ` {p \<in> set ps. refers_to sn p}"
proof -
  from l obtain w1 where l1: "run_state (List_PipelinesBySecret K ns sn) w =
      (Inr (filter (\<lambda>p. sn \<in> set (index_pipeline (OPipeline p))) ps), w1)"
    unfolding index_lists_def by (metis prod.collapse)
  have keys: "sn \<in> set (index_pipeline (OPipeline p)) \<longleftrightarrow> refers_to sn p" for p
    by (auto simp: index_pipeline_def secretNameIndex_def refers_to_def)
  have asked: "asks controller_of (pipeline_setup K) e w ob r \<longleftrightarrow> r \<in> key_of ` {p \<in> set ps. refers_to sn p}"
    if "ob \<in> set (event_objects e)" for ob r
  proof -
    from e that obtain s where s: "ob = OSecret s" "om_Name (sec_Meta s) = sn" "om_Namespace (sec_Meta s) = ns"
      by (auto simp: secret_event_def list_all_iff)
    have "run_state (List_PipelinesBySecret K (om_Namespace (obj_Meta ob)) (om_Name (obj_Meta ob))) w =
        (Inr (filter (\<lambda>p. sn \<in> set (index_pipeline (OPipeline p))) ps), w1)" by (simp add: s l1)
    from map_secret_requests [OF this] show ?thesis by (simp add: s(1) asks_pipeline_setup keys)
  qed
  obtain ob where "ob \<in> set (event_objects e)" using event_objects_nonempty by (meson list.set_sel(1))
  with asked show ?thesis by (auto simp: set_eq_iff delivers_iff [OF d])
qed

lemma project_wakes:
  assumes d: "delivers controller_of enq" and l: "index_lists K w ns ps"
    and ob: "\<And>ob. ob \<in> set (event_objects e) \<Longrightarrow> \<exists>pj. ob = OPipelineProject pj \<and> pj_Name pj = pn \<and> pj_Namespace pj = ns"
  shows "enq (pipeline_setup K) e w =
    (if passes project_predicates e then key_of ` {p \<in> set ps. member_of pn p} else {})"
proof -
  from l obtain w1 where l1: "run_state (List_Pipelines K ns) w = (Inr ps, w1)"
    unfolding index_lists_def by (metis prod.collapse)
  have "asks controller_of (pipeline_setup K) e w ob r \<longleftrightarrow>
      passes project_predicates e \<and> r \<in> key_of ` {p \<in> set ps. member_of pn p}" if "ob \<in> set (event_objects e)" for ob r
  proof -
    from ob [OF that] obtain pj where pj: "ob = OPipelineProject pj" "pj_Name pj = pn" "pj_Namespace pj = ns" by blast
    with map_project_requests [of K pj w ps w1] l1 show ?thesis by (simp add: asks_pipeline_setup)
  qed
  moreover have "event_objects e \<noteq> []" by (cases e) auto
  then obtain ob where "ob \<in> set (event_objects e)" by (meson list.set_sel(1))
  ultimately show ?thesis by (auto simp: set_eq_iff delivers_iff [OF d])
qed


section \<open>What a pass leaves to be woken for\<close>

text \<open>The pass asks to be run again: by an error, by a requeue, or after the resync interval.\<close>

definition looks_again :: "outcome \<Rightarrow> bool" where
  "looks_again out \<longleftrightarrow> snd out \<noteq> None \<or> Requeue (fst out) \<or> RequeueAfter (fst out) = resyncInterval"

text \<open>
  Or it stops for a reason outside itself: the spec does not render, the plan of the project
  does not apply to it, an instance rejected the configuration, the project is missing, or a
  secret it refers to does not exist or lacks the key. One reason is left: the secret could not
  be read for any other reason, which the code treats as if it were missing.
\<close>

definition stuck_on_config :: "lib \<Rightarrow> Pipeline \<Rightarrow> event set \<Rightarrow> bool" where
  "stuck_on_config L pipe E \<longleftrightarrow>
     (\<exists>err. RenderStreamConfig L (p_Spec pipe) = Inl err) \<or>
     (\<exists>body pn project err. RenderStreamConfig L (p_Spec pipe) = Inr body \<and>
        GetPipelineProject pn (p_Namespace pipe) (Inr project) \<in> E \<and>
        ApplyProjectIO L body (toRenderPlan (PlanFor project (p_Namespace pipe) (p_Name pipe))) = Inl err) \<or>
     (\<exists>u b e i st bd. StreamEnsured u (p_Name pipe) b (Some e) \<in> E \<and> err_kind e = ConfigRejectedError i st bd)"

definition awaits_project :: "Pipeline \<Rightarrow> event set \<Rightarrow> bool" where
  "awaits_project pipe E \<longleftrightarrow> (\<exists>ref e. ps_ProjectRef (p_Spec pipe) = Some ref \<and>
     GetPipelineProject (pr_Name ref) (p_Namespace pipe) (Inl e) \<in> E \<and> err_kind e = NotFound)"

definition awaits_secret :: "Pipeline \<Rightarrow> event set \<Rightarrow> bool" where
  "awaits_secret pipe E \<longleftrightarrow>
     (\<exists>ref\<in>set (ps_SecretRefs (p_Spec pipe)).
        (\<exists>e. GetSecret (sr_SecretName ref) (p_Namespace pipe) (Inl e) \<in> E \<and> err_kind e = NotFound) \<or>
        (\<exists>s. GetSecret (sr_SecretName ref) (p_Namespace pipe) (Inr s) \<in> E \<and> aget (sec_Data s) (sr_Key ref) = None))"

definition secret_unread :: "Pipeline \<Rightarrow> event set \<Rightarrow> bool" where
  "secret_unread pipe E \<longleftrightarrow>
     (\<exists>ref\<in>set (ps_SecretRefs (p_Spec pipe)). \<exists>e.
        GetSecret (sr_SecretName ref) (p_Namespace pipe) (Inl e) \<in> E \<and> err_kind e \<noteq> NotFound)"

definition accounted :: "lib \<Rightarrow> Pipeline \<Rightarrow> outcome \<Rightarrow> event list \<Rightarrow> bool" where
  "accounted L pipe out tr \<longleftrightarrow>
     looks_again out \<or> stuck_on_config L pipe (set tr) \<or> awaits_project pipe (set tr) \<or>
     awaits_secret pipe (set tr) \<or> secret_unread pipe (set tr)"

lemma accounted_again: "looks_again out \<Longrightarrow> accounted L pipe out tr"
  by (simp add: accounted_def)

lemma accounted_stuck: "stuck_on_config L pipe E \<Longrightarrow> E \<subseteq> set tr \<Longrightarrow> accounted L pipe out tr"
  unfolding accounted_def stuck_on_config_def by blast

lemma accounted_secret: "awaits_secret pipe E \<or> secret_unread pipe E \<Longrightarrow> E \<subseteq> set tr \<Longrightarrow> accounted L pipe out tr"
  unfolding accounted_def awaits_secret_def secret_unread_def by blast

lemma looks_again_update [simp]:
  "looks_again (after_status_update (requeue_after resyncInterval) r)"
  "looks_again (requeue_after resyncInterval, None)"
  by (auto simp: looks_again_def after_status_update_def split: option.split)

text \<open>Every computation only extends the trace.\<close>

lemma always_extends:
  assumes "emits (\<lambda>_. True) m" and "\<And>a tr'. set tr \<subseteq> set tr' \<Longrightarrow> Q a tr'"
  shows "always m Q tr"
  by (rule always_emits [OF assms(1)]) (use assms(2) in auto)

lemma always_resync:
  "always (writeClusterStatus L K pipe ph ac ai si h c sa resyncInterval) (accounted L pipe) tr"
  by (intro always_intros accounted_again) simp_all

lemma always_failed_extends:
  "(\<And>out tr'. set tr \<subseteq> set tr' \<Longrightarrow> Q out tr') \<Longrightarrow> always (markClusterFailed L K pipe reason msg d) Q tr"
  unfolding markClusterFailed_def by (rule always_extends) (intro emits_intros; simp)

text \<open>Fetching fails only for a secret that could not be read or lacks the key.\<close>

definition fetched :: "string \<Rightarrow> (string \<times> Secret) list \<Rightarrow> event set \<Rightarrow> bool" where
  "fetched ns secrets E \<longleftrightarrow> (\<forall>n s. aget secrets n = Some s \<longrightarrow> GetSecret n ns (Inr s) \<in> E)"

lemma fetched_mono: "fetched ns secrets E \<Longrightarrow> E \<subseteq> F \<Longrightarrow> fetched ns secrets F"
  unfolding fetched_def by blast

lemma always_fetch_secrets:
  assumes "fetched ns secrets (set tr)"
  shows "always (fetch_secrets K ns refs secrets) (\<lambda>r tr'. set tr \<subseteq> set tr' \<and> (case r of
      Inl _ \<Rightarrow> \<exists>ref\<in>set refs. \<exists>e. GetSecret (sr_SecretName ref) ns (Inl e) \<in> set tr'
    | Inr got \<Rightarrow> fetched ns got (set tr') \<and>
        (\<forall>n. n \<in> sr_SecretName ` set refs \<or> aget secrets n \<noteq> None \<longrightarrow> aget got n \<noteq> None))) tr"
  using assms
proof (induction refs arbitrary: secrets tr)
  case Nil
  then show ?case by (auto intro!: always_return)
next
  case (Cons ref refs)
  show ?case
  proof (cases "aget secrets (sr_SecretName ref)")
    case None
    have "fetched ns (aset (sr_SecretName ref) s secrets) (set (tr @ [GetSecret (sr_SecretName ref) ns (Inr s)]))" for s
      using Cons.prems by (auto simp: fetched_def split: if_splits)
    note step = Cons.IH [OF this]
    have "always (case r of
          Inl err \<Rightarrow> State_Monad.return (Inl (failed err))
        | Inr s \<Rightarrow> fetch_secrets K ns refs (aset (sr_SecretName ref) s secrets)) (\<lambda>r tr'. set tr \<subseteq> set tr' \<and> (case r of
          Inl _ \<Rightarrow> \<exists>ref\<in>set (ref # refs). \<exists>e. GetSecret (sr_SecretName ref) ns (Inl e) \<in> set tr'
        | Inr got \<Rightarrow> fetched ns got (set tr') \<and>
            (\<forall>n. n \<in> sr_SecretName ` set (ref # refs) \<or> aget secrets n \<noteq> None \<longrightarrow> aget got n \<noteq> None)))
        (tr @ [GetSecret (sr_SecretName ref) ns r])" for r failed
    proof (cases r)
      case (Inr s)
      show ?thesis
        unfolding Inr sum.case by (rule always_mono [OF step]) (auto split: sum.splits if_splits)
    qed (auto intro!: always_return)
    with None show ?thesis
      by (simp, intro always_bind always_call)
  next
    case (Some s)
    have same: "fetch_secrets K ns (ref # refs) secrets = fetch_secrets K ns refs secrets" by (simp add: Some)
    have names: "n \<in> sr_SecretName ` set (ref # refs) \<or> aget secrets n \<noteq> None \<longleftrightarrow>
        n \<in> sr_SecretName ` set refs \<or> aget secrets n \<noteq> None" for n
      using Some by (cases "n = sr_SecretName ref") simp_all
    show ?thesis
      unfolding same
    proof (rule always_mono [OF Cons.IH [OF Cons.prems]], elim conjE, intro conjI)
      fix r :: "error + (string \<times> Secret) list" and tr'
      assume "case r of
          Inl _ \<Rightarrow> \<exists>ref\<in>set refs. \<exists>e. GetSecret (sr_SecretName ref) ns (Inl e) \<in> set tr'
        | Inr got \<Rightarrow> fetched ns got (set tr') \<and>
            (\<forall>n. n \<in> sr_SecretName ` set refs \<or> aget secrets n \<noteq> None \<longrightarrow> aget got n \<noteq> None)"
      then show "case r of
          Inl _ \<Rightarrow> \<exists>ref\<in>set (ref # refs). \<exists>e. GetSecret (sr_SecretName ref) ns (Inl e) \<in> set tr'
        | Inr got \<Rightarrow> fetched ns got (set tr') \<and>
            (\<forall>n. n \<in> sr_SecretName ` set (ref # refs) \<or> aget secrets n \<noteq> None \<longrightarrow> aget got n \<noteq> None)"
      proof (cases r)
        case (Inr got)
        from \<open>case r of Inl _ \<Rightarrow> _ | Inr got \<Rightarrow> _\<close> show ?thesis unfolding Inr sum.case names .
      next
        case (Inl e)
        from \<open>case r of Inl _ \<Rightarrow> _ | Inr got \<Rightarrow> _\<close> show ?thesis unfolding Inl sum.case by (meson list.set_intros(2))
      qed
    qed
  qed
qed

lemma extract_values_fails:
  "extract_values secrets refs vals = Inl err \<Longrightarrow>
     \<exists>ref\<in>set refs. Option.bind (aget secrets (sr_SecretName ref)) (\<lambda>s. aget (sec_Data s) (sr_Key ref)) = None"
  by (induction secrets refs vals rule: extract_values.induct) (auto split: option.splits)

lemma always_fetchSecretValues:
  "always (fetchSecretValues K (p_Namespace pipe) (ps_SecretRefs (p_Spec pipe)))
     (\<lambda>res tr'. set tr \<subseteq> set tr' \<and>
        (case res of Inl _ \<Rightarrow> awaits_secret pipe (set tr') \<or> secret_unread pipe (set tr') | Inr _ \<Rightarrow> True)) tr"
proof -
  let ?ns = "p_Namespace pipe" and ?refs = "ps_SecretRefs (p_Spec pipe)"
  have lacking: "awaits_secret pipe E"
    if "extract_values got ?refs [] = Inl err" "fetched ?ns got E" "\<forall>n. n \<in> sr_SecretName ` set ?refs \<longrightarrow> aget got n \<noteq> None"
    for got err E
  proof -
    from extract_values_fails [OF that(1)] obtain ref where ref: "ref \<in> set ?refs"
      "Option.bind (aget got (sr_SecretName ref)) (\<lambda>s. aget (sec_Data s) (sr_Key ref)) = None" by blast
    from that(3) ref(1) obtain s where "aget got (sr_SecretName ref) = Some s" by blast
    with ref that(2) show ?thesis unfolding awaits_secret_def fetched_def by (intro bexI [of _ ref]) auto
  qed
  have unread: "awaits_secret pipe E \<or> secret_unread pipe E"
    if "ref \<in> set ?refs" "GetSecret (sr_SecretName ref) ?ns (Inl e) \<in> E" for ref e E
    using that unfolding awaits_secret_def secret_unread_def by (cases "err_kind e = NotFound") blast+
  show ?thesis
  proof (cases "?refs = []")
    case True
    then show ?thesis by (auto simp: fetchSecretValues_def intro!: always_return)
  next
    case False
    have "always (fetch_secrets K ?ns ?refs []) (\<lambda>r tr'. set tr \<subseteq> set tr' \<and>
        (case (case r of Inl err \<Rightarrow> Inl err | Inr secrets \<Rightarrow> extract_values secrets ?refs []) of
          Inl _ \<Rightarrow> awaits_secret pipe (set tr') \<or> secret_unread pipe (set tr') | Inr _ \<Rightarrow> True)) tr"
    proof (rule always_mono [OF always_fetch_secrets])
      show "fetched ?ns [] (set tr)" by (simp add: fetched_def)
    next
      fix r :: "error + (string \<times> Secret) list" and tr'
      assume "set tr \<subseteq> set tr' \<and> (case r of
          Inl _ \<Rightarrow> \<exists>ref\<in>set ?refs. \<exists>e. GetSecret (sr_SecretName ref) ?ns (Inl e) \<in> set tr'
        | Inr got \<Rightarrow> fetched ?ns got (set tr') \<and>
            (\<forall>n. n \<in> sr_SecretName ` set ?refs \<or> aget [] n \<noteq> None \<longrightarrow> aget got n \<noteq> None))"
      then show "set tr \<subseteq> set tr' \<and> (case (case r of Inl err \<Rightarrow> Inl err | Inr secrets \<Rightarrow> extract_values secrets ?refs []) of
          Inl _ \<Rightarrow> awaits_secret pipe (set tr') \<or> secret_unread pipe (set tr') | Inr _ \<Rightarrow> True)"
        using unread lacking by (cases r) (blast | simp split: sum.split)+
    qed
    with False show ?thesis unfolding fetchSecretValues_def by (simp add: always_return_bind)
  qed
qed

lemma always_stream_body:
  assumes "\<And>body tr'. set tr \<subseteq> set tr' \<Longrightarrow> Q (Inr body) tr'"
    and "\<And>failure tr'. set tr \<subseteq> set tr' \<Longrightarrow> (\<exists>err. RenderStreamConfig L (p_Spec pipe) = Inl err) \<or>
      (\<exists>body plan err. RenderStreamConfig L (p_Spec pipe) = Inr body \<and> ioPlan = Some plan \<and>
         ApplyProjectIO L body plan = Inl err) \<or> awaits_secret pipe (set tr') \<or> secret_unread pipe (set tr') \<Longrightarrow> Q (Inl failure) tr'"
  shows "always (stream_body L K pipe ioPlan) Q tr"
proof -
  have fetch: "always (fetchSecretValues K (p_Namespace pipe) (ps_SecretRefs (p_Spec pipe)))
      (\<lambda>r tr'. always (State_Monad.return (case r of Inl err \<Rightarrow> Inl (''SecretNotFound'', err_msg err)
         | Inr vals \<Rightarrow> Inr (substituteSecrets body (ps_SecretRefs (p_Spec pipe)) vals))) Q tr') tr" for body
    by (rule always_mono [OF always_fetchSecretValues]) (auto intro!: always_return assms split: sum.splits)
  show ?thesis
    unfolding stream_body_def
    using assms fetch by (auto intro!: always_return always_bind split: sum.split option.split)
qed

lemma accounted_rejected:
  "StreamEnsured u (p_Name pipe) b (Some e) \<in> set tr \<Longrightarrow> err_kind e = ConfigRejectedError i st bd \<Longrightarrow>
     accounted L pipe out tr"
  unfolding accounted_def stuck_on_config_def by blast

lemma accounted_error [simp]: "accounted L pipe (ok, Some e) tr"
  by (simp add: accounted_def looks_again_def)

lemma always_deploy_on_accounted:
  "always (deploy_on L K S pipe cn k body) (accounted L pipe) tr"
proof -
  let ?u = "clusterPodURL cn (p_Namespace pipe) k"
  have put: "always (streamActiveCondition S ?u (p_Name pipe)) (\<lambda>sa. always (writeClusterStatus L K pipe PhaseRunning cn
      (instanceName cn k) (p_Name pipe) h c (Some sa) resyncInterval) (accounted L pipe)) tr'" for h c tr'
    by (intro always_streamActiveCondition always_resync)
  have failed: "always (case err_kind e of
        ConfigRejectedError _ _ rb \<Rightarrow> markClusterFailed L K pipe ''StreamConfigInvalid'' rb 0
      | _ \<Rightarrow> State_Monad.return (ok, Some (wrap ''ensure stream: '' e))) (accounted L pipe) tr'"
    if "StreamEnsured ?u (p_Name pipe) body (Some e) \<in> set tr'" for e tr'
    by (intro always_case_kind always_failed_extends always_return)
      (use that in \<open>auto intro: accounted_rejected\<close>)
  have ensured: "always (ensureStreamPresent S ?u (p_Name pipe) body) (\<lambda>err tr'.
      pred_option (\<lambda>e. StreamEnsured ?u (p_Name pipe) body (Some e) \<in> set tr') err) tr'" for tr'
    unfolding ensureStreamPresent_def by (intro always_intros) (auto simp: pred_option_def split: option.splits)
  show ?thesis
    unfolding deploy_on_def need_deploy_def Let_def
    by (intro always_bind always_if always_return always_call always_mono [OF ensured] always_case_option)
      (auto intro!: put failed)
qed

lemma always_deploy_ready_accounted:
  assumes "\<And>plan. ioPlan = Some plan \<Longrightarrow> \<exists>pn project. GetPipelineProject pn (p_Namespace pipe) (Inr project) \<in> set tr \<and>
     plan = toRenderPlan (PlanFor project (p_Namespace pipe) (p_Name pipe))"
  shows "always (deploy_ready L K S pipe cn ioPlan ready load) (accounted L pipe) tr"
proof -
  have failed: "always (markClusterFailed L K pipe (fst failure) (snd failure) 0) (accounted L pipe) tr'"
    if "set tr \<subseteq> set tr'" and "(\<exists>err. RenderStreamConfig L (p_Spec pipe) = Inl err) \<or>
      (\<exists>body plan err. RenderStreamConfig L (p_Spec pipe) = Inr body \<and> ioPlan = Some plan \<and>
         ApplyProjectIO L body plan = Inl err) \<or> awaits_secret pipe (set tr') \<or> secret_unread pipe (set tr')" for failure tr'
  proof -
    have "stuck_on_config L pipe (set tr') \<or> awaits_secret pipe (set tr') \<or> secret_unread pipe (set tr')"
      using that assms unfolding stuck_on_config_def by blast
    then show ?thesis by (auto intro!: always_failed_extends intro: accounted_stuck accounted_secret)
  qed
  show ?thesis
    unfolding deploy_ready_def Let_def markClusterPending_def
    by (intro always_case_option always_bind always_stream_body always_case_sum always_resync
        always_deploy_on_accounted failed; simp)
qed


lemma always_schedule_accounted:
  assumes "\<And>plan. ioPlan = Some plan \<Longrightarrow> \<exists>pn project. GetPipelineProject pn (p_Namespace pipe) (Inr project) \<in> set tr \<and>
     plan = toRenderPlan (PlanFor project (p_Namespace pipe) (p_Name pipe))"
  shows "always (schedule_and_deploy L K S pipe cn ioPlan) (accounted L pipe) tr"
  unfolding schedule_and_deploy_def
  by (intro always_bind always_case_sum always_return always_readyClusterOrdinals always_loadByOrdinal
      always_deploy_ready_accounted) (use assms in auto)

lemma always_assigned_accounted:
  assumes plan: "\<And>plan. ioPlan = Some plan \<Longrightarrow> \<exists>pn project. GetPipelineProject pn (p_Namespace pipe) (Inr project) \<in> set tr \<and>
     plan = toRenderPlan (PlanFor project (p_Namespace pipe) (p_Name pipe))"
  shows "always (handleClusterAssigned L K S pipe clusterName ioPlan) (accounted L pipe) tr"
proof -
  have place: "always (schedule_and_deploy L K S pipe cn ioPlan) (accounted L pipe) tr'" if "set tr \<subseteq> set tr'" for cn tr'
    using that plan by (intro always_schedule_accounted) blast
  have migrate: "always (migrateFromOldCluster S pipe cn) (\<lambda>e. always (case e of
        Some e \<Rightarrow> State_Monad.return (ok, Some e) | None \<Rightarrow> schedule_and_deploy L K S pipe cn ioPlan)
        (accounted L pipe)) tr'" if tr': "set tr \<subseteq> set tr'" for cn tr'
  proof (rule always_extends)
    show "emits (\<lambda>_. True) (migrateFromOldCluster S pipe cn)"
      by (rule emits_mono [OF quiet_parts(3)]) simp
  qed (use tr' in \<open>intro always_case_option always_return place; auto\<close>)
  have children: "always (deletePodModeChildren K pipe) (\<lambda>e. always (case e of
        Some e \<Rightarrow> State_Monad.return (ok, Some e)
      | None \<Rightarrow> migrateFromOldCluster S pipe cn \<bind> (\<lambda>e. case e of
          Some e \<Rightarrow> State_Monad.return (ok, Some e) | None \<Rightarrow> schedule_and_deploy L K S pipe cn ioPlan))
        (accounted L pipe)) tr'" if tr': "set tr \<subseteq> set tr'" for cn tr'
  proof (rule always_extends)
    show "emits (\<lambda>_. True) (deletePodModeChildren K pipe)"
      by (rule emits_mono [OF quiet_parts(2)]) simp
  qed (use tr' in \<open>intro always_case_option always_return always_bind migrate; auto\<close>)
  show ?thesis
    unfolding handleClusterAssigned_def markClusterFailed_def
    by (intro always_bind always_call always_case_sum always_if always_return children always_resync) auto
qed

lemma always_project_accounted:
  assumes "ps_ProjectRef (p_Spec pipe) = Some ref"
  shows "always (handleProjectAssigned L K S pipe (pr_Name ref)) (accounted L pipe) tr"
proof -
  have missing: "accounted L pipe out tr'"
    if "GetPipelineProject (pr_Name ref) (p_Namespace pipe) (Inl e) \<in> set tr'" "err_kind e = NotFound" for e out tr'
    using that assms unfolding accounted_def awaits_project_def by blast
  show ?thesis
    unfolding handleProjectAssigned_def Let_def
    by (intro always_bind always_call always_case_sum always_if always_return always_failed_extends
        always_assigned_accounted) (auto intro!: missing)
qed

lemma always_live_accounted:
  assumes "stream_mode pipe" and "\<not> ps_Stopped (p_Spec pipe)"
  shows "always (reconcile_live L K S pipe) (accounted L pipe) tr"
proof (cases "AddFinalizer L (om_Finalizers (p_Meta pipe)) finalizerName")
  case (Pair fs added)
  have "always (case r of Some e \<Rightarrow> State_Monad.return (ok, Some e) | None \<Rightarrow> State_Monad.return (requeue, None))
      (accounted L pipe) tr'" for r tr'
    by (intro always_case_option always_return) (simp_all add: accounted_def looks_again_def)
  then show ?thesis
    using assms by (auto simp: reconcile_live_def Pair Let_def stream_mode_def split: option.split
        intro!: always_bind always_call always_project_accounted always_assigned_accounted always_return
          accounted_again simp: looks_again_def)
qed

section \<open>Properties\<close>



text \<open>A pipeline of project \<open>p\<close>, which does not exist.\<close>

definition orphan :: Pipeline where
  "orphan = (demo_pipe '''' False)\<lparr>p_Spec := (raw_spec ''raw'')\<lparr>ps_ProjectRef := Some \<lparr>pr_Name = ''p''\<rparr>\<rparr>\<rparr>"

definition orphan_kube :: "'w KubeClient" where
  "orphan_kube = (demo_kube orphan [])
     \<lparr>Get_PipelineProject := (\<lambda>_ _. State_Monad.return (Inl (Err NotFound ''not found'')))\<rparr>"

lemma orphan_run:
  "\<exists>p. run_state (Reconcile (table_lib sample_tbl) orphan_kube fc ''a'' ''ns'') (w, []) =
     ((ok, None), (w, [GetPipeline ''a'' ''ns'' (Inr orphan),
        GetPipelineProject ''p'' ''ns'' (Inl (Err NotFound ''not found'')), UpdateStatus p None]))"
proof -
  have st: "p_Status orphan = p_Status (demo_pipe '''' False)" "p_Meta orphan = p_Meta (demo_pipe '''' False)"
    by (simp_all add: orphan_def)
  have "ps_ProjectRef (p_Spec orphan) = Some \<lparr>pr_Name = ''p''\<rparr>" "\<not> ps_Stopped (p_Spec orphan)"
    by (simp_all add: orphan_def raw_spec_def)
  then show ?thesis
    by (simp add: Reconcile_def run_call orphan_kube_def reconcile_live_def st Let_def handleProjectAssigned_def
        markClusterFailed_def writeClusterStatus_def cluster_status_changed_def cond_differs_def after_status_update_def)
qed


text \<open>
  The one case happens: a secret that could not be read in time leaves the pipeline Failed, the
  streams untouched, and asks for nothing; only an event about the pipeline or the secret will
  have it looked at again.
\<close>

lemma unread_secret_not_retried:
  assumes "RenderStreamConfig L (p_Spec pipe) = Inr body" and "ps_SecretRefs (p_Spec pipe) = [ref]"
    and "run_state (Get_Secret K (sr_SecretName ref) (p_Namespace pipe)) w = (Inl e, w1)" and "err_kind e \<noteq> NotFound"
    and "\<And>q v. run_state (StatusUpdate_Pipeline K q) v = (None, v)" and "ready \<noteq> []"
  shows "\<exists>w' tr. run_state (deploy_ready L K S pipe cn None ready load) (w, []) = ((ok, None), (w', tr)) \<and>
    \<not> looks_again (ok, None) \<and> secret_unread pipe (set tr) \<and> \<not> list_ex (\<lambda>e. case e of StreamEnsured _ _ _ _ \<Rightarrow> True | _ \<Rightarrow> False) tr"
proof -
  from assms(6) obtain k where k: "pickInstance (if pst_AssignedCluster (p_Status pipe) = cn
      then pst_AssignedInstance (p_Status pipe) else '''') cn ready load = Some k"
    using pickInstance_None by (metis option.exhaust)
  have refs: "ps_SecretRefs (p_Spec pipe) \<noteq> []" "ref \<in> set (ps_SecretRefs (p_Spec pipe))" by (simp_all add: assms(2))
  have body: "run_state (stream_body L K pipe None) (w, []) =
      (Inl (''SecretNotFound'', err_msg e), (w1, [GetSecret (sr_SecretName ref) (p_Namespace pipe) (Inl e)]))"
    using assms(4) by (simp add: stream_body_def assms(1,2) fetchSecretValues_def run_call assms(3))
  have "\<exists>tr'. run_state (markClusterFailed L K pipe r m 0) (w1, tr) = ((ok, None), (w1, tr @ tr')) \<and>
      \<not> list_ex (\<lambda>e. case e of StreamEnsured _ _ _ _ \<Rightarrow> True | _ \<Rightarrow> False) tr'" for r m tr
    by (auto simp: markClusterFailed_def writeClusterStatus_def run_call assms(5) after_status_update_def Let_def)
  then obtain tr' where t: "run_state (markClusterFailed L K pipe ''SecretNotFound'' (err_msg e) 0)
      (w1, [GetSecret (sr_SecretName ref) (p_Namespace pipe) (Inl e)]) =
      ((ok, None), (w1, [GetSecret (sr_SecretName ref) (p_Namespace pipe) (Inl e)] @ tr'))"
    and quiet: "\<not> list_ex (\<lambda>e. case e of StreamEnsured _ _ _ _ \<Rightarrow> True | _ \<Rightarrow> False) tr'" by blast
  have "run_state (deploy_ready L K S pipe cn None ready load) (w, []) =
      ((ok, None), (w1, GetSecret (sr_SecretName ref) (p_Namespace pipe) (Inl e) # tr'))"
    using t by (simp add: deploy_ready_def Let_def k body)
  moreover have "secret_unread pipe (set (GetSecret (sr_SecretName ref) (p_Namespace pipe) (Inl e) # tr'))"
    using assms(4) refs(2) unfolding secret_unread_def by auto
  ultimately show ?thesis using quiet by (auto simp: looks_again_def resyncInterval_def)
qed

text \<open>
  C28: The watches reach whom they must, and nobody else. When a secret is created, changed or
  deleted, exactly the pipelines of its namespace that refer to it are asked to reconcile,
  whatever project they are in. When a project appears, exactly its members are, with secrets or
  without; when it is deleted nobody is; when it changes, exactly its members are or nobody is, and a change of what the routes
  mean for the stream of any pipeline of the namespace is never one that wakes nobody, because
  the API server gives every change of a spec a new generation.
\<close>

theorem watches_reach:
  assumes "delivers controller_of enq" and "index_lists K w ns ps"
    and "pj_Namespace old = ns" and "pj_Namespace new = ns" and "pj_Name old = pj_Name new"
    and "om_Generation (pj_Meta old) = om_Generation (pj_Meta new) \<Longrightarrow> pj_Spec old = pj_Spec new"
  shows "(\<forall>sn e. secret_event sn ns e \<longrightarrow> enq (pipeline_setup K) e w = key_of ` {q \<in> set ps. refers_to sn q}) \<and>
    enq (pipeline_setup K) (CreateEvent (OPipelineProject new)) w = key_of ` {q \<in> set ps. member_of (pj_Name new) q} \<and>
    enq (pipeline_setup K) (UpdateEvent (OPipelineProject old) (OPipelineProject new)) w =
      (if projectChangeRedeploysMembers old new then key_of ` {q \<in> set ps. member_of (pj_Name new) q} else {}) \<and>
    enq (pipeline_setup K) (DeleteEvent (OPipelineProject new)) w = {} \<and>
    (\<forall>n. PlanFor old ns n = PlanFor new ns n \<or> projectChangeRedeploysMembers old new)"
proof (intro conjI allI impI)
  show "enq (pipeline_setup K) (DeleteEvent (OPipelineProject new)) w = {}"
    using project_wakes [OF assms(1,2), of "DeleteEvent (OPipelineProject new)" "pj_Name new"] assms(4)
    by (simp add: project_predicates_def)
  show "enq (pipeline_setup K) e w = key_of ` {q \<in> set ps. refers_to sn q}" if "secret_event sn ns e" for sn e
    by (rule secret_wakes [OF assms(1,2) that])
  show "enq (pipeline_setup K) (CreateEvent (OPipelineProject new)) w = key_of ` {q \<in> set ps. member_of (pj_Name new) q}"
    using project_wakes [OF assms(1,2), of "CreateEvent (OPipelineProject new)" "pj_Name new"] assms(4)
    by (simp add: project_predicates_def)
  show "enq (pipeline_setup K) (UpdateEvent (OPipelineProject old) (OPipelineProject new)) w =
      (if projectChangeRedeploysMembers old new then key_of ` {q \<in> set ps. member_of (pj_Name new) q} else {})"
  proof (subst project_wakes [OF assms(1,2), where pn = "pj_Name new"])
    fix ob
    assume "ob \<in> set (event_objects (UpdateEvent (OPipelineProject old) (OPipelineProject new)))"
    then have "ob = OPipelineProject old \<or> ob = OPipelineProject new" by simp
    with assms(3-5) show "\<exists>pj. ob = OPipelineProject pj \<and> pj_Name pj = pj_Name new \<and> pj_Namespace pj = ns" by metis
  qed (simp add: project_predicates_def)
  show "PlanFor old ns n = PlanFor new ns n \<or> projectChangeRedeploysMembers old new" for n
  proof (cases "om_Generation (pj_Meta old) = om_Generation (pj_Meta new)")
    case True
    from assms(6) [OF True] show ?thesis by (simp add: PlanFor_def assms(5))
  qed (simp add: projectChangeRedeploysMembers_def)
qed

text \<open>One pipeline with a secret, in a project whose routes change.\<close>

definition watched_pipe :: Pipeline where
  "watched_pipe = orphan\<lparr>p_Spec := (p_Spec orphan)\<lparr>ps_SecretRefs := [\<lparr>sr_EnvVar = ''P'', sr_SecretName = ''s'', sr_Key = ''k''\<rparr>]\<rparr>\<rparr>"

definition watched_kube :: "unit KubeClient" where
  "watched_kube = failing_kube
     \<lparr>List_Pipelines := (\<lambda>_. State_Monad.return (Inr [watched_pipe])),
      List_PipelinesBySecret := (\<lambda>_ s. State_Monad.return
        (Inr (filter (\<lambda>p. s \<in> set (index_pipeline (OPipeline p))) [watched_pipe])))\<rparr>"

definition rerouted :: PipelineProject where
  "rerouted = (sample_project ''p'' [\<lparr>r_Name = ''r'', r_From = ''a'', r_To = [], r_Retention = None\<rparr>])
     \<lparr>pj_Meta := (sample_meta ''p'')\<lparr>om_Generation := 2\<rparr>\<rparr>"

definition ask_all :: "unit Setup \<Rightarrow> obj_event \<Rightarrow> unit \<Rightarrow> request set" where
  "ask_all c e w = {r. \<exists>ob\<in>set (event_objects e). asks (\<lambda>_. None) c e w ob r}"

theorem watches_reach_witness:
  "ask_all (pipeline_setup watched_kube) (CreateEvent (OSecret \<lparr>sec_Meta = sample_meta ''s'', sec_Data = []\<rparr>)) () = {(''a'', ''ns'')} \<and>
   ask_all (pipeline_setup watched_kube) (DeleteEvent (OSecret \<lparr>sec_Meta = sample_meta ''t'', sec_Data = []\<rparr>)) () = {} \<and>
   ask_all (pipeline_setup watched_kube) (UpdateEvent (OPipelineProject (sample_project ''p'' [])) (OPipelineProject rerouted)) () =
     {(''a'', ''ns'')}"
proof -
  have d: "delivers (\<lambda>_. None) ask_all" by (simp add: delivers_def ask_all_def)
  have l: "index_lists watched_kube () ''ns'' [watched_pipe]" by (simp add: index_lists_def watched_kube_def)
  have wp: "member_of ''p'' watched_pipe" "key_of watched_pipe = (''a'', ''ns'')"
    "ps_SecretRefs (p_Spec watched_pipe) = [\<lparr>sr_EnvVar = ''P'', sr_SecretName = ''s'', sr_Key = ''k''\<rparr>]"
    by (simp_all add: member_of_def key_of_def watched_pipe_def orphan_def)
  have pj: "pj_Name (sample_project ''p'' []) = ''p''" "pj_Name rerouted = ''p''" "pj_Namespace rerouted = ''ns''"
    "pj_Namespace (sample_project ''p'' []) = ''ns''" "om_Generation (pj_Meta (sample_project ''p'' [])) = 1"
    "om_Generation (pj_Meta rerouted) = 2"
    by (simp_all add: sample_project_def rerouted_def sample_meta_def)
  have refs: "refers_to sn watched_pipe \<longleftrightarrow> sn = ''s''" for sn by (simp add: refers_to_def wp(3))
  have members: "{q. q = watched_pipe \<and> member_of ''p'' q} = {watched_pipe}"
    "{q. q = watched_pipe \<and> refers_to ''s'' q} = {watched_pipe}" "{q. q = watched_pipe \<and> refers_to ''t'' q} = {}"
    using wp(1) refs by auto
  have events: "secret_event ''s'' ''ns'' (CreateEvent (OSecret \<lparr>sec_Meta = sample_meta ''s'', sec_Data = []\<rparr>))"
    "secret_event ''t'' ''ns'' (DeleteEvent (OSecret \<lparr>sec_Meta = sample_meta ''t'', sec_Data = []\<rparr>))"
    by (simp_all add: secret_event_def sample_meta_def)
  have redeploys: "projectChangeRedeploysMembers (sample_project ''p'' []) rerouted"
    by (simp add: projectChangeRedeploysMembers_def pj)
  from watches_reach [OF d l, where old = "sample_project ''p'' []" and new = rerouted] pj
  have w: "\<And>sn e. secret_event sn ''ns'' e \<Longrightarrow> ask_all (pipeline_setup watched_kube) e () = key_of ` {q \<in> set [watched_pipe]. refers_to sn q}"
    "ask_all (pipeline_setup watched_kube) (UpdateEvent (OPipelineProject (sample_project ''p'' [])) (OPipelineProject rerouted)) () =
      key_of ` {q \<in> set [watched_pipe]. member_of ''p'' q}"
    using redeploys by auto
  show ?thesis
    using w(2) w(1) [OF events(1)] w(1) [OF events(2)] by (simp add: wp(2) members)
qed

end
