(* ===== verification/Rpc_Catalog.thy ===== *)
theory Rpc_Catalog
  imports Rpc_Validate
begin

text \<open>
  Loading the component catalog, \<^verbatim>\<open>internal/api/catalog/catalog.go\<close>: the walks over the
  two embedded trees \<^verbatim>\<open>hints\<close> and \<^verbatim>\<open>data\<close>, the merge of every data file with its hint,
  and the singleton. The embedded file system is an argument; decoding one JSON file into its
  struct is a parameter. The lookups \<open>Get\<close> and \<open>All\<close> are with the validation that uses them.
\<close>

section \<open>Paths and trees\<close>

text \<open>\<open>path.Base\<close>, and \<open>path.Dir\<close> on the clean paths of a walk.\<close>

definition path_Base :: "string \<Rightarrow> string" where
  "path_Base p =
     (if p = '''' then ''.''
      else let q = rev (dropWhile (\<lambda>c. c = CHR ''/'') (rev p)) in
        if q = '''' then ''/'' else rev (takeWhile (\<lambda>c. c \<noteq> CHR ''/'') (rev q)))"

definition path_Dir :: "string \<Rightarrow> string" where
  "path_Dir p = (case dropWhile (\<lambda>c. c \<noteq> CHR ''/'') (rev p) of [] \<Rightarrow> ''.'' | _ # r \<Rightarrow> rev r)"

text \<open>An embedded tree, the entries of a directory in the order \<open>ReadDir\<close> lists them.\<close>

datatype node = File string | Dir "(string \<times> node) list"

type_synonym filesystem = "(string \<times> node) list"

text \<open>
  \<open>fs.WalkDir\<close>. The callback gets the path and the entry (none when the root cannot be opened),
  updates the variables it captured and returns an error or none.
\<close>

datatype walk_error = SkipDir | WalkError string

type_synonym 's visitor = "string \<Rightarrow> node option \<Rightarrow> 's \<Rightarrow> 's \<times> walk_error option"

fun walkDir :: "'s visitor \<Rightarrow> string \<Rightarrow> node \<Rightarrow> 's \<Rightarrow> 's \<times> walk_error option"
  and walk_entries :: "'s visitor \<Rightarrow> string \<Rightarrow> (string \<times> node) list \<Rightarrow> 's \<Rightarrow> 's \<times> walk_error option" where
  "walkDir fn name (File b) s = fn name (Some (File b)) s"
| "walkDir fn name (Dir es) s =
     (case fn name (Some (Dir es)) s of
        (s', Some SkipDir) \<Rightarrow> (s', None)
      | (s', Some e) \<Rightarrow> (s', Some e)
      | (s', None) \<Rightarrow> walk_entries fn name es s')"
| "walk_entries fn name [] s = (s, None)"
| "walk_entries fn name ((n, d) # es) s =
     (case walkDir fn (name @ ''/'' @ n) d s of
        (s', Some SkipDir) \<Rightarrow> (s', None)
      | (s', Some e) \<Rightarrow> (s', Some e)
      | (s', None) \<Rightarrow> walk_entries fn name es s')"

definition WalkDir :: "filesystem \<Rightarrow> string \<Rightarrow> 's visitor \<Rightarrow> 's \<Rightarrow> string + 's" where
  "WalkDir fs root fn s =
     (case (case aget fs root of None \<Rightarrow> fn root None s | Some d \<Rightarrow> walkDir fn root d s) of
        (s', Some (WalkError e)) \<Rightarrow> Inl e
      | (s', _) \<Rightarrow> Inr s')"

definition not_exist :: "string \<Rightarrow> string" where
  "not_exist p = ''open '' @ p @ '': file does not exist''"

section \<open>Hints\<close>

record componentHint =
  hint_BodyKind :: string
  hint_ReplicaSafety :: string
  hint_CompositeFields :: "CompositeField list"

text \<open>\<open>json.Unmarshal\<close> into the two structs.\<close>

record decoder =
  decode_hint :: "string \<Rightarrow> string + componentHint"
  decode_component :: "string \<Rightarrow> string + Component"

type_synonym hints = "(string \<times> componentHint) list"

definition hint_visit :: "decoder \<Rightarrow> hints visitor" where
  "hint_visit J p d out =
     (case d of
        None \<Rightarrow> (out, Some (if p = ''hints'' then SkipDir else WalkError (not_exist p)))
      | Some (Dir _) \<Rightarrow> (out, None)
      | Some (File b) \<Rightarrow>
          if \<not> HasSuffix p ''.json'' then (out, None)
          else case decode_hint J b of
              Inl e \<Rightarrow> (out, Some (WalkError (''parse '' @ p @ '': '' @ e)))
            | Inr h \<Rightarrow>
                (let category = path_Base (path_Dir p); name = TrimSuffix (path_Base p) ''.json''
                 in (aset (category @ ''/'' @ name) h out, None)))"

definition loadHints :: "decoder \<Rightarrow> filesystem \<Rightarrow> string + hints" where
  "loadHints J fs = WalkDir fs ''hints'' (hint_visit J) []"

section \<open>Components\<close>

definition overlay :: "componentHint option \<Rightarrow> Component \<Rightarrow> Component" where
  "overlay hint entry =
     (let entry = (case hint of
            None \<Rightarrow> entry
          | Some h \<Rightarrow>
              entry\<lparr>comp_BodyKind := (if comp_BodyKind entry = '''' then hint_BodyKind h else comp_BodyKind entry),
                   comp_ReplicaSafety :=
                     (if comp_ReplicaSafety entry = '''' then hint_ReplicaSafety h else comp_ReplicaSafety entry),
                   comp_CompositeFields :=
                     (if comp_CompositeFields entry = [] then hint_CompositeFields h else comp_CompositeFields entry)\<rparr>);
          entry = (if comp_BodyKind entry = '''' then entry\<lparr>comp_BodyKind := ''object''\<rparr> else entry)
      in if comp_ReplicaSafety entry = '''' then entry\<lparr>comp_ReplicaSafety := ''unknown''\<rparr> else entry)"

definition comp_key :: "Component \<Rightarrow> string" where
  "comp_key entry = comp_Category entry @ ''/'' @ comp_Name entry"

definition component_visit :: "decoder \<Rightarrow> hints \<Rightarrow> Catalog visitor" where
  "component_visit J hints p d c =
     (case d of
        None \<Rightarrow> (c, Some (WalkError (not_exist p)))
      | Some (Dir _) \<Rightarrow> (c, None)
      | Some (File b) \<Rightarrow>
          if \<not> HasSuffix p ''.json'' then (c, None)
          else case decode_component J b of
              Inl e \<Rightarrow> (c, Some (WalkError (''parse '' @ p @ '': '' @ e)))
            | Inr entry \<Rightarrow>
                let wantCategory = path_Base (path_Dir p) in
                if comp_Category entry \<noteq> wantCategory
                then (c, Some (WalkError (p @ '': category '' @ go_quote (comp_Category entry) @ '' != directory '' @
                        go_quote wantCategory)))
                else let entry = overlay (aget hints (comp_key entry)) entry in
                  (\<lparr>byKey = aset (comp_key entry) entry (byKey c), all_components = all_components c @ [entry]\<rparr>, None))"

definition Load :: "decoder \<Rightarrow> filesystem \<Rightarrow> string + Catalog" where
  "Load J fs =
     (case loadHints J fs of
        Inl err \<Rightarrow> Inl err
      | Inr hints \<Rightarrow> WalkDir fs ''data'' (component_visit J hints) \<lparr>byKey = [], all_components = []\<rparr>)"

text \<open>The singleton: the first call loads, and every later one returns what that one did.\<close>

definition Default :: "decoder \<Rightarrow> filesystem \<Rightarrow> (string + Catalog) option \<Rightarrow> (string + Catalog) \<times> (string + Catalog) option" where
  "Default J fs once =
     (case once of
        Some loaded \<Rightarrow> (loaded, Some loaded)
      | None \<Rightarrow> let loaded = Load J fs in (loaded, Some loaded))"

section \<open>A walk is a pass over the files\<close>

text \<open>The files below a node, in the order of the walk, and a pass over them that stops at an error.\<close>

fun files_of :: "string \<Rightarrow> node \<Rightarrow> (string \<times> string) list"
  and files_of_entries :: "string \<Rightarrow> (string \<times> node) list \<Rightarrow> (string \<times> string) list" where
  "files_of name (File b) = [(name, b)]"
| "files_of name (Dir es) = files_of_entries name es"
| "files_of_entries name [] = []"
| "files_of_entries name ((n, d) # es) = files_of (name @ ''/'' @ n) d @ files_of_entries name es"

fun pass_files :: "'s visitor \<Rightarrow> (string \<times> string) list \<Rightarrow> 's \<Rightarrow> 's \<times> walk_error option" where
  "pass_files fn [] s = (s, None)"
| "pass_files fn ((p, b) # fs) s =
     (case fn p (Some (File b)) s of (s', Some e) \<Rightarrow> (s', Some e) | (s', None) \<Rightarrow> pass_files fn fs s')"

definition plain_visitor :: "'s visitor \<Rightarrow> bool" where
  "plain_visitor fn \<longleftrightarrow> (\<forall>p es s. fn p (Some (Dir es)) s = (s, None)) \<and>
     (\<forall>p b s. snd (fn p (Some (File b)) s) \<noteq> Some SkipDir)"

lemma pass_append:
  "pass_files fn (xs @ ys) s =
     (case pass_files fn xs s of (s', Some e) \<Rightarrow> (s', Some e) | (s', None) \<Rightarrow> pass_files fn ys s')"
  by (induction fn xs s rule: pass_files.induct) (auto split: prod.splits option.splits)

lemma pass_no_skip: "plain_visitor fn \<Longrightarrow> snd (pass_files fn fs s) \<noteq> Some SkipDir"
proof (induction fn fs s rule: pass_files.induct)
  case (2 fn p b fs s)
  then have "snd (fn p (Some (File b)) s) \<noteq> Some SkipDir" by (simp add: plain_visitor_def)
  with 2 show ?case by (auto split: prod.splits option.splits)
qed simp

lemma walk_is_pass:
  assumes "plain_visitor fn"
  shows "walkDir fn name d s = pass_files fn (files_of name d) s"
    and "walk_entries fn name es s = pass_files fn (files_of_entries name es) s"
  using assms
proof (induction fn name d s and fn name es s rule: walkDir_walk_entries.induct)
  case (1 fn name b s)
  then show ?case by (auto split: prod.split option.split)
next
  case (2 fn name es s)
  have "fn name (Some (Dir es)) s = (s, None)" using 2(2) by (simp add: plain_visitor_def)
  with 2 show ?case by simp
next
  case (4 fn name n d es s)
  then show ?case
    using pass_no_skip [OF 4(3), of "files_of (name @ ''/'' @ n) d" s]
    by (auto simp: pass_append split: prod.split option.split walk_error.split)
qed simp_all


lemma plain_visitors: "plain_visitor (hint_visit J)" "plain_visitor (component_visit J hints)"
  by (simp_all add: plain_visitor_def hint_visit_def component_visit_def Let_def split: sum.split)

lemma WalkDir_Inr:
  assumes "plain_visitor fn" and "aget fs root = Some d"
  shows "WalkDir fs root fn s = Inr s' \<longleftrightarrow> pass_files fn (files_of root d) s = (s', None)"
  using pass_no_skip [OF assms(1), of "files_of root d" s]
  by (auto simp: WalkDir_def assms(2) walk_is_pass [OF assms(1)] split: prod.splits option.splits walk_error.splits)

definition is_json :: "string \<times> string \<Rightarrow> bool" where
  "is_json f \<longleftrightarrow> HasSuffix (fst f) ''.json''"

section \<open>What is loaded\<close>

definition hint_key :: "string \<Rightarrow> string" where
  "hint_key p = path_Base (path_Dir p) @ ''/'' @ TrimSuffix (path_Base p) ''.json''"

lemma hint_visit_file:
  "hint_visit J p (Some (File b)) out =
     (if \<not> HasSuffix p ''.json'' then (out, None)
      else case decode_hint J b of
          Inl e \<Rightarrow> (out, Some (WalkError (''parse '' @ p @ '': '' @ e)))
        | Inr h \<Rightarrow> (aset (hint_key p) h out, None))"
  by (simp add: hint_visit_def hint_key_def Let_def split: sum.split)

text \<open>Every hint file is decoded and filed under its directory and name, and nothing else is.\<close>

lemma pass_hints:
  assumes "pass_files (hint_visit J) fs out = (out', None)"
  shows "(\<forall>f\<in>set (filter is_json fs). aget out' (hint_key (fst f)) \<noteq> None) \<and>
    (\<forall>k. aget out k \<noteq> None \<longrightarrow> aget out' k \<noteq> None) \<and>
    (\<forall>k h. aget out' k = Some h \<longrightarrow> aget out k = Some h \<or>
       (\<exists>f\<in>set (filter is_json fs). hint_key (fst f) = k \<and> decode_hint J (snd f) = Inr h))"
  using assms
proof (induction fs arbitrary: out)
  case (Cons f fs)
  obtain p b where f: "f = (p, b)" by fastforce
  show ?case
  proof (cases "HasSuffix p ''.json''")
    case False
    with Cons.prems have "pass_files (hint_visit J) fs out = (out', None)" by (simp add: f hint_visit_file)
    from Cons.IH [OF this] False show ?thesis by (auto simp: f is_json_def)
  next
    case True
    with Cons.prems obtain h where h: "decode_hint J b = Inr h"
      and rest: "pass_files (hint_visit J) fs (aset (hint_key p) h out) = (out', None)"
      by (auto simp: f hint_visit_file split: sum.splits)
    note IH = Cons.IH [OF rest]
    have "aget out k = Some ha \<or> (\<exists>g\<in>set (filter is_json (f # fs)). hint_key (fst g) = k \<and> decode_hint J (snd g) = Inr ha)"
      if "aget out' k = Some ha" for k ha
      using IH that True h by (cases "k = hint_key p") (force simp: f is_json_def)+
    moreover have "aget out' k \<noteq> None" if "aget out k \<noteq> None \<or> k = hint_key p" for k
    proof -
      from that have "aget (aset (hint_key p) h out) k \<noteq> None" by auto
      with IH show ?thesis by blast
    qed
    ultimately show ?thesis using IH by (auto simp: f)
  qed
qed simp

definition catalog_wf :: "Catalog \<Rightarrow> bool" where
  "catalog_wf c \<longleftrightarrow>
     (\<forall>category name e. cat_Get c category name = Some e \<longrightarrow>
        e \<in> set (cat_All c) \<and> comp_key e = category @ ''/'' @ name) \<and>
     (\<forall>e \<in> set (cat_All c). comp_BodyKind e \<noteq> '''' \<and> comp_ReplicaSafety e \<noteq> '''' \<and>
        cat_Get c (comp_Category e) (comp_Name e) \<noteq> None)"

lemma overlay_filled:
  "comp_BodyKind (overlay h e) \<noteq> ''''" "comp_ReplicaSafety (overlay h e) \<noteq> ''''"
  "comp_Category (overlay h e) = comp_Category e" "comp_Name (overlay h e) = comp_Name e"
  by (auto simp: overlay_def Let_def split: option.splits)

lemma comp_key_overlay: "comp_key (overlay h e) = comp_key e"
  by (simp add: comp_key_def overlay_filled)

text \<open>What a data file becomes.\<close>

definition loaded_from :: "decoder \<Rightarrow> hints \<Rightarrow> string \<times> string \<Rightarrow> Component \<Rightarrow> bool" where
  "loaded_from J hints f e \<longleftrightarrow> (\<exists>entry. decode_component J (snd f) = Inr entry \<and>
     comp_Category entry = path_Base (path_Dir (fst f)) \<and> e = overlay (aget hints (comp_key entry)) entry)"

lemma visit_component_loads:
  assumes "component_visit J hints p (Some (File b)) c = (c', None)"
  shows "if is_json (p, b)
    then \<exists>e. loaded_from J hints (p, b) e \<and>
      c' = \<lparr>byKey = aset (comp_key e) e (byKey c), all_components = all_components c @ [e]\<rparr>
    else c' = c"
  using assms by (auto simp: component_visit_def is_json_def loaded_from_def Let_def split: sum.splits if_splits)

lemma catalog_wf_add:
  assumes "catalog_wf c" and "loaded_from J hints f e"
    and keys: "\<And>k x. aget (byKey c) k = Some x \<Longrightarrow> x \<in> set (all_components c) \<and> comp_key x = k"
  shows "catalog_wf \<lparr>byKey = aset (comp_key e) e (byKey c), all_components = all_components c @ [e]\<rparr>"
  using assms by (auto simp: catalog_wf_def cat_Get_def cat_All_def loaded_from_def overlay_filled comp_key_def)

lemma pass_components:
  assumes "pass_files (component_visit J hints) fs c = (c', None)" and "catalog_wf c"
    and "\<And>k x. aget (byKey c) k = Some x \<Longrightarrow> x \<in> set (all_components c) \<and> comp_key x = k"
  shows "catalog_wf c' \<and> (\<exists>es. cat_All c' = cat_All c @ es \<and> list_all2 (loaded_from J hints) (filter is_json fs) es)"
  using assms
proof (induction fs arbitrary: c)
  case (Cons f fs)
  obtain p b where f: "f = (p, b)" by fastforce
  from Cons.prems(1) obtain c1 where visit: "component_visit J hints p (Some (File b)) c = (c1, None)"
    and rest: "pass_files (component_visit J hints) fs c1 = (c', None)"
    by (auto simp: f split: prod.splits option.splits)
  show ?case
  proof (cases "is_json (p, b)")
    case False
    with visit_component_loads [OF visit] have "c1 = c" by simp
    with Cons.IH [OF rest] Cons.prems(2,3) False show ?thesis by (simp add: f)
  next
    case True
    with visit_component_loads [OF visit] obtain e where e: "loaded_from J hints (p, b) e"
      and c1: "c1 = \<lparr>byKey = aset (comp_key e) e (byKey c), all_components = all_components c @ [e]\<rparr>" by auto
    have "x \<in> set (all_components c1) \<and> comp_key x = k" if "aget (byKey c1) k = Some x" for k x
      using that Cons.prems(3) by (auto simp: c1 split: if_splits)
    from Cons.IH [OF rest _ this] catalog_wf_add [OF Cons.prems(2) e Cons.prems(3)]
    obtain es where "catalog_wf c'" "cat_All c' = cat_All c1 @ es" "list_all2 (loaded_from J hints) (filter is_json fs) es"
      by (auto simp: c1)
    with e True show ?thesis by (auto simp: f c1 cat_All_def)
  qed
qed simp

section \<open>Properties\<close>

text \<open>
  C40: A catalog that loads is complete and well formed: it holds, in the order of the walk, one
  entry for each JSON file below the data directory, at whatever depth, decoded, in the
  category of its directory and completed from its hint; every entry has a body kind and a
  replica safety and is found under its category and name by the lookup that validation uses;
  and the lookup returns loaded entries only.
\<close>

theorem Load_well_formed:
  assumes "Load J fs = Inr c"
  shows "catalog_wf c \<and> (\<exists>hints d. loadHints J fs = Inr hints \<and> aget fs ''data'' = Some d \<and>
     list_all2 (loaded_from J hints) (filter is_json (files_of ''data'' d)) (cat_All c))"
proof -
  from assms obtain hints where hints: "loadHints J fs = Inr hints"
    and walk: "WalkDir fs ''data'' (component_visit J hints) \<lparr>byKey = [], all_components = []\<rparr> = Inr c"
    by (auto simp: Load_def split: sum.splits)
  from walk obtain d where d: "aget fs ''data'' = Some d"
    by (cases "aget fs ''data''") (auto simp: WalkDir_def component_visit_def)
  from walk have "pass_files (component_visit J hints) (files_of ''data'' d) \<lparr>byKey = [], all_components = []\<rparr> = (c, None)"
    by (simp add: WalkDir_Inr [OF plain_visitors(2) d])
  from pass_components [OF this] hints d show ?thesis by (simp add: catalog_wf_def cat_Get_def cat_All_def)
qed

text \<open>One component with a hint that fills in its body kind.\<close>

definition sample_tree :: filesystem where
  "sample_tree =
     [(''data'', Dir [(''inputs'', Dir [(''a.json'', File ''A''), (''README'', File '''')])]),
      (''hints'', Dir [(''inputs'', Dir [(''a.json'', File ''H'')])])]"

definition sample_decoder :: decoder where
  "sample_decoder =
     \<lparr>decode_hint = (\<lambda>_. Inr \<lparr>hint_BodyKind = ''composite'', hint_ReplicaSafety = '''', hint_CompositeFields = []\<rparr>),
      decode_component = (\<lambda>_. Inr ((bare_component ''a'' [])\<lparr>comp_BodyKind := '''', comp_ReplicaSafety := ''''\<rparr>))\<rparr>"

lemma sample_load:
  "\<exists>e. Load sample_decoder sample_tree = Inr \<lparr>byKey = [(''inputs/a'', e)], all_components = [e]\<rparr> \<and>
     comp_BodyKind e = ''composite'' \<and> comp_ReplicaSafety e = ''unknown''"
  by (simp add: Load_def loadHints_def WalkDir_def sample_tree_def hint_visit_def component_visit_def sample_decoder_def
      HasSuffix_def TrimSuffix_def path_Base_def path_Dir_def bare_component_def comp_key_def overlay_def Let_def)

theorem Load_well_formed_witness:
  "\<exists>c. Load sample_decoder sample_tree = Inr c \<and> catalog_wf c \<and> length (cat_All c) = 1"
proof -
  obtain e where "Load sample_decoder sample_tree = Inr \<lparr>byKey = [(''inputs/a'', e)], all_components = [e]\<rparr>"
    using sample_load by blast
  with Load_well_formed [OF this] show ?thesis by (simp add: cat_All_def)
qed

text \<open>No hints are no error, and the singleton loads once.\<close>

lemma hints_optional: "aget fs ''hints'' = None \<Longrightarrow> loadHints J fs = Inr []"
  by (simp add: loadHints_def WalkDir_def hint_visit_def)

lemma Default_once: "Default J fs (snd (Default J fs0 None)) = (Load J fs0, Some (Load J fs0))"
  by (simp add: Default_def Let_def)

end
