(* ===== verification/Rpc_Lifecycle.thy ===== *)
theory Rpc_Lifecycle
  imports Rpc_Oidc
begin

text \<open>
  The life of the API server: \<open>Start\<close> of \<^verbatim>\<open>internal/api/server.go\<close> with its listener
  goroutine, and the session collector \<open>startSessionStoreGC\<close> of \<^verbatim>\<open>internal/api/oidc.go\<close>.
  Three threads of control share the context, the error channel and the session store; every
  action of one of them, and every action of the surroundings, is one step of a transition
  function. Channel operations are as in Go: a send waits for room in the buffer, a receive from
  a closed and empty channel yields the zero value, and a select takes any branch that is ready.
\<close>

section \<open>The threads\<close>

text \<open>The listener goroutine: serving, about to send its error, about to close the channel, gone.\<close>

datatype listener = Serving | Sending error | Closing | Gone

text \<open>The caller of \<open>Start\<close>: in the select, waiting for \<open>Shutdown\<close>, returned.\<close>

datatype starter = Selecting | ShuttingDown | Returned "error option"

record life =
  lf_now :: int
  lf_done :: bool
  lf_listener :: listener
  lf_errCh :: "error list"
  lf_closed :: bool
  lf_start :: starter
  lf_gc :: bool
  lf_store :: "sessions option"

definition errCh_capacity :: nat where
  "errCh_capacity = 1"

definition newSessionStore :: sessions where
  "newSessionStore = []"

text \<open>The store \<open>New\<close> makes, only when OIDC is configured.\<close>

definition initial_store :: "Server \<Rightarrow> sessions option" where
  "initial_store S = (if s_OIDC S = None then None else Some newSessionStore)"

text \<open>Whether \<open>startSessionStoreGC\<close> starts its goroutine.\<close>

definition startSessionStoreGC :: "sessions option \<Rightarrow> bool" where
  "startSessionStoreGC store \<longleftrightarrow> store \<noteq> None"

definition Start :: "Server \<Rightarrow> int \<Rightarrow> life" where
  "Start S now =
     \<lparr>lf_now = now, lf_done = False, lf_listener = Serving, lf_errCh = [], lf_closed = False,
      lf_start = Selecting, lf_gc = startSessionStoreGC (initial_store S), lf_store = initial_store S\<rparr>"

section \<open>Steps\<close>

text \<open>
  The surroundings: time passes, the context is cancelled, a request changes the store,
  \<open>ListenAndServe\<close> returns (\<open>None\<close> for \<open>http.ErrServerClosed\<close>), \<open>Shutdown\<close> returns. The code:
  the listener sends or closes, the select takes its first or its second branch, the collector
  ticks or stops.
\<close>

datatype action =
    Elapse int
  | Cancel
  | Request sessions
  | ListenReturns "error option"
  | Send
  | Close
  | SelectDone
  | SelectErr
  | ShutdownReturns "error option"
  | Tick
  | StopGC

fun listener_step :: "action \<Rightarrow> life \<Rightarrow> life option" where
  "listener_step (ListenReturns err) s =
     (if lf_listener s = Serving
      then Some (s\<lparr>lf_listener := (case err of Some e \<Rightarrow> Sending e | None \<Rightarrow> Closing)\<rparr>) else None)"
| "listener_step Send s =
     (case lf_listener s of
        Sending e \<Rightarrow> if length (lf_errCh s) < errCh_capacity \<and> \<not> lf_closed s
          then Some (s\<lparr>lf_errCh := lf_errCh s @ [e], lf_listener := Closing\<rparr>) else None
      | _ \<Rightarrow> None)"
| "listener_step Close s =
     (if lf_listener s = Closing \<and> \<not> lf_closed s then Some (s\<lparr>lf_closed := True, lf_listener := Gone\<rparr>) else None)"
| "listener_step _ s = None"

fun start_step :: "action \<Rightarrow> life \<Rightarrow> life option" where
  "start_step SelectDone s =
     (if lf_start s = Selecting \<and> lf_done s then Some (s\<lparr>lf_start := ShuttingDown\<rparr>) else None)"
| "start_step SelectErr s =
     (if lf_start s \<noteq> Selecting then None
      else case lf_errCh s of
          e # es \<Rightarrow> Some (s\<lparr>lf_errCh := es, lf_start := Returned (Some e)\<rparr>)
        | [] \<Rightarrow> if lf_closed s then Some (s\<lparr>lf_start := Returned None\<rparr>) else None)"
| "start_step (ShutdownReturns err) s =
     (if lf_start s = ShuttingDown then Some (s\<lparr>lf_start := Returned err\<rparr>) else None)"
| "start_step _ s = None"

fun gc_step :: "action \<Rightarrow> life \<Rightarrow> life option" where
  "gc_step Tick s =
     (if lf_gc s then Some (s\<lparr>lf_store := map_option (store_gc oidcSessionTTL (lf_now s)) (lf_store s)\<rparr>) else None)"
| "gc_step StopGC s = (if lf_gc s \<and> lf_done s then Some (s\<lparr>lf_gc := False\<rparr>) else None)"
| "gc_step _ s = None"

definition life_step :: "action \<Rightarrow> life \<Rightarrow> life option" where
  "life_step a s =
     (case a of
        Elapse d \<Rightarrow> if 0 \<le> d then Some (s\<lparr>lf_now := lf_now s + d\<rparr>) else None
      | Cancel \<Rightarrow> Some (s\<lparr>lf_done := True\<rparr>)
      | Request m \<Rightarrow> Some (s\<lparr>lf_store := map_option (\<lambda>_. m) (lf_store s)\<rparr>)
      | ListenReturns err \<Rightarrow> listener_step a s
      | Send \<Rightarrow> listener_step a s
      | Close \<Rightarrow> listener_step a s
      | SelectDone \<Rightarrow> start_step a s
      | SelectErr \<Rightarrow> start_step a s
      | ShutdownReturns err \<Rightarrow> start_step a s
      | Tick \<Rightarrow> gc_step a s
      | StopGC \<Rightarrow> gc_step a s)"

text \<open>
  The documented behaviour of \<open>net/http\<close>: \<open>ListenAndServe\<close> returns \<open>ErrServerClosed\<close> only
  after \<open>Shutdown\<close> was called, and \<open>Start\<close> is the only caller.
\<close>

definition documented :: "life \<Rightarrow> action \<Rightarrow> bool" where
  "documented s a \<longleftrightarrow> a \<noteq> ListenReturns None \<or> lf_start s \<noteq> Selecting"

inductive run_of :: "life \<Rightarrow> action list \<Rightarrow> life \<Rightarrow> bool" for s0 where
  start: "run_of s0 [] s0"
| step: "run_of s0 as s \<Longrightarrow> documented s a \<Longrightarrow> life_step a s = Some s' \<Longrightarrow> run_of s0 (as @ [a]) s'"

inductive_cases run_of_snocE: "run_of s0 (as @ [a]) s'"

lemmas step_defs = life_step_def documented_def

section \<open>The invariant\<close>

text \<open>
  What the channel and the listener have to do with each other, and where a result comes from.
\<close>

definition channel_inv :: "life \<Rightarrow> bool" where
  "channel_inv s \<longleftrightarrow>
     (case lf_listener s of
        Serving \<Rightarrow> lf_errCh s = [] \<and> \<not> lf_closed s
      | Sending e \<Rightarrow> lf_errCh s = [] \<and> \<not> lf_closed s
      | Closing \<Rightarrow> length (lf_errCh s) \<le> 1 \<and> \<not> lf_closed s
      | Gone \<Rightarrow> length (lf_errCh s) \<le> 1 \<and> lf_closed s)"

definition origin_inv :: "action list \<Rightarrow> life \<Rightarrow> bool" where
  "origin_inv as s \<longleftrightarrow>
     (\<forall>e. lf_listener s = Sending e \<longrightarrow> ListenReturns (Some e) \<in> set as) \<and>
     (\<forall>e\<in>set (lf_errCh s). ListenReturns (Some e) \<in> set as) \<and>
     (lf_done s \<longrightarrow> Cancel \<in> set as) \<and> (lf_start s = ShuttingDown \<longrightarrow> Cancel \<in> set as) \<and>
     (lf_start s = Selecting \<longrightarrow> (lf_listener s = Closing \<or> lf_listener s = Gone) \<longrightarrow> lf_errCh s \<noteq> []) \<and>
     (\<forall>e. lf_start s = Returned (Some e) \<longrightarrow>
        ListenReturns (Some e) \<in> set as \<or> Cancel \<in> set as \<and> ShutdownReturns (Some e) \<in> set as) \<and>
     (lf_start s = Returned None \<longrightarrow> Cancel \<in> set as \<and> ShutdownReturns None \<in> set as)"

lemma channel_inv_step:
  assumes "channel_inv s" and "life_step a s = Some s'"
  shows "channel_inv s'"
  using assms
  by (cases a) (auto simp: channel_inv_def step_defs errCh_capacity_def split: listener.splits if_splits option.splits list.splits)

lemma origin_inv_frame:
  assumes "origin_inv as s" and "lf_listener s' = lf_listener s" and "lf_errCh s' = lf_errCh s"
    and "lf_start s' = lf_start s" and "lf_done s' \<Longrightarrow> lf_done s \<or> a = Cancel"
  shows "origin_inv (as @ [a]) s'"
  using assms unfolding origin_inv_def by auto

lemma origin_inv_step:
  assumes "channel_inv s" and "origin_inv as s" and "documented s a" and "life_step a s = Some s'"
  shows "origin_inv (as @ [a]) s'"
proof (cases a)
  case (ListenReturns err)
  with assms show ?thesis
    by (cases err) (auto simp: origin_inv_def channel_inv_def step_defs split: if_splits)
next
  case Send
  with assms show ?thesis
    by (auto simp: origin_inv_def channel_inv_def step_defs split: listener.splits if_splits)
next
  case SelectErr
  with assms show ?thesis
    by (auto simp: origin_inv_def channel_inv_def step_defs split: listener.splits if_splits list.splits)
next
  case Close
  with assms show ?thesis by (simp add: origin_inv_def step_defs split: if_splits) (clarify, simp)
next
  case SelectDone
  with assms show ?thesis by (simp add: origin_inv_def step_defs split: if_splits) (clarify, simp)
next
  case (ShutdownReturns err)
  with assms show ?thesis by (simp add: origin_inv_def step_defs split: if_splits) (clarify, simp)
qed (use assms in \<open>auto simp: step_defs split: if_splits intro!: origin_inv_frame [OF assms(2)]\<close>)

lemma run_inv: "run_of (Start S now) as s \<Longrightarrow> channel_inv s \<and> origin_inv as s"
proof (induction rule: run_of.induct)
  case start
  show ?case by (simp add: Start_def channel_inv_def origin_inv_def)
next
  case (step as s a s')
  then show ?case using channel_inv_step origin_inv_step by blast
qed


lemma run_of_append: "run_of s0 as s \<Longrightarrow> documented s a \<Longrightarrow> life_step a s = Some s' \<Longrightarrow> run_of s0 (as @ [a]) s'"
  by (rule run_of.step)

text \<open>The steps \<open>Start\<close> and its listener still have to make once something has happened.\<close>

fun left_to_do :: "listener \<Rightarrow> starter \<Rightarrow> nat" where
  "left_to_do l st =
     (case l of Serving \<Rightarrow> 3 | Sending _ \<Rightarrow> 2 | Closing \<Rightarrow> 1 | Gone \<Rightarrow> 0) +
     (case st of Selecting \<Rightarrow> 2 | ShuttingDown \<Rightarrow> 1 | Returned _ \<Rightarrow> 0)"

definition own_action :: "action \<Rightarrow> bool" where
  "own_action a = (case a of Send \<Rightarrow> True | Close \<Rightarrow> True | SelectDone \<Rightarrow> True | SelectErr \<Rightarrow> True
     | ListenReturns _ \<Rightarrow> True | ShutdownReturns _ \<Rightarrow> True | _ \<Rightarrow> False)"

lemma own_actions_finish:
  assumes "life_step a s = Some s'"
  shows "if own_action a then left_to_do (lf_listener s') (lf_start s') < left_to_do (lf_listener s) (lf_start s)
         else lf_listener s' = lf_listener s \<and> lf_start s' = lf_start s"
  using assms
  by (cases a) (auto simp: step_defs own_action_def split: listener.splits starter.splits if_splits option.splits list.splits)

section \<open>Properties\<close>

text \<open>
  C29: The server never hangs on its own channel and never reports the wrong end. In every
  interleaving, the listener's send finds room, the channel is closed once, and when the context
  is done or the listener has failed the select has a branch to take; \<open>Start\<close> returns an error
  only when the listener or the shutdown failed with it, and returns none only after the context
  was cancelled and the shutdown succeeded. Each thread makes a bounded number of steps.
\<close>

theorem server_lifecycle:
  assumes "run_of (Start S now) as s"
  shows "(case lf_listener s of Sending e \<Rightarrow> life_step Send s \<noteq> None | Closing \<Rightarrow> life_step Close s \<noteq> None | _ \<Rightarrow> True) \<and>
    (lf_start s = Selecting \<and> (lf_done s \<or> lf_listener s \<in> {Closing, Gone}) \<longrightarrow>
       life_step SelectDone s \<noteq> None \<or> life_step SelectErr s \<noteq> None) \<and>
    (\<forall>e. lf_start s = Returned (Some e) \<longrightarrow>
       ListenReturns (Some e) \<in> set as \<or> Cancel \<in> set as \<and> ShutdownReturns (Some e) \<in> set as) \<and>
    (lf_start s = Returned None \<longrightarrow> Cancel \<in> set as \<and> ShutdownReturns None \<in> set as) \<and>
    length (filter own_action as) \<le> 5"
proof -
  from run_inv [OF assms] have inv: "channel_inv s" "origin_inv as s" by simp_all
  have "length (filter own_action as) + left_to_do (lf_listener s) (lf_start s) \<le> 5"
    using assms
  proof (induction rule: run_of.induct)
    case (step as s a s')
    then show ?case using own_actions_finish [OF step(3)] by (auto split: if_splits)
  qed (simp add: Start_def)
  moreover have "(case lf_listener s of Sending e \<Rightarrow> life_step Send s \<noteq> None | Closing \<Rightarrow> life_step Close s \<noteq> None | _ \<Rightarrow> True)"
    using inv(1) by (auto simp: channel_inv_def step_defs errCh_capacity_def split: listener.split)
  moreover have "lf_start s = Selecting \<and> (lf_done s \<or> lf_listener s \<in> {Closing, Gone}) \<longrightarrow>
       life_step SelectDone s \<noteq> None \<or> life_step SelectErr s \<noteq> None"
    using inv(2) by (auto simp: origin_inv_def step_defs split: list.split)
  ultimately show ?thesis using inv(2) by (simp add: origin_inv_def)
qed

text \<open>The address is in use: the listener fails at once and \<open>Start\<close> returns its error.\<close>

theorem server_lifecycle_witness:
  "\<exists>s. run_of (Start sample_server 0) [ListenReturns (Some (Errorf ''in use'')), Send, Close, SelectErr] s \<and>
     lf_start s = Returned (Some (Errorf ''in use'')) \<and>
     length (filter own_action [ListenReturns (Some (Errorf ''in use'')), Send, Close, SelectErr]) \<le> 5"
proof -
  let ?e = "Errorf ''in use''" and ?s0 = "Start sample_server 0"
  let ?as = "[ListenReturns (Some ?e), Send, Close, SelectErr]"
  let ?s1 = "?s0\<lparr>lf_listener := Sending ?e\<rparr>" and ?s2 = "?s0\<lparr>lf_listener := Closing, lf_errCh := [?e]\<rparr>"
  let ?s3 = "?s0\<lparr>lf_listener := Gone, lf_errCh := [?e], lf_closed := True\<rparr>"
  let ?s4 = "?s0\<lparr>lf_listener := Gone, lf_closed := True, lf_start := Returned (Some ?e)\<rparr>"
  have "run_of ?s0 ([] @ [ListenReturns (Some ?e)]) ?s1"
    by (rule run_of.step [OF run_of.start]) (simp_all add: step_defs Start_def)
  then have "run_of ?s0 (([] @ [ListenReturns (Some ?e)]) @ [Send]) ?s2"
    by (rule run_of.step) (simp_all add: step_defs Start_def errCh_capacity_def)
  then have "run_of ?s0 ((([] @ [ListenReturns (Some ?e)]) @ [Send]) @ [Close]) ?s3"
    by (rule run_of.step) (simp_all add: step_defs Start_def)
  then have "run_of ?s0 (((([] @ [ListenReturns (Some ?e)]) @ [Send]) @ [Close]) @ [SelectErr]) ?s4"
    by (rule run_of.step) (simp_all add: step_defs Start_def)
  then have run: "run_of ?s0 ?as ?s4" by simp
  from server_lifecycle [OF run] run show ?thesis by (intro exI [of _ ?s4]) simp
qed

text \<open>A failure of the listener can go unreported: when the context is cancelled first.\<close>

lemma late_failure_unreported:
  "life_step SelectErr (s\<lparr>lf_start := ShuttingDown\<rparr>) = None"
  by (simp add: step_defs)

section \<open>The collector\<close>

text \<open>
  The collector only removes what no request could read any more: a tick changes nothing of what
  the store answers from then on, and after it stopped it never runs again.
\<close>

lemma tick_invisible:
  assumes "life_step Tick s = Some s'" and "lf_store s = Some m" and "distinct (map fst m)" and "lf_now s \<le> now"
  shows "\<exists>m'. lf_store s' = Some m' \<and>
    fst (store_get oidcSessionTTL now sid m') = fst (store_get oidcSessionTTL now sid m)"
  using assms store.get_after_gc [OF assms(3,4), of oidcSessionTTL sid] by (auto simp: step_defs split: if_splits)

lemma collector_stays_stopped:
  "life_step a s = Some s' \<Longrightarrow> \<not> lf_gc s \<Longrightarrow> \<not> lf_gc s'"
  by (cases a) (auto simp: step_defs split: if_splits listener.splits list.splits option.splits)

end
