(* ===== verification/Rpc_Mux.thy ===== *)
theory Rpc_Mux
  imports Rpc_Main
begin

text \<open>
  From a request on the wire to a handler: the route table of \<^verbatim>\<open>internal/api/server.go\<close> with the
  OIDC routes and the file server, and the \<open>ServeMux\<close> of the Go standard library it is registered
  with, as far as the patterns in use need it: methods, literal segments, single wildcards and the
  pattern of all paths. No pattern names a host, and the only one that ends in a slash is that of
  all paths, so the redirect to a subtree does not arise.
\<close>

section \<open>Patterns\<close>

datatype segment = Literal string | Wildcard string | Multi

text \<open>\<open>url.PathUnescape\<close>; the mux keeps a text it cannot decode.\<close>

definition hex_value :: "char \<Rightarrow> nat option" where
  "hex_value c =
     (let n = of_char c :: nat in
      if 48 \<le> n \<and> n \<le> 57 then Some (n - 48)
      else if 65 \<le> n \<and> n \<le> 70 then Some (n - 55)
      else if 97 \<le> n \<and> n \<le> 102 then Some (n - 87) else None)"

fun unescape :: "string \<Rightarrow> string option" where
  "unescape [] = Some []"
| "unescape (c # cs) =
     (if c \<noteq> CHR ''%'' then map_option (Cons c) (unescape cs)
      else case cs of
        x # y # rest \<Rightarrow>
          (case (hex_value x, hex_value y) of
             (Some h, Some l) \<Rightarrow> map_option (Cons (char_of (16 * h + l))) (unescape rest)
           | _ \<Rightarrow> None)
      | _ \<Rightarrow> None)"

definition pathUnescape :: "string \<Rightarrow> string" where
  "pathUnescape s = (case unescape s of None \<Rightarrow> s | Some t \<Rightarrow> t)"

fun parse_segments :: "string list \<Rightarrow> segment list" where
  "parse_segments [] = []"
| "parse_segments (p # ps) =
     (if p = '''' \<and> ps = [] then [Multi]
      else (if HasPrefix p ''{'' then Wildcard (butlast (tl p)) else Literal (pathUnescape p)) # parse_segments ps)"

definition parsePattern :: "string \<Rightarrow> string \<times> segment list" where
  "parsePattern s =
     (let m = takeWhile (\<lambda>c. c \<noteq> CHR '' '') s in
      if m = s then ('''', parse_segments (tl (Split CHR ''/'' s)))
      else (m, parse_segments (tl (Split CHR ''/'' (drop (length m + 1) s)))))"

fun wildcards :: "segment list \<Rightarrow> string list" where
  "wildcards [] = []"
| "wildcards (Wildcard n # ps) = n # wildcards ps"
| "wildcards (_ # ps) = wildcards ps"

text \<open>
  Two patterns conflict when some request matches both and neither is more specific; \<open>HandleFunc\<close>
  panics then.
\<close>

datatype relation = Equivalent | MoreGeneral | MoreSpecific | Disjoint | Overlaps

fun combineRelationships :: "relation \<Rightarrow> relation \<Rightarrow> relation" where
  "combineRelationships Equivalent b = b"
| "combineRelationships Disjoint b = Disjoint"
| "combineRelationships Overlaps b = (if b = Disjoint then Disjoint else Overlaps)"
| "combineRelationships a b =
     (if b = a \<or> b = Equivalent then a else if b = Disjoint then Disjoint else Overlaps)"

fun compareSegments :: "segment \<Rightarrow> segment \<Rightarrow> relation" where
  "compareSegments Multi Multi = Equivalent"
| "compareSegments Multi _ = MoreGeneral"
| "compareSegments _ Multi = MoreSpecific"
| "compareSegments (Wildcard _) (Wildcard _) = Equivalent"
| "compareSegments (Wildcard _) (Literal s) = (if s = ''/'' then Disjoint else MoreGeneral)"
| "compareSegments (Literal s) (Wildcard _) = (if s = ''/'' then Disjoint else MoreSpecific)"
| "compareSegments (Literal s) (Literal t) = (if s = t then Equivalent else Disjoint)"

fun compare_from :: "relation \<Rightarrow> segment list \<Rightarrow> segment list \<Rightarrow> relation" where
  "compare_from r (a # as) (b # bs) =
     (let r' = combineRelationships r (compareSegments a b) in
      if r' = Disjoint then Disjoint
      else if as = [] \<and> bs \<noteq> [] then (if a = Multi then combineRelationships r' MoreGeneral else Disjoint)
      else if as \<noteq> [] \<and> bs = [] then (if b = Multi then combineRelationships r' MoreSpecific else Disjoint)
      else compare_from r' as bs)"
| "compare_from r _ _ = r"

fun compareMethods :: "string \<Rightarrow> string \<Rightarrow> relation" where
  "compareMethods m n =
     (if m = n then Equivalent
      else if m = '''' then MoreGeneral
      else if n = '''' then MoreSpecific
      else if m = ''GET'' \<and> n = ''HEAD'' then MoreGeneral
      else if m = ''HEAD'' \<and> n = ''GET'' then MoreSpecific
      else Disjoint)"

definition conflictsWith :: "string \<times> segment list \<Rightarrow> string \<times> segment list \<Rightarrow> bool" where
  "conflictsWith p q =
     (let mrel = compareMethods (fst p) (fst q) in
      if mrel = Disjoint then False
      else combineRelationships mrel (compare_from Equivalent (snd p) (snd q)) \<in> {Equivalent, Overlaps})"

fun conflict_free :: "(string \<times> segment list) list \<Rightarrow> bool" where
  "conflict_free [] = True"
| "conflict_free (p # ps) = (list_all (\<lambda>q. \<not> conflictsWith p q) ps \<and> conflict_free ps)"

section \<open>Matching\<close>

text \<open>\<open>path.Clean\<close> of a path that starts with a slash, and the mux's \<open>cleanPath\<close>.\<close>

fun clean_elems :: "string list \<Rightarrow> string list \<Rightarrow> string list" where
  "clean_elems acc [] = rev acc"
| "clean_elems acc (e # es) =
     (if e = '''' \<or> e = ''.'' then clean_elems acc es
      else if e = ''..'' then clean_elems (tl acc) es
      else clean_elems (e # acc) es)"

definition rooted :: "string list \<Rightarrow> string" where
  "rooted es = CHR ''/'' # join_with CHR ''/'' es"

definition cleanPath :: "string \<Rightarrow> string" where
  "cleanPath p =
     (if p = '''' then ''/''
      else let np = rooted (clean_elems [] (Split CHR ''/'' p)) in
        if last p = CHR ''/'' \<and> np \<noteq> ''/'' then np @ ''/'' else np)"

text \<open>The segments of a path, decoded; a trailing slash is a segment of its own.\<close>

fun seg_parts :: "string list \<Rightarrow> string list" where
  "seg_parts [] = []"
| "seg_parts [p] = [if p = '''' then ''/'' else pathUnescape p]"
| "seg_parts (p # ps) = pathUnescape p # seg_parts ps"

definition path_segments :: "string \<Rightarrow> string list" where
  "path_segments path = seg_parts (tl (Split CHR ''/'' path))"

text \<open>
  The routing tree, a node as the patterns that share the way to it, each with the rest of its
  segments. A literal goes before a wildcard, and that before the rest of the path.
\<close>

fun literal_child :: "string \<Rightarrow> (segment list \<times> 'a) list \<Rightarrow> (segment list \<times> 'a) list" where
  "literal_child s [] = []"
| "literal_child s ((Literal t # ps, a) # rs) = (if t = s then (ps, a) # literal_child s rs else literal_child s rs)"
| "literal_child s (_ # rs) = literal_child s rs"

fun empty_child :: "(segment list \<times> 'a) list \<Rightarrow> (segment list \<times> 'a) list" where
  "empty_child [] = []"
| "empty_child ((Wildcard n # ps, a) # rs) = (ps, a) # empty_child rs"
| "empty_child (_ # rs) = empty_child rs"

fun leaf :: "segment list \<Rightarrow> (segment list \<times> 'a) list \<Rightarrow> 'a option" where
  "leaf ps [] = None"
| "leaf ps ((qs, a) # rs) = (if qs = ps then Some a else leaf ps rs)"

fun matchPath :: "(segment list \<times> 'a) list \<Rightarrow> string list \<Rightarrow> ('a \<times> string list) option" where
  "matchPath rs [] = map_option (\<lambda>a. (a, [])) (leaf [] rs)"
| "matchPath rs (seg # segs) =
     (if rs = [] then None
      else case matchPath (literal_child seg rs) segs of
        Some x \<Rightarrow> Some x
      | None \<Rightarrow>
          (case (if seg = ''/'' then None else matchPath (empty_child rs) segs) of
             Some (a, ms) \<Rightarrow> Some (a, seg # ms)
           | None \<Rightarrow> map_option (\<lambda>a. (a, [])) (leaf [Multi] rs)))"

definition with_method :: "string \<Rightarrow> ((string \<times> segment list) \<times> 'a) list \<Rightarrow> (segment list \<times> 'a) list" where
  "with_method m rs = map (\<lambda>((_, ps), a). (ps, a)) (filter (\<lambda>((n, _), _). n = m) rs)"

definition matchMethodAndPath :: "((string \<times> segment list) \<times> 'a) list \<Rightarrow> string \<Rightarrow> string list \<Rightarrow> ('a \<times> string list) option" where
  "matchMethodAndPath rs m segs =
     (case matchPath (with_method m rs) segs of
        Some x \<Rightarrow> Some x
      | None \<Rightarrow>
          (case (if m = ''HEAD'' then matchPath (with_method ''GET'' rs) segs else None) of
             Some x \<Rightarrow> Some x
           | None \<Rightarrow> matchPath (with_method '''' rs) segs))"

datatype 'a dispatch = Handle string 'a "(string \<times> string) list" | Redirect string | NoMatch

definition findHandler :: "(string \<times> 'a) list \<Rightarrow> string \<Rightarrow> string \<Rightarrow> 'a dispatch" where
  "findHandler rs m path =
     (if m \<noteq> ''CONNECT'' \<and> cleanPath path \<noteq> path then Redirect (cleanPath path)
      else case matchMethodAndPath (map (\<lambda>(p, a). (parsePattern p, (p, a))) rs) m (path_segments path) of
        None \<Rightarrow> NoMatch
      | Some ((p, a), ms) \<Rightarrow> Handle p a (zip (wildcards (snd (parsePattern p))) ms))"

section \<open>The table\<close>

datatype ('w, 'v) target = Api "'w handler" | Login "Request \<Rightarrow> ('v, Response) oidc" | Files "string \<Rightarrow> string"

definition mux_routes :: "'v IdP \<Rightarrow> 'w ApiEnv \<Rightarrow> Server \<Rightarrow> (string \<times> ('w, 'v) target) list" where
  "mux_routes I E S =
     map (\<lambda>(p, h). (p, Api h)) (registerRoutes E S) @
     (if s_OIDC S \<noteq> None then
        [(''GET /api/v1/auth/login'', Login (handleOIDCLogin I S)),
         (''GET /api/v1/auth/callback'', Login (handleOIDCCallback I S)),
         (''POST /api/v1/auth/refresh'', Login (handleOIDCRefresh I S)),
         (''POST /api/v1/auth/logout'', Login (handleOIDCLogout S))]
      else []) @
     [(''/'', Files spaCacheControl)]"

section \<open>What matching finds\<close>

fun covers :: "segment list \<Rightarrow> string list \<Rightarrow> string list \<Rightarrow> bool" where
  "covers [] segs ms \<longleftrightarrow> segs = [] \<and> ms = []"
| "covers (Literal s # ps) segs ms \<longleftrightarrow> (case segs of [] \<Rightarrow> False | seg # rest \<Rightarrow> seg = s \<and> covers ps rest ms)"
| "covers (Wildcard n # ps) segs ms \<longleftrightarrow>
     (case (segs, ms) of (seg # rest, v # vs) \<Rightarrow> seg \<noteq> ''/'' \<and> v = seg \<and> covers ps rest vs | _ \<Rightarrow> False)"
| "covers (Multi # ps) segs ms \<longleftrightarrow> ps = [] \<and> segs \<noteq> [] \<and> ms = []"

text \<open>At the first position where two patterns differ in kind, the more literal one goes first.\<close>

fun prefers :: "segment list \<Rightarrow> segment list \<Rightarrow> bool" where
  "prefers (Literal s # ps) (Literal t # qs) = prefers ps qs"
| "prefers (Literal s # ps) (_ # qs) = True"
| "prefers (Wildcard n # ps) (Wildcard k # qs) = prefers ps qs"
| "prefers (Wildcard n # ps) (Multi # qs) = True"
| "prefers [Multi] [Multi] = True"
| "prefers [] [] = True"
| "prefers _ _ = False"

lemma literal_child_iff: "(ps, a) \<in> set (literal_child s rs) \<longleftrightarrow> (Literal s # ps, a) \<in> set rs"
  by (induction s rs rule: literal_child.induct) auto

lemma empty_child_iff: "(ps, a) \<in> set (empty_child rs) \<longleftrightarrow> (\<exists>n. (Wildcard n # ps, a) \<in> set rs)"
  by (induction rs rule: empty_child.induct) auto

lemma leaf_Some: "leaf ps rs = Some a \<Longrightarrow> (ps, a) \<in> set rs"
  by (induction ps rs rule: leaf.induct) (auto split: if_splits)

lemma leaf_None: "leaf ps rs = None \<longleftrightarrow> (\<forall>a. (ps, a) \<notin> set rs)"
  by (induction ps rs rule: leaf.induct) (auto split: if_splits)

lemma covers_Nil: "covers ps [] ms \<longleftrightarrow> ps = [] \<and> ms = []"
  by (induction ps "[] :: string list" ms rule: covers.induct) (auto split: list.splits)

lemma covers_Cons:
  "covers ps (seg # segs) ms \<longleftrightarrow>
     (\<exists>qs. ps = Literal seg # qs \<and> covers qs segs ms) \<or>
     (\<exists>n qs vs. ps = Wildcard n # qs \<and> seg \<noteq> ''/'' \<and> ms = seg # vs \<and> covers qs segs vs) \<or>
     ps = [Multi] \<and> ms = []"
  by (cases "(ps, seg # segs, ms)" rule: covers.cases) (auto split: list.splits)

text \<open>
  The search finds a pattern that covers the path, if there is one, and of those one that no
  other is preferred to.
\<close>

definition best_cover :: "(segment list \<times> 'a) list \<Rightarrow> string list \<Rightarrow> 'a \<Rightarrow> string list \<Rightarrow> bool" where
  "best_cover rs segs a ms \<longleftrightarrow> (\<exists>ps. (ps, a) \<in> set rs \<and> covers ps segs ms \<and>
     (\<forall>qs b vs. (qs, b) \<in> set rs \<longrightarrow> covers qs segs vs \<longrightarrow> prefers ps qs))"

definition uncovered :: "(segment list \<times> 'a) list \<Rightarrow> string list \<Rightarrow> bool" where
  "uncovered rs segs \<longleftrightarrow> (\<forall>ps a ms. (ps, a) \<in> set rs \<longrightarrow> \<not> covers ps segs ms)"

lemma best_literal: "best_cover (literal_child seg rs) segs a ms \<Longrightarrow> best_cover rs (seg # segs) a ms"
  unfolding best_cover_def literal_child_iff
  by (elim exE conjE, rule_tac x = "Literal seg # ps" in exI) (auto simp: covers_Cons)

lemma best_wildcard:
  "best_cover (empty_child rs) segs a ms \<Longrightarrow> seg \<noteq> ''/'' \<Longrightarrow> uncovered (literal_child seg rs) segs \<Longrightarrow>
   best_cover rs (seg # segs) a (seg # ms)"
  unfolding best_cover_def uncovered_def literal_child_iff empty_child_iff
  by (elim exE conjE, rule_tac x = "Wildcard n # ps" in exI) (force simp: covers_Cons)

lemma best_multi:
  assumes "([Multi], a) \<in> set rs" and "uncovered (literal_child seg rs) segs"
    and "seg = ''/'' \<or> uncovered (empty_child rs) segs"
  shows "best_cover rs (seg # segs) a []"
proof -
  have "prefers [Multi] qs" if "(qs, b) \<in> set rs" "covers qs (seg # segs) vs" for qs b vs
    using that assms(2,3) unfolding covers_Cons uncovered_def literal_child_iff empty_child_iff
    by (elim disjE exE conjE; hypsubst?) (blast | simp)+
  with assms(1) show ?thesis unfolding best_cover_def by (intro exI [of _ "[Multi]"]) auto
qed

lemma uncovered_Cons:
  "uncovered rs (seg # segs) \<longleftrightarrow> uncovered (literal_child seg rs) segs \<and>
     (seg = ''/'' \<or> uncovered (empty_child rs) segs) \<and> (\<forall>a. ([Multi], a) \<notin> set rs)"
  unfolding uncovered_def literal_child_iff empty_child_iff covers_Cons by blast

lemma matchPath_spec:
  "case matchPath rs segs of None \<Rightarrow> uncovered rs segs | Some (a, ms) \<Rightarrow> best_cover rs segs a ms"
proof (induction segs arbitrary: rs)
  case Nil
  show ?case
    by (auto simp: covers_Nil best_cover_def uncovered_def leaf_None dest: leaf_Some split: option.split)
next
  case (Cons seg segs)
  show ?case
  proof (cases "rs = []")
    case False
    then show ?thesis
      using Cons [of "literal_child seg rs"] Cons [of "empty_child rs"]
      by (auto simp: uncovered_Cons leaf_None best_literal best_wildcard split: option.splits
          dest!: leaf_Some intro: best_multi)
  qed (simp add: uncovered_def)
qed

text \<open>Disjoint patterns have no path in common.\<close>

lemma combine_Disjoint: "combineRelationships r s = Disjoint \<longleftrightarrow> r = Disjoint \<or> s = Disjoint"
  by (cases r; cases s) auto

lemma compare_Disjoint:
  "compare_from r ps qs = Disjoint \<Longrightarrow> r \<noteq> Disjoint \<Longrightarrow> covers ps segs ms \<Longrightarrow> \<not> covers qs segs vs"
proof (induction r ps qs arbitrary: segs ms vs rule: compare_from.induct)
  case (1 r a as b bs)
  from 1(4) show ?case
  proof (cases segs)
    case (Cons seg rest)
    then show ?thesis
      using 1 by (cases a; cases b) (auto simp: Let_def covers_Nil combine_Disjoint split: list.splits if_splits)
  qed (simp add: covers_Nil)
qed auto

lemma covers_unique: "covers ps segs ms \<Longrightarrow> covers ps segs vs \<Longrightarrow> ms = vs"
proof (induction ps arbitrary: segs ms vs)
  case (Cons p ps)
  show ?case
    using Cons.prems by (cases p) (auto split: list.splits dest: Cons.IH)
qed simp

lemma matchMethodAndPath_sound:
  assumes "matchMethodAndPath rs m segs = Some (a, ms)"
  shows "\<exists>n ps. (n = m \<or> m = ''HEAD'' \<and> n = ''GET'' \<or> n = '''') \<and> ((n, ps), a) \<in> set rs \<and> covers ps segs ms"
proof -
  have "\<exists>ps. ((n, ps), a) \<in> set rs \<and> covers ps segs ms" if "matchPath (with_method n rs) segs = Some (a, ms)" for n
    using matchPath_spec [of "with_method n rs" segs] that by (auto simp: with_method_def best_cover_def)
  with assms show ?thesis
    by (auto simp: matchMethodAndPath_def split: option.splits if_splits)
qed

text \<open>A pattern that covers the path is found, or another of its method that is preferred to it.\<close>

lemma matchMethodAndPath_finds:
  assumes "((m, ps), a) \<in> set rs" and "covers ps segs vs"
  obtains qs b ms where "matchMethodAndPath rs m segs = Some (b, ms)" "((m, qs), b) \<in> set rs" "covers qs segs ms" "prefers qs ps"
proof -
  have "(ps, a) \<in> set (with_method m rs)" using assms(1) by (force simp: with_method_def)
  then obtain b ms where found: "matchPath (with_method m rs) segs = Some (b, ms)" "best_cover (with_method m rs) segs b ms"
    using matchPath_spec [of "with_method m rs" segs] assms(2) by (auto simp: uncovered_def split: option.splits)
  then obtain qs where "(qs, b) \<in> set (with_method m rs)" "covers qs segs ms" "prefers qs ps"
    unfolding best_cover_def using \<open>(ps, a) \<in> set (with_method m rs)\<close> assms(2) by blast
  with found(1) show thesis by (intro that [of b ms qs]) (auto simp: with_method_def matchMethodAndPath_def)
qed

section \<open>Paths from names\<close>

text \<open>A name that stands for itself in a path; every name of a Kubernetes object does.\<close>

definition plain :: "string \<Rightarrow> bool" where
  "plain s \<longleftrightarrow> s \<noteq> '''' \<and> s \<noteq> ''.'' \<and> s \<noteq> ''..'' \<and> CHR ''/'' \<notin> set s \<and> CHR ''%'' \<notin> set s"

fun fill :: "segment list \<Rightarrow> string list \<Rightarrow> string list" where
  "fill (Literal s # ps) vs = s # fill ps vs"
| "fill (Wildcard n # ps) (v # vs) = v # fill ps vs"
| "fill _ _ = []"

fun plain_pattern :: "segment list \<Rightarrow> bool" where
  "plain_pattern [] = True"
| "plain_pattern (Literal s # ps) = (plain s \<and> plain_pattern ps)"
| "plain_pattern (Wildcard n # ps) = plain_pattern ps"
| "plain_pattern (Multi # ps) = False"

lemma fill_plain: "plain_pattern ps \<Longrightarrow> list_all plain vs \<Longrightarrow> list_all plain (fill ps vs)"
  by (induction ps vs rule: fill.induct) auto

lemma covers_fill:
  "plain_pattern ps \<Longrightarrow> list_all plain vs \<Longrightarrow> length vs = length (wildcards ps) \<Longrightarrow> covers ps (fill ps vs) vs"
  by (induction ps vs rule: fill.induct) (auto simp: plain_def)

lemma pathUnescape_plain: "CHR ''%'' \<notin> set s \<Longrightarrow> pathUnescape s = s"
proof -
  have "CHR ''%'' \<notin> set s \<Longrightarrow> unescape s = Some s" by (induction s rule: unescape.induct) auto
  then show "CHR ''%'' \<notin> set s \<Longrightarrow> pathUnescape s = s" by (simp add: pathUnescape_def)
qed

lemma Split_rooted: "es \<noteq> [] \<Longrightarrow> list_all plain es \<Longrightarrow> Split CHR ''/'' (rooted es) = '''' # es"
  using Split_join [of es "CHR ''/''"] by (auto simp: rooted_def plain_def list_all_iff)

lemma clean_elems_plain: "list_all plain es \<Longrightarrow> clean_elems acc es = rev acc @ es"
  by (induction acc es rule: clean_elems.induct) (auto simp: plain_def)

lemma last_join: "es \<noteq> [] \<Longrightarrow> list_all plain es \<Longrightarrow> join_with c es \<noteq> [] \<and> last (join_with c es) = last (last es)"
  by (induction c es rule: join_with.induct) (auto simp: plain_def)

lemma cleanPath_rooted:
  assumes "es \<noteq> []" and "list_all plain es"
  shows "cleanPath (rooted es) = rooted es"
proof -
  have "last (rooted es) = last (last es)" using last_join [OF assms] by (simp add: rooted_def)
  moreover have "plain (last es)" using assms by (simp add: list_all_iff)
  then have "last (last es) \<noteq> CHR ''/''" by (auto simp: plain_def dest: last_in_set)
  moreover have "clean_elems [] (Split CHR ''/'' (rooted es)) = es"
    using clean_elems_plain [OF assms(2), of "[]"] by (simp add: Split_rooted [OF assms])
  ultimately show ?thesis by (simp add: cleanPath_def Let_def) (simp add: rooted_def)
qed

lemma seg_parts_plain: "list_all plain es \<Longrightarrow> seg_parts es = es"
  by (induction es rule: seg_parts.induct) (auto simp: plain_def pathUnescape_plain)

lemma path_segments_rooted: "es \<noteq> [] \<Longrightarrow> list_all plain es \<Longrightarrow> path_segments (rooted es) = es"
  by (simp add: path_segments_def Split_rooted seg_parts_plain)

section \<open>The patterns in use\<close>

definition api_patterns :: "string list" where
  "api_patterns = map fst (registerRoutes sample_env sample_server)"

lemma api_patterns_eq: "map fst (registerRoutes E S) = api_patterns"
  unfolding api_patterns_def by (simp only: registerRoutes_def list.map fst_conv)

lemmas api_patterns_code [code] = api_patterns_def [unfolded registerRoutes_def list.map fst_conv]

definition login_patterns :: "string list" where
  "login_patterns = [''GET /api/v1/auth/login'', ''GET /api/v1/auth/callback'', ''POST /api/v1/auth/refresh'',
     ''POST /api/v1/auth/logout'']"

definition all_patterns :: "string list" where
  "all_patterns = api_patterns @ login_patterns @ [''/'']"

lemma distinct_patterns: "distinct all_patterns"
  by code_simp

text \<open>Registration does not panic.\<close>

lemma patterns_conflict_free: "conflict_free (map parsePattern all_patterns)"
  by code_simp

text \<open>
  A pattern with a namespace is one below \<^verbatim>\<open>/api/v1/namespaces/{namespace}/\<close>; no other pattern
  of the API covers a path below that. A GET is the text's first word, and no pattern of the API
  is without a method or of the method HEAD.
\<close>

fun namespaced :: "segment list \<Rightarrow> bool" where
  "namespaced (Literal a # Literal b # Literal c # Wildcard n # _ # _) \<longleftrightarrow>
     a = ''api'' \<and> b = ''v1'' \<and> c = ''namespaces'' \<and> n = ''namespace''"
| "namespaced _ \<longleftrightarrow> False"

fun elsewhere :: "segment list \<Rightarrow> bool" where
  "elsewhere (Literal a # Literal b # Literal c # ps) \<longleftrightarrow> c \<noteq> ''namespaces'' \<or> ps = []"
| "elsewhere _ \<longleftrightarrow> False"

definition well_shaped :: "string \<Rightarrow> bool" where
  "well_shaped p \<longleftrightarrow> (case parsePattern p of (m, ps) \<Rightarrow>
     plain_pattern ps \<and> (if Contains p ''{namespace}'' then namespaced ps else elsewhere ps) \<and>
     m \<noteq> '''' \<and> m \<noteq> ''HEAD'' \<and> m \<noteq> ''CONNECT'' \<and> (m = ''GET'' \<longrightarrow> HasPrefix p ''GET ''))"

lemma api_patterns_shape: "list_all well_shaped api_patterns"
  by code_simp

text \<open>
  The one path that two patterns cover without the more specific being meant: that of a pipeline
  by the name of connections.
\<close>

definition get_pipeline :: string where
  "get_pipeline = ''GET /api/v1/namespaces/{namespace}/pipelines/{name}''"

definition get_connections :: string where
  "get_connections = ''GET /api/v1/namespaces/{namespace}/pipelines/connections''"

fun rivals :: "string \<times> string \<times> segment list \<Rightarrow> string \<times> string \<times> segment list \<Rightarrow> bool" where
  "rivals (p, m, ps) (q, n, qs) \<longleftrightarrow>
     p \<noteq> q \<and> m = n \<and> compare_from Equivalent ps qs \<noteq> Disjoint \<and> prefers qs ps"

definition rivals_in :: "(string \<times> string \<times> segment list) list \<Rightarrow> (string \<times> string) list" where
  "rivals_in T = concat (map (\<lambda>t. map (\<lambda>u. (fst t, fst u)) (filter (rivals t) T)) T)"

lemma rival_patterns:
  "parsePattern get_pipeline = (''GET'', [Literal ''api'', Literal ''v1'', Literal ''namespaces'', Wildcard ''namespace'',
     Literal ''pipelines'', Wildcard ''name''])"
  "parsePattern get_connections = (''GET'', [Literal ''api'', Literal ''v1'', Literal ''namespaces'', Wildcard ''namespace'',
     Literal ''pipelines'', Literal ''connections''])"
  by code_simp+

lemma one_rival: "rivals_in (map (\<lambda>p. (p, parsePattern p)) all_patterns) = [(get_pipeline, get_connections)]"
  by code_simp

lemma mux_table: "map fst (mux_routes I E S) = api_patterns @ (if s_OIDC S \<noteq> None then login_patterns else []) @ [''/'']"
  using api_patterns_eq [of E S] by (simp add: mux_routes_def login_patterns_def comp_def split_beta)

lemma distinct_table: "distinct (map fst (mux_routes I E S))"
  unfolding mux_table using distinct_patterns by (auto simp: all_patterns_def)

lemma in_table: "(p, t) \<in> set (mux_routes I E S) \<Longrightarrow> p \<in> set all_patterns"
  using mux_table [of I E S] by (force simp: all_patterns_def image_iff dest: arg_cong [of _ _ set] split: if_splits)

lemma api_in_table: "(p, h) \<in> set (registerRoutes E S) \<Longrightarrow> (p, Api h) \<in> set (mux_routes I E S) \<and> p \<in> set api_patterns"
  using api_patterns_eq [of E S] by (force simp: mux_routes_def dest: arg_cong [of _ _ set])

lemma table_Api: "(p, Api h) \<in> set (mux_routes I E S) \<Longrightarrow> (p, h) \<in> set (registerRoutes E S)"
  by (auto simp: mux_routes_def split: if_splits)

lemma one_target: "(p, t) \<in> set (mux_routes I E S) \<Longrightarrow> (p, u) \<in> set (mux_routes I E S) \<Longrightarrow> t = u"
  using distinct_table by (rule eq_key_imp_eq_value)

lemma conflict_free_middle: "conflict_free (xs @ ys @ zs) \<Longrightarrow> conflict_free (xs @ zs)"
proof (induction xs)
  case Nil
  then show ?case by (induction ys) auto
qed auto

lemma mux_conflict_free: "conflict_free (map parsePattern (map fst (mux_routes I E S)))"
  unfolding mux_table using patterns_conflict_free
  by (auto simp: all_patterns_def dest: conflict_free_middle)

lemma rivals_only:
  assumes "p \<in> set all_patterns" and "q \<in> set all_patterns" and "p \<noteq> q"
    and "parsePattern p = (m, ps)" and "parsePattern q = (m, qs)"
    and "covers ps segs vs" and "covers qs segs ms" and "prefers qs ps"
  shows "p = get_pipeline \<and> q = get_connections"
proof -
  have "compare_from Equivalent ps qs \<noteq> Disjoint"
    using compare_Disjoint [of Equivalent ps qs segs vs ms] assms(6,7) by auto
  then have "(p, q) \<in> set (rivals_in (map (\<lambda>p. (p, parsePattern p)) all_patterns))"
    using assms(1-5,8) by (force simp: rivals_in_def)
  then show ?thesis by (simp add: one_rival)
qed

lemma route_found:
  assumes "(p, h) \<in> set (registerRoutes E S)" and "parsePattern p = (m, ps)"
    and "length vs = length (wildcards ps)" and "list_all plain vs"
    and "p = get_pipeline \<Longrightarrow> last vs \<noteq> ''connections''"
  shows "findHandler (mux_routes I E S) m (rooted (fill ps vs)) = Handle p (Api h) (zip (wildcards ps) vs)"
proof -
  let ?rs = "map (\<lambda>(p, a). (parsePattern p, (p, a))) (mux_routes I E S)"
  have table: "(p, Api h) \<in> set (mux_routes I E S)" "p \<in> set api_patterns"
    using api_in_table [OF assms(1), of I] by simp_all
  then have "plain_pattern ps" "ps \<noteq> []"
    using api_patterns_shape assms(2) by (auto simp: list_all_iff well_shaped_def split: if_splits)
  then have plain: "list_all plain (fill ps vs)" "covers ps (fill ps vs) vs"
    using fill_plain covers_fill assms(3,4) by simp_all
  then have nonempty: "fill ps vs \<noteq> []" using \<open>ps \<noteq> []\<close> by (auto simp: covers_Nil)
  have "((m, ps), (p, Api h)) \<in> set ?rs" using table(1) assms(2) by force
  from matchMethodAndPath_finds [OF this plain(2)] obtain qs b ms
    where best: "matchMethodAndPath ?rs m (fill ps vs) = Some (b, ms)" "((m, qs), b) \<in> set ?rs"
      "covers qs (fill ps vs) ms" "prefers qs ps" .
  obtain q t where "b = (q, t)" by (cases b)
  note found = best [unfolded this]
  then have q: "(q, t) \<in> set (mux_routes I E S)" "parsePattern q = (m, qs)" by auto
  have "q = p"
  proof (rule ccontr)
    assume "q \<noteq> p"
    with rivals_only [OF in_table [OF table(1)] in_table [OF q(1)] _ assms(2) q(2) plain(2) found(3,4)]
    have rival: "p = get_pipeline" "q = get_connections" by auto
    then have "covers (snd (parsePattern get_connections)) (fill (snd (parsePattern get_pipeline)) vs) ms" "length vs = 2"
      using assms(2,3) q(2) found(3) by (auto simp: rival_patterns)
    then have "last vs = ''connections''"
      by (auto simp: rival_patterns length_Suc_conv numeral_2_eq_2 split: list.splits)
    with assms(5) rival(1) show False by simp
  qed
  then have "t = Api h" using one_target [OF q(1), of "Api h"] table(1) by simp
  moreover have "qs = ps" using q(2) assms(2) \<open>q = p\<close> by simp
  then have "ms = vs" using covers_unique [OF found(3)] plain(2) by simp
  ultimately show ?thesis
    using found(1) \<open>q = p\<close> assms(2)
    by (simp add: findHandler_def cleanPath_rooted path_segments_rooted plain nonempty)
qed

text \<open>The exception.\<close>

lemma connections_hide_pipeline:
  "\<exists>h. (get_connections, h) \<in> set (registerRoutes E S) \<and>
     findHandler (mux_routes I E S) ''GET'' (rooted [''api'', ''v1'', ''namespaces'', ns, ''pipelines'', ''connections'']) =
       Handle get_connections (Api h) [(''namespace'', ns)]" if "plain ns"
proof -
  have route: "(get_connections, authOrAnonymous S (allowlist S (handleNamespaceConnections E S))) \<in> set (registerRoutes E S)"
    by (simp add: registerRoutes_def get_connections_def)
  have "get_connections \<noteq> get_pipeline" by (simp add: get_connections_def get_pipeline_def)
  with route_found [OF route rival_patterns(2), of "[ns]"] that route show ?thesis by auto
qed

text \<open>The namespace that stands in a path, below which there is something.\<close>

definition path_namespace :: "string \<Rightarrow> string option" where
  "path_namespace path =
     (case path_segments path of
        a # b # c # ns # _ # _ \<Rightarrow> if a = ''api'' \<and> b = ''v1'' \<and> c = ''namespaces'' then Some ns else None
      | _ \<Rightarrow> None)"

lemma namespaced_path:
  assumes "covers ps (path_segments path) ms" and "namespaced ps"
  shows "\<exists>ns. path_namespace path = Some ns \<and> aget (zip (wildcards ps) ms) ''namespace'' = Some ns"
  using assms(2,1) by (cases ps rule: namespaced.cases) (auto simp: path_namespace_def covers_Nil split: list.splits)

lemma elsewhere_path:
  assumes "covers ps (path_segments path) ms" and "elsewhere ps"
  shows "path_namespace path = None"
  using assms(2,1) by (cases ps rule: elsewhere.cases) (auto simp: path_namespace_def split: list.splits)

lemma found_Api:
  assumes "findHandler (mux_routes I E S) m path = Handle p (Api h) vals"
  shows "\<exists>n ps ms. (p, h) \<in> set (registerRoutes E S) \<and> parsePattern p = (n, ps) \<and> well_shaped p \<and>
    (n = m \<or> m = ''HEAD'' \<and> n = ''GET'') \<and> covers ps (path_segments path) ms \<and> vals = zip (wildcards ps) ms"
proof -
  let ?rs = "map (\<lambda>(p, a). (parsePattern p, (p, a))) (mux_routes I E S)"
  from assms obtain ms where found: "matchMethodAndPath ?rs m (path_segments path) = Some ((p, Api h), ms)"
    and vals: "vals = zip (wildcards (snd (parsePattern p))) ms"
    by (auto simp: findHandler_def split: if_splits option.splits)
  from matchMethodAndPath_sound [OF found] obtain n ps where n: "n = m \<or> m = ''HEAD'' \<and> n = ''GET'' \<or> n = ''''"
    and mem: "((n, ps), (p, Api h)) \<in> set ?rs" and cov: "covers ps (path_segments path) ms" by blast
  from mem have "(p, Api h) \<in> set (mux_routes I E S)" and p: "parsePattern p = (n, ps)" by auto
  then have route: "(p, h) \<in> set (registerRoutes E S)" by (auto dest: table_Api)
  then have "well_shaped p" using api_in_table [of p h E S I] api_patterns_shape by (simp add: list_all_iff)
  with n p route vals cov show ?thesis by (auto simp: well_shaped_def)
qed

section \<open>Properties\<close>

text \<open>
  C23: Every route of the API can be reached: registration does not panic, with or without the
  login routes, and a request whose path is the pattern with names in place of its wildcards is
  handed to exactly that handler with exactly those names, whatever other routes there are. The
  one exception is reading a pipeline by the name of connections, whose path is that of the
  connections of the namespace.
\<close>

theorem routes_reached:
  assumes "(p, h) \<in> set (registerRoutes E S)" and "parsePattern p = (m, ps)"
    and "length vs = length (wildcards ps)" and "list_all plain vs"
    and "p = get_pipeline \<Longrightarrow> last vs \<noteq> ''connections''"
  shows "conflict_free (map parsePattern (map fst (mux_routes I E S))) \<and>
    findHandler (mux_routes I E S) m (rooted (fill ps vs)) = Handle p (Api h) (zip (wildcards ps) vs)"
  using route_found [OF assms] mux_conflict_free by blast

theorem routes_reached_witness:
  "\<exists>h. (get_pipeline, h) \<in> set (registerRoutes sample_env sample_server) \<and>
     findHandler (mux_routes sample_idp sample_env sample_server) ''GET'' ''/api/v1/namespaces/ns/pipelines/a'' =
       Handle get_pipeline (Api h) [(''namespace'', ''ns''), (''name'', ''a'')]"
proof -
  let ?h = "authOrAnonymous sample_server (allowlist sample_server (handleGet sample_env sample_server))"
  have route: "(get_pipeline, ?h) \<in> set (registerRoutes sample_env sample_server)"
    by (simp add: registerRoutes_def get_pipeline_def)
  have path: "rooted (fill (snd (parsePattern get_pipeline)) [''ns'', ''a'']) = ''/api/v1/namespaces/ns/pipelines/a''"
    by (simp add: rival_patterns rooted_def)
  have "findHandler (mux_routes sample_idp sample_env sample_server) ''GET'' ''/api/v1/namespaces/ns/pipelines/a'' =
      Handle get_pipeline (Api ?h) (zip [''namespace'', ''name''] [''ns'', ''a''])"
    using routes_reached [OF route rival_patterns(1), of "[''ns'', ''a'']" sample_idp] path
    by (simp add: plain_def rival_patterns)
  with route show ?thesis by auto
qed


lemma put_pattern:
  "parsePattern ''PUT /api/v1/namespaces/{namespace}/pipelines/{name}'' = (''PUT'', [Literal ''api'', Literal ''v1'',
     Literal ''namespaces'', Wildcard ''namespace'', Literal ''pipelines'', Wildcard ''name''])"
  by code_simp

lemma put_path: "path_namespace ''/api/v1/namespaces/ns/pipelines/a'' = Some ''ns''"
  by code_simp


text \<open>Paths that escape the pattern do not reach a handler, they are redirected.\<close>

lemma no_dot_segments: "m \<noteq> ''CONNECT'' \<Longrightarrow> cleanPath path \<noteq> path \<Longrightarrow> findHandler rs m path = Redirect (cleanPath path)"
  by (simp add: findHandler_def)

end
