(* ===== verification/Rpc_Deviations.thy ===== *)
theory Rpc_Deviations
  imports Rpc_Mux
begin

text \<open>
  Where the code does not do what it, a comment or a document says, as theorems over the models
  of the code. Some of these stand with the component they are about; here are the others.
\<close>

section \<open>Statuses that do not settle\<close>

text \<open>
  \<^verbatim>\<open>pipelineproject_controller.go:255\<close>. The statuses of no routes are an empty slice and not nil,
  while the field is omitted when it is empty and so reads back as nil: every pass over a project
  without routes that gets as far as its status writes it.
\<close>

lemma always_any: "(\<And>a tr'. Q a tr') \<Longrightarrow> always m Q tr"
  by (simp add: always_def wp_def split: prod.split)

lemma no_routes_always_written:
  assumes "pjs_Routes (pj_Spec project) = []" and "pjt_Routes (pj_Status project) = None" and "r_Streams R = Some M"
  shows "always (reconcile_routes_and_status L R project cc nc '''')
    (\<lambda>out tr. snd out = None \<longrightarrow> (\<exists>p r. UpdateProjectStatus p r \<in> set tr)) []"
proof -
  have "projectStatusChanged L project cc nc err (Some sts) cs" for err sts cs
    using assms(2) by (simp add: projectStatusChanged_def Let_def)
  then have "always (write_project_status L R project cc nc '''' (Some sts) cs)
      (\<lambda>out tr. snd out = None \<longrightarrow> (\<exists>p r. UpdateProjectStatus p r \<in> set tr)) tr" for sts cs tr
    unfolding write_project_status_def Let_def by (auto intro!: always_intros) blast
  note written = this
  have routes: "always (do { p \<leftarrow> reconcileRouteStreams R project; State_Monad.return (Some (fst p), snd p) })
      (\<lambda>rs tr. \<exists>sts. fst rs = Some sts) []"
    by (rule always_bind, rule always_any, rule always_return) simp
  have status: "always (do { cs \<leftarrow> reconcileCacheResources L R project;
        case snd cs of Some err \<Rightarrow> State_Monad.return (ok, Some (propagate ''reconcile cache resources: '' err))
        | None \<Rightarrow> write_project_status L R project cc nc '''' (fst rs) (fst cs) })
      (\<lambda>out tr. snd out = None \<longrightarrow> (\<exists>p r. UpdateProjectStatus p r \<in> set tr)) tr"
    if "\<exists>sts. fst rs = Some sts" for rs :: "ProjectRouteStatus list option \<times> error option" and tr
    using that by (auto intro!: always_bind always_any [where m = "reconcileCacheResources L R project"]
        always_case_option always_return simp: written)
  show ?thesis
    unfolding reconcile_routes_and_status_def
    by (rule always_bind, simp only: if_True refl, rule always_mono [OF routes], rule always_case_option)
      (simp_all only: status, simp add: always_return)
qed

text \<open>
  \<^verbatim>\<open>pipelineproject_routes.go:87\<close>. The status of a failed route carries the time of the pass, so
  it differs from the one the pass before left, and the status is written again.
\<close>

lemma failed_route_stamped:
  "always (ensure_route R M p u ret route)
     (\<lambda>st tr. rs_Phase st = projectRoutePhaseFailed \<longrightarrow>
        (\<exists>now. ClockRead now \<in> set tr \<and> map c_LastTransitionTime (rs_Conditions st) = [now])) []"
  unfolding ensure_route_def Let_def
  by (auto intro!: always_intros simp: failure_condition_def projectRoutePhaseFailed_def projectRoutePhaseReady_def)

section \<open>Names and placements\<close>

text \<open>\<^verbatim>\<open>projectroute.go:45\<close>. Durable names are not unique for a route and a target.\<close>

lemma durable_names_collide: "DurableName p ''a'' ''b-c'' = DurableName p ''a-b'' ''c''"
  by (simp add: DurableName_def)

text \<open>
  \<^verbatim>\<open>pipeline_cluster_assign.go:264\<close>. Stopping clears the placement and keeps the hash of the
  configuration; the paths of failure reset it.
\<close>

lemma stopping_keeps_hash:
  "pst_AssignedInstance (p_Status (set_stopped_status L pipe)) = '''' \<and>
   pst_StreamConfigHash (p_Status (set_stopped_status L pipe)) = pst_StreamConfigHash (p_Status pipe)"
  by (simp add: set_stopped_status_def Let_def)

section \<open>The API\<close>

text \<open>
  \<^verbatim>\<open>auth.go:124\<close>. A client certificate of the operator's configuration stays in the configuration
  of every request with a token, so the connection still presents the operator.
\<close>

lemma certificate_kept:
  assumes "clientForRequest E S r = Inr (TokenClient cfg)" and "s_RestConfig S = Some rest"
    and "rc_TLSClientConfig rest \<noteq> no_certificate"
  shows "ClientCertificate (rc_TLSClientConfig rest) \<in> set (credentials cfg)"
  using assms
  by (auto simp: clientForRequest_def Let_def token_config_def credentials_def kept_credentials_def split: if_splits option.splits)

text \<open>
  \<^verbatim>\<open>server.go:145\<close>. The list of all pipelines is read across namespaces whatever the allowlist is.
\<close>

lemma list_all_ignores_allowlist:
  assumes "\<not> s_AuthEnabled S"
  shows "\<exists>h. findHandler (mux_routes I E S) ''GET'' ''/api/v1/pipelines'' = Handle ''GET /api/v1/pipelines'' (Api h) [] \<and>
    always (h r) (\<lambda>rsp tr. AList OperatorClient KPipeline None \<in> set tr) []"
proof -
  let ?h = "authOrAnonymous S (handleListAll E S)"
  have parse: "parsePattern ''GET /api/v1/pipelines'' = (''GET'', [Literal ''api'', Literal ''v1'', Literal ''pipelines''])"
    by code_simp
  have "(''GET /api/v1/pipelines'', ?h) \<in> set (registerRoutes E S)" by (simp add: registerRoutes_def)
  from route_found [OF this parse, of "[]" I]
  have "findHandler (mux_routes I E S) ''GET'' ''/api/v1/pipelines'' = Handle ''GET /api/v1/pipelines'' (Api ?h) []"
    by (simp add: get_pipeline_def rooted_def)
  moreover have "always (?h r) (\<lambda>rsp tr. AList OperatorClient KPipeline None \<in> set tr) []"
    using assms unfolding authOrAnonymous_def handleListAll_def list_handler_def with_client_def clientForRequest_def Let_def
    by (auto intro!: always_intros simp: on_ok_def split: sum.split)
  ultimately show ?thesis by blast
qed

text \<open>
  \<^verbatim>\<open>server.go:198\<close>. The preview has no middleware, so with authentication on it never reads the
  project, not even for a caller with a token.
\<close>

lemma preview_never_authenticated:
  assumes "fresh r" and "s_AuthEnabled S"
  shows "emits (\<lambda>_. False) (handleRender E S r)"
proof -
  have "\<exists>err. clientForRequest E S r = Inl err"
    using assms by (auto simp: clientForRequest_def fresh_def context_token_def)
  then show ?thesis unfolding handleRender_def by (auto intro!: emits_intros split: sum.split option.split)
qed

text \<open>
  \<^verbatim>\<open>validate.go:129\<close>. A nested component that is not in an array is neither validated nor seen by
  the schema.
\<close>

lemma single_component_unchecked:
  assumes "cat_Get cat category (cs_Type c) = Some entry" and "cs_Type c \<noteq> ''''"
    and "comp_CompositeFields entry = [cf]" and "cf_Field cf \<noteq> ''''"
    and "json_fields V (cs_Config c) = Some m" and "aget m (cf_Field cf) = Some v" and "json_items V v = None"
    and "json_Unmarshal L (cs_Config c) = Inr (AObj obj)" and "cs_Config c \<noteq> ''''" and "cs_Config c \<noteq> ''null''"
  shows "validate_component L V cat path c category =
    Some (validateConfig V (path @ ''.config'') (marshal_or V (cs_Config c) (AObj (adel (cf_Field cf) obj))) (comp_ConfigSchema entry))"
  using assms by (simp add: validate_component_def Let_def nested_specs_def field_items_def is_direct_array_def stripCompositeFields_def)

text \<open>\<^verbatim>\<open>oidc.go:306\<close>. A refresh does not renew the age of the session.\<close>

lemma refresh_keeps_age:
  assumes "run_state (refresh_session I sid sess) (w, s) = (rsp, (w', s'))" and "aget (oidc_Sessions s) sid = Some sess"
    and "aget (oidc_Sessions s') sid = Some sess'"
  shows "os_createdAt sess' = os_createdAt sess"
  using assms
  by (auto simp: refresh_session_def idp_def put_session_def delete_session_def on_store_def store_put_def store_delete_def fail_def
      split: prod.splits sum.splits option.splits if_splits)

text \<open>
  \<^verbatim>\<open>handlers_logs.go:103\<close>. A line of 64 KiB ends the log of a pod: nothing that follows it is
  written, and where the writes succeed the socket is closed as if the log had ended.
\<close>

lemma long_line_ends_log:
  assumes "list_all (\<lambda>l. length l < 64 * 1024) before" and "64 * 1024 \<le> length long"
  shows "scan_lines (64 * 1024) (before @ long # after) = before"
  using assms unfolding scan_lines_def by (induction before) auto

end
