(* ===== verification/Rpc_Flow.thy ===== *)
theory Rpc_Flow
  imports Rpc_Project_Props
begin

text \<open>
  Messages between the members of a project. The pipeline controller deploys a text for each
  member (\<^verbatim>\<open>pipeline_project_assign.go\<close>), the project controller creates the JetStream streams
  (\<^verbatim>\<open>pipelineproject_routes.go\<close>), and neither knows what the other did: they agree through the
  names of \<^verbatim>\<open>projectroute.go\<close> only. Here the two are put together, read with the documented
  meaning of a Redpanda Connect configuration and of a durable consumer.
\<close>

section \<open>What a configuration connects to\<close>

text \<open>
  An endpoint at NATS JetStream: the servers, the subject and, for an input, the durable consumer.
  A component is a \<^verbatim>\<open>nats_jetstream\<close> or a \<^verbatim>\<open>broker\<close> over a list of components.
\<close>

record endpoint =
  ep_URLs :: "string list"
  ep_Subject :: "string option"
  ep_Durable :: "string option"

fun str_of :: "any option \<Rightarrow> string option" where
  "str_of (Some (AStr s)) = Some s"
| "str_of _ = None"

fun arr_of :: "any option \<Rightarrow> any list" where
  "arr_of (Some (AArr xs)) = xs"
| "arr_of _ = []"

fun keys_of :: "any option \<Rightarrow> (string \<times> any) list" where
  "keys_of (Some (AObj m)) = m"
| "keys_of _ = []"

definition jetstream :: "any \<Rightarrow> endpoint list" where
  "jetstream v =
     (case aget (keys_of (Some v)) ''nats_jetstream'' of
        None \<Rightarrow> []
      | Some j \<Rightarrow>
          [\<lparr>ep_URLs = map (\<lambda>u. case str_of (Some u) of None \<Rightarrow> '''' | Some s \<Rightarrow> s) (arr_of (aget (keys_of (Some j)) ''urls'')),
            ep_Subject = str_of (aget (keys_of (Some j)) ''subject''),
            ep_Durable = str_of (aget (keys_of (Some j)) ''durable'')\<rparr>])"

definition endpoints :: "string \<Rightarrow> any option \<Rightarrow> endpoint list" where
  "endpoints parts v =
     (case v of
        None \<Rightarrow> []
      | Some c \<Rightarrow> jetstream c @
          concat (map jetstream (arr_of (aget (keys_of (aget (keys_of (Some c)) ''broker'')) parts))))"

definition publishes :: "(string \<times> any) list \<Rightarrow> endpoint list" where
  "publishes doc = endpoints ''outputs'' (aget doc ''output'')"

definition consumes :: "(string \<times> any) list \<Rightarrow> endpoint list" where
  "consumes doc = endpoints ''inputs'' (aget doc ''input'')"

text \<open>The reading does not tell equivalent documents apart.\<close>

inductive_simps any_equiv_simps:
  "any_equiv (AStr s) v" "any_equiv (AArr xs) v" "any_equiv (AObj m) v" "any_equiv ANull v"
  "any_equiv (ABool b) v" "any_equiv (ANum n) v"

lemma str_of_equiv: "rel_option any_equiv v w \<Longrightarrow> str_of v = str_of w"
  by (cases v rule: str_of.cases; cases w) (auto simp: any_equiv_simps)

lemma arr_of_equiv: "rel_option any_equiv v w \<Longrightarrow> list_all2 any_equiv (arr_of v) (arr_of w)"
  by (cases v rule: arr_of.cases; cases w) (auto simp: any_equiv_simps)

lemma keys_of_equiv: "rel_option any_equiv v w \<Longrightarrow> rel_option any_equiv (aget (keys_of v) k) (aget (keys_of w) k)"
  by (cases v rule: keys_of.cases; cases w) (auto simp: any_equiv_simps)

lemma map_list_all2: "list_all2 R xs ys \<Longrightarrow> (\<And>x y. R x y \<Longrightarrow> f x = f y) \<Longrightarrow> map f xs = map f ys"
  by (induction rule: list_all2_induct) auto

lemma jetstream_equiv:
  assumes "any_equiv v w"
  shows "jetstream v = jetstream w"
proof -
  have "rel_option any_equiv (aget (keys_of (Some v)) ''nats_jetstream'') (aget (keys_of (Some w)) ''nats_jetstream'')"
    using assms by (intro keys_of_equiv) simp
  then show ?thesis
  proof (cases rule: option.rel_cases)
    case (Some j j')
    then have field: "rel_option any_equiv (aget (keys_of (Some j)) k) (aget (keys_of (Some j')) k)" for k
      by (intro keys_of_equiv) simp
    have "str_of (Some x) = str_of (Some y)" if "any_equiv x y" for x y
      using that by (intro str_of_equiv) simp
    then have "map (\<lambda>u. case str_of (Some u) of None \<Rightarrow> '''' | Some s \<Rightarrow> s) (arr_of (aget (keys_of (Some j)) ''urls'')) =
        map (\<lambda>u. case str_of (Some u) of None \<Rightarrow> '''' | Some s \<Rightarrow> s) (arr_of (aget (keys_of (Some j')) ''urls''))"
      by (intro map_list_all2 [OF arr_of_equiv [OF field]]) simp
    with Some str_of_equiv [OF field] show ?thesis by (simp add: jetstream_def)
  qed (simp add: jetstream_def)
qed

lemma endpoints_equiv:
  assumes "rel_option any_equiv v w"
  shows "endpoints parts v = endpoints parts w"
  using assms
proof (cases rule: option.rel_cases)
  case (Some c d)
  then have "list_all2 any_equiv (arr_of (aget (keys_of (aget (keys_of (Some c)) ''broker'')) parts))
      (arr_of (aget (keys_of (aget (keys_of (Some d)) ''broker'')) parts))"
    by (intro arr_of_equiv keys_of_equiv) simp
  from map_list_all2 [OF this jetstream_equiv] Some jetstream_equiv [of c d] show ?thesis
    by (simp add: endpoints_def)
qed (simp add: endpoints_def)

text \<open>The components that the rewriting builds.\<close>

lemma endpoints_buildOutput:
  "endpoints ''outputs'' (Some (buildOutput url subjects)) =
     map (\<lambda>s. \<lparr>ep_URLs = [url], ep_Subject = Some s, ep_Durable = None\<rparr>) subjects"
proof -
  have "concat (map (jetstream \<circ> natsOutput url) ss) = map (\<lambda>s. \<lparr>ep_URLs = [url], ep_Subject = Some s, ep_Durable = None\<rparr>) ss" for ss
    by (induction ss) (auto simp: jetstream_def natsOutput_def)
  then show ?thesis
    by (auto simp: buildOutput_def endpoints_def jetstream_def natsOutput_def split: list.split)
qed

lemma endpoints_buildInput:
  "endpoints ''inputs'' (Some (buildInput url incoming)) =
     map (\<lambda>i. \<lparr>ep_URLs = [url], ep_Subject = Some (ir_Subject i), ep_Durable = Some (ir_Durable i)\<rparr>) incoming"
proof -
  have "concat (map (jetstream \<circ> natsInput url) is) =
      map (\<lambda>i. \<lparr>ep_URLs = [url], ep_Subject = Some (ir_Subject i), ep_Durable = Some (ir_Durable i)\<rparr>) is" for "is"
    by (induction "is") (auto simp: jetstream_def natsInput_def)
  then show ?thesis
    by (auto simp: buildInput_def endpoints_def jetstream_def natsInput_def split: list.split)
qed

section \<open>What is deployed\<close>

text \<open>
  The text of a member before the values of its secrets are filled in: the plain rendering,
  rewritten for its plan. What is sent is this text with values for the variables that the
  member's secret references name, and the text itself when it has none.
\<close>

definition text_of :: "lib \<Rightarrow> PipelineSpec \<Rightarrow> ProjectIOPlan option \<Rightarrow> (string \<times> string) + string" where
  "text_of L spec io =
     (case RenderStreamConfig L spec of
        Inl err \<Rightarrow> Inl (''RenderError'', err)
      | Inr body \<Rightarrow>
          (case (case io of None \<Rightarrow> Inr body | Some plan \<Rightarrow> ApplyProjectIO L body plan) of
             Inl err \<Rightarrow> Inl (''RewriteError'', err)
           | Inr text \<Rightarrow> Inr text))"

definition member_plan :: "PipelineProject \<Rightarrow> Pipeline \<Rightarrow> ProjectIOPlan option" where
  "member_plan project pipe =
     (let plan = PlanFor project (p_Namespace pipe) (p_Name pipe) in
      if IsEmpty plan then None else Some (toRenderPlan plan))"

definition filled :: "Pipeline \<Rightarrow> string \<Rightarrow> string \<Rightarrow> bool" where
  "filled pipe plain text \<longleftrightarrow>
     (\<exists>vals. fst ` set vals \<subseteq> sr_EnvVar ` set (ps_SecretRefs (p_Spec pipe)) \<and>
        text = substituteSecrets plain (ps_SecretRefs (p_Spec pipe)) vals)"

lemma filled_none: "ps_SecretRefs (p_Spec pipe) = [] \<Longrightarrow> filled pipe plain text \<longleftrightarrow> text = plain"
  by (auto simp: filled_def substituteSecrets_def intro: exI [of _ "[]"])

definition sends :: "Pipeline \<Rightarrow> (string \<times> string) + string \<Rightarrow> event \<Rightarrow> bool" where
  "sends pipe b e \<longleftrightarrow> (case e of StreamEnsured u n text r \<Rightarrow> \<exists>plain. b = Inr plain \<and> filled pipe plain text | _ \<Rightarrow> True)"

definition sendable :: "Pipeline \<Rightarrow> (string \<times> string) + string \<Rightarrow> (string \<times> string) + string \<Rightarrow> bool" where
  "sendable pipe b b' \<longleftrightarrow> (case b' of Inl _ \<Rightarrow> True | Inr text \<Rightarrow> \<exists>plain. b = Inr plain \<and> filled pipe plain text)"

lemma extract_values_names:
  "extract_values secrets refs vals = Inr vals' \<Longrightarrow> fst ` set vals' \<subseteq> fst ` set vals \<union> sr_EnvVar ` set refs"
proof (induction secrets refs vals rule: extract_values.induct)
  case (2 secrets ref refs vals)
  from "2.prems" obtain raw where "Option.bind (aget secrets (sr_SecretName ref)) (\<lambda>s. aget (sec_Data s) (sr_Key ref)) = Some raw"
    and "extract_values secrets refs (aset (sr_EnvVar ref) raw vals) = Inr vals'"
    by (auto split: option.splits)
  from "2.IH" [OF this] show ?case by (auto simp: dom_update)
qed simp

lemma always_stream_body_text:
  "always (stream_body L K pipe io) (\<lambda>b' tr'. sendable pipe (text_of L (p_Spec pipe) io) b') tr"
proof -
  let ?refs = "ps_SecretRefs (p_Spec pipe)"
  have fetch: "always (fetchSecretValues K (p_Namespace pipe) ?refs)
      (\<lambda>r tr'. \<forall>vals. r = Inr vals \<longrightarrow> fst ` set vals \<subseteq> sr_EnvVar ` set ?refs) tr"
  proof -
    have any: "always m (\<lambda>_ _. True) tr" for m :: "('b traced, error + (string \<times> Secret) list) state"
      by (simp add: always_def wp_def split: prod.split)
    have "\<forall>vals. (case r of Inl err \<Rightarrow> Inl err | Inr secrets \<Rightarrow> extract_values secrets ?refs []) = Inr vals \<longrightarrow>
        fst ` set vals \<subseteq> sr_EnvVar ` set ?refs" for r :: "error + (string \<times> Secret) list"
      using extract_values_names [of _ ?refs "[]"] by (cases r) auto
    then show ?thesis
      unfolding fetchSecretValues_def
      by (intro always_if always_return always_return_bind always_mono [OF any]) auto
  qed
  have sub: "filled pipe plain (substituteSecrets plain ?refs vals)" if "fst ` set vals \<subseteq> sr_EnvVar ` set ?refs" for plain vals
    using that unfolding filled_def by blast
  have send: "always (State_Monad.return (case r of Inl err \<Rightarrow> Inl (''SecretNotFound'', err_msg err)
        | Inr vals \<Rightarrow> Inr (substituteSecrets plain ?refs vals))) (\<lambda>b' tr'. sendable pipe (Inr plain) b') tr'"
    if "\<forall>vals. r = Inr vals \<longrightarrow> fst ` set vals \<subseteq> sr_EnvVar ` set ?refs" for r plain tr'
  proof (cases r)
    case (Inr vals)
    with that have "filled pipe plain (substituteSecrets plain ?refs vals)" by (intro sub) simp
    with Inr show ?thesis by (auto simp: sendable_def intro!: always_return)
  qed (auto simp: sendable_def intro!: always_return)
  show ?thesis
    unfolding stream_body_def text_of_def
    by (auto intro!: always_return always_bind always_mono [OF fetch] send simp: sendable_def filled_none split: sum.split)
      (rule sub, assumption)
qed

lemma emits_bind_result:
  assumes "emits P m" and "\<And>tr. always m (\<lambda>a _. R a) tr" and "\<And>a. R a \<Longrightarrow> emits P (f a)"
  shows "emits P (State_Monad.bind m f)"
  unfolding emits_def
proof
  fix tr
  let ?grows = "\<lambda>tr'. \<exists>evs. tr' = tr @ evs \<and> list_all P evs"
  have "always m (\<lambda>a tr'. R a \<and> ?grows tr') tr"
    using assms(1) assms(2) [of tr] by (auto simp: emits_def always_def wp_def split: prod.splits)
  then have "always m (\<lambda>a tr'. always (f a) (\<lambda>_ tr''. ?grows tr'') tr') tr"
  proof (rule always_mono, elim conjE exE)
    fix a tr' evs
    assume "R a" and "tr' = tr @ evs" and "list_all P evs"
    from assms(3) [OF \<open>R a\<close>] \<open>tr' = tr @ evs\<close> \<open>list_all P evs\<close> show "always (f a) (\<lambda>_ tr''. ?grows tr'') tr'"
      unfolding emits_def by (auto elim!: allE [of _ tr'] always_mono)
  qed
  then show "always (m \<bind> f) (\<lambda>_ tr'. ?grows tr') tr" by (rule always_bind)
qed

lemma emits_sends_parts [emits_intros]:
  "emits (sends pipe b) (markClusterFailed L K pipe reason msg d)"
  "emits (sends pipe b) (markClusterPending L K pipe reason msg)"
  "emits (sends pipe b) (deletePodModeChildren K pipe)"
  "emits (sends pipe b) (migrateFromOldCluster S pipe cn)"
  unfolding markClusterFailed_def markClusterPending_def deletePodModeChildren_def migrateFromOldCluster_def
    deleteAssignedStream_def Let_def
  by (intro emits_intros; simp add: sends_def)+

lemma emits_sends_deploy_on:
  "b = Inr plain \<Longrightarrow> filled pipe plain body \<Longrightarrow> emits (sends pipe b) (deploy_on L K S pipe cn k body)"
  unfolding deploy_on_def need_deploy_def ensureStreamPresent_def streamActiveCondition_def
  by (intro emits_intros; simp add: sends_def)

lemma emits_sends_text:
  assumes "sendable pipe b b'"
  shows "emits (sends pipe b) (case b' of Inl failure \<Rightarrow> markClusterFailed L K pipe (fst failure) (snd failure) 0
                    | Inr body \<Rightarrow> deploy_on L K S pipe cn k body)"
  using assms by (cases b') (auto simp: sendable_def intro!: emits_intros emits_sends_deploy_on)

lemma emits_sends_stream_body: "emits (sends pipe b) (stream_body L K pipe io)"
  unfolding stream_body_def by (intro emits_intros; simp add: sends_def)

lemma emits_sends_handleClusterAssigned:
  "emits (sends pipe (text_of L (p_Spec pipe) io)) (handleClusterAssigned L K S pipe cn io)"
proof -
  have "emits (sends pipe (text_of L (p_Spec pipe) io)) (deploy_ready L K S pipe c io ready load)" for c ready load
    unfolding deploy_ready_def Let_def
    by (intro emits_case_option emits_sends_parts
        emits_bind_result [OF emits_sends_stream_body always_stream_body_text emits_sends_text])
  then show ?thesis
    unfolding handleClusterAssigned_def schedule_and_deploy_def readyClusterOrdinals_def loadByOrdinal_def
    by (intro emits_intros; simp add: sends_def)
qed

lemma emits_sends_handleProjectAssigned:
  assumes "\<And>w. fst (run_state (Get_PipelineProject K (pj_Name project) (p_Namespace pipe)) w) = Inr project"
  shows "emits (sends pipe (text_of L (p_Spec pipe) (member_plan project pipe))) (handleProjectAssigned L K S pipe (pj_Name project))"
  unfolding handleProjectAssigned_def
proof (rule emits_bind_call)
  fix w r w'
  assume "run_state (Get_PipelineProject K (pj_Name project) (p_Namespace pipe)) w = (r, w')"
  with assms [of w] have "r = Inr project" by simp
  then show "emits (sends pipe (text_of L (p_Spec pipe) (member_plan project pipe)))
      (case r of Inl e \<Rightarrow> if err_kind e = NotFound
          then markClusterFailed L K pipe ''ProjectNotFound'' (''PipelineProject '' @ go_quote (pj_Name project) @ '' not found'') 0
          else State_Monad.return (ok, Some e)
       | Inr project \<Rightarrow>
           let plan = PlanFor project (p_Namespace pipe) (p_Name pipe); clusterName = projectChildClusterName (pj_Name project)
           in if IsEmpty plan then handleClusterAssigned L K S pipe clusterName None
              else handleClusterAssigned L K S pipe clusterName (Some (toRenderPlan plan)))"
    by (simp add: Let_def member_plan_def emits_sends_handleClusterAssigned)
qed (simp add: sends_def)

lemma text_of_endpoints:
  assumes "yaml_law L" and "text_of L spec (member_plan project pipe) = Inr text"
    and plan: "plan = PlanFor project (p_Namespace pipe) (p_Name pipe)" "\<not> IsEmpty plan"
  obtains doc where "yaml_Unmarshal L text = Inr (AObj doc)"
    and "plan_OutgoingSubjects plan \<noteq> [] \<Longrightarrow> publishes doc =
      map (\<lambda>s. \<lparr>ep_URLs = [plan_NATSURL plan], ep_Subject = Some s, ep_Durable = None\<rparr>) (plan_OutgoingSubjects plan)"
    and "plan_Incoming plan \<noteq> [] \<Longrightarrow> consumes doc =
      map (\<lambda>i. \<lparr>ep_URLs = [plan_NATSURL plan], ep_Subject = Some (in_Subject i), ep_Durable = Some (in_Durable i)\<rparr>) (plan_Incoming plan)"
proof -
  let ?io = "toRenderPlan plan"
  from assms(2) plan obtain body where app: "ApplyProjectIO L body ?io = Inr text"
    by (auto simp: text_of_def member_plan_def split: sum.splits)
  have nonempty: "io_OutgoingSubjects ?io \<noteq> [] \<or> io_Incoming ?io \<noteq> []"
    using plan(2) by (simp add: IsEmpty_def toRenderPlan_def)
  with app obtain doc where "yaml_Unmarshal L body = Inr (AObj doc)"
    by (auto simp: ApplyProjectIO_def split: sum.splits any.splits if_splits)
  from ApplyProjectIO_parsed [OF assms(1) this app nonempty] obtain m
    where m: "yaml_Unmarshal L text = Inr (AObj m)" "\<And>k. rel_option any_equiv (rewritten ?io doc k) (aget m k)" by blast
  show thesis
  proof (rule that [OF m(1)])
    assume "plan_OutgoingSubjects plan \<noteq> []"
    then show "publishes m = map (\<lambda>s. \<lparr>ep_URLs = [plan_NATSURL plan], ep_Subject = Some s, ep_Durable = None\<rparr>) (plan_OutgoingSubjects plan)"
      using endpoints_equiv [OF m(2) [of "''output''"], of "''outputs''"]
      by (simp add: publishes_def rewritten_def toRenderPlan_def endpoints_buildOutput)
  next
    assume "plan_Incoming plan \<noteq> []"
    then show "consumes m = map (\<lambda>i. \<lparr>ep_URLs = [plan_NATSURL plan], ep_Subject = Some (in_Subject i), ep_Durable = Some (in_Durable i)\<rparr>) (plan_Incoming plan)"
      using endpoints_equiv [OF m(2) [of "''input''"], of "''inputs''"]
      by (simp add: consumes_def rewritten_def toRenderPlan_def endpoints_buildInput comp_def)
  qed
qed

section \<open>The streams\<close>

text \<open>A route that is reported Ready had its stream ensured, for the subject of the route.\<close>

definition ensured :: "event list \<Rightarrow> string \<Rightarrow> string \<Rightarrow> bool" where
  "ensured tr u s \<longleftrightarrow> list_ex (\<lambda>e. case e of JSStreamEnsured u' stream s' ret None \<Rightarrow> u' = u \<and> s' = s | _ \<Rightarrow> False) tr"

lemma ensured_mono: "ensured tr u s \<Longrightarrow> ensured (tr @ evs) u s"
  by (simp add: ensured_def)

lemma ensure_route_ready:
  assumes "run_state (ensure_route R M p u ret route) (w, tr) = (st, (w', tr'))"
  shows "(\<exists>evs. tr' = tr @ evs) \<and>
    (rs_Phase st = projectRoutePhaseReady \<longrightarrow> ensured tr' u (Subject p (r_Name route)))"
  using assms
  by (auto simp: ensure_route_def Let_def run_call ensured_def projectRoutePhaseReady_def projectRoutePhaseFailed_def
      split: prod.splits option.splits)

lemma ensure_routes_ready:
  assumes "run_state (ensure_routes R M p u ret routes) (w, tr) = (sts, (w', tr'))"
  shows "(\<exists>evs. tr' = tr @ evs) \<and>
    (list_all (\<lambda>st. rs_Phase st = projectRoutePhaseReady) sts \<longrightarrow> (\<forall>r\<in>set routes. ensured tr' u (Subject p (r_Name r))))"
  using assms
proof (induction routes arbitrary: w tr sts)
  case (Cons route routes)
  from Cons.prems obtain st v tr1 sts' where
    one: "run_state (ensure_route R M p u ret route) (w, tr) = (st, (v, tr1))" and
    rest: "run_state (ensure_routes R M p u ret routes) (v, tr1) = (sts', (w', tr'))" and sts: "sts = st # sts'"
    by (auto split: prod.splits)
  from ensure_route_ready [OF one] Cons.IH [OF rest] sts show ?case
    by (auto intro: ensured_mono)
qed simp

lemma reconcileRouteStreams_ready:
  assumes "run_state (reconcileRouteStreams R project) (w, []) = ((sts, None), (w', tr))" and "r_Streams R = Some M"
    and "list_all (\<lambda>st. rs_Phase st = projectRoutePhaseReady) sts" and "r \<in> set (pjs_Routes (pj_Spec project))"
  shows "ensured tr (NATSURL (pj_Name project) (pj_Namespace project)) (Subject (pj_Name project) (r_Name r))"
proof -
  let ?u = "NATSURL (pj_Name project) (pj_Namespace project)"
  obtain v tr1 desired where
    ens: "run_state (ensure_routes R M (pj_Name project) ?u (projectDefaultRetention project) (pjs_Routes (pj_Spec project))) (w, []) =
      (sts, (v, tr1))" and
    del: "run_state (delete_stale_streams M ?u desired (slice (pjt_Routes (pj_Status project)))) (v, tr1) = (None, (w', tr))"
    using assms(1,2) by (auto simp: reconcileRouteStreams_def Let_def split: prod.splits)
  have "emits (\<lambda>_. True) (delete_stale_streams M ?u desired olds)" for olds
    by (induction olds) (auto intro!: emits_intros)
  from emits_run [OF this del] ensure_routes_ready [OF ens] assms(3,4) show ?thesis
    by (auto intro: ensured_mono)
qed

section \<open>Property\<close>

text \<open>
  A message that one member publishes reaches a durable consumer of another: the output writes to
  a subject at some server, the server has a stream for that subject, and the input consumes it.
\<close>

definition carries :: "event list \<Rightarrow> (string \<times> any) list \<Rightarrow> (string \<times> any) list \<Rightarrow> string \<Rightarrow> string \<Rightarrow> string \<Rightarrow> bool" where
  "carries tr da db u s d \<longleftrightarrow>
     list_ex (\<lambda>x. ep_URLs x = [u] \<and> ep_Subject x = Some s) (publishes da) \<and>
     ensured tr u s \<and>
     list_ex (\<lambda>y. ep_URLs y = [u] \<and> ep_Subject y = Some s \<and> ep_Durable y = Some d) (consumes db)"

definition connects :: "PipelineProject \<Rightarrow> string \<Rightarrow> string \<Rightarrow> string \<Rightarrow> string \<Rightarrow> string \<Rightarrow> bool" where
  "connects project a b u s d \<longleftrightarrow>
     u = NATSURL (pj_Name project) (pj_Namespace project) \<and>
     list_ex (\<lambda>r. r_From r = a \<and> targets_pipeline (r_To r) b \<and>
       s = Subject (pj_Name project) (r_Name r) \<and> d = DurableName (pj_Name project) (r_Name r) b) (pjs_Routes (pj_Spec project))"

lemma Subject_inject: "Subject p x = Subject p y \<longleftrightarrow> x = y"
  by (simp add: Subject_def)

lemma plan_incoming_iff:
  "(\<exists>i\<in>set (plan_Incoming (PlanFor project ns b)). in_Subject i = s \<and> in_Durable i = d) \<longleftrightarrow>
     (\<exists>r\<in>set (pjs_Routes (pj_Spec project)). targets_pipeline (r_To r) b \<and>
        s = Subject (pj_Name project) (r_Name r) \<and> d = DurableName (pj_Name project) (r_Name r) b)"
proof -
  have "(\<exists>i\<in>set (incoming_of p b r). in_Subject i = s \<and> in_Durable i = d) \<longleftrightarrow>
      targets_pipeline (r_To r) b \<and> s = Subject p (r_Name r) \<and> d = DurableName p (r_Name r) b" for p r
    by (auto simp: incoming_of_def targets_pipeline_iff)
  then show ?thesis by (simp add: PlanFor_eq)
qed

lemma plan_connects:
  assumes "distinct (map r_Name (pjs_Routes (pj_Spec project)))" and "ns = pj_Namespace project"
  shows "(u = plan_NATSURL (PlanFor project ns a) \<and> s \<in> set (plan_OutgoingSubjects (PlanFor project ns a)) \<and>
      (\<exists>i\<in>set (plan_Incoming (PlanFor project ns b)). in_Subject i = s \<and> in_Durable i = d)) \<longleftrightarrow>
    connects project a b u s d"
proof -
  have same: "r = r'" if "r \<in> set (pjs_Routes (pj_Spec project))" "r' \<in> set (pjs_Routes (pj_Spec project))" "r_Name r = r_Name r'" for r r'
    using that assms(1) by (auto simp: distinct_map dest: inj_onD)
  have "s \<in> set (plan_OutgoingSubjects (PlanFor project ns a)) \<longleftrightarrow>
      (\<exists>r\<in>set (pjs_Routes (pj_Spec project)). r_From r = a \<and> s = Subject (pj_Name project) (r_Name r))"
    by (auto simp: PlanFor_eq)
  moreover have "plan_NATSURL (PlanFor project ns a) = NATSURL (pj_Name project) (pj_Namespace project)"
    using assms(2) by (simp add: PlanFor_eq)
  ultimately show ?thesis
    unfolding plan_incoming_iff connects_def list_ex_iff by (auto simp: Subject_inject dest: same)
qed

text \<open>The text the pipeline controller sends to an instance for a member of the project.\<close>

definition deployed ::
  "lib \<Rightarrow> 'w KubeClient \<Rightarrow> 'w StreamsClient \<Rightarrow> PipelineProject \<Rightarrow> Pipeline \<Rightarrow> string \<Rightarrow> bool" where
  "deployed L K S project pipe text \<longleftrightarrow>
     (\<exists>w out w' tr u n r. run_state (handleProjectAssigned L K S pipe (pj_Name project)) (w, []) = (out, (w', tr)) \<and>
        StreamEnsured u n text r \<in> set tr)"

lemma deployed_text:
  assumes "deployed L K S project pipe text"
    and "\<And>w. fst (run_state (Get_PipelineProject K (pj_Name project) (p_Namespace pipe)) w) = Inr project"
  obtains plain where "text_of L (p_Spec pipe) (member_plan project pipe) = Inr plain" and "filled pipe plain text"
proof -
  from assms(1) obtain w out w' tr u n r where
    run: "run_state (handleProjectAssigned L K S pipe (pj_Name project)) (w, []) = (out, (w', tr))"
    and e: "StreamEnsured u n text r \<in> set tr" by (auto simp: deployed_def)
  from emits_run [OF emits_sends_handleProjectAssigned [OF assms(2)] run] e
  have "sends pipe (text_of L (p_Spec pipe) (member_plan project pipe)) (StreamEnsured u n text r)"
    by (auto simp: list_all_iff)
  with that show thesis by (auto simp: sends_def)
qed


section \<open>An example\<close>

definition flow_docs :: "(string \<times> any) list \<times> (string \<times> any) list" where
  "flow_docs =
     ([(''input'', AStr ''x''), (''output'', natsOutput (NATSURL ''p'' ''ns'') (Subject ''p'' ''r1''))],
      [(''input'', natsInput (NATSURL ''p'' ''ns'')
          \<lparr>ir_Subject = Subject ''p'' ''r1'', ir_Durable = DurableName ''p'' ''r1'' ''b'', ir_When = ''''\<rparr>)])"

definition flow_refs :: "string \<Rightarrow> SecretRef list" where
  "flow_refs n = (if n = ''a'' then [\<lparr>sr_EnvVar = ''P'', sr_SecretName = ''s'', sr_Key = ''k''\<rparr>] else [])"

definition flow_spec :: "string \<Rightarrow> PipelineSpec" where
  "flow_spec n = (raw_spec ''raw'')\<lparr>ps_SecretRefs := flow_refs n\<rparr>"

definition flow_tbl :: "(any \<times> string) list" where
  "flow_tbl =
     [(AObj [(''input'', AStr ''x'')], ''raw''),
      (AObj [(''input'', AStr ''x''), (''http'', http_block)], ''pod''),
      (AObj (fst flow_docs), ''a ${P}''), (AObj (snd flow_docs), ''b'')]"

definition flow_project :: PipelineProject where
  "flow_project = demo_project [edge ''r1'' ''a'' ''b'']"

definition flow_member :: "string \<Rightarrow> Pipeline" where
  "flow_member n = (member n)\<lparr>p_Spec := flow_spec n\<rparr>"

definition flow_kube :: "FakeClient KubeClient" where
  "flow_kube = (demo_kube (flow_member ''a'') [demo_pod ''etl-0'' False, demo_pod ''etl-1'' True])
     \<lparr>Get_PipelineProject := (\<lambda>_ _. State_Monad.return (Inr flow_project)),
      Get_Secret := (\<lambda>_ _. State_Monad.return (Inr \<lparr>sec_Meta = sample_meta ''s'', sec_Data = [(''k'', ''v'')]\<rparr>))\<rparr>"

lemma flow_member_simps [simp]:
  "p_Name (flow_member n) = n" "p_Namespace (flow_member n) = ''ns''" "p_Spec (flow_member n) = flow_spec n"
  "pst_AssignedCluster (p_Status (flow_member n)) = ''''" "pst_AssignedInstance (p_Status (flow_member n)) = ''''"
  "pst_StreamConfigHash (p_Status (flow_member n)) = ''''" "pst_Conditions (p_Status (flow_member n)) = []"
  by (simp_all add: flow_member_def member_def sample_pipeline_def sample_meta_def)

lemma flow_plans:
  "member_plan flow_project (flow_member ''a'') =
     Some \<lparr>io_NATSURL = NATSURL ''p'' ''ns'', io_OutgoingSubjects = [Subject ''p'' ''r1''], io_Incoming = []\<rparr>"
  "member_plan flow_project (flow_member ''b'') =
     Some \<lparr>io_NATSURL = NATSURL ''p'' ''ns'', io_OutgoingSubjects = [],
       io_Incoming = [\<lparr>ir_Subject = Subject ''p'' ''r1'', ir_Durable = DurableName ''p'' ''r1'' ''b'', ir_When = ''''\<rparr>]\<rparr>"
  by (simp_all add: member_plan_def flow_project_def PlanFor_def edge_def IsEmpty_def toRenderPlan_def Let_def demo_project_def
      sample_project_def sample_meta_def)

lemma flow_texts:
  "text_of (table_lib flow_tbl) (flow_spec ''a'') (member_plan flow_project (flow_member ''a'')) = Inr ''a ${P}''"
  "text_of (table_lib flow_tbl) (flow_spec ''b'') (member_plan flow_project (flow_member ''b'')) = Inr ''b''"
  unfolding flow_plans
  by (simp_all add: text_of_def RenderStreamConfig_def RenderPipelineYAML_def flow_spec_def raw_spec_def injectHTTPConfig_def stripHTTPBlock_def
      ApplyProjectIO_def rewrite_doc_def buildOutput_def buildInput_def buildPredicateProcessor_def
      flow_tbl_def flow_docs_def table_lib_def list_lib_def http_block_def prod.swap_def natsOutput_def natsInput_def)

lemma flow_spec_refs [simp]: "ps_SecretRefs (flow_spec n) = flow_refs n"
  by (simp add: flow_spec_def)

lemma flow_body:
  assumes "text_of (table_lib flow_tbl) (flow_spec n) io = Inr plain"
  shows "run_state (stream_body (table_lib flow_tbl) flow_kube (flow_member n) io) (w, tr) =
     (Inr (substituteSecrets plain (flow_refs n) (if n = ''a'' then [(''P'', ''v'')] else [])),
      (w, tr @ map (\<lambda>ref. GetSecret (sr_SecretName ref) ''ns'' (Inr \<lparr>sec_Meta = sample_meta ''s'', sec_Data = [(''k'', ''v'')]\<rparr>))
             (flow_refs n)))"
  using assms
  by (auto simp: stream_body_def text_of_def flow_refs_def fetchSecretValues_def run_call flow_kube_def
      substituteSecrets_def split: sum.splits)

lemma flow_deployed:
  assumes "text_of (table_lib flow_tbl) (flow_spec n) (member_plan flow_project (flow_member n)) = Inr plain"
    and sent: "substituteSecrets plain (flow_refs n) (if n = ''a'' then [(''P'', ''v'')] else []) = text"
    and "\<not> IsEmpty (PlanFor flow_project ''ns'' n)"
  shows "deployed (table_lib flow_tbl) flow_kube fc flow_project (flow_member n) text"
proof -
  have io: "member_plan flow_project (flow_member n) = Some (toRenderPlan (PlanFor flow_project ''ns'' n))"
    using assms(3) by (simp add: member_plan_def)
  let ?reads = "map (\<lambda>ref. GetSecret (sr_SecretName ref) ''ns'' (Inr \<lparr>sec_Meta = sample_meta ''s'', sec_Data = [(''k'', ''v'')]\<rparr>)) (flow_refs n)"
  have body: "run_state (stream_body (table_lib flow_tbl) flow_kube (flow_member n)
      (Some (toRenderPlan (PlanFor flow_project ''ns'' n)))) (w, tr) = (Inr text, (w, tr @ ?reads))" for w tr
    using flow_body [OF assms(1), of w tr] by (simp only: io sent)
  have kube: "Get_PipelineProject flow_kube x ns = State_Monad.return (Inr flow_project)"
    "Get_PipelineCluster flow_kube x ns = State_Monad.return (Inr (sample_cluster ''etl'' 2))"
    "List_Pods flow_kube ns l = State_Monad.return (Inr [demo_pod ''etl-0'' False, demo_pod ''etl-1'' True])"
    "List_Pipelines flow_kube ns = State_Monad.return (Inr [flow_member ''a''])"
    "Delete_Pod flow_kube x ns = State_Monad.return None" "Delete_ConfigMap flow_kube x ns = State_Monad.return None"
    "Delete_PodMonitor flow_kube x ns = State_Monad.return None"
    "StatusUpdate_Pipeline flow_kube q = State_Monad.return None" for x ns l q
    by (simp_all add: flow_kube_def)
  have pick: "pickInstance '''' ''etl'' [1] load = Some 1" for load
    by (simp add: pickInstance_def leastLoadedInstance_def ordinalFromPodName_def HasPrefix_def)
  have migrate: "migrateFromOldCluster S (flow_member n) cn = State_Monad.return None" for S :: "FakeClient StreamsClient" and cn
    by (simp add: migrateFromOldCluster_def Let_def)
  have changed: "cluster_status_changed (table_lib t) ph ac ai si h c sa (flow_member n)" for t ph ac ai si h c sa
    by (simp add: cluster_status_changed_def Let_def cond_differs_def)
  have status: "run_state (GetStreamStatus fc u i) w' = (Inr (held_status (\<not> f_inactive w' i)), w')"
    if "f_GetErr w' = None" "f_streams w' (u, i) \<noteq> None" for w' u i
    using that by (auto simp: fake_client_def fake_GetStreamStatus_def)
  have "\<exists>out w' tr. run_state (handleProjectAssigned (table_lib flow_tbl) flow_kube fc (flow_member n) (pj_Name flow_project))
      (NewFakeClient, []) = (out, (w', tr)) \<and> StreamEnsured (clusterPodURL ''etl'' ''ns'' 1) n text None \<in> set tr"
    using assms(3)
    by (simp add: handleProjectAssigned_def run_call Let_def kube handleClusterAssigned_def deletePodModeChildren_def IgnoreNotFound_def
        migrate schedule_and_deploy_def readyClusterOrdinals_def loadByOrdinal_def demo_ready deploy_ready_def pick body
        deploy_on_def need_deploy_def demo_new_hash [symmetric] demo_ensure streamActiveCondition_def status writeClusterStatus_def changed
        NewFakeClient_def del: readyOrdinals_of.simps load_of.simps)
  then show ?thesis unfolding deployed_def by fastforce
qed

lemma flow_valid: "ValidateProject (table_lib flow_tbl) flow_project (views_of (table_lib flow_tbl) [member ''a'', member ''b''] []) = []"
  by code_simp

lemma flow_reconciled:
  "\<exists>sts w' tr. run_state (reconcileRouteStreams (project_reconciler flow_project) flow_project) (NewFakeManager, []) = ((sts, None), (w', tr)) \<and>
     list_all (\<lambda>st. rs_Phase st = projectRoutePhaseReady) sts"
  by (simp add: flow_project_def reconcileRouteStreams_def Let_def project_reconciler_def ensure_route_def run_call fake_manager_def
      fm_EnsureStream_def NewFakeManager_def edge_def demo_project_def sample_project_def sample_meta_def)


end
