(* ===== verification/Spec2Isabelle.thy ===== *)
theory Spec2Isabelle
  imports Rpc_DeepCopy Rpc_Docs Rpc_Watch Rpc_Catalog Rpc_Lifecycle Rpc_Deviations Rpc_Flow
begin

text \<open>
  A verification library for \<^bold>\<open>rpc-operator\<close>, a Kubernetes operator that runs Redpanda Connect
  pipelines, with the HTTP API behind its user interface.

  \<^bold>\<open>The program.\<close> Three custom resources (\<^verbatim>\<open>src/api/v1alpha1\<close>) describe what is to run. A Pipeline
  runs in a pod of its own, as a stream on an instance of a PipelineCluster, or as a member of a
  PipelineProject, whose routes connect pipelines through NATS JetStream. One reconciler per
  resource (\<^verbatim>\<open>src/internal/controller\<close>) reads the resource and the world, creates or updates
  Kubernetes objects, deploys streams over the Connect HTTP API (\<^verbatim>\<open>src/internal/streams\<close>), manages
  JetStream streams and buckets (\<^verbatim>\<open>src/internal/nats\<close>), renders configurations
  (\<^verbatim>\<open>src/internal/render\<close>), plans and validates routes (\<^verbatim>\<open>src/internal/projectroute\<close>), and writes
  the status. The API server (\<^verbatim>\<open>src/internal/api\<close>) authenticates callers, validates and stores
  resources on their behalf, shows placement, metrics and logs, and has an OIDC login of its own.

  \<^bold>\<open>The library.\<close> In the order of dependency:
  \<^item> \<open>Rpc_Prelude\<close>: the pieces of the Go standard library in use, association lists as Go maps,
    weakest preconditions for the state monad; \<open>Rpc_Types\<close>, \<open>Rpc_K8s\<close>: the custom resources and the
    Kubernetes objects, and the record \<open>lib\<close> of third-party functions.
  \<^item> \<open>Rpc_Scheduler\<close> (\<^verbatim>\<open>cluster_scheduler.go\<close>, the inputs of the choice in
    \<^verbatim>\<open>pipeline_cluster_assign.go\<close>, \<^verbatim>\<open>api/cluster_aggregation.go\<close>): ordinals of instance names,
    the choice of an instance, the distribution view. The locale \<open>instance_naming\<close> is the contract
    of names, met by the controller's and the API's parser.
  \<^item> \<open>Rpc_Cycle\<close>, \<open>Rpc_Routes\<close> (\<^verbatim>\<open>projectroute.go\<close>): the depth-first search for cycles, proved total,
    sound and complete; names, roles, plans and validation.
  \<^item> \<open>Rpc_Render\<close> (\<^verbatim>\<open>render.go\<close>, \<^verbatim>\<open>project_rewrite.go\<close>, \<^verbatim>\<open>cache_resource.go\<close>) and \<open>Rpc_Secrets\<close>
    (\<^verbatim>\<open>secret_substitution.go\<close>): the configuration that is deployed.
  \<^item> \<open>Rpc_Env\<close>: clients as records of operations on an arbitrary world, a trace of events, and the
    two proof rules \<open>always\<close> (a postcondition of result and trace) and \<open>emits\<close> (every event
    satisfies a predicate), by which the handlers are verified.
  \<^item> \<open>Rpc_Streams\<close> (\<^verbatim>\<open>streams/client.go\<close>, \<^verbatim>\<open>fake.go\<close>) and \<open>Rpc_Nats\<close> (\<^verbatim>\<open>nats/manager.go\<close>,
    \<^verbatim>\<open>fake.go\<close>): the two clients, each with its contract as a locale (\<open>streams_client\<close>,
    \<open>stream_manager\<close>) that the repository's in-memory implementation is proved to meet.
  \<^item> \<open>Rpc_Pipeline\<close>, \<open>Rpc_Pipeline_Props\<close> (\<^verbatim>\<open>pipeline_controller.go\<close>, \<^verbatim>\<open>pipeline_pod.go\<close>,
    \<^verbatim>\<open>pipeline_cluster_assign.go\<close>, \<^verbatim>\<open>pipeline_project_assign.go\<close>), \<open>Rpc_Cluster\<close>
    (\<^verbatim>\<open>pipelinecluster_*.go\<close>), \<open>Rpc_Project\<close>, \<open>Rpc_Project_Props\<close> (\<^verbatim>\<open>pipelineproject_*.go\<close>): the
    reconcilers, whole, with every early return.
  \<^item> \<open>Rpc_Balance\<close>: chains of scheduling runs, each seeing the statuses of the earlier ones;
    \<open>Rpc_Converge\<close>: repeated reconciliation of one pipeline in surroundings that hold still;
    \<open>Rpc_Watch\<close>: \<open>SetupWithManager\<close> of the three reconcilers, and which events wake them;
    \<open>Rpc_Flow\<close>: what the configurations that are deployed and the streams that are created
    connect, read with the meaning of a Redpanda Connect document.
  \<^item> \<open>Rpc_Validate\<close> (\<^verbatim>\<open>api/validate.go\<close>, the lookups of \<^verbatim>\<open>api/catalog/catalog.go\<close>): validation
    against the catalog, and its meaning as an inductive predicate over nested components;
    \<open>Rpc_Catalog\<close> (\<^verbatim>\<open>api/catalog/catalog.go\<close>): the walk over the embedded files and the merge.
  \<^item> \<open>Rpc_Auth\<close> (\<^verbatim>\<open>auth.go\<close>, \<^verbatim>\<open>errors.go\<close>, \<^verbatim>\<open>handlers_namespaces.go\<close>), \<open>Rpc_Handlers\<close>
    (\<^verbatim>\<open>handlers_pipelines.go\<close>, \<^verbatim>\<open>handlers_clusters.go\<close>, \<^verbatim>\<open>handlers_projects.go\<close>,
    \<^verbatim>\<open>handlers_catalog.go\<close>), \<open>Rpc_Observe\<close> (\<^verbatim>\<open>handlers_connections.go\<close>, \<^verbatim>\<open>handlers_metrics.go\<close>,
    \<^verbatim>\<open>handlers_clusters_metrics.go\<close>, \<^verbatim>\<open>handlers_logs.go\<close>, \<^verbatim>\<open>cluster_observability.go\<close>) and
    \<open>Rpc_Server\<close> (\<^verbatim>\<open>server.go\<close>): requests, middleware, handlers and the route table.
  \<^item> \<open>Rpc_Base64\<close>: the URL encoding of bytes, with its reader and the round trip;
    \<open>Rpc_Oidc\<close> (\<^verbatim>\<open>oidc.go\<close>): the session store, with its contract as the locale \<open>session_store\<close>,
    the handlers of the login, and a step relation in which they interleave; \<open>Rpc_Lifecycle\<close>
    (\<open>Start\<close> of \<^verbatim>\<open>server.go\<close>, the collector of \<^verbatim>\<open>oidc.go\<close>): the server's goroutines as steps.
  \<^item> \<open>Rpc_Main\<close> (\<^verbatim>\<open>cmd/main.go\<close>, \<open>New\<close> of \<^verbatim>\<open>server.go\<close>): flags, options and the order of the
    start; \<open>Rpc_Docs\<close> (\<^verbatim>\<open>hack/docs-check-reference.go\<close>): the check of the reference pages.
  \<^item> \<open>Rpc_Mux\<close> (the rest of the route table of \<^verbatim>\<open>server.go\<close>): the patterns and the search of the Go
    ServeMux, from the path on the wire to the handler and its path values.
  \<^item> \<open>Rpc_DeepCopy\<close> (\<^verbatim>\<open>api/v1alpha1/zz_generated.deepcopy.go\<close>, \<^verbatim>\<open>groupversion_info.go\<close>): a store of
    cells, the generated copies as programs on it, and what the scheme registers.
  \<^item> \<open>Rpc_Deviations\<close>: where the code departs from a comment, a document or its own intent, stated
    of the models of the components; other such facts stand with their component.

  \<^bold>\<open>How code is modelled.\<close> A Go function is a definition of the same name, its receiver's fields
  arguments; a Go interface is a record of operations; a pure function is a HOL function and an
  effectful one a computation in the state monad over the world and the trace. A result with an
  error is a sum or an option; a panic does not occur in the modelled code. The watches of a
  reconciler are a value, its setup, that holds the mapping functions and predicates it registers.
  Values are immutable, but for \<open>Rpc_DeepCopy\<close>, where objects lie in memory and may share it.
  Goroutines are steps of a transition function, taken in any order. A name such as \<open>ReconcileProject\<close>, \<open>http_EnsureStream\<close> or \<open>api_ValidateProject\<close>
  stands for a Go method or function whose plain name is taken.

  \<^bold>\<open>What is shown.\<close>
  \<^item> Placement: an instance is chosen by load among the ready ones and kept while it is ready; a
    pipeline is reported as running only where an instance was ready and the stream was accepted;
    streams are redeployed exactly when their configuration, placement or presence requires it;
    failures reach the status; deletion and stopping tear the stream down first; the three modes
    exclude each other. Over many runs the loads of the ready instances stay within a bound of
    each other; in calm surroundings repeated reconciliation of a stream pipeline reaches a state
    it leaves alone; an event on an object a pipeline depends on wakes its reconciler.
  \<^item> Projects: validation accepts exactly the well-formed graphs; no stream is touched for an
    invalid one; under the contract of the manager the streams converge to the routes; the status
    tells the truth; messages pass between members exactly along the declared routes; deletion
    follows the reclaim policy; the preview of the API is what the
    controller deploys, and both agree on what a valid graph is.
  \<^item> Rendering: the documents carry the declared components, the http block only where a pod
    serves it, the route inputs and outputs, and only predicates that validation parsed.
  \<^item> API: every request reaches the route its path names, but for one pair of routes; every call
    of every route is made as the caller, in the namespace that stands in the path, and only
    valid pipelines are written; logs of a shared instance are cut down to the stream;
    validation has its declarative meaning and terminates; a catalog that loads has an entry for
    every data file.
  \<^item> Start: the flags determine the allowlist, the cache and the authentication of the running
    server, and with the properties of the routes what its requests can do. In every interleaving
    of its goroutines the server returns only after its listener failed or it was told to stop.
  \<^item> OIDC: a browser receives a token only in a login it began, sessions hold refresh tokens only
    after authentication in any interleaving, a login keeps to PKCE and can always be completed.
  \<^item> Memory: the copy of any object of the group has the same content and shares no memory with
    the original; a client that hands out copies keeps its cache from the reconcilers that change
    what they were given.

  \<^bold>\<open>Parameters.\<close> The Kubernetes API server, the transport of HTTP, NATS, Prometheus, pod logs and
  WebSockets, the identity provider, the controller manager and its delivery of events, randomness
  and the clock, and the libraries for YAML, JSON, JSON schema, Bloblang, SHA-256 and status
  conditions, and the deep copies of the Kubernetes types. What a theorem needs of them is a hypothesis of its own (\<open>yaml_law\<close>, \<open>raw_law\<close>,
  \<open>calm_reads\<close>, \<open>calm_writes\<close>, \<open>calm_streams\<close>, \<open>delivers\<close>, \<open>library_copies\<close>, \<open>full_reads\<close>, the laws of the locales), each shown
  satisfiable by a concrete instance in the witnesses.

  \<^bold>\<open>Bounds.\<close> \<open>validateComponent\<close> runs on fuel of the length of the configuration text; nested
  configurations are shorter, so it always suffices, and \<open>Rpc_Validate\<close> proves that it never runs
  out. Every other recursion is structural or has a termination proof. Ordinals are narrowed to 32
  bits with the wrap-around written out.

  \<^bold>\<open>Not modelled.\<close> The web UI with the directive that embeds it (\<^verbatim>\<open>static.go\<close>), the charts, the
  end-to-end tests, and log messages.
\<close>

section \<open>Properties that span components\<close>

text \<open>
  C39: Every workload the operator creates is hardened and self-consistent, whatever the resources
  say: the pod of a pipeline, the instances of a cluster and the NATS servers of a project run as
  a non-root user with a seccomp profile, no privilege escalation and no capabilities; every
  volume mount refers to a declared volume (the NATS data volume is the claim of the
  StatefulSet), and every probe to a declared port.
\<close>

theorem workloads_hardened:
  "pod_restricted (buildPodSpec cm img env) \<and> pod_consistent (buildPodSpec cm img env) [] \<and>
   pod_restricted (clusterPodTemplate img res cm) \<and> pod_consistent (clusterPodTemplate img res cm) [] \<and>
   pod_restricted (natsPodTemplate name img) \<and>
   pod_consistent (ss_TemplateSpec (buildProjectNATSStatefulSet name img n s))
     (map vct_Name (ss_VolumeClaimTemplates (buildProjectNATSStatefulSet name img n s)))"
proof -
  note spec_simps = pod_restricted_def pod_consistent_def container_consistent_def http_probe_def
    restricted_pod_security_def restricted_container_security_def rpcUID_def
  have "pod_restricted (buildPodSpec cm img env)" "pod_consistent (buildPodSpec cm img env) []"
    by (simp_all add: spec_simps buildPodSpec_def Let_def)
  moreover have "pod_restricted (natsPodTemplate name img)"
    "pod_consistent (ss_TemplateSpec (buildProjectNATSStatefulSet name img n s))
       (map vct_Name (ss_VolumeClaimTemplates (buildProjectNATSStatefulSet name img n s)))"
    by (simp_all add: spec_simps natsPodTemplate_def buildProjectNATSStatefulSet_def Let_def)
  ultimately show ?thesis
    using clusterPodTemplate_restricted clusterPodTemplate_consistent by blast
qed

text \<open>
  C20: The API and the project controller agree on route graphs: for the same pipelines in the
  namespace, the graph check of a create or update through the API reports nothing exactly when
  the controller records no route error, and otherwise its first error is the message the
  controller would put into the status.
\<close>

theorem project_validation_agrees:
  assumes "run_state (List_Pipelines (r_Client R) (pj_Namespace project)) w = (Inr pipes, w')"
    and "run_state (res_List (e_Pipelines E) c (Some (pj_Namespace project))) v = (Inr pipes, v')"
  shows "\<exists>routeErr verrs s s'.
    run_state (validateProjectRoutes (e_Lib E) R project) (w, tr) = (Inr routeErr, s) \<and>
    run_state (validateProjectGraph E c (pj_Namespace project) project) (v, tr') = (verrs, s') \<and>
    (routeErr = '''' \<longleftrightarrow> verrs = []) \<and> (verrs \<noteq> [] \<longrightarrow> ve_Message (hd verrs) = routeErr)"
proof -
  have "api_view L p = pipelineView L p" for L p
    by (simp add: api_view_def pipelineView_def pipelineHasInput_def pipelineHasOutput_def rawTopKey_def rawHasTopKey_def Let_def)
  then have "api_views L ps views = views_of L ps views" for L ps views
    by (induction ps arbitrary: views) simp_all
  then show ?thesis
    using assms ValidateProject_message [of _ "e_Lib E" project "views_of (e_Lib E) pipes []"]
    by (auto simp: validateProjectRoutes_def validateProjectGraph_def run_call api_ValidateProject_def split: list.split)
qed

definition graph_env :: "unit ApiEnv" where
  "graph_env = sample_env\<lparr>e_Pipelines := no_resource\<lparr>res_List := (\<lambda>_ _. State_Monad.return (Inr [member ''a'', member ''b'']))\<rparr>\<rparr>"

theorem project_validation_agrees_witness:
  "\<exists>verrs s'. run_state (validateProjectGraph graph_env OperatorClient ''ns''
      (demo_project [edge ''r1'' ''a'' ''b'', edge ''r2'' ''b'' ''a''])) ((), []) = (verrs, s') \<and>
     ve_Message (hd verrs) = ''route graph contains a cycle: '' @ ''a'' @ arrow_sep @ ''b'' @ arrow_sep @ ''a''"
proof -
  let ?project = "demo_project [edge ''r1'' ''a'' ''b'', edge ''r2'' ''b'' ''a'']"
  let ?w = "NewFakeManager"
  have lists: "run_state (List_Pipelines (r_Client (project_reconciler ?project)) (pj_Namespace ?project)) ?w = (Inr [member ''a'', member ''b''], ?w)"
    "run_state (res_List (e_Pipelines graph_env) OperatorClient (Some (pj_Namespace ?project))) () = (Inr [member ''a'', member ''b''], ())"
    by (simp_all add: graph_env_def no_resource_def)
  have lib: "e_Lib graph_env = sample_lib" by (simp add: graph_env_def sample_env_def)
  have ns: "pj_Namespace ?project = ''ns''" by (simp add: demo_project_def sample_meta_def)
  from project_validation_agrees [OF lists, of "[]" "[]"] show ?thesis
    unfolding lib ns run_validate demo_invalid by auto
qed

text \<open>
  C21: The preview is what runs: when the API renders a member of a project that can be read, and
  the pipeline refers to no secrets, then the text shown is exactly the stream configuration that
  the pipeline controller builds for it (the controller reports an error where the rewriting for
  the routes fails, the preview then shows the plain rendering).
\<close>

theorem preview_is_deployed:
  assumes "e_DecodePipeline E (rq_Body r) = Inr p" and "ps_ProjectRef (p_Spec p) = Some ref" and "ps_SecretRefs (p_Spec p) = []"
    and "clientForRequest E S r = Inr c"
    and "run_state (res_Get (e_Projects E) c (p_Namespace p) (pr_Name ref)) w = (Inr project, w')"
    and "plan = PlanFor project (p_Namespace p) (p_Name p)"
    and "run_state (stream_body (e_Lib E) K p (if IsEmpty plan then None else Some (toRenderPlan plan))) (v, tr) = (Inr text, s)"
  shows "\<exists>s'. run_state (handleRender E S r) (w, tr') = (writeJSON 200 (YamlBody text), s')"
proof -
  obtain body where "RenderPipelineYAMLForDisplay (e_Lib E) (p_Spec p) = Inr body" "preview (e_Lib E) project p body = text"
    using assms(3,6,7)
    by (auto simp: stream_body_def preview_def toRenderPlan_def incomingToRender_def RenderPipelineYAMLForDisplay_def Let_def
        split: sum.splits if_splits)
  with assms(1,2,4,5) show ?thesis by (simp add: handleRender_def run_call)
qed

definition preview_lib :: lib where
  "preview_lib = list_lib (\<lambda>_. Inr (AObj []))
     (\<lambda>v. Inr (if v = AObj [(''output'', natsOutput (NATSURL ''p'' ''ns'') (Subject ''p'' ''r1''))] then ''rewritten'' else ''plain''))
     (\<lambda>_. Inr (AObj [])) (\<lambda>_. None) (\<lambda>s. s)"

definition preview_env :: "unit ApiEnv" where
  "preview_env = sample_env\<lparr>e_Lib := preview_lib, e_Projects := no_resource\<lparr>res_Get :=
     (\<lambda>_ _ _. State_Monad.return (Inr (demo_project [edge ''r1'' ''a'' ''b''])))\<rparr>\<rparr>"

lemma preview_plan:
  "PlanFor (demo_project [edge ''r1'' ''a'' ''b'']) ''ns'' ''a'' =
     \<lparr>plan_NATSURL = NATSURL ''p'' ''ns'', plan_OutgoingSubjects = [Subject ''p'' ''r1''], plan_Incoming = []\<rparr>"
  by code_simp

lemma preview_body:
  "run_state (stream_body preview_lib K stored_pipeline
      (Some (toRenderPlan (PlanFor (demo_project [edge ''r1'' ''a'' ''b'']) ''ns'' ''a'')))) (v, tr) = (Inr ''rewritten'', (v, tr))"
  unfolding preview_plan
  by (simp add: stream_body_def RenderStreamConfig_def RenderPipelineYAML_def componentBlock_def stripHTTPBlock_def ApplyProjectIO_def
      rewrite_doc_def buildOutput_def toRenderPlan_def stored_pipeline_def sample_pipeline_def preview_lib_def list_lib_def
      pipeline_doc_def)

theorem preview_is_deployed_witness:
  "\<exists>s'. run_state (handleRender preview_env (sample_server\<lparr>s_AuthEnabled := False\<rparr>) bare_request) ((), []) =
     (writeJSON 200 (YamlBody ''rewritten''), s')"
proof -
  let ?project = "demo_project [edge ''r1'' ''a'' ''b'']"
  let ?S = "sample_server\<lparr>s_AuthEnabled := False\<rparr>"
  have p: "p_Namespace stored_pipeline = ''ns''" "p_Name stored_pipeline = ''a''" "ps_SecretRefs (p_Spec stored_pipeline) = []"
    "ps_ProjectRef (p_Spec stored_pipeline) = Some \<lparr>pr_Name = ''p''\<rparr>"
    by (simp_all add: stored_pipeline_def sample_pipeline_def sample_meta_def)
  have lib: "e_Lib preview_env = preview_lib" by (simp add: preview_env_def)
  have decode: "e_DecodePipeline preview_env (rq_Body bare_request) = Inr stored_pipeline"
    and get: "run_state (res_Get (e_Projects preview_env) OperatorClient (p_Namespace stored_pipeline) (pr_Name \<lparr>pr_Name = ''p''\<rparr>)) () =
      (Inr ?project, ())"
    and client: "clientForRequest preview_env ?S bare_request = Inr OperatorClient"
    by (simp_all add: preview_env_def sample_env_def no_resource_def clientForRequest_def)
  have "\<not> IsEmpty (PlanFor ?project ''ns'' ''a'')"
    by (simp add: preview_plan IsEmpty_def)
  then have body: "run_state (stream_body (e_Lib preview_env) failing_kube stored_pipeline
      (if IsEmpty (PlanFor ?project (p_Namespace stored_pipeline) (p_Name stored_pipeline)) then None
       else Some (toRenderPlan (PlanFor ?project (p_Namespace stored_pipeline) (p_Name stored_pipeline))))) ((), []) = (Inr ''rewritten'', ((), []))"
    by (simp add: p lib preview_body)
  show ?thesis
    by (rule preview_is_deployed [OF decode p(4) p(3) client get refl body])
qed

text \<open>
  A Pipeline and a PipelineCluster of one name in one namespace share object names: when the
  pipeline enters stream mode its controller deletes the ConfigMap that the cluster controller
  applies for the instances, and their PodMonitor.
\<close>

lemma same_name_deletes_cluster_config:
  assumes "p_Name pipe = pc_Name cluster" and "p_Namespace pipe = pc_Namespace cluster"
    and "run_state (deletePodModeChildren K pipe) (w, []) = (None, (w', tr))"
    and "run_state (reconcile_cluster_children L K cluster) (v, []) = (out, (v', tr2))"
  shows "(\<exists>r. DeleteConfigMap (clusterConfigMapName cluster) (pc_Namespace cluster) r \<in> set tr) \<and>
    (\<exists>r. DeletePodMonitor (pc_Name cluster) (pc_Namespace cluster) r \<in> set tr) \<and>
    (\<exists>r. ApplyConfigMap (clusterConfigMapName cluster) (pc_Namespace cluster) r \<in> set tr2)"
proof -
  have "always (deletePodModeChildren K pipe) (\<lambda>r tr. r = None \<longrightarrow>
      (\<exists>r. DeleteConfigMap (clusterConfigMapName cluster) (pc_Namespace cluster) r \<in> set tr) \<and>
      (\<exists>r. DeletePodMonitor (pc_Name cluster) (pc_Namespace cluster) r \<in> set tr)) []"
    unfolding deletePodModeChildren_def Let_def
    by (intro always_intros) (auto simp: assms(1,2) clusterConfigMapName_def)
  moreover have "always (reconcile_cluster_children L K cluster) (\<lambda>r tr.
      \<exists>r. ApplyConfigMap (clusterConfigMapName cluster) (pc_Namespace cluster) r \<in> set tr) []"
    unfolding reconcile_cluster_children_def apply_cluster_pod_monitor_def reconcile_cluster_status_def Let_def
    by (intro always_intros) auto
  ultimately show ?thesis
    using always_run [OF _ assms(3)] always_run [OF _ assms(4)] by fastforce
qed

end
